(* ===== verification/Prelude.thy ===== *)
theory Prelude
  imports Complex_Main "HOL-Library.Sublist" "HOL-Library.AList" "HOL-Library.List_Lexorder"
    "HOL-Library.Char_ord"
begin

text \<open>
  What the component theories share: the collections the component proofs
  use with \<open>simp add\<close> and \<open>auto simp\<close>, the type synonyms that
  name the model's basic types, and generic lemmas on lists, options and
  maps that mention nothing of the program.
\<close>

named_theorems go_simps \<open>evaluation rules of the Go string and number helpers\<close>
named_theorems world_simps \<open>how the primitives of the effect model change the world\<close>
named_theorems store_simps \<open>how the store operations change the database\<close>

type_synonym rune = int
type_synonym str = "rune list"
type_synonym chat_id = int
type_synonym user_id = int
type_synonym message_id = int
type_synonym unix_time = int

text \<open>A Go string literal as the runes it holds (ASCII literals only).\<close>

abbreviation lit :: "string \<Rightarrow> str" where
  "lit \<equiv> map of_char"

section \<open>Lists\<close>

lemma inj_of_char_int: "inj (of_char :: char \<Rightarrow> int)"
  by (simp add: inj_def)

lemma lit_eq_iff [simp]: "(lit s :: str) = lit t \<longleftrightarrow> s = t"
  by (simp add: inj_map_eq_map inj_of_char_int)

lemma takeWhile_append_dropWhile_len:
  "length (takeWhile P xs) + length (dropWhile P xs) = length xs"
  by (metis length_append takeWhile_dropWhile_id)

lemma prefix_of_append [simp]: "prefix p (p @ xs)"
  by simp

lemma take_length_prefix:
  "prefix p xs \<Longrightarrow> take (length p) xs = p"
  by (auto simp: prefix_def)

text \<open>The first occurrences of a list, in order: the seen-map loops of the
  program (collect, then skip what was added before).\<close>

fun add_new :: "'a list \<Rightarrow> 'a \<Rightarrow> 'a list" where
  "add_new out x = (if x \<in> set out then out else out @ [x])"

lemma set_add_new [simp]: "set (add_new out x) = insert x (set out)"
  by auto

lemma distinct_add_new [simp]: "distinct (add_new out x) \<longleftrightarrow> distinct out"
  by auto

declare add_new.simps [simp del]

lemma set_fold_add_new [simp]: "set (fold (\<lambda>x out. add_new out x) xs out) = set out \<union> set xs"
  by (induction xs arbitrary: out) auto

lemma distinct_fold_add_new [simp]:
  "distinct (fold (\<lambda>x out. add_new out x) xs out) \<longleftrightarrow> distinct out"
  by (induction xs arbitrary: out) auto

text \<open>Counting with a list filter.\<close>

lemma length_filter_split:
  "length (filter P xs) + length (filter (\<lambda>x. \<not> P x) xs) = length xs"
  by (induction xs) auto

lemma length_filter_mono:
  "(\<And>x. x \<in> set xs \<Longrightarrow> P x \<Longrightarrow> Q x) \<Longrightarrow> length (filter P xs) \<le> length (filter Q xs)"
  by (induction xs) (auto simp: le_Suc_eq)

lemma filter_idem_conj: "filter P (filter Q xs) = filter (\<lambda>x. P x \<and> Q x) xs"
  by (induction xs) auto

section \<open>Loops with an early return\<close>

text \<open>A \<open>for\<close> loop over a slice whose body may return from the function
  (\<open>Inl\<close>) or go on with a new state (\<open>Inr\<close>).\<close>

fun for_each :: "('a \<Rightarrow> 's \<Rightarrow> 'r + 's) \<Rightarrow> 'a list \<Rightarrow> 's \<Rightarrow> 'r + 's" where
  "for_each body [] s = Inr s"
| "for_each body (x # xs) s =
     (case body x s of Inl r \<Rightarrow> Inl r | Inr s' \<Rightarrow> for_each body xs s')"

lemma for_each_invariant:
  assumes "I s"
    and "\<And>x s. x \<in> set xs \<Longrightarrow> I s \<Longrightarrow> (case body x s of Inl r \<Rightarrow> P r | Inr s' \<Rightarrow> I s')"
  shows "case for_each body xs s of Inl r \<Rightarrow> P r | Inr s' \<Rightarrow> I s'"
  using assms
proof (induction xs arbitrary: s)
  case Nil
  then show ?case by simp
next
  case (Cons x xs)
  have "case body x s of Inl r \<Rightarrow> P r | Inr s' \<Rightarrow> I s'" using Cons.prems by simp
  then show ?case using Cons by (cases "body x s") auto
qed

lemma for_each_append:
  "for_each body (xs @ ys) s =
     (case for_each body xs s of Inl r \<Rightarrow> Inl r | Inr s' \<Rightarrow> for_each body ys s')"
  by (induction xs arbitrary: s) (auto split: sum.splits)

text \<open>The first element of a list that satisfies a predicate.\<close>

fun first :: "('a \<Rightarrow> bool) \<Rightarrow> 'a list \<Rightarrow> 'a option" where
  "first P [] = None"
| "first P (x # xs) = (if P x then Some x else first P xs)"

lemma first_None_iff: "first P xs = None \<longleftrightarrow> (\<forall>x \<in> set xs. \<not> P x)"
  by (induction xs) auto

lemma first_Some: "first P xs = Some x \<Longrightarrow> x \<in> set xs \<and> P x"
  by (induction xs) (auto split: if_splits)

section \<open>Maps\<close>

lemma map_upd_triv_dom: "m k = Some v \<Longrightarrow> m(k \<mapsto> v) = m"
  by (auto simp: fun_eq_iff)

lemma finite_dom_upd [simp]: "finite (dom (m(k := v))) \<longleftrightarrow> finite (dom m)"
proof (cases v)
  case None
  have "dom m \<subseteq> insert k (dom (m(k := None)))" by (auto simp: dom_def)
  then show ?thesis using None by (auto simp: finite_subset)
next
  case (Some w)
  then show ?thesis by simp
qed

section \<open>Options\<close>

lemma case_option_Some_iff:
  "(case x of None \<Rightarrow> None | Some y \<Rightarrow> f y) = Some z \<longleftrightarrow> (\<exists>y. x = Some y \<and> f y = Some z)"
  by (cases x) auto

lemma set_update_subset: "set (AList.update k v ps) \<subseteq> insert (k, v) (set ps)"
  by (induction ps) auto

lemma length_update:
  "length (AList.update k v al) = (if map_of al k = None then Suc (length al) else length al)"
  by (induction al) auto

end
