(* ===== verification/GoStrings.thy ===== *)
theory GoStrings
  imports Prelude
begin

text \<open>
  The parts of Go's \<open>strings\<close>, \<open>strconv\<close>, \<open>unicode\<close>
  and \<open>regexp\<close> packages the program uses. A string is the list of its
  runes (the program only handles valid UTF-8: Telegram delivers nothing
  else); positions are rune positions, and where the program compares byte
  offsets the byte offset of a rune is strictly increasing in its rune
  position, so every comparison has the same outcome.

  The Unicode tables and the NFKC normal form are data that is not part of
  the repository; they and the few library functions not modelled here are
  the fields of a record that every definition using them takes as an argument.
\<close>

text \<open>The fields of \<open>net/url\<close>'s parsed URL the program reads; \<open>url_HasUser\<close>
  is whether user information is present.\<close>

record url =
  url_Scheme :: str
  url_HasUser :: bool
  url_Host :: str
  url_Hostname :: str
  url_Path :: str
  url_EscapedPath :: str

text \<open>What the Go library computes from data or code outside the repository:
  the Unicode tables and the NFKC form, SHA-256 in hexadecimal, the printing
  of a floating-point number with two decimals, and the URL parser (an error
  is \<open>None\<close>).\<close>

record golib =
  u_nfkc :: "str \<Rightarrow> str"
  u_lower :: "rune \<Rightarrow> rune"
  u_fold :: "rune \<Rightarrow> rune"
  u_letter :: "rune \<Rightarrow> bool"
  u_number :: "rune \<Rightarrow> bool"
  lib_sha256hex :: "str \<Rightarrow> str"
  lib_fmt2 :: "real \<Rightarrow> str"
  lib_parseURL :: "str \<Rightarrow> url option"

section \<open>Runes\<close>

definition isSpace :: "rune \<Rightarrow> bool" where
  "isSpace r \<longleftrightarrow> (9 \<le> r \<and> r \<le> 13) \<or> r = 32 \<or> r = 133 \<or> r = 160 \<or> r = 5760 \<or>
     (8192 \<le> r \<and> r \<le> 8202) \<or> r = 8232 \<or> r = 8233 \<or> r = 8239 \<or> r = 8287 \<or> r = 12288"

text \<open>RE2's \<open>\s\<close> and \<open>\w\<close>, both ASCII classes.\<close>

definition reSpace :: "rune \<Rightarrow> bool" where
  "reSpace r \<longleftrightarrow> r = 9 \<or> r = 10 \<or> r = 12 \<or> r = 13 \<or> r = 32"

definition reWord :: "rune \<Rightarrow> bool" where
  "reWord r \<longleftrightarrow> (48 \<le> r \<and> r \<le> 57) \<or> (65 \<le> r \<and> r \<le> 90) \<or> r = 95 \<or> (97 \<le> r \<and> r \<le> 122)"

definition runeBytes :: "rune \<Rightarrow> nat" where
  "runeBytes r = (if r < 128 then 1 else if r < 2048 then 2 else if r < 65536 then 3 else 4)"

definition byteLen :: "str \<Rightarrow> nat" where
  "byteLen s = sum_list (map runeBytes s)"

lemma byteLen_simps [simp]:
  "byteLen [] = 0" "byteLen (r # s) = runeBytes r + byteLen s"
  by (simp_all add: byteLen_def)

lemma length_le_byteLen: "length s \<le> byteLen s"
  by (induction s) (auto simp: runeBytes_def)

section \<open>strings\<close>

definition TrimLeft :: "(rune \<Rightarrow> bool) \<Rightarrow> str \<Rightarrow> str" where
  "TrimLeft p s = dropWhile p s"

definition TrimRight :: "(rune \<Rightarrow> bool) \<Rightarrow> str \<Rightarrow> str" where
  "TrimRight p s = rev (dropWhile p (rev s))"

definition TrimSpace :: "str \<Rightarrow> str" where
  "TrimSpace s = TrimRight isSpace (TrimLeft isSpace s)"

definition ToLower :: "golib \<Rightarrow> str \<Rightarrow> str" where
  "ToLower U s = map (u_lower U) s"

text \<open>\<open>strings.EqualFold\<close>; \<open>u_fold\<close> picks one rune of each orbit of Unicode's
  simple case folding.\<close>

definition EqualFold :: "golib \<Rightarrow> str \<Rightarrow> str \<Rightarrow> bool" where
  "EqualFold U s t \<longleftrightarrow> map (u_fold U) s = map (u_fold U) t"

definition HasPrefix :: "'a list \<Rightarrow> 'a list \<Rightarrow> bool" where
  "HasPrefix s p \<longleftrightarrow> take (length p) s = p"

definition HasSuffix :: "'a list \<Rightarrow> 'a list \<Rightarrow> bool" where
  "HasSuffix s p \<longleftrightarrow> HasPrefix (rev s) (rev p)"

definition TrimPrefix :: "'a list \<Rightarrow> 'a list \<Rightarrow> 'a list" where
  "TrimPrefix s p = (if HasPrefix s p then drop (length p) s else s)"

definition TrimSuffix :: "'a list \<Rightarrow> 'a list \<Rightarrow> 'a list" where
  "TrimSuffix s p = (if HasSuffix s p then take (length s - length p) s else s)"

fun Contains :: "'a list \<Rightarrow> 'a list \<Rightarrow> bool" where
  "Contains [] p = (p = [])"
| "Contains (x # s) p = (HasPrefix (x # s) p \<or> Contains s p)"

text \<open>\<open>strings.Split\<close> with a one-rune separator.\<close>

fun Split :: "'a \<Rightarrow> 'a list \<Rightarrow> 'a list list" where
  "Split c [] = [[]]"
| "Split c (x # s) =
     (if x = c then [] # Split c s
      else (case Split c s of [] \<Rightarrow> [[x]] | t # ts \<Rightarrow> (x # t) # ts))"

fun Join :: "'a list \<Rightarrow> 'a list list \<Rightarrow> 'a list" where
  "Join sep [] = []"
| "Join sep [s] = s"
| "Join sep (s # t # ts) = s @ sep @ Join sep (t # ts)"

text \<open>\<open>strings.Cut\<close> at the first separator.\<close>

fun Cut :: "'a \<Rightarrow> 'a list \<Rightarrow> ('a list \<times> 'a list) option" where
  "Cut c [] = None"
| "Cut c (x # xs) = (if x = c then Some ([], xs) else (case Cut c xs of None \<Rightarrow> None | Some (a, b) \<Rightarrow> Some (x # a, b)))"

lemma Cut_append: "c \<notin> set xs \<Longrightarrow> Cut c (xs @ c # ys) = Some (xs, ys)"
  by (induction xs) auto

lemma Cut_parts: "Cut c s = Some (a, b) \<Longrightarrow> s = a @ c # b \<and> c \<notin> set a"
  by (induction s arbitrary: a) (auto split: if_splits option.splits)

text \<open>\<open>strings.Fields\<close>.\<close>

fun fieldsAux :: "str \<Rightarrow> str \<Rightarrow> str list" where
  "fieldsAux cur [] = (if cur = [] then [] else [rev cur])"
| "fieldsAux cur (r # s) =
     (if isSpace r then (if cur = [] then fieldsAux [] s else rev cur # fieldsAux [] s)
      else fieldsAux (r # cur) s)"

definition Fields :: "str \<Rightarrow> str list" where
  "Fields s = fieldsAux [] s"

lemma HasPrefix_iff_prefix: "HasPrefix s p \<longleftrightarrow> prefix p s"
  by (metis HasPrefix_def prefix_def append_take_drop_id append_eq_conv_conj)

lemma HasPrefix_append [simp]: "HasPrefix (p @ s) p"
  by (simp add: HasPrefix_def)

lemma Contains_iff_sublist: "Contains s p \<longleftrightarrow> sublist p s"
proof (induction s)
  case Nil
  then show ?case by simp
next
  case (Cons x s)
  then show ?case by (simp add: HasPrefix_iff_prefix sublist_Cons_right)
qed

lemma Split_not_Nil [simp]: "Split c s \<noteq> []"
  by (induction s) (auto split: list.splits)

lemma Split_no_sep: "c \<notin> set s \<Longrightarrow> Split c s = [s]"
  by (induction s) auto

lemma Split_append_sep: "c \<notin> set s \<Longrightarrow> Split c (s @ c # t) = s # Split c t"
  by (induction s) auto

lemma Split_pieces_no_sep: "t \<in> set (Split c s) \<Longrightarrow> c \<notin> set t"
proof (induction s arbitrary: t)
  case Nil
  then show ?case by simp
next
  case (Cons x s)
  obtain u us where u: "Split c s = u # us" by (meson Split_not_Nil list.exhaust)
  show ?case using Cons.prems Cons.IH u by (auto split: if_splits)
qed

lemma Split_Join:
  assumes "ts \<noteq> []" and "\<And>t. t \<in> set ts \<Longrightarrow> c \<notin> set t"
  shows "Split c (Join [c] ts) = ts"
  using assms
proof (induction "[c]" ts rule: Join.induct)
  case 1
  then show ?case by simp
next
  case (2 s)
  then show ?case by (simp add: Split_no_sep)
next
  case (3 s t ts)
  then show ?case by (simp add: Split_append_sep)
qed

lemma Join_Split: "Join [c] (Split c s) = s"
proof (induction s)
  case Nil
  then show ?case by simp
next
  case (Cons x s)
  obtain u us where u: "Split c s = u # us" by (meson Split_not_Nil list.exhaust)
  show ?case using Cons.IH u by (cases us) auto
qed

lemma dropWhile_id_if: "(s \<noteq> [] \<Longrightarrow> \<not> p (hd s)) \<Longrightarrow> dropWhile p s = s"
  by (cases s) auto

lemma TrimSpace_no_space:
  assumes "\<And>r. r \<in> set s \<Longrightarrow> \<not> isSpace r"
  shows "TrimSpace s = s"
proof -
  have "dropWhile isSpace s = s" using assms by (intro dropWhile_id_if) auto
  moreover have "dropWhile isSpace (rev s) = rev s" using assms
    by (intro dropWhile_id_if) (metis hd_in_set set_rev)
  ultimately show ?thesis by (simp add: TrimSpace_def TrimRight_def TrimLeft_def)
qed

lemma set_TrimSpace: "set (TrimSpace s) \<subseteq> set s"
  unfolding TrimSpace_def TrimRight_def TrimLeft_def
  by (metis set_dropWhileD set_rev subsetI)

lemma set_fieldsAux:
  assumes "t \<in> set (fieldsAux cur s)" and "list_all (\<lambda>r. \<not> isSpace r) cur"
  shows "t \<noteq> [] \<and> list_all (\<lambda>r. \<not> isSpace r) t"
  using assms
proof (induction cur s rule: fieldsAux.induct)
  case (1 cur)
  then show ?case by (simp add: list_all_iff split: if_splits)
next
  case (2 cur r s)
  show ?case
  proof (cases "isSpace r")
    case True
    then show ?thesis using 2 by (cases "cur = []") (auto simp: list_all_iff)
  next
    case False
    then show ?thesis using 2 by simp
  qed
qed

lemma Fields_nonempty_no_space:
  "t \<in> set (Fields s) \<Longrightarrow> t \<noteq> [] \<and> list_all (\<lambda>r. \<not> isSpace r) t"
  unfolding Fields_def by (drule set_fieldsAux) auto

section \<open>strconv\<close>

text \<open>Decimal digits of a natural number and of an integer, and their parsers.
  \<open>ParseInt(s, 10, 64)\<close> and \<open>Atoi\<close> accept an optional sign and at
  least one digit, and reject a value outside 64 bits.\<close>

definition digitChar :: "nat \<Rightarrow> char" where
  "digitChar d = char_of (48 + d)"

fun digitsOf :: "nat \<Rightarrow> string" where
  "digitsOf n = (if n < 10 then [digitChar n] else digitsOf (n div 10) @ [digitChar (n mod 10)])"

declare digitsOf.simps [simp del]

definition FormatInt :: "int \<Rightarrow> string" where
  "FormatInt i = (if i < 0 then CHR ''-'' # digitsOf (nat (- i)) else digitsOf (nat i))"

definition isDigitChar :: "char \<Rightarrow> bool" where
  "isDigitChar c \<longleftrightarrow> 48 \<le> (of_char c :: nat) \<and> (of_char c :: nat) \<le> 57"

definition digitsVal :: "string \<Rightarrow> nat" where
  "digitsVal s = fold (\<lambda>c n. 10 * n + (of_char c - 48)) s 0"

definition ParseNat :: "string \<Rightarrow> nat option" where
  "ParseNat s = (if s \<noteq> [] \<and> list_all isDigitChar s then Some (digitsVal s) else None)"

definition inInt64 :: "int \<Rightarrow> bool" where
  "inInt64 i \<longleftrightarrow> - (2 ^ 63) \<le> i \<and> i < 2 ^ 63"

definition ParseInt :: "string \<Rightarrow> int option" where
  "ParseInt s =
     (case s of
        [] \<Rightarrow> None
      | c # t \<Rightarrow>
         (case (if c = CHR ''-'' then map_option (\<lambda>n. - int n) (ParseNat t)
                else if c = CHR ''+'' then map_option int (ParseNat t)
                else map_option int (ParseNat s)) of
            None \<Rightarrow> None
          | Some i \<Rightarrow> if inInt64 i then Some i else None))"

lemma digitChar_digit:
  assumes "d < 10"
  shows "isDigitChar (digitChar d)" "(of_char (digitChar d) :: nat) = 48 + d"
  using assms by (simp_all add: isDigitChar_def digitChar_def)

lemma digitsOf_not_Nil [simp]: "digitsOf n \<noteq> []"
  by (subst digitsOf.simps) simp

lemma digitsOf_digits: "list_all isDigitChar (digitsOf n)"
proof (induction n rule: digitsOf.induct)
  case (1 n)
  then show ?case by (subst digitsOf.simps) (simp add: digitChar_digit)
qed

lemma digitsVal_snoc [simp]: "digitsVal (s @ [c]) = 10 * digitsVal s + (of_char c - 48)"
  by (simp add: digitsVal_def)

lemma digitsVal_digitsOf [simp]: "digitsVal (digitsOf n) = n"
proof (induction n rule: digitsOf.induct)
  case (1 n)
  show ?case
  proof (cases "n < 10")
    case True
    then show ?thesis by (subst digitsOf.simps) (simp add: digitsVal_def digitChar_digit)
  next
    case False
    then show ?thesis using 1 by (subst digitsOf.simps) (simp add: digitChar_digit)
  qed
qed

lemma ParseNat_digitsOf [simp]: "ParseNat (digitsOf n) = Some n"
  by (simp add: ParseNat_def digitsOf_digits)

lemma digitsOf_no_sign: "\<not> isDigitChar c \<Longrightarrow> c \<notin> set (digitsOf n)"
  using digitsOf_digits [of n] by (auto simp: list_all_iff)

lemma minus_plus_not_digit [simp]: "\<not> isDigitChar CHR ''-''" "\<not> isDigitChar CHR ''+''"
  by (simp_all add: isDigitChar_def)

lemma ParseInt_FormatInt: "inInt64 i \<Longrightarrow> ParseInt (FormatInt i) = Some i"
proof (cases "i < 0")
  case True
  assume "inInt64 i"
  then show ?thesis using True by (simp add: ParseInt_def FormatInt_def)
next
  case False
  assume i: "inInt64 i"
  obtain c t where ct: "digitsOf (nat i) = c # t" by (meson digitsOf_not_Nil list.exhaust)
  have "c \<noteq> CHR ''-''" "c \<noteq> CHR ''+''"
    using ct digitsOf_no_sign [of "CHR ''-''" "nat i"] digitsOf_no_sign [of "CHR ''+''" "nat i"]
    by auto
  moreover have "ParseNat (c # t) = Some (nat i)" using ct [symmetric] by simp
  ultimately show ?thesis using i False ct by (simp add: ParseInt_def FormatInt_def)
qed

lemma FormatInt_not_Nil [simp]: "FormatInt i \<noteq> []"
  by (simp add: FormatInt_def)

lemma FormatInt_chars: "c \<in> set (FormatInt i) \<Longrightarrow> isDigitChar c \<or> c = CHR ''-''"
  using digitsOf_digits by (auto simp: FormatInt_def list_all_iff split: if_splits)

lemma FormatInt_inj: "inInt64 i \<Longrightarrow> inInt64 j \<Longrightarrow> FormatInt i = FormatInt j \<Longrightarrow> i = j"
  by (metis ParseInt_FormatInt option.inject)

section \<open>regexp\<close>

text \<open>\<open>FindAllStringIndex\<close> of a pattern given as a matcher: the length of
  the leftmost-first match at a position (0 for none), from the rune before
  the position and the rest of the text. Every pattern of the program
  matches at least one rune.\<close>

function findAll :: "(rune option \<Rightarrow> str \<Rightarrow> nat) \<Rightarrow> rune option \<Rightarrow> nat \<Rightarrow> str \<Rightarrow> (nat \<times> nat) list" where
  "findAll m prev i [] = []"
| "findAll m prev i (r # s) =
     (let n = min (m prev (r # s)) (Suc (length s)) in
      if n = 0 then findAll m (Some r) (Suc i) s
      else (i, i + n) # findAll m (Some ((r # s) ! (n - 1))) (i + n) (drop (n - 1) s))"
  by pat_completeness auto
termination
  by (relation "measure (\<lambda>(m, prev, i, s). length s)") auto

lemma findAll_bounds:
  "(a, b) \<in> set (findAll m prev i s) \<Longrightarrow> i \<le> a \<and> a < b \<and> b \<le> i + length s"
proof (induction m prev i s rule: findAll.induct)
  case (1 m prev i)
  then show ?case by simp
next
  case (2 m prev i r s)
  define n where "n = min (m prev (r # s)) (Suc (length s))"
  show ?case
  proof (cases "n = 0")
    case True
    then show ?thesis using 2 n_def by (auto simp: Let_def)
  next
    case False
    then have le: "n \<le> Suc (length s)" by (simp add: n_def)
    show ?thesis using 2 False le unfolding n_def by (fastforce simp: Let_def)
  qed
qed

definition substr :: "'a list \<Rightarrow> nat \<times> nat \<Rightarrow> 'a list" where
  "substr s ab = take (snd ab - fst ab) (drop (fst ab) s)"

definition urlMatch :: "rune option \<Rightarrow> str \<Rightarrow> nat" where
  "urlMatch prev s =
     (let p = (if HasPrefix s (lit ''https://'') then 8 else if HasPrefix s (lit ''http://'') then 7 else 0);
          n = length (takeWhile (\<lambda>r. \<not> reSpace r) (drop p s))
      in if p = 0 \<or> n = 0 then 0 else p + n)"

definition tMeMatch :: "rune option \<Rightarrow> str \<Rightarrow> nat" where
  "tMeMatch prev s =
     (let n = length (takeWhile (\<lambda>r. \<not> reSpace r) (drop 5 s));
          boundary = (case prev of None \<Rightarrow> True | Some r \<Rightarrow> \<not> reWord r)
      in if boundary \<and> HasPrefix s (lit ''t.me/'') \<and> n > 0 then 5 + n else 0)"

definition mentionMatch :: "rune option \<Rightarrow> str \<Rightarrow> nat" where
  "mentionMatch prev s =
     (let n = length (takeWhile reWord (drop 1 s))
      in if HasPrefix s (lit ''@'') \<and> n > 0 then 1 + n else 0)"

definition FindAllStringIndex :: "(rune option \<Rightarrow> str \<Rightarrow> nat) \<Rightarrow> str \<Rightarrow> (nat \<times> nat) list" where
  "FindAllStringIndex m s = findAll m None 0 s"

definition FindAllString :: "(rune option \<Rightarrow> str \<Rightarrow> nat) \<Rightarrow> str \<Rightarrow> str list" where
  "FindAllString m s = map (substr s) (FindAllStringIndex m s)"

end
