(* ===== verification/Domain.thy ===== *)
theory Domain
  imports GoStrings
begin

text \<open>
  The pure types shared across the bot, \<open>internal/domain\<close>: the
  enumerations, the message envelope, the verdict of the detector and the
  incident. A Go string enumeration is a datatype of its constants (an
  \<open>Action\<close> read back from storage can be any string, hence
  \<open>ActionOther\<close>; the zero value of \<open>Scope\<close> is \<open>ScopeUnset\<close>), \<open>int64\<close> identifiers are integers, a
  confidence (\<open>float64\<close>) is a real number.
\<close>

datatype sender_kind =
  SenderUser | SenderExternalChannel | SenderAnonAdmin | SenderLinkedChannel | SenderBot

datatype action =
  ActionNone | ActionDeleteMute | ActionMute | ActionBan | ActionDeleteOnly | ActionQuarantine
  | ActionOther string

datatype scope = ScopeGlobal | ScopeChat | ScopeUnset

datatype incident_state =
  StatePending | StateEvidenced | StateActed | StateCleaned | StateDone | StateEvidenceFailed
  | StateNotActed | StateSanctionUnknown

record sender =
  sn_Kind :: sender_kind
  sn_UserID :: user_id
  sn_SenderChatID :: chat_id
  sn_Username :: str
  sn_DisplayName :: str

record entity =
  en_Type :: string
  en_URL :: str
  en_Offset :: int
  en_Length :: int

record text_part =
  tp_Text :: str
  tp_Entities :: "entity list"

text \<open>\<open>Message\<close> without the parent it replies to; the parent, which is
  one level deep and never recursive, is the field the extension adds.\<close>

record envelope =
  msg_ChatID :: chat_id
  msg_MessageID :: message_id
  msg_ThreadID :: int
  msg_MediaGroupID :: str
  msg_Sender :: sender
  msg_Text :: str
  msg_Date :: unix_time
  msg_IsAutomaticForward :: bool
  msg_LinkedChatID :: chat_id
  msg_Entities :: "entity list"
  msg_SenderTag :: str
  msg_ExternalReplyText :: str
  msg_ExternalReplyMediaKinds :: "string list"
  msg_ExternalReplyDocumentExtensions :: "str list"
  msg_ExternalReplyDocumentMIMETypes :: "str list"
  msg_StructuredTexts :: "text_part list"
  msg_EditDate :: unix_time
  msg_MediaKinds :: "string list"
  msg_DocumentExtensions :: "str list"
  msg_DocumentMIMETypes :: "str list"
  msg_Forwarded :: bool
  msg_ForwardedFromChat :: bool
  msg_HasKeyboard :: bool
  msg_ViaBot :: bool
  msg_ServiceKind :: string

record message = envelope +
  msg_ReplyTo :: "envelope option"

definition HasMedia :: "'a envelope_scheme \<Rightarrow> bool" where
  "HasMedia m \<longleftrightarrow> length (msg_MediaKinds m) > 0"

record signal =
  sg_Name :: string
  sg_Detail :: str

record verdict =
  vd_Action :: action
  vd_Scope :: scope
  vd_Confidence :: real
  vd_Signals :: "signal list"
  vd_Reason :: str
  vd_ReviewOnly :: bool

definition IsActionable :: "verdict \<Rightarrow> bool" where
  "IsActionable v \<longleftrightarrow> vd_Action v \<noteq> ActionNone"

record incident =
  inc_ChatID :: chat_id
  inc_MessageIDs :: "message_id list"
  inc_ThreadID :: int
  inc_Sender :: sender
  inc_Verdict :: verdict
  inc_State :: incident_state
  inc_DryRun :: bool
  inc_AdminMessageIDs :: "message_id list"
  inc_Tokens :: "str list"

section \<open>Fake-admin details\<close>

datatype fa_field = FieldUsername | FieldDisplayName | FieldCustomTitle

fun fieldName :: "fa_field \<Rightarrow> string" where
  "fieldName FieldUsername = ''username''"
| "fieldName FieldDisplayName = ''display_name''"
| "fieldName FieldCustomTitle = ''custom_title''"

definition FakeAdminTagDetail :: string where
  "FakeAdminTagDetail = ''sender_tag~suspicious_tags''"

definition FakeAdminMatchDetail :: "fa_field \<Rightarrow> fa_field \<Rightarrow> user_id \<Rightarrow> bool \<Rightarrow> string" where
  "FakeAdminMatchDetail senderField adminField adminID ex =
     fieldName senderField @ ''~'' @ fieldName adminField @ '' admin_id='' @ FormatInt adminID
       @ '' '' @ (if ex then ''exact'' else ''fuzzy'')"

text \<open>The anchored pattern of \<open>IsFakeAdminDetail\<close>, alternative by
  alternative: its digit run is delimited by the blank that follows it.\<close>

definition fakeAdminIDPattern :: "string \<Rightarrow> bool" where
  "fakeAdminIDPattern s \<longleftrightarrow>
     (let d = TrimPrefix s ''-'' in 1 \<le> length d \<and> length d \<le> 20 \<and> list_all isDigitChar d)"

definition fakeAdminTail :: "string \<Rightarrow> bool" where
  "fakeAdminTail s \<longleftrightarrow>
     (HasSuffix s '' exact'' \<and> fakeAdminIDPattern (TrimSuffix s '' exact'')) \<or>
     (HasSuffix s '' fuzzy'' \<and> fakeAdminIDPattern (TrimSuffix s '' fuzzy''))"

definition fakeAdminDetailPattern :: "string \<Rightarrow> bool" where
  "fakeAdminDetailPattern s \<longleftrightarrow>
     list_ex (\<lambda>f. list_ex (\<lambda>g.
        let p = f @ ''~'' @ g @ '' admin_id='' in HasPrefix s p \<and> fakeAdminTail (drop (length p) s))
       [''username'', ''display_name'', ''custom_title'']) [''username'', ''display_name'']"

definition IsFakeAdminDetail :: "string \<Rightarrow> bool" where
  "IsFakeAdminDetail s \<longleftrightarrow> s = FakeAdminTagDetail \<or> fakeAdminDetailPattern s"

lemma IsActionable_simps [simp]:
  "vd_Action v = ActionNone \<Longrightarrow> \<not> IsActionable v"
  by (simp add: IsActionable_def)

lemma HasSuffix_append [simp]: "HasSuffix (s @ p) p"
  by (simp add: HasSuffix_def)

lemma TrimSuffix_append [simp]: "TrimSuffix (s @ p) p = s"
  by (simp add: TrimSuffix_def)

lemma length_digitsOf_le: "n < 10 ^ k \<Longrightarrow> 0 < k \<Longrightarrow> length (digitsOf n) \<le> k"
proof (induction n arbitrary: k rule: digitsOf.induct)
  case (1 n)
  show ?case
  proof (cases "n < 10")
    case True
    then show ?thesis using 1 by (subst digitsOf.simps) simp
  next
    case False
    obtain k' where k: "k = Suc k'" using 1 by (cases k) auto
    have k0: "0 < k'" using 1 k False by (cases k') auto
    have "n div 10 < 10 ^ k'" using 1 k by (simp add: less_mult_imp_div_less)
    then show ?thesis using 1(1) [OF False, of k'] False k k0 by (subst digitsOf.simps) simp
  qed
qed

lemma fakeAdminIDPattern_FormatInt:
  assumes "inInt64 i"
  shows "fakeAdminIDPattern (FormatInt i)"
proof -
  have bound: "length (digitsOf n) \<le> 20" if "int n \<le> 2 ^ 63" for n
  proof -
    have "n < 10 ^ 20" using that by simp
    then show ?thesis using length_digitsOf_le [of n 20] by simp
  qed
  show ?thesis
  proof (cases "i < 0")
    case True
    then have "int (nat (- i)) \<le> 2 ^ 63" using assms by (simp add: inInt64_def)
    then show ?thesis using True bound [of "nat (- i)"] digitsOf_digits
      by (simp add: fakeAdminIDPattern_def FormatInt_def TrimPrefix_def HasPrefix_def Suc_le_eq)
  next
    case False
    obtain c t where ct: "digitsOf (nat i) = c # t" by (meson digitsOf_not_Nil list.exhaust)
    have nc: "c \<noteq> CHR ''-''" using ct digitsOf_no_sign [of "CHR ''-''" "nat i"] by auto
    have "int (nat i) \<le> 2 ^ 63" using assms False by (simp add: inInt64_def)
    then show ?thesis using False bound [of "nat i"] digitsOf_digits [of "nat i"] ct nc
      by (simp add: fakeAdminIDPattern_def FormatInt_def TrimPrefix_def HasPrefix_def Suc_le_eq)
  qed
qed

lemma fakeAdminTail_FormatInt:
  "inInt64 i \<Longrightarrow> fakeAdminTail (FormatInt i @ '' '' @ (if b then ''exact'' else ''fuzzy''))"
  using HasSuffix_append [of "FormatInt i" "'' exact''"] TrimSuffix_append [of "FormatInt i" "'' exact''"]
    HasSuffix_append [of "FormatInt i" "'' fuzzy''"] TrimSuffix_append [of "FormatInt i" "'' fuzzy''"]
  by (auto simp: fakeAdminTail_def fakeAdminIDPattern_FormatInt simp del: HasSuffix_append TrimSuffix_append)

text \<open>Every detail the detector writes with one of its own sender fields is
  inside the grammar the outcome log admits.\<close>

lemma FakeAdminMatchDetail_safe:
  assumes "sf = FieldUsername \<or> sf = FieldDisplayName" and "inInt64 i"
  shows "IsFakeAdminDetail (FakeAdminMatchDetail sf af i b)"
  using assms(1) fakeAdminTail_FormatInt [OF assms(2), of b]
  by (cases sf; cases af)
     (auto simp: IsFakeAdminDetail_def FakeAdminMatchDetail_def fakeAdminDetailPattern_def
        HasPrefix_def Let_def)

end
