(* ===== verification/Normalize.thy ===== *)
theory Normalize
  imports Domain
begin

text \<open>
  \<open>internal/detect/normalize.go\<close> (the deobfuscation pipeline) and
  \<open>internal/detect/normalize_message.go\<close> (one flattened view of a
  message for every detector: its text, links, mentions and counts).
\<close>

section \<open>Deobfuscation\<close>

definition confusables :: "(rune \<times> rune) list" where
  "confusables =
     [(0x430, 97), (0x435, 101), (0x43E, 111), (0x440, 112), (0x441, 99), (0x445, 120), (0x443, 121),
      (0x43A, 107), (0x442, 116), (0x43D, 104), (0x43C, 109), (0x456, 105), (0x455, 115), (0x432, 98),
      (0x3B1, 97), (0x3BF, 111), (0x3C1, 112), (0x3BA, 107), (0x3C5, 121)]"

definition Confusable :: "rune \<Rightarrow> rune option" where
  "Confusable r = map_of confusables r"

definition isZeroWidth :: "rune \<Rightarrow> bool" where
  "isZeroWidth r \<longleftrightarrow> r = 0x200B \<or> r = 0x200C \<or> r = 0x200D \<or> r = 0xFEFF \<or> r = 0x2060"

definition stripZeroWidth :: "str \<Rightarrow> str" where
  "stripZeroWidth s = filter (\<lambda>r. \<not> isZeroWidth r) s"

definition foldConfusables :: "str \<Rightarrow> str" where
  "foldConfusables s = map (\<lambda>r. case map_of confusables r of Some v \<Rightarrow> v | None \<Rightarrow> r) s"

definition isSingleLetterToken :: "golib \<Rightarrow> str \<Rightarrow> bool" where
  "isSingleLetterToken U tok \<longleftrightarrow> length tok = 1 \<and> u_letter U (hd tok)"

text \<open>The loop over the tokens, from the second one on, with the token before.\<close>

fun collapseLoop :: "golib \<Rightarrow> str \<Rightarrow> str list \<Rightarrow> str" where
  "collapseLoop U prev [] = []"
| "collapseLoop U prev (tok # toks) =
     (if isSingleLetterToken U prev \<and> isSingleLetterToken U tok then [] else [32])
       @ tok @ collapseLoop U tok toks"

definition collapseSingleLetterSpacing :: "golib \<Rightarrow> str \<Rightarrow> str" where
  "collapseSingleLetterSpacing U s =
     (case Split 32 s of [] \<Rightarrow> [] | tok # toks \<Rightarrow> tok @ collapseLoop U tok toks)"

definition Deobfuscate :: "golib \<Rightarrow> str \<Rightarrow> str" where
  "Deobfuscate U s =
     collapseSingleLetterSpacing U (foldConfusables (stripZeroWidth (ToLower U (u_nfkc U s))))"

section \<open>Links, mentions and counts\<close>

definition isLinkEntity :: "entity \<Rightarrow> bool" where
  "isLinkEntity e \<longleftrightarrow> en_Type e = ''url'' \<or> (en_Type e = ''text_link'' \<and> en_URL e \<noteq> [])"

definition hasLinkEntity :: "entity list \<Rightarrow> bool" where
  "hasLinkEntity es \<longleftrightarrow> list_ex isLinkEntity es"

text \<open>\<open>boundaries[u]\<close>: the position of UTF-16 unit \<open>u\<close>, \<open>None\<close>
  (the program's -1) inside a surrogate pair, and the end of the text last.\<close>

fun boundariesFrom :: "nat \<Rightarrow> str \<Rightarrow> nat option list" where
  "boundariesFrom i [] = [Some i]"
| "boundariesFrom i (r # s) =
     Some i # (if r > 0xFFFF then [None] else []) @ boundariesFrom (Suc i) s"

definition entityLinkSpan :: "nat option list \<Rightarrow> entity \<Rightarrow> (nat \<times> nat) list" where
  "entityLinkSpan bs e =
     (let units = int (length bs) - 1 in
      if \<not> isLinkEntity e then []
      else if en_Offset e < 0 \<or> en_Length e \<le> 0 \<or> en_Offset e > units \<or> en_Length e > units - en_Offset e
        then []
      else (case (bs ! nat (en_Offset e), bs ! nat (en_Offset e + en_Length e)) of
              (Some a, Some b) \<Rightarrow> [(a, b)]
            | _ \<Rightarrow> []))"

definition linkSpans :: "str \<Rightarrow> entity list \<Rightarrow> (nat \<times> nat) list" where
  "linkSpans t es =
     FindAllStringIndex urlMatch t @ FindAllStringIndex tMeMatch t
       @ (if hasLinkEntity es then concat (map (entityLinkSpan (boundariesFrom 0 t)) es) else [])"

text \<open>The sweep over the sorted spans; \<open>end\<close> starts at -1.\<close>

fun sweepSpans :: "int \<Rightarrow> (nat \<times> nat) list \<Rightarrow> nat" where
  "sweepSpans e [] = 0"
| "sweepSpans e ((a, b) # spans) =
     (if int a \<ge> e then 1 else 0) + sweepSpans (if int b > e then int b else e) spans"

definition countLinkOccurrences :: "str \<Rightarrow> entity list \<Rightarrow> nat" where
  "countLinkOccurrences t es = sweepSpans (-1) (sort_key fst (linkSpans t es))"

fun normalizedMetadata :: "golib \<Rightarrow> str list \<Rightarrow> str list" where
  "normalizedMetadata U [] = []"
| "normalizedMetadata U (v # vs) =
     (let v' = ToLower U (TrimSpace v) in
      if v' \<noteq> [] then v' # normalizedMetadata U vs else normalizedMetadata U vs)"

definition isEmoji :: "rune \<Rightarrow> bool" where
  "isEmoji r \<longleftrightarrow> (0x1F300 \<le> r \<and> r \<le> 0x1FAFF) \<or> (0x2600 \<le> r \<and> r \<le> 0x27BF) \<or>
     (0x1F000 \<le> r \<and> r \<le> 0x1F2FF) \<or> r = 0xFE0F"

definition countEmoji :: "str \<Rightarrow> nat" where
  "countEmoji s = length (filter isEmoji s)"

definition countCustomEmoji :: "entity list \<Rightarrow> nat" where
  "countCustomEmoji es = length (filter (\<lambda>e. en_Type e = ''custom_emoji'') es)"

text \<open>\<open>entitySpan\<close>: the loop returns the two positions it found and the
  units and position it stopped at.\<close>

definition runeUnits :: "rune \<Rightarrow> int" where
  "runeUnits r = (if r > 0xFFFF then 2 else 1)"

fun entityLoop :: "int \<Rightarrow> int \<Rightarrow> int \<Rightarrow> nat option \<Rightarrow> nat \<Rightarrow> str \<Rightarrow> nat option \<times> nat option \<times> int" where
  "entityLoop off len units start i [] = (start, None, units)"
| "entityLoop off len units start i (r # s) =
     (let start' = (if units = off \<and> start = None then Some i else start) in
      if units = off + len then (start', Some i, units)
      else entityLoop off len (units + runeUnits r) start' (Suc i) s)"

definition entityBounds :: "str \<Rightarrow> int \<Rightarrow> int \<Rightarrow> (nat \<times> nat) option" where
  "entityBounds s off len =
     (if off < 0 \<or> len \<le> 0 then None
      else (case entityLoop off len 0 None 0 s of (start, end, units) \<Rightarrow>
        (case (if start = None then (if units = off then Some (length s) else None) else start) of
           None \<Rightarrow> None
         | Some a \<Rightarrow>
             (case end of
                Some b \<Rightarrow> Some (a, b)
              | None \<Rightarrow> if units \<noteq> off + len then None else Some (a, length s)))))"

definition entitySpan :: "str \<Rightarrow> int \<Rightarrow> int \<Rightarrow> str" where
  "entitySpan s off len = (case entityBounds s off len of None \<Rightarrow> [] | Some ab \<Rightarrow> substr s ab)"

text \<open>\<open>trimCollectedLink\<close> on the reversed token, whose head is the last byte.\<close>

fun trimLinkRev :: "str \<Rightarrow> str" where
  "trimLinkRev [] = []"
| "trimLinkRev (r # s) =
     (if r \<in> set (lit '',;:!?)'') \<or> r = 34 \<or> r = 39 then trimLinkRev s
      else if r = 46 then (if s \<noteq> [] \<and> hd s = 46 then r # s else trimLinkRev s)
      else r # s)"

definition trimCollectedLink :: "str \<Rightarrow> str" where
  "trimCollectedLink s = rev (trimLinkRev (rev s))"

definition addLink :: "str \<Rightarrow> str list \<Rightarrow> str list" where
  "addLink s out = (if s = [] then out else add_new out s)"

definition entityLink :: "str \<Rightarrow> entity \<Rightarrow> str list \<Rightarrow> str list" where
  "entityLink t e out =
     (if en_Type e = ''text_link'' \<and> en_URL e \<noteq> [] then addLink (en_URL e) out
      else if en_Type e = ''url'' then addLink (entitySpan t (en_Offset e) (en_Length e)) out
      else out)"

definition collectLinks :: "text_part list \<Rightarrow> str \<Rightarrow> str list" where
  "collectLinks surfaces raw =
     (let out1 = fold (\<lambda>sp out. fold (entityLink (tp_Text sp)) (tp_Entities sp) out) surfaces [];
          out2 = fold (\<lambda>s. addLink (trimCollectedLink s)) (FindAllString urlMatch raw) out1
      in fold (\<lambda>s. addLink (trimCollectedLink s)) (FindAllString tMeMatch raw) out2)"

definition collectMentions :: "str \<Rightarrow> str list" where
  "collectMentions raw = fold (\<lambda>s out. add_new out s) (FindAllString mentionMatch raw) []"

definition hasOwnText :: "'a envelope_scheme \<Rightarrow> bool" where
  "hasOwnText m \<longleftrightarrow> TrimSpace (msg_Text m) \<noteq> [] \<or>
     list_ex (\<lambda>t. TrimSpace (tp_Text t) \<noteq> []) (msg_StructuredTexts m)"

section \<open>The normalized message\<close>

record normalized_message =
  nm_Text :: str
  nm_Links :: "str list"
  nm_Mentions :: "str list"
  nm_HasCustomEmoji :: bool
  nm_SenderTagNorm :: str
  nm_RawLen :: nat
  nm_HasOwnText :: bool
  nm_OwnLen :: nat
  nm_LinkCount :: nat
  nm_MentionCount :: nat
  nm_EmojiCount :: nat
  nm_MediaKinds :: "string list"
  nm_DocumentExtensions :: "str list"
  nm_DocumentMIMETypes :: "str list"
  nm_Forwarded :: bool
  nm_ForwardedFromChat :: bool
  nm_HasKeyboard :: bool
  nm_ViaBot :: bool

definition textSurfaces :: "'a envelope_scheme \<Rightarrow> text_part list" where
  "textSurfaces m = \<lparr>tp_Text = msg_Text m, tp_Entities = msg_Entities m\<rparr> # msg_StructuredTexts m"

definition rawText :: "'a envelope_scheme \<Rightarrow> str" where
  "rawText m = Join [32]
     ([msg_Text m, msg_ExternalReplyText m] @ map tp_Text (msg_StructuredTexts m) @ [msg_SenderTag m])"

definition NormalizeMessage :: "golib \<Rightarrow> 'a envelope_scheme \<Rightarrow> normalized_message" where
  "NormalizeMessage U m =
     (let surfaces = textSurfaces m;
          raw = rawText m;
          linkCount = countLinkOccurrences (msg_ExternalReplyText m) []
            + countLinkOccurrences (msg_SenderTag m) []
            + sum_list (map (\<lambda>sp. countLinkOccurrences (tp_Text sp) (tp_Entities sp)) surfaces);
          ownLen = sum_list (map (\<lambda>sp. length (tp_Text sp)) surfaces);
          customEmoji = sum_list (map (\<lambda>sp. countCustomEmoji (tp_Entities sp)) surfaces)
      in \<lparr>nm_Text = Deobfuscate U raw,
          nm_Links = collectLinks surfaces raw,
          nm_Mentions = collectMentions raw,
          nm_HasCustomEmoji = (customEmoji > 0),
          nm_SenderTagNorm = Deobfuscate U (msg_SenderTag m),
          nm_RawLen = length (msg_Text m),
          nm_HasOwnText = hasOwnText m,
          nm_OwnLen = ownLen,
          nm_LinkCount = linkCount,
          nm_MentionCount = length (FindAllString mentionMatch raw),
          nm_EmojiCount = countEmoji raw + customEmoji,
          nm_MediaKinds = msg_MediaKinds m,
          nm_DocumentExtensions = normalizedMetadata U (msg_DocumentExtensions m),
          nm_DocumentMIMETypes = normalizedMetadata U (msg_DocumentMIMETypes m),
          nm_Forwarded = msg_Forwarded m,
          nm_ForwardedFromChat = msg_ForwardedFromChat m,
          nm_HasKeyboard = msg_HasKeyboard m,
          nm_ViaBot = msg_ViaBot m\<rparr>)"

section \<open>Deobfuscation: what is left in the text\<close>

lemma set_collapseLoop: "set (collapseLoop U prev toks) \<subseteq> insert 32 (\<Union> (set ` set toks))"
  by (induction U prev toks rule: collapseLoop.induct) auto

lemma set_Split_subset: "tok \<in> set (Split c s) \<Longrightarrow> set tok \<subseteq> set s"
proof (induction s arbitrary: tok)
  case Nil
  then show ?case by simp
next
  case (Cons x s)
  obtain u us where u: "Split c s = u # us" by (meson Split_not_Nil list.exhaust)
  have IH: "\<And>tok. tok = u \<or> tok \<in> set us \<Longrightarrow> set tok \<subseteq> set s" using Cons.IH u by auto
  show ?case
  proof (cases "x = c")
    case True
    then show ?thesis using Cons.prems IH u by (auto dest: IH)
  next
    case False
    then have "tok = x # u \<or> tok \<in> set us" using Cons.prems u by simp
    then show ?thesis using IH [of u] IH [of tok] by auto
  qed
qed

lemma set_collapse: "set (collapseSingleLetterSpacing U s) \<subseteq> insert 32 (set s)"
proof -
  obtain u us where u: "Split 32 s = u # us" by (meson Split_not_Nil list.exhaust)
  have "set u \<subseteq> set s" "\<And>t. t \<in> set us \<Longrightarrow> set t \<subseteq> set s"
    using set_Split_subset [of _ 32 s] u by auto
  then show ?thesis using set_collapseLoop [of U u us] u
    by (simp add: collapseSingleLetterSpacing_def) blast
qed

lemma confusables_values:
  "list_all (\<lambda>v. v \<notin> set (map fst confusables) \<and> \<not> isZeroWidth v) (map snd confusables)"
  by code_simp

lemma confusables_fold_clean:
  "(case map_of confusables r of Some v \<Rightarrow> v | None \<Rightarrow> r) \<notin> set (map fst confusables)"
proof (cases "map_of confusables r")
  case None
  then show ?thesis using map_of_eq_None_iff [of confusables r] by simp
next
  case (Some v)
  then have "v \<in> set (map snd confusables)" by (force dest: map_of_SomeD)
  then show ?thesis using Some confusables_values by (auto simp: list_all_iff)
qed

lemma foldConfusables_zero_width:
  "\<not> isZeroWidth r \<Longrightarrow> \<not> isZeroWidth (case map_of confusables r of Some v \<Rightarrow> v | None \<Rightarrow> r)"
proof (cases "map_of confusables r")
  case (Some v)
  then have "v \<in> set (map snd confusables)" by (force dest: map_of_SomeD)
  then show ?thesis using Some confusables_values by (auto simp: list_all_iff)
qed simp

lemma set_foldConfusables:
  "r \<in> set (foldConfusables s) \<Longrightarrow>
     r \<notin> set (map fst confusables) \<and> ((\<forall>x\<in>set s. \<not> isZeroWidth x) \<longrightarrow> \<not> isZeroWidth r)"
  using confusables_fold_clean foldConfusables_zero_width
  by (auto simp: foldConfusables_def)

lemma blank_is_plain: "(32::rune) \<notin> set (map fst confusables)" "\<not> isZeroWidth 32"
  by (simp_all add: confusables_def isZeroWidth_def)

lemma Deobfuscate_clean:
  assumes "r \<in> set (Deobfuscate U s)"
  shows "\<not> isZeroWidth r" and "Confusable r = None"
proof -
  let ?t = "stripZeroWidth (ToLower U (u_nfkc U s))"
  have t: "\<forall>x\<in>set ?t. \<not> isZeroWidth x" by (simp add: stripZeroWidth_def)
  have "r = 32 \<or> r \<in> set (foldConfusables ?t)"
    using assms set_collapse by (auto simp: Deobfuscate_def)
  then have "r \<notin> set (map fst confusables) \<and> \<not> isZeroWidth r"
    using set_foldConfusables [of r ?t] t blank_is_plain by blast
  then show "\<not> isZeroWidth r" "Confusable r = None"
    by (simp_all add: Confusable_def map_of_eq_None_iff)
qed

lemma collapseLoop_letters:
  "filter (\<lambda>r. r \<noteq> 32) (collapseLoop U prev toks) = filter (\<lambda>r. r \<noteq> 32) (concat toks)"
  by (induction U prev toks rule: collapseLoop.induct) auto

lemma concat_Split: "concat (Split c s) = filter (\<lambda>r. r \<noteq> c) s"
proof (induction s)
  case Nil
  then show ?case by simp
next
  case (Cons x s)
  obtain u us where u: "Split c s = u # us" by (meson Split_not_Nil list.exhaust)
  show ?case using Cons.IH u by auto
qed

lemma collapse_only_blanks:
  "filter (\<lambda>r. r \<noteq> 32) (collapseSingleLetterSpacing U s) = filter (\<lambda>r. r \<noteq> 32) s"
proof -
  obtain u us where u: "Split 32 s = u # us" by (meson Split_not_Nil list.exhaust)
  have "filter (\<lambda>r. r \<noteq> 32) (collapseSingleLetterSpacing U s) =
        filter (\<lambda>r. r \<noteq> 32) (concat (Split 32 s))"
    using u by (simp add: collapseSingleLetterSpacing_def collapseLoop_letters)
  also have "\<dots> = filter (\<lambda>r. r \<noteq> 32) s" by (simp add: concat_Split)
  finally show ?thesis .
qed

section \<open>Entity spans in UTF-16 units\<close>

text \<open>The reference: the rune position at which a count of UTF-16 units ends.\<close>

fun unitPos :: "int \<Rightarrow> int \<Rightarrow> nat \<Rightarrow> str \<Rightarrow> nat option" where
  "unitPos target units i [] = (if units = target then Some i else None)"
| "unitPos target units i (r # s) =
     (if units = target then Some i else unitPos target (units + runeUnits r) (Suc i) s)"

definition utf16Len :: "str \<Rightarrow> int" where
  "utf16Len s = sum_list (map runeUnits s)"

lemma utf16Len_simps [simp]:
  "utf16Len [] = 0" "utf16Len (r # s) = runeUnits r + utf16Len s"
  by (simp_all add: utf16Len_def)

lemma runeUnits_pos [simp]: "0 < runeUnits r" "1 \<le> runeUnits r"
  by (simp_all add: runeUnits_def)

lemma utf16Len_nonneg [simp]: "0 \<le> utf16Len s"
  by (induction s) (auto simp: runeUnits_def)

lemma unitPos_past: "target < units \<Longrightarrow> unitPos target units i s = None"
proof (induction s arbitrary: units i)
  case (Cons r s)
  have "target < units + runeUnits r" using Cons.prems runeUnits_pos [of r] by linarith
  then show ?case using Cons by simp
qed simp

lemma unitPos_Some:
  "unitPos target units i s = Some p \<longleftrightarrow>
     i \<le> p \<and> p \<le> i + length s \<and> units + utf16Len (take (p - i) s) = target"
proof (induction s arbitrary: units i)
  case Nil
  then show ?case by auto
next
  case (Cons r s)
  show ?case
  proof (cases "units = target")
    case True
    have "p = i" if "i \<le> p" "utf16Len (take (p - i) (r # s)) = 0"
    proof (rule ccontr)
      assume "p \<noteq> i"
      then have "i < p" using that(1) by simp
      then obtain k where "p - i = Suc k" by (metis Suc_diff_Suc)
      then have "runeUnits r + utf16Len (take k s) = 0" using that(2) by simp
      then show False using utf16Len_nonneg [of "take k s"] runeUnits_pos [of r] by linarith
    qed
    then show ?thesis using True by auto
  next
    case False
    show ?thesis
    proof (cases "p - i")
      case 0
      then show ?thesis using False by (auto simp: Cons.IH)
    next
      case (Suc k)
      then have "p - Suc i = k" "Suc i \<le> p" "i \<le> p" by simp_all
      then show ?thesis using Suc False by (auto simp: Cons.IH)
    qed
  qed
qed

lemma entityLoop_start_fixed:
  "fst (entityLoop off len units (Some a) i s) = Some a"
  by (induction s arbitrary: units i) (auto simp: Let_def)

lemma entityLoop_spec:
  assumes "0 < len" and "off < units \<or> st = None"
    and "entityLoop off len units st i s = (start, end, u)"
  shows "(case (if start = None then (if u = off then Some (i + length s) else None) else start) of
           None \<Rightarrow> None
         | Some a \<Rightarrow> (case end of Some b \<Rightarrow> Some (a, b)
                     | None \<Rightarrow> if u \<noteq> off + len then None else Some (a, i + length s))) =
         (case (if st = None then unitPos off units i s else st) of
            None \<Rightarrow> None
          | Some a \<Rightarrow> (case unitPos (off + len) units i s of Some b \<Rightarrow> Some (a, b) | None \<Rightarrow> None))"
  using assms
proof (induction s arbitrary: units st i start "end" u)
  case Nil
  then show ?case by (auto split: option.splits)
next
  case (Cons r s)
  define st' where "st' = (if units = off \<and> st = None then Some i else st)"
  show ?case
  proof (cases "units = off + len")
    case True
    then have "unitPos off units i (r # s) = None" using Cons.prems(1) by (intro unitPos_past) simp
    moreover have "unitPos (off + len) units i (r # s) = Some i" using True by simp
    ultimately show ?thesis using True Cons.prems
      by (auto simp: Let_def split: option.splits simp del: unitPos.simps(2))
  next
    case False
    let ?u = "units + runeUnits r"
    have gt: "units < ?u" by simp
    have side: "off < ?u \<or> st' = None"
      using Cons.prems(2) gt by (auto simp: st'_def intro: order.strict_trans [OF _ gt])
    have eq: "entityLoop off len ?u st' (Suc i) s = (start, end, u)"
      using Cons.prems(3) False by (simp add: st'_def Let_def)
    have e1: "(if st' = None then unitPos off ?u (Suc i) s else st') =
          (if st = None then unitPos off units i (r # s) else st)"
      by (auto simp: st'_def)
    have e2: "unitPos (off + len) units i (r # s) = unitPos (off + len) ?u (Suc i) s"
      using False by simp
    have e3: "i + length (r # s) = Suc i + length s" by simp
    show ?thesis unfolding e2 e3 e1 [symmetric] by (rule Cons.IH [OF Cons.prems(1) side eq])
  qed
qed

lemma entityBounds_unitPos:
  "entityBounds s off len =
     (if off < 0 \<or> len \<le> 0 then None
      else (case unitPos off 0 0 s of
              None \<Rightarrow> None
            | Some a \<Rightarrow> (case unitPos (off + len) 0 0 s of Some b \<Rightarrow> Some (a, b) | None \<Rightarrow> None)))"
proof (cases "off < 0 \<or> len \<le> 0")
  case False
  obtain st en u where l: "entityLoop off len 0 None 0 s = (st, en, u)" by (metis prod.exhaust)
  have "entityBounds s off len =
      (case (if st = None then (if u = off then Some (0 + length s) else None) else st) of
         None \<Rightarrow> None
       | Some a \<Rightarrow> (case en of Some b \<Rightarrow> Some (a, b)
                   | None \<Rightarrow> if u \<noteq> off + len then None else Some (a, 0 + length s)))"
    using False l by (simp only: entityBounds_def if_False prod.case add_0)
  then show ?thesis using entityLoop_spec [OF _ _ l] False by simp
qed (simp add: entityBounds_def)

lemma entityBounds_Some_iff:
  "entityBounds s off len = Some (a, b) \<longleftrightarrow>
     0 \<le> off \<and> 0 < len \<and> a < b \<and> b \<le> length s \<and>
     utf16Len (take a s) = off \<and> utf16Len (substr s (a, b)) = len"
proof -
  have split: "utf16Len (take b s) = utf16Len (take a s) + utf16Len (substr s (a, b))" if "a \<le> b" for a b
  proof -
    have "take b s = take a s @ substr s (a, b)"
      using that by (metis add_diff_cancel_left' fst_conv le_Suc_ex snd_conv substr_def take_add)
    then show ?thesis by (simp add: utf16Len_def)
  qed
  have le: "a < b" if "utf16Len (take b s) = utf16Len (take a s) + len" "0 < len" for a b
  proof (rule ccontr)
    assume "\<not> a < b"
    then have "b \<le> a" by simp
    then have "utf16Len (take a s) = utf16Len (take b s) + utf16Len (substr s (b, a))"
      using split by simp
    then show False using that utf16Len_nonneg [of "substr s (b, a)"] by linarith
  qed
  have "entityBounds s off len = Some (a, b) \<longleftrightarrow>
      0 \<le> off \<and> 0 < len \<and> unitPos off 0 0 s = Some a \<and> unitPos (off + len) 0 0 s = Some b"
    by (auto simp: entityBounds_unitPos split: option.splits)
  also have "\<dots> \<longleftrightarrow> 0 \<le> off \<and> 0 < len \<and> a \<le> length s \<and> b \<le> length s \<and>
      utf16Len (take a s) = off \<and> utf16Len (take b s) = off + len"
    by (auto simp: unitPos_Some)
  also have "\<dots> \<longleftrightarrow> 0 \<le> off \<and> 0 < len \<and> a < b \<and> b \<le> length s \<and>
      utf16Len (take a s) = off \<and> utf16Len (substr s (a, b)) = len"
    using le [of b a] split [of a b] by auto
  finally show ?thesis .
qed

text \<open>The table of boundaries the link counter builds holds the same positions.\<close>

lemma length_boundariesFrom: "int (length (boundariesFrom i s)) = utf16Len s + 1"
  by (induction s arbitrary: i) (auto simp: runeUnits_def)

lemma boundariesFrom_nth:
  "units \<le> u \<Longrightarrow> u \<le> units + utf16Len s \<Longrightarrow> boundariesFrom i s ! nat (u - units) = unitPos u units i s"
proof (induction s arbitrary: units i)
  case Nil
  then show ?case by simp
next
  case (Cons r s)
  consider "u = units" | "u = units + 1" "runeUnits r = 2" | "units + runeUnits r \<le> u"
    using Cons.prems(1) by (fastforce simp: runeUnits_def split: if_splits)
  then show ?case
  proof cases
    case 1
    then show ?thesis by simp
  next
    case 2
    then show ?thesis by (simp add: runeUnits_def unitPos_past split: if_splits)
  next
    case 3
    have IH: "boundariesFrom (Suc i) s ! nat (u - (units + runeUnits r)) =
              unitPos u (units + runeUnits r) (Suc i) s"
      using Cons.IH [OF 3] Cons.prems by simp
    have "nat (u - units) = nat (runeUnits r) + nat (u - (units + runeUnits r))"
      using 3 runeUnits_pos [of r] by linarith
    moreover have "units \<noteq> u" using 3 runeUnits_pos [of r] by linarith
    ultimately show ?thesis using IH by (auto simp: runeUnits_def split: if_splits)
  qed
qed

lemma entityLinkSpan_entityBounds:
  assumes "isLinkEntity e"
  shows "entityLinkSpan (boundariesFrom 0 s) e =
           (case entityBounds s (en_Offset e) (en_Length e) of None \<Rightarrow> [] | Some ab \<Rightarrow> [ab])"
proof -
  let ?o = "en_Offset e" and ?l = "en_Length e"
  have units: "int (length (boundariesFrom 0 s)) - 1 = utf16Len s" by (simp add: length_boundariesFrom)
  have past: "unitPos t 0 0 s = None" if "utf16Len s < t" for t
  proof (rule ccontr)
    assume "unitPos t 0 0 s \<noteq> None"
    then obtain p where p: "p \<le> length s" "utf16Len (take p s) = t" by (auto simp: unitPos_Some)
    have "utf16Len s = utf16Len (take p s) + utf16Len (drop p s)"
      by (metis append_take_drop_id map_append sum_list_append utf16Len_def)
    then show False using that p utf16Len_nonneg [of "drop p s"] by linarith
  qed
  show ?thesis
  proof (cases "0 \<le> ?o \<and> 0 < ?l \<and> ?o + ?l \<le> utf16Len s")
    case True
    then have "boundariesFrom 0 s ! nat ?o = unitPos ?o 0 0 s"
      "boundariesFrom 0 s ! nat (?o + ?l) = unitPos (?o + ?l) 0 0 s"
      using boundariesFrom_nth [of 0 ?o s 0] boundariesFrom_nth [of 0 "?o + ?l" s 0] by auto
    then show ?thesis using True assms
      by (auto simp: entityLinkSpan_def Let_def units entityBounds_unitPos split: option.splits)
  next
    case False
    then show ?thesis using assms past [of "?o + ?l"]
      by (auto simp: entityLinkSpan_def Let_def units entityBounds_unitPos split: option.splits)
  qed
qed

section \<open>Link occurrences\<close>

text \<open>A span opens an occurrence exactly when every span that starts before it
  has ended: the sweep counts the groups of overlapping spans.\<close>

definition opensOccurrence :: "(nat \<times> nat) set \<Rightarrow> nat \<Rightarrow> bool" where
  "opensOccurrence S a \<longleftrightarrow> a \<in> fst ` S \<and> (\<forall>(a', b') \<in> S. a' < a \<longrightarrow> b' \<le> a)"

lemma sweepSpans_card:
  assumes "sorted (map fst spans)" and "\<And>a b. (a, b) \<in> set spans \<Longrightarrow> a < b"
  shows "sweepSpans e spans = card {a. opensOccurrence (set spans) a \<and> e \<le> int a}"
  using assms
proof (induction spans arbitrary: e)
  case Nil
  then show ?case by (simp add: opensOccurrence_def)
next
  case (Cons ab spans)
  obtain a b where ab: "ab = (a, b)" by (cases ab)
  have lt: "a < b" using Cons.prems(2) ab by simp
  have ge: "a \<le> x" if "(x, y) \<in> set spans" for x y using Cons.prems(1) ab that by force
  let ?e = "if int b > e then int b else e"
  let ?T = "{x. opensOccurrence (set spans) x \<and> ?e \<le> int x}"
  have fin: "finite ?T"
    by (rule finite_subset [of _ "fst ` set spans"]) (auto simp: opensOccurrence_def)
  have iff: "opensOccurrence (set (ab # spans)) x \<and> e \<le> int x \<longleftrightarrow> (e \<le> int a \<and> x = a) \<or> x \<in> ?T" for x
  proof (cases "x = a")
    case True
    then show ?thesis using ab lt ge by (force simp: opensOccurrence_def)
  next
    case False
    show ?thesis
    proof (cases "x \<in> fst ` set spans")
      case True
      then have "a < x" using ge False by force
      then show ?thesis using True ab by (auto simp: opensOccurrence_def)
    next
      case notin: False
      then show ?thesis using False ab by (simp add: opensOccurrence_def)
    qed
  qed
  have "{x. opensOccurrence (set (ab # spans)) x \<and> e \<le> int x} = (if e \<le> int a then insert a ?T else ?T)"
    unfolding iff by auto
  moreover have "a \<notin> ?T" using lt by auto
  moreover have "sweepSpans ?e spans = card ?T" using Cons.IH [of ?e] Cons.prems by simp
  ultimately show ?case using ab fin by simp
qed

lemma linkSpans_wf:
  assumes "(a, b) \<in> set (linkSpans t es)"
  shows "a < b \<and> b \<le> length t"
proof -
  consider "(a, b) \<in> set (FindAllStringIndex urlMatch t)" | "(a, b) \<in> set (FindAllStringIndex tMeMatch t)"
    | e where "(a, b) \<in> set (entityLinkSpan (boundariesFrom 0 t) e)"
    using assms by (auto simp: linkSpans_def split: if_splits)
  then show ?thesis
  proof cases
    case 3
    then have "isLinkEntity e" by (auto simp: entityLinkSpan_def Let_def split: if_splits)
    then have "entityBounds t (en_Offset e) (en_Length e) = Some (a, b)"
      using 3 by (simp add: entityLinkSpan_entityBounds split: option.splits)
    then show ?thesis by (simp add: entityBounds_Some_iff)
  qed (auto simp: FindAllStringIndex_def dest: findAll_bounds)
qed

text \<open>The order among spans that start together (the sort is not stable) does
  not matter, and a visible URL with its url entity is one occurrence.\<close>

lemma countLinkOccurrences_clusters:
  "countLinkOccurrences t es = card {a. opensOccurrence (set (linkSpans t es)) a}"
proof -
  have "sweepSpans (-1) (sort_key fst (linkSpans t es)) =
        card {a. opensOccurrence (set (sort_key fst (linkSpans t es))) a \<and> - 1 \<le> int a}"
    using linkSpans_wf by (intro sweepSpans_card) auto
  then show ?thesis by (simp add: countLinkOccurrences_def)
qed

end
