(* ===== verification/Levenshtein.thy ===== *)
theory Levenshtein
  imports Prelude
begin

text \<open>
  \<open>internal/detect/levenshtein.go\<close>: the two-row dynamic programme that
  decides whether two strings are within a number of edits of each other, and
  its agreement with the alignments that define that distance.
\<close>

section \<open>The program\<close>

definition goMin :: "nat \<Rightarrow> nat \<Rightarrow> nat" where
  "goMin a b = (if a < b then a else b)"

text \<open>The inner loop: \<open>prev\<close> from column \<open>i - 1\<close> on, and
  \<open>curr[i - 1]\<close>; it yields \<open>curr[i]\<close>, \<open>curr[i + 1]\<close>, ...\<close>

fun levInner :: "'a \<Rightarrow> 'a list \<Rightarrow> nat list \<Rightarrow> nat \<Rightarrow> nat list" where
  "levInner b (a # ar) (p0 # p1 # ps) left =
     (let cost = (if a = b then 0 else 1);
          c = goMin (goMin (p1 + 1) (left + 1)) (p0 + cost)
      in c # levInner b ar (p1 # ps) c)"
| "levInner b _ _ left = []"

definition minInRow :: "nat list \<Rightarrow> nat \<Rightarrow> nat" where
  "minInRow row j = fold (\<lambda>c m. if c < m then c else m) row j"

fun levRows :: "'a list \<Rightarrow> int \<Rightarrow> nat list \<Rightarrow> nat \<Rightarrow> 'a list \<Rightarrow> bool" where
  "levRows ar mx prev j [] = (int (prev ! length ar) \<le> mx)"
| "levRows ar mx prev j (b # br) =
     (let row = levInner b ar prev j in
      if int (minInRow row j) > mx then False
      else levRows ar mx (j # row) (Suc j) br)"

definition LevenshteinWithin :: "'a list \<Rightarrow> 'a list \<Rightarrow> int \<Rightarrow> bool" where
  "LevenshteinWithin a b mx =
     (if \<bar>int (length a) - int (length b)\<bar> > mx then False
      else
        (let ar = (if length a > length b then b else a);
             br = (if length a > length b then a else b)
         in if length ar = 0 then int (length br) \<le> mx
            else levRows ar mx [0..<Suc (length ar)] 1 br))"

section \<open>The specification\<close>

text \<open>\<open>align n a b\<close>: \<open>a\<close> becomes \<open>b\<close> by \<open>n\<close> insertions, deletions
  and replacements of single runes.\<close>

inductive align :: "nat \<Rightarrow> 'a list \<Rightarrow> 'a list \<Rightarrow> bool" where
  nil: "align 0 [] []"
| keep: "align n a b \<Longrightarrow> align n (x # a) (x # b)"
| replace: "align n a b \<Longrightarrow> align (Suc n) (x # a) (y # b)"
| delete: "align n a b \<Longrightarrow> align (Suc n) (x # a) b"
| insert: "align n a b \<Longrightarrow> align (Suc n) a (y # b)"

inductive_cases align_NilE: "align n a []"
inductive_simps align_Nil_Nil: "align n [] []"

fun ed :: "'a list \<Rightarrow> 'a list \<Rightarrow> nat" where
  "ed [] b = length b"
| "ed (x # a) [] = Suc (length a)"
| "ed (x # a) (y # b) =
     min (min (ed a (y # b) + 1) (ed (x # a) b + 1)) (ed a b + (if x = y then 0 else 1))"

lemma align_sym: "align n a b \<Longrightarrow> align n b a"
  by (induction rule: align.induct) (auto intro: align.intros)

lemma align_append: "align n a b \<Longrightarrow> align m c d \<Longrightarrow> align (n + m) (a @ c) (b @ d)"
  by (induction rule: align.induct) (auto intro: align.intros)

lemma align_rev: "align n a b \<Longrightarrow> align n (rev a) (rev b)"
proof (induction rule: align.induct)
  case nil
  show ?case by (simp add: align.nil)
next
  case (keep n a b x)
  then show ?case using align_append [of n _ _ 0 "[x]" "[x]"] by (simp add: align.intros)
next
  case (replace n a b x y)
  then show ?case using align_append [OF replace.IH align.replace [OF align.nil], of x y] by simp
next
  case (delete n a b x)
  then show ?case using align_append [OF delete.IH align.delete [OF align.nil], of x] by simp
next
  case (insert n a b y)
  then show ?case using align_append [OF insert.IH align.insert [OF align.nil], of y] by simp
qed

lemma align_refl: "align 0 a a"
  by (induction a) (auto intro: align.intros)

lemma align_zero: "align 0 a b \<longleftrightarrow> a = b"
proof
  show "align 0 a b \<Longrightarrow> a = b" by (induction "0::nat" a b rule: align.induct) auto
qed (simp add: align_refl)

lemma align_length_diff: "align n a b \<Longrightarrow> \<bar>int (length a) - int (length b)\<bar> \<le> int n"
  by (induction rule: align.induct) auto

lemma align_split_right:
  "align n a (b1 @ b2) \<Longrightarrow> \<exists>k m. k \<le> length a \<and> m \<le> n \<and> align m (take k a) b1"
proof (induction n a "b1 @ b2" arbitrary: b1 rule: align.induct)
  case nil
  then show ?case by (auto intro: align.nil)
next
  case (keep n a b x)
  show ?case
  proof (cases b1)
    case Nil
    then show ?thesis by (auto intro!: exI [of _ 0] align.nil)
  next
    case (Cons y c)
    then obtain k m where "k \<le> length a" "m \<le> n" "align m (take k a) c" using keep by auto
    then show ?thesis using Cons keep(3) align.keep [of m "take k a" c y]
      by (intro exI [of _ "Suc k", OF exI [of _ m]]) auto
  qed
next
  case (replace n a b x y)
  show ?case
  proof (cases b1)
    case Nil
    then show ?thesis by (auto intro!: exI [of _ 0] align.nil)
  next
    case (Cons z c)
    then obtain k m where "k \<le> length a" "m \<le> n" "align m (take k a) c" using replace by auto
    then show ?thesis using Cons replace(3) align.replace [of m "take k a" c x y]
      by (intro exI [of _ "Suc k", OF exI [of _ "Suc m"]]) auto
  qed
next
  case (delete n a x)
  then obtain k m where "k \<le> length a" "m \<le> n" "align m (take k a) b1" by auto
  then show ?case using align.delete [of m "take k a" b1 x]
    by (intro exI [of _ "Suc k", OF exI [of _ "Suc m"]]) auto
next
  case (insert n a b y)
  show ?case
  proof (cases b1)
    case Nil
    then show ?thesis by (auto intro!: exI [of _ 0] align.nil)
  next
    case (Cons z c)
    then obtain k m where "k \<le> length a" "m \<le> n" "align m (take k a) c" using insert by auto
    then show ?thesis using Cons insert(3) align.insert [of m "take k a" c y]
      by (intro exI [of _ k, OF exI [of _ "Suc m"]]) auto
  qed
qed

lemma align_all_inserted: "align (length b) [] b"
  by (induction b) (auto intro: align.intros)

lemma ed_Nil2: "ed a [] = length a"
  by (cases a) auto

lemma align_ed: "align (ed a b) a b"
proof (induction a b rule: ed.induct)
  case (1 b)
  then show ?case by (simp add: align_all_inserted)
next
  case (2 x a)
  then show ?case using align_sym [OF align_all_inserted, of "x # a"] by simp
next
  case (3 x a y b)
  then show ?case by (auto simp: min_def intro: align.intros)
qed

lemma ed_le_align: "align n a b \<Longrightarrow> ed a b \<le> n"
proof (induction rule: align.induct)
  case (delete n a b x)
  then show ?case by (cases b) (auto simp: ed_Nil2)
next
  case (insert n a b y)
  then show ?case by (cases a) auto
qed auto

lemma ed_le_iff: "ed a b \<le> n \<longleftrightarrow> (\<exists>m\<le>n. align m a b)"
  using align_ed ed_le_align le_trans by blast

lemma ed_rev: "ed (rev a) (rev b) = ed a b"
  by (metis align_ed align_rev dual_order.antisym ed_le_align rev_rev_ident)

lemma ed_sym: "ed a b = ed b a"
  by (metis align_ed align_sym dual_order.antisym ed_le_align)

section \<open>The rows hold the distances of the prefixes\<close>

lemma goMin_min [simp]: "goMin a b = min a b"
  by (simp add: goMin_def min_def)

lemma ed_snoc:
  "ed (a @ [x]) (b @ [y]) =
     min (min (ed (a @ [x]) b + 1) (ed a (b @ [y]) + 1)) (ed a b + (if x = y then 0 else 1))"
  using ed.simps(3) [of x "rev a" y "rev b"] ed_rev [of "a @ [x]" "b @ [y]"]
    ed_rev [of a "b @ [y]"] ed_rev [of "a @ [x]" b] ed_rev [of a b]
  by (simp add: min.commute [of "ed a (b @ [y])"])

definition distRow :: "'a list \<Rightarrow> 'a list \<Rightarrow> 'a list \<Rightarrow> nat list" where
  "distRow p ar q = map (\<lambda>k. ed (p @ take k ar) q) [0..<Suc (length ar)]"

lemma distRow_Nil: "distRow p [] q = [ed p q]"
  by (simp add: distRow_def)

lemma distRow_Cons: "distRow p (x # ar) q = ed p q # distRow (p @ [x]) ar q"
proof -
  have "[0..<Suc (length (x # ar))] = 0 # map Suc [0..<Suc (length ar)]"
    by (metis length_Cons map_Suc_upt upt_conv_Cons zero_less_Suc)
  then show ?thesis by (simp add: distRow_def del: upt_Suc)
qed

lemma distRow_hd: "\<exists>t. distRow p ar q = ed p q # t"
  by (cases ar) (auto simp: distRow_Nil distRow_Cons)

lemma levInner_distRow:
  "ed p (q @ [b]) # levInner b ar (distRow p ar q) (ed p (q @ [b])) = distRow p ar (q @ [b])"
proof (induction ar arbitrary: p)
  case Nil
  then show ?case by (simp add: distRow_Nil)
next
  case (Cons x ar)
  obtain t where t: "distRow (p @ [x]) ar q = ed (p @ [x]) q # t" using distRow_hd by blast
  have "levInner b (x # ar) (distRow p (x # ar) q) (ed p (q @ [b])) =
        ed (p @ [x]) (q @ [b]) # levInner b ar (distRow (p @ [x]) ar q) (ed (p @ [x]) (q @ [b]))"
    by (simp add: distRow_Cons t ed_snoc Let_def)
  then show ?case using Cons.IH [of "p @ [x]"] by (simp add: distRow_Cons)
qed

lemma minInRow_le:
  "minInRow row j \<le> n \<longleftrightarrow> (\<exists>c \<in> set (j # row). c \<le> n)"
proof (induction row arbitrary: j)
  case Nil
  then show ?case by (simp add: minInRow_def)
next
  case (Cons c row)
  have step: "minInRow (c # row) j = minInRow row (if c < j then c else j)" by (simp add: minInRow_def)
  have le: "(if c < j then c else j) \<le> n \<longleftrightarrow> c \<le> n \<or> j \<le> n" by auto
  show ?case unfolding step Cons.IH by (simp add: le del: if_split) blast
qed

lemma distRow_last: "distRow [] ar q ! length ar = ed ar q"
  by (simp add: distRow_def del: upt_Suc)

lemma levRows_ed:
  "levRows ar mx (distRow [] ar q) (Suc (length q)) br \<longleftrightarrow> int (ed ar (q @ br)) \<le> mx"
proof (induction br arbitrary: q)
  case Nil
  then show ?case by (simp add: distRow_last)
next
  case (Cons b br)
  let ?row = "levInner b ar (distRow [] ar q) (Suc (length q))"
  have row: "Suc (length q) # ?row = distRow [] ar (q @ [b])"
    using levInner_distRow [of "[]" q b ar] by simp
  have bail: "\<not> int (ed ar (q @ b # br)) \<le> mx" if big: "int (minInRow ?row (Suc (length q))) > mx"
  proof
    assume "int (ed ar (q @ b # br)) \<le> mx"
    then have le: "ed ar ((q @ [b]) @ br) \<le> nat mx" by simp
    obtain k m where k: "k \<le> length ar" "m \<le> nat mx" "align m (take k ar) (q @ [b])"
      using align_split_right [OF align_ed, of ar "q @ [b]" br] le by (metis le_trans)
    then have "ed (take k ar) (q @ [b]) \<le> nat mx" using ed_le_align le_trans by blast
    moreover have "ed (take k ar) (q @ [b]) \<in> set (Suc (length q) # ?row)"
      unfolding row using k(1) by (simp add: distRow_def del: upt_Suc)
    ultimately have "minInRow ?row (Suc (length q)) \<le> nat mx" using minInRow_le by blast
    then show False using big \<open>int (ed ar (q @ b # br)) \<le> mx\<close> by linarith
  qed
  show ?case
  proof (cases "int (minInRow ?row (Suc (length q))) > mx")
    case True
    then show ?thesis using bail by (simp add: Let_def)
  next
    case False
    then show ?thesis using Cons.IH [of "q @ [b]"] row by (simp add: Let_def)
  qed
qed

lemma LevenshteinWithin_ed: "LevenshteinWithin a b mx \<longleftrightarrow> int (ed a b) \<le> mx"
proof -
  have diff: "\<bar>int (length a) - int (length b)\<bar> \<le> int (ed a b)"
    by (rule align_length_diff [OF align_ed])
  have start: "distRow [] ar [] = [0..<Suc (length ar)]" for ar :: "'a list"
    by (auto simp: distRow_def ed_Nil2 intro!: nth_equalityI simp del: upt_Suc)
  have rows: "levRows ar mx [0..<Suc (length ar)] 1 br \<longleftrightarrow> int (ed ar br) \<le> mx" for ar br :: "'a list"
    using levRows_ed [of ar mx "[]" br] start by (simp del: upt_Suc)
  show ?thesis
  proof (cases "\<bar>int (length a) - int (length b)\<bar> > mx")
    case True
    then show ?thesis using diff by (simp add: LevenshteinWithin_def)
  next
    case False
    then show ?thesis using rows ed_sym [of a b]
      by (auto simp: LevenshteinWithin_def Let_def ed_Nil2 simp del: upt_Suc)
  qed
qed

lemma LevenshteinWithin_sym: "LevenshteinWithin a b mx = LevenshteinWithin b a mx"
  by (simp add: LevenshteinWithin_ed ed_sym)

lemma LevenshteinWithin_align:
  "LevenshteinWithin a b (int n) \<longleftrightarrow> (\<exists>m\<le>n. align m a b)"
  by (simp add: LevenshteinWithin_ed ed_le_iff)

end
