(* ===== verification/FakeAdmin.thy ===== *)
theory FakeAdmin
  imports Normalize Levenshtein
begin

text \<open>
  Who a sender is and whether a newcomer borrows an administrator's name:
  \<open>identity.go\<close> (sender classification), \<open>trust.go\<close> (the trust gate)
  and \<open>fakeadmin.go\<close> (impersonation) of \<open>internal/detect\<close>.
\<close>

section \<open>Sender classification\<close>

definition AnonAdminBotID :: user_id where "AnonAdminBotID = 1087968824"
definition ChannelBotID :: user_id where "ChannelBotID = 136817688"
definition ServiceNotificationsID :: user_id where "ServiceNotificationsID = 777000"

record classify_input =
  ci_FromID :: user_id
  ci_IsBot :: bool
  ci_SenderChatID :: chat_id
  ci_SenderChatType :: string
  ci_ChatID :: chat_id
  ci_LinkedChatID :: chat_id
  ci_IsAutomaticForward :: bool

definition ClassifySender :: "classify_input \<Rightarrow> sender_kind" where
  "ClassifySender i =
     (if ci_SenderChatID i \<noteq> 0 then
        (if ci_SenderChatID i = ci_ChatID i \<or> ci_FromID i = AnonAdminBotID then SenderAnonAdmin
         else if ci_IsAutomaticForward i \<and> (ci_LinkedChatID i = 0 \<or> ci_SenderChatID i = ci_LinkedChatID i)
           then SenderLinkedChannel
         else SenderExternalChannel)
      else if ci_IsBot i then SenderBot
      else SenderUser)"

section \<open>The trust gate\<close>

text \<open>\<open>TrustSource\<close>: the count, or an error.\<close>

type_synonym trust_source = "chat_id \<Rightarrow> user_id \<Rightarrow> int option"

definition IsTrusted :: "trust_source \<Rightarrow> chat_id \<Rightarrow> user_id \<Rightarrow> int \<Rightarrow> bool" where
  "IsTrusted src chatID userID threshold =
     (case src chatID userID of None \<Rightarrow> False | Some count \<Rightarrow> count \<ge> threshold)"

definition MeaningfulMinLenDefault :: int where "MeaningfulMinLenDefault = 3"

definition IsMeaningful :: "normalized_message \<Rightarrow> int \<Rightarrow> bool" where
  "IsMeaningful n minLen =
     (let minLen' = (if minLen \<le> 0 then MeaningfulMinLenDefault else minLen) in
      if int (nm_RawLen n) < minLen' then False else TrimSpace (nm_Text n) \<noteq> [])"

definition TrustFingerprint :: "golib \<Rightarrow> str \<Rightarrow> str" where
  "TrustFingerprint U t = lib_sha256hex U (Deobfuscate U (ToLower U (TrimSpace t)))"

section \<open>Impersonation of an administrator\<close>

record admin_identity =
  ad_UserID :: user_id
  ad_Username :: str
  ad_DisplayName :: str
  ad_CustomTitle :: str

record fake_admin_cfg =
  fc_Enabled :: bool
  fc_SuspiciousTags :: "str list"
  fc_MaxDistance :: int
  fc_NameMatchSanction :: bool
  fc_MinFuzzyLen :: int

definition nameMatch :: "fake_admin_cfg \<Rightarrow> str \<Rightarrow> str \<Rightarrow> bool" where
  "nameMatch cfg a b =
     (if a = [] \<or> b = [] then False
      else if fc_MaxDistance cfg \<le> 0 then a = b
      else if int (length a) < fc_MinFuzzyLen cfg \<or> int (length b) < fc_MinFuzzyLen cfg then a = b
      else LevenshteinWithin a b (fc_MaxDistance cfg))"

datatype fake_admin_strength = FakeAdminNoMatch | FakeAdminNameOnly | FakeAdminStrong

definition fakeAdminSig :: "string \<Rightarrow> signal" where
  "fakeAdminSig detail = \<lparr>sg_Name = ''fake_admin'', sg_Detail = lit detail\<rparr>"

definition senderFields :: "golib \<Rightarrow> 'a envelope_scheme \<Rightarrow> (fa_field \<times> str) list" where
  "senderFields U m =
     [(FieldUsername, ToLower U (sn_Username (msg_Sender m))),
      (FieldDisplayName, ToLower U (sn_DisplayName (msg_Sender m)))]"

definition adminFields :: "golib \<Rightarrow> admin_identity \<Rightarrow> (fa_field \<times> str) list" where
  "adminFields U a =
     [(FieldUsername, ToLower U (ad_Username a)),
      (FieldCustomTitle, ToLower U (ad_CustomTitle a)),
      (FieldDisplayName, ToLower U (ad_DisplayName a))]"

text \<open>The body of the innermost loop: a strong match returns, the first match
  of a display name is remembered.\<close>

definition fakeAdminField ::
  "fake_admin_cfg \<Rightarrow> admin_identity \<Rightarrow> fa_field \<times> str \<Rightarrow> fa_field \<times> str \<Rightarrow> signal option \<Rightarrow> signal + signal option" where
  "fakeAdminField cfg admin sf af nameOnly =
     (if \<not> nameMatch cfg (snd sf) (snd af) then Inr nameOnly
      else
        (let sig = fakeAdminSig
               (FakeAdminMatchDetail (fst sf) (fst af) (ad_UserID admin) (snd sf = snd af))
         in if fst af \<noteq> FieldDisplayName then Inl sig
            else if nameOnly = None then Inr (Some sig)
            else Inr nameOnly))"

definition fakeAdminSender ::
  "golib \<Rightarrow> fake_admin_cfg \<Rightarrow> admin_identity \<Rightarrow> fa_field \<times> str \<Rightarrow> signal option \<Rightarrow> signal + signal option" where
  "fakeAdminSender U cfg admin sf nameOnly =
     (if snd sf = [] then Inr nameOnly
      else for_each (fakeAdminField cfg admin sf) (adminFields U admin) nameOnly)"

definition ClassifyFakeAdmin ::
  "golib \<Rightarrow> 'a envelope_scheme \<Rightarrow> admin_identity list \<Rightarrow> fake_admin_cfg \<Rightarrow> signal option \<times> fake_admin_strength" where
  "ClassifyFakeAdmin U m admins cfg =
     (if \<not> fc_Enabled cfg then (None, FakeAdminNoMatch)
      else
        (case for_each (\<lambda>admin. for_each (fakeAdminSender U cfg admin) (senderFields U m)) admins None of
           Inl sig \<Rightarrow> (Some sig, FakeAdminStrong)
         | Inr nameOnly \<Rightarrow>
             (let senderTag = ToLower U (msg_SenderTag m) in
              if senderTag \<noteq> [] \<and> list_ex (\<lambda>tag. senderTag = ToLower U tag) (fc_SuspiciousTags cfg)
              then (Some (fakeAdminSig FakeAdminTagDetail), FakeAdminStrong)
              else
                (case nameOnly of
                   Some sig \<Rightarrow>
                     (Some sig, if fc_NameMatchSanction cfg then FakeAdminStrong else FakeAdminNameOnly)
                 | None \<Rightarrow> (None, FakeAdminNoMatch)))))"

definition CheckFakeAdmin ::
  "golib \<Rightarrow> 'a envelope_scheme \<Rightarrow> admin_identity list \<Rightarrow> fake_admin_cfg \<Rightarrow> signal option \<times> bool" where
  "CheckFakeAdmin U m admins cfg =
     (case ClassifyFakeAdmin U m admins cfg of (sig, strength) \<Rightarrow> (sig, strength \<noteq> FakeAdminNoMatch))"

section \<open>Which administrator a verdict of impersonation needs\<close>

lemma nameMatch_edits:
  "nameMatch cfg a b \<longleftrightarrow> a \<noteq> [] \<and> b \<noteq> [] \<and>
     (a = b \<or> (0 < fc_MaxDistance cfg \<and> fc_MinFuzzyLen cfg \<le> int (length a) \<and>
        fc_MinFuzzyLen cfg \<le> int (length b) \<and> int (ed a b) \<le> fc_MaxDistance cfg))"
proof -
  have "ed a a = 0" using align_refl ed_le_align by blast
  then show ?thesis by (auto simp: nameMatch_def LevenshteinWithin_ed not_le not_less)
qed

lemma nameMatch_sym: "nameMatch cfg a b = nameMatch cfg b a"
  by (auto simp: nameMatch_edits ed_sym)

text \<open>The evidence for a match: a sender field and a field of an administrator.\<close>

definition borrowsField :: "golib \<Rightarrow> fake_admin_cfg \<Rightarrow> 'a envelope_scheme \<Rightarrow> admin_identity \<Rightarrow> fa_field \<Rightarrow> bool" where
  "borrowsField U cfg m admin f \<longleftrightarrow>
     (\<exists>sf \<in> set (senderFields U m). \<exists>af \<in> set (adminFields U admin).
        fst af = f \<and> nameMatch cfg (snd sf) (snd af))"

definition wearsSuspiciousTag :: "golib \<Rightarrow> fake_admin_cfg \<Rightarrow> 'a envelope_scheme \<Rightarrow> bool" where
  "wearsSuspiciousTag U cfg m \<longleftrightarrow> ToLower U (msg_SenderTag m) \<noteq> [] \<and>
     (\<exists>tag \<in> set (fc_SuspiciousTags cfg). ToLower U (msg_SenderTag m) = ToLower U tag)"

lemma nameMatch_Nil [simp]: "\<not> nameMatch cfg [] b" "\<not> nameMatch cfg a []"
  by (simp_all add: nameMatch_def)

definition strongMatch :: "golib \<Rightarrow> fake_admin_cfg \<Rightarrow> 'a envelope_scheme \<Rightarrow> admin_identity \<Rightarrow> bool" where
  "strongMatch U cfg m admin \<longleftrightarrow>
     borrowsField U cfg m admin FieldUsername \<or> borrowsField U cfg m admin FieldCustomTitle"

text \<open>One administrator: the loop returns exactly on a borrowed username or
  custom title, and otherwise the remembered match is kept, or found exactly
  when the display name is borrowed.\<close>

lemma fakeAdmin_admin_cases:
  "case for_each (fakeAdminSender U cfg admin) (senderFields U m) s of
     Inl sig \<Rightarrow> strongMatch U cfg m admin
   | Inr s' \<Rightarrow> \<not> strongMatch U cfg m admin \<and>
       (s' = None \<longleftrightarrow> s = None \<and> \<not> borrowsField U cfg m admin FieldDisplayName)"
  by (auto simp: strongMatch_def borrowsField_def senderFields_def fakeAdminSender_def
      fakeAdminField_def adminFields_def Let_def split: sum.splits)

lemma fakeAdmin_loop_cases:
  "case for_each (\<lambda>admin. for_each (fakeAdminSender U cfg admin) (senderFields U m)) admins s of
     Inl sig \<Rightarrow> (\<exists>admin \<in> set admins. strongMatch U cfg m admin)
   | Inr s' \<Rightarrow> (\<forall>admin \<in> set admins. \<not> strongMatch U cfg m admin) \<and>
       (s' = None \<longleftrightarrow> s = None \<and> (\<forall>admin \<in> set admins. \<not> borrowsField U cfg m admin FieldDisplayName))"
proof (induction admins arbitrary: s)
  case Nil
  then show ?case by simp
next
  case (Cons a admins)
  have head: "case for_each (fakeAdminSender U cfg a) (senderFields U m) s of
     Inl sig \<Rightarrow> strongMatch U cfg m a
   | Inr s' \<Rightarrow> \<not> strongMatch U cfg m a \<and>
       (s' = None \<longleftrightarrow> s = None \<and> \<not> borrowsField U cfg m a FieldDisplayName)"
    by (rule fakeAdmin_admin_cases)
  show ?case
  proof (cases "for_each (fakeAdminSender U cfg a) (senderFields U m) s")
    case (Inl sig)
    then show ?thesis using head by simp
  next
    case (Inr s1)
    then show ?thesis using head Cons.IH [of s1] by (auto split: sum.splits)
  qed
qed

lemma wearsSuspiciousTag_loop:
  "(ToLower U (msg_SenderTag m) \<noteq> [] \<and>
      list_ex (\<lambda>tag. ToLower U (msg_SenderTag m) = ToLower U tag) (fc_SuspiciousTags cfg)) =
   wearsSuspiciousTag U cfg m"
  by (simp add: wearsSuspiciousTag_def list_ex_iff)

lemma ClassifyFakeAdmin_strength:
  "snd (ClassifyFakeAdmin U m admins cfg) =
     (if \<not> fc_Enabled cfg then FakeAdminNoMatch
      else if (\<exists>admin \<in> set admins. strongMatch U cfg m admin) \<or> wearsSuspiciousTag U cfg m
        then FakeAdminStrong
      else if \<exists>admin \<in> set admins. borrowsField U cfg m admin FieldDisplayName
        then (if fc_NameMatchSanction cfg then FakeAdminStrong else FakeAdminNameOnly)
      else FakeAdminNoMatch)"
  using fakeAdmin_loop_cases [where U = U and cfg = cfg and m = m and admins = admins and s = None]
  unfolding ClassifyFakeAdmin_def Let_def wearsSuspiciousTag_loop
  by (cases "for_each (\<lambda>admin. for_each (fakeAdminSender U cfg admin) (senderFields U m)) admins None")
     (auto split: option.splits)

lemma ClassifyFakeAdmin_signal:
  "fst (ClassifyFakeAdmin U m admins cfg) = None \<longleftrightarrow>
   snd (ClassifyFakeAdmin U m admins cfg) = FakeAdminNoMatch"
  unfolding ClassifyFakeAdmin_def Let_def
  by (auto split: option.splits sum.splits)

end
