(* ===== verification/Rules.thy ===== *)
theory Rules
  imports FakeAdmin
begin

text \<open>
  \<open>internal/detect/rules.go\<close> (stopwords, link policy, banned domains and
  documents, occurrence limits) and \<open>maps_url.go\<close> (which links count as
  Google Maps links).
\<close>

section \<open>Google Maps links\<close>

definition hasExplicitPort :: "url \<Rightarrow> bool" where
  "hasExplicitPort u = Contains (rev (takeWhile (\<lambda>r. r \<noteq> 93) (rev (url_Host u)))) [58]"

definition parseMapsURL :: "golib \<Rightarrow> str \<Rightarrow> url option" where
  "parseMapsURL U link =
     (let accept = (\<lambda>u. if url_Host u = [] \<or> url_HasUser u \<or> hasExplicitPort u then None else Some u) in
      case lib_parseURL U link of
        None \<Rightarrow> None
      | Some u \<Rightarrow>
          if url_Scheme u = [] then
            (if url_Host u \<noteq> [] then None
             else (case lib_parseURL U (lit ''//'' @ link) of None \<Rightarrow> None | Some u' \<Rightarrow> accept u'))
          else if url_Scheme u \<noteq> lit ''http'' \<and> url_Scheme u \<noteq> lit ''https'' then None
          else accept u)"

definition asciiHost :: "str \<Rightarrow> bool" where
  "asciiHost host = (if host = [] \<or> HasSuffix host [46] then False else list_all (\<lambda>r. r \<le> 127) host)"

definition hasBackslashPath :: "golib \<Rightarrow> str \<Rightarrow> str \<Rightarrow> bool" where
  "hasBackslashPath U decoded escaped =
     (if Contains decoded [92] then True else Contains (ToLower U escaped) (lit ''%5c''))"

text \<open>\<open>path.Clean\<close>: the elements between slashes, \<open>.\<close> and empty
  ones dropped and \<open>..\<close> taking the element before it with it.\<close>

fun cleanElems :: "bool \<Rightarrow> str list \<Rightarrow> str list \<Rightarrow> str list" where
  "cleanElems rooted out [] = rev out"
| "cleanElems rooted out (e # es) =
     (if e = [] \<or> e = [46] then cleanElems rooted out es
      else if e = [46, 46] then
        (if out \<noteq> [] \<and> hd out \<noteq> [46, 46] then cleanElems rooted (tl out) es
         else if rooted then cleanElems rooted out es
         else cleanElems rooted (e # out) es)
      else cleanElems rooted (e # out) es)"

definition pathClean :: "str \<Rightarrow> str" where
  "pathClean p =
     (let rooted = HasPrefix p [47];
          elems = cleanElems rooted [] (Split 47 p)
      in if p = [] then [46]
         else if rooted then 47 # Join [47] elems
         else if elems = [] then [46]
         else Join [47] elems)"

definition isRootPath :: "str \<Rightarrow> bool" where
  "isRootPath p \<longleftrightarrow> p = [] \<or> p = [47]"

definition firstPathSegment :: "str \<Rightarrow> str" where
  "firstPathSegment p = takeWhile (\<lambda>r. r \<noteq> 47) (TrimPrefix p [47])"

definition firstEscapedSegment :: "str \<Rightarrow> str" where
  "firstEscapedSegment escaped = firstPathSegment escaped"

definition mapsPathBoundary :: "str \<Rightarrow> bool" where
  "mapsPathBoundary p \<longleftrightarrow> p = lit ''/maps'' \<or> HasPrefix p (lit ''/maps/'')"

definition googleMapsPath :: "str \<Rightarrow> str \<Rightarrow> bool \<Rightarrow> bool" where
  "googleMapsPath decoded escaped allowRoot =
     (if isRootPath decoded then allowRoot \<and> firstEscapedSegment escaped = []
      else if \<not> (mapsPathBoundary decoded \<and> mapsPathBoundary (pathClean decoded)) then False
      else firstEscapedSegment escaped = lit ''maps'')"

definition gooGlShortPath :: "str \<Rightarrow> bool" where
  "gooGlShortPath decoded =
     (if isRootPath decoded then False
      else
        (let cleaned = pathClean decoded; seg = firstPathSegment decoded in
         if isRootPath cleaned \<or> cleaned = [46] then False
         else seg \<noteq> [] \<and> seg \<noteq> [46] \<and> seg \<noteq> [46, 46]))"

definition allowedGoogleMapsURL :: "golib \<Rightarrow> str \<Rightarrow> bool" where
  "allowedGoogleMapsURL U link =
     (case parseMapsURL U link of
        None \<Rightarrow> False
      | Some u \<Rightarrow>
          (let host = ToLower U (url_Hostname u) in
           if \<not> asciiHost host then False
           else if hasBackslashPath U (url_Path u) (url_EscapedPath u) then False
           else if host = lit ''maps.app.goo.gl'' then gooGlShortPath (url_Path u)
           else if host = lit ''maps.google.com'' then googleMapsPath (url_Path u) (url_EscapedPath u) True
           else if host = lit ''google.com'' \<or> host = lit ''www.google.com''
             then googleMapsPath (url_Path u) (url_EscapedPath u) False
           else False))"

section \<open>The hard rules\<close>

record rules =
  ru_DenyStopwords :: "str list"
  ru_AllowStopwords :: "str list"
  ru_DenyExact :: "str list"
  ru_BlockLinksForUntrusted :: bool
  ru_AllowGoogleMapsLinks :: bool
  ru_BannedDomains :: "str list"
  ru_BannedDocumentExtensions :: "str list"
  ru_BannedDocumentMIMETypes :: "str list"
  ru_MaxLinks :: int
  ru_MaxMentions :: int
  ru_MaxEmoji :: int

definition mkSignal :: "string \<Rightarrow> str \<Rightarrow> signal" where
  "mkSignal name detail = \<lparr>sg_Name = name, sg_Detail = detail\<rparr>"

definition extractHost :: "golib \<Rightarrow> str \<Rightarrow> str" where
  "extractHost U link =
     (let bare = (case lib_parseURL U (lit ''//'' @ link) of
                    Some u \<Rightarrow> if url_Host u \<noteq> [] then url_Hostname u else link
                  | None \<Rightarrow> link)
      in case lib_parseURL U link of
           Some u \<Rightarrow> if url_Host u \<noteq> [] then url_Hostname u else bare
         | None \<Rightarrow> bare)"

definition checkDenyStopword :: "golib \<Rightarrow> rules \<Rightarrow> normalized_message \<Rightarrow> signal option" where
  "checkDenyStopword U r n =
     (let t = nm_Text n;
          hasAllow = list_ex (\<lambda>allow. Contains t (Deobfuscate U allow)) (ru_AllowStopwords r)
      in map_option (\<lambda>deny. mkSignal ''deny_stopword'' (ToLower U deny))
           (first (\<lambda>deny. Contains t (Deobfuscate U deny) \<and> \<not> hasAllow) (ru_DenyStopwords r)))"

definition checkDenyExact :: "golib \<Rightarrow> rules \<Rightarrow> normalized_message \<Rightarrow> signal option" where
  "checkDenyExact U r n =
     (if length (ru_DenyExact r) = 0 then None
      else
        (let t = ToLower U (TrimSpace (nm_Text n)) in
         if t = [] then None
         else if list_ex (\<lambda>w. w \<noteq> [] \<and> Contains t (ToLower U (Deobfuscate U w))) (ru_AllowStopwords r)
           then None
         else map_option (\<lambda>w. mkSignal ''deny_exact'' w)
           (first (\<lambda>w. w \<noteq> [] \<and> t = ToLower U (Deobfuscate U (TrimSpace w))) (ru_DenyExact r))))"

definition checkLinkPolicy :: "golib \<Rightarrow> rules \<Rightarrow> normalized_message \<Rightarrow> bool \<Rightarrow> signal option" where
  "checkLinkPolicy U r n trusted =
     (if \<not> ru_BlockLinksForUntrusted r \<or> trusted \<or> length (nm_Links n) = 0 then None
      else
        (let offending =
               (if ru_AllowGoogleMapsLinks r
                then (case first (\<lambda>link. \<not> allowedGoogleMapsURL U link) (nm_Links n) of
                        None \<Rightarrow> [] | Some link \<Rightarrow> link)
                else hd (nm_Links n))
         in if ru_AllowGoogleMapsLinks r \<and> offending = [] then None
            else Some (mkSignal ''link_from_untrusted'' (ToLower U (extractHost U offending)))))"

definition checkBannedDomain :: "golib \<Rightarrow> rules \<Rightarrow> normalized_message \<Rightarrow> signal option" where
  "checkBannedDomain U r n =
     (let bannedLower = map (ToLower U) (ru_BannedDomains r) in
      map_option (\<lambda>link. mkSignal ''banned_domain'' (ToLower U (extractHost U link)))
        (first (\<lambda>link. ToLower U (extractHost U link) \<in> set bannedLower) (nm_Links n)))"

definition canonicalDocumentExtension :: "golib \<Rightarrow> str \<Rightarrow> str" where
  "canonicalDocumentExtension U e =
     (let e' = ToLower U (TrimSpace e) in if e' \<noteq> [] \<and> \<not> HasPrefix e' [46] then 46 # e' else e')"

definition canonicalMIMEType :: "golib \<Rightarrow> str \<Rightarrow> str" where
  "canonicalMIMEType U mime =
     (let m = ToLower U (TrimSpace mime) in
      if 59 \<in> set m then TrimSpace (takeWhile (\<lambda>r. r \<noteq> 59) m) else m)"

definition checkBannedDocument :: "golib \<Rightarrow> rules \<Rightarrow> normalized_message \<Rightarrow> signal option" where
  "checkBannedDocument U r n =
     (case first (\<lambda>e. list_ex (\<lambda>b. canonicalDocumentExtension U e = canonicalDocumentExtension U b)
                        (ru_BannedDocumentExtensions r)) (nm_DocumentExtensions n) of
        Some e \<Rightarrow> Some (mkSignal ''banned_document_extension'' (canonicalDocumentExtension U e))
      | None \<Rightarrow>
          (case first (\<lambda>m. list_ex (\<lambda>b. canonicalMIMEType U m = canonicalMIMEType U b)
                             (ru_BannedDocumentMIMETypes r)) (nm_DocumentMIMETypes n) of
             Some m \<Rightarrow> Some (mkSignal ''banned_document_mime'' (canonicalMIMEType U m))
           | None \<Rightarrow> None))"

definition limitDetail :: "nat \<Rightarrow> int \<Rightarrow> str" where
  "limitDetail count limit =
     lit (''count='' @ FormatInt (int count) @ '' limit='' @ FormatInt limit)"

definition checkLimits :: "rules \<Rightarrow> normalized_message \<Rightarrow> bool \<Rightarrow> signal option" where
  "checkLimits r n trusted =
     (if trusted then None
      else if ru_MaxLinks r > 0 \<and> int (nm_LinkCount n) > ru_MaxLinks r
        then Some (mkSignal ''too_many_links'' (limitDetail (nm_LinkCount n) (ru_MaxLinks r)))
      else if ru_MaxMentions r > 0 \<and> int (nm_MentionCount n) > ru_MaxMentions r
        then Some (mkSignal ''too_many_mentions'' (limitDetail (nm_MentionCount n) (ru_MaxMentions r)))
      else if ru_MaxEmoji r > 0 \<and> int (nm_EmojiCount n) > ru_MaxEmoji r
        then Some (mkSignal ''too_many_emoji'' (limitDetail (nm_EmojiCount n) (ru_MaxEmoji r)))
      else None)"

text \<open>\<open>Rules.Check\<close>: the first rule that matches.\<close>

fun firstHit :: "'b option list \<Rightarrow> 'b option" where
  "firstHit [] = None"
| "firstHit (None # hs) = firstHit hs"
| "firstHit (Some h # hs) = Some h"

definition RulesCheck :: "golib \<Rightarrow> rules \<Rightarrow> normalized_message \<Rightarrow> bool \<Rightarrow> signal option" where
  "RulesCheck U r n trusted =
     firstHit
       [checkDenyStopword U r n, checkDenyExact U r n, checkLinkPolicy U r n trusted,
        checkBannedDomain U r n, checkBannedDocument U r n, checkLimits r n trusted]"

section \<open>What each rule decides\<close>

lemma firstHit_None_iff: "firstHit hs = None \<longleftrightarrow> (\<forall>h \<in> set hs. h = None)"
  by (induction hs rule: firstHit.induct) auto

lemma firstHit_Some: "firstHit hs = Some x \<Longrightarrow> Some x \<in> set hs"
  by (induction hs rule: firstHit.induct) auto

lemma checkDenyStopword_hit:
  "checkDenyStopword U r n \<noteq> None \<longleftrightarrow>
     (\<exists>deny \<in> set (ru_DenyStopwords r). sublist (Deobfuscate U deny) (nm_Text n)) \<and>
     \<not> (\<exists>allow \<in> set (ru_AllowStopwords r). sublist (Deobfuscate U allow) (nm_Text n))"
  by (auto simp: checkDenyStopword_def Let_def first_None_iff Contains_iff_sublist list_ex_iff)

lemma checkBannedDomain_hit:
  "checkBannedDomain U r n \<noteq> None \<longleftrightarrow>
     (\<exists>link \<in> set (nm_Links n). \<exists>d \<in> set (ru_BannedDomains r).
        ToLower U (extractHost U link) = ToLower U d)"
  by (auto simp: checkBannedDomain_def Let_def first_None_iff)

lemma collectLinks_nonempty: "[] \<notin> set (collectLinks surfaces raw)"
proof -
  have add: "[] \<notin> set out \<Longrightarrow> [] \<notin> set (addLink s out)" for s out
    by (auto simp: addLink_def)
  have ent: "[] \<notin> set out \<Longrightarrow> [] \<notin> set (entityLink t e out)" for t e out
    by (auto simp: entityLink_def add)
  have ents: "[] \<notin> set out \<Longrightarrow> [] \<notin> set (fold (entityLink t) es out)" for t es out
    by (induction es arbitrary: out) (auto simp: ent)
  have surf: "[] \<notin> set out \<Longrightarrow>
      [] \<notin> set (fold (\<lambda>sp out. fold (entityLink (tp_Text sp)) (tp_Entities sp) out) sps out)" for sps out
    by (induction sps arbitrary: out) (auto simp: ents)
  have re: "[] \<notin> set out \<Longrightarrow> [] \<notin> set (fold (\<lambda>s. addLink (trimCollectedLink s)) ss out)" for ss out
    by (induction ss arbitrary: out) (auto simp: add)
  show ?thesis by (simp add: collectLinks_def Let_def surf re)
qed

lemma checkLinkPolicy_hit:
  assumes "[] \<notin> set (nm_Links n)"
  shows "checkLinkPolicy U r n trusted \<noteq> None \<longleftrightarrow>
     ru_BlockLinksForUntrusted r \<and> \<not> trusted \<and>
     (\<exists>link \<in> set (nm_Links n). ru_AllowGoogleMapsLinks r \<longrightarrow> \<not> allowedGoogleMapsURL U link)"
proof (cases "first (\<lambda>link. \<not> allowedGoogleMapsURL U link) (nm_Links n)")
  case None
  then have "\<forall>link \<in> set (nm_Links n). allowedGoogleMapsURL U link" by (simp add: first_None_iff)
  then show ?thesis using None by (cases "nm_Links n") (auto simp: checkLinkPolicy_def)
next
  case (Some link)
  then have "link \<in> set (nm_Links n)" "\<not> allowedGoogleMapsURL U link" "link \<noteq> []"
    using first_Some [OF Some] assms by auto
  then show ?thesis using Some by (cases "nm_Links n") (auto simp: checkLinkPolicy_def Let_def)
qed

text \<open>A link that is not a Maps link of Google is never exempted: the host is
  one of four names, written in ASCII, with no port and no user in front.\<close>

definition mapsHosts :: "str set" where
  "mapsHosts = {lit ''maps.app.goo.gl'', lit ''maps.google.com'', lit ''google.com'', lit ''www.google.com''}"

lemma allowedGoogleMapsURL_host:
  assumes "allowedGoogleMapsURL U link"
  shows "\<exists>u. parseMapsURL U link = Some u \<and> ToLower U (url_Hostname u) \<in> mapsHosts \<and>
     \<not> url_HasUser u \<and> \<not> hasExplicitPort u \<and> 92 \<notin> set (url_Path u)"
proof -
  obtain u where u: "parseMapsURL U link = Some u"
    using assms by (auto simp: allowedGoogleMapsURL_def split: option.splits)
  have "\<not> url_HasUser u \<and> \<not> hasExplicitPort u"
    using u by (auto simp: parseMapsURL_def Let_def split: option.splits if_splits)
  moreover have "ToLower U (url_Hostname u) \<in> mapsHosts"
    using assms u by (simp add: allowedGoogleMapsURL_def mapsHosts_def Let_def split: if_splits)
  moreover have "92 \<notin> set (url_Path u)"
  proof
    assume "92 \<in> set (url_Path u)"
    then obtain xs ys where "url_Path u = xs @ [92] @ ys" by (auto dest: split_list)
    then have "Contains (url_Path u) [92]" by (simp add: Contains_iff_sublist sublist_def) blast
    then show False using assms u by (simp add: allowedGoogleMapsURL_def hasBackslashPath_def Let_def split: if_splits)
  qed
  ultimately show ?thesis using u by blast
qed

end
