(* ===== verification/Behavior.thy ===== *)
theory Behavior
  imports Rules
begin

text \<open>
  \<open>internal/detect/memhistory.go\<close> (the in-memory sliding windows) and
  \<open>behavior.go\<close> (duplicate and short-message floods, edits). Times and
  windows are nanoseconds; every operation is given the instant its
  \<open>h.now()\<close> returned.
\<close>

section \<open>Sliding windows\<close>

record dup_event =
  de_hash :: str
  de_ts :: int

record short_event =
  se_ts :: int

record history_bucket =
  hb_dup :: "dup_event list"
  hb_short :: "short_event list"

type_synonym history_key = "chat_id \<times> user_id"
type_synonym mem_history = "history_key \<Rightarrow> history_bucket option"

definition NewMemHistory :: mem_history where
  "NewMemHistory = (\<lambda>k. None)"

definition withinWindow :: "int \<Rightarrow> int \<Rightarrow> int \<Rightarrow> bool" where
  "withinWindow ts now window \<longleftrightarrow> now - ts \<le> window"

text \<open>Nothing stale: the slice itself; otherwise the events kept are copied.\<close>

definition pruneDupEvents :: "dup_event list \<Rightarrow> int \<Rightarrow> int \<Rightarrow> dup_event list" where
  "pruneDupEvents events now window =
     (if first (\<lambda>e. \<not> withinWindow (de_ts e) now window) events = None then events
      else filter (\<lambda>e. withinWindow (de_ts e) now window) events)"

definition pruneShortEvents :: "short_event list \<Rightarrow> int \<Rightarrow> int \<Rightarrow> short_event list" where
  "pruneShortEvents events now window =
     (if first (\<lambda>e. \<not> withinWindow (se_ts e) now window) events = None then events
      else filter (\<lambda>e. withinWindow (se_ts e) now window) events)"

definition bucketOf :: "mem_history \<Rightarrow> history_key \<Rightarrow> history_bucket" where
  "bucketOf h key = (case h key of None \<Rightarrow> \<lparr>hb_dup = [], hb_short = []\<rparr> | Some b \<Rightarrow> b)"

definition RecordAndCountDup ::
  "mem_history \<Rightarrow> int \<Rightarrow> chat_id \<Rightarrow> user_id \<Rightarrow> str \<Rightarrow> int \<Rightarrow> nat \<times> mem_history" where
  "RecordAndCountDup h now chatID userID textHash window =
     (let key = (chatID, userID);
          b = bucketOf h key;
          dup = pruneDupEvents (hb_dup b) now window @ [\<lparr>de_hash = textHash, de_ts = now\<rparr>]
      in (length (filter (\<lambda>e. de_hash e = textHash) dup), h(key \<mapsto> b\<lparr>hb_dup := dup\<rparr>)))"

definition RecentShortCount ::
  "mem_history \<Rightarrow> int \<Rightarrow> chat_id \<Rightarrow> user_id \<Rightarrow> int \<Rightarrow> nat \<times> mem_history" where
  "RecentShortCount h now chatID userID window =
     (let key = (chatID, userID);
          b = bucketOf h key;
          short = pruneShortEvents (hb_short b) now window @ [\<lparr>se_ts = now\<rparr>]
      in (length short, h(key \<mapsto> b\<lparr>hb_short := short\<rparr>)))"

definition sweepBucket :: "int \<Rightarrow> int \<Rightarrow> history_bucket \<Rightarrow> history_bucket option" where
  "sweepBucket now maxAge b =
     (let b' = \<lparr>hb_dup = pruneDupEvents (hb_dup b) now maxAge,
                hb_short = pruneShortEvents (hb_short b) now maxAge\<rparr>
      in if length (hb_dup b') = 0 \<and> length (hb_short b') = 0 then None else Some b')"

definition Sweep :: "mem_history \<Rightarrow> int \<Rightarrow> int \<Rightarrow> mem_history" where
  "Sweep h now maxAge = (\<lambda>key. case h key of None \<Rightarrow> None | Some b \<Rightarrow> sweepBucket now maxAge b)"

section \<open>Behavioural checks\<close>

record behavior_cfg =
  bc_DupThreshold :: int
  bc_DupWindow :: int
  bc_ShortLen :: int
  bc_ShortFloodThreshold :: int
  bc_ShortWindow :: int
  bc_FlagEdits :: bool

definition DupHash :: "golib \<Rightarrow> normalized_message \<Rightarrow> str" where
  "DupHash U n = lib_sha256hex U (nm_Text n)"

definition dupEligible :: "normalized_message \<Rightarrow> behavior_cfg \<Rightarrow> bool" where
  "dupEligible n cfg \<longleftrightarrow> bc_DupThreshold cfg > 0 \<and> nm_HasOwnText n \<and> TrimSpace (nm_Text n) \<noteq> []"

definition shortFloodEligible :: "normalized_message \<Rightarrow> behavior_cfg \<Rightarrow> bool" where
  "shortFloodEligible n cfg \<longleftrightarrow> bc_ShortFloodThreshold cfg > 0 \<and> int (nm_OwnLen n) \<le> bc_ShortLen cfg
     \<and> nm_HasOwnText n \<and> TrimSpace (nm_Text n) \<noteq> []"

text \<open>The clock is read once per window the function touches: \<open>t1\<close> for the
  duplicate window, \<open>t2\<close> for the short-message window.\<close>

definition ObserveBehavior ::
  "golib \<Rightarrow> int \<Rightarrow> int \<Rightarrow> mem_history option \<Rightarrow> chat_id \<Rightarrow> user_id \<Rightarrow> normalized_message \<Rightarrow> behavior_cfg
     \<Rightarrow> mem_history option" where
  "ObserveBehavior U t1 t2 oh chatID userID n cfg =
     (case oh of None \<Rightarrow> None
      | Some h \<Rightarrow>
          (let h1 = (if dupEligible n cfg
                     then snd (RecordAndCountDup h t1 chatID userID (DupHash U n) (bc_DupWindow cfg)) else h);
               h2 = (if shortFloodEligible n cfg
                     then snd (RecentShortCount h1 t2 chatID userID (bc_ShortWindow cfg)) else h1)
           in Some h2))"

definition CheckBehavior ::
  "golib \<Rightarrow> int \<Rightarrow> int \<Rightarrow> mem_history \<Rightarrow> chat_id \<Rightarrow> user_id \<Rightarrow> normalized_message \<Rightarrow> bool \<Rightarrow> bool \<Rightarrow> behavior_cfg
     \<Rightarrow> signal option \<times> mem_history" where
  "CheckBehavior U t1 t2 h chatID userID n edited trusted cfg =
     (if bc_FlagEdits cfg \<and> edited then (Some (mkSignal ''edited_message'' []), h)
      else
        (let (dupHit, h1) =
               (if dupEligible n cfg then
                  (case RecordAndCountDup h t1 chatID userID (DupHash U n) (bc_DupWindow cfg) of
                     (count, h') \<Rightarrow>
                       (if int count \<ge> bc_DupThreshold cfg
                        then Some (mkSignal ''duplicate_flood'' (lit (FormatInt (int count)))) else None, h'))
                else (None, h))
         in if dupHit \<noteq> None then (dupHit, h1)
            else if shortFloodEligible n cfg then
              (case RecentShortCount h1 t2 chatID userID (bc_ShortWindow cfg) of
                 (count, h2) \<Rightarrow>
                   (if \<not> trusted \<and> int count \<ge> bc_ShortFloodThreshold cfg
                    then Some (mkSignal ''short_flood'' []) else None, h2))
            else (None, h1)))"

section \<open>Event windows\<close>

text \<open>Both slices are event lists pruned by age: what they share is proved once,
  for any list of events with a time stamp.\<close>

locale event_window =
  fixes stamp :: "'e \<Rightarrow> int"
    and prune :: "'e list \<Rightarrow> int \<Rightarrow> int \<Rightarrow> 'e list"
  assumes prune_filter: "prune es now w = filter (\<lambda>e. now - stamp e \<le> w) es"
begin

lemma prune_prune:
  assumes "now1 \<le> now2" and "w2 \<le> w1"
  shows "prune (prune es now1 w1) now2 w2 = prune es now2 w2"
proof -
  have "(now1 - stamp e \<le> w1 \<and> now2 - stamp e \<le> w2) = (now2 - stamp e \<le> w2)" for e
    using assms by linarith
  then show ?thesis by (simp add: prune_filter)
qed

lemma prune_append: "prune (es @ fs) now w = prune es now w @ prune fs now w"
  by (simp add: prune_filter)

lemma prune_current: "0 \<le> w \<Longrightarrow> stamp e = now \<Longrightarrow> prune [e] now w = [e]"
  by (simp add: prune_filter)

lemma prune_Nil [simp]: "prune [] now w = []"
  by (simp add: prune_filter)

lemma prune_grow:
  assumes "prune es now1 w = prune fs now1 w" and "now1 \<le> now2"
  shows "prune es now2 w = prune fs now2 w"
proof -
  have "prune es now2 w = prune (prune es now1 w) now2 w"
    using assms(2) prune_prune [of now1 now2 w w es] by simp
  also have "\<dots> = prune fs now2 w"
    using assms prune_prune [of now1 now2 w w fs] by simp
  finally show ?thesis .
qed

end

interpretation dup_window: event_window de_ts pruneDupEvents
proof
  fix es :: "dup_event list" and now w :: int
  have "first (\<lambda>e. \<not> withinWindow (de_ts e) now w) es = None \<Longrightarrow>
        filter (\<lambda>e. now - de_ts e \<le> w) es = es"
    by (simp add: first_None_iff withinWindow_def filter_id_conv)
  then show "pruneDupEvents es now w = filter (\<lambda>e. now - de_ts e \<le> w) es"
    by (auto simp: pruneDupEvents_def withinWindow_def)
qed

interpretation short_window: event_window se_ts pruneShortEvents
proof
  fix es :: "short_event list" and now w :: int
  have "first (\<lambda>e. \<not> withinWindow (se_ts e) now w) es = None \<Longrightarrow>
        filter (\<lambda>e. now - se_ts e \<le> w) es = es"
    by (simp add: first_None_iff withinWindow_def filter_id_conv)
  then show "pruneShortEvents es now w = filter (\<lambda>e. now - se_ts e \<le> w) es"
    by (auto simp: pruneShortEvents_def withinWindow_def)
qed

section \<open>The counts are exact\<close>

text \<open>What the program does to a history over time, with the duplicate window
  \<open>wd\<close>, the short window \<open>ws\<close> and the sweeper's age \<open>wa\<close>.\<close>

datatype hist_op =
    OpDup int chat_id user_id str
  | OpShort int chat_id user_id
  | OpSweep int

fun opTime :: "hist_op \<Rightarrow> int" where
  "opTime (OpDup t c u x) = t"
| "opTime (OpShort t c u) = t"
| "opTime (OpSweep t) = t"

fun histStep :: "int \<Rightarrow> int \<Rightarrow> int \<Rightarrow> hist_op \<Rightarrow> mem_history \<Rightarrow> mem_history" where
  "histStep wd ws wa (OpDup t c u x) h = snd (RecordAndCountDup h t c u x wd)"
| "histStep wd ws wa (OpShort t c u) h = snd (RecentShortCount h t c u ws)"
| "histStep wd ws wa (OpSweep t) h = Sweep h t wa"

definition histRun :: "int \<Rightarrow> int \<Rightarrow> int \<Rightarrow> hist_op list \<Rightarrow> mem_history" where
  "histRun wd ws wa evs = fold (histStep wd ws wa) evs NewMemHistory"

text \<open>The abstraction: every event of a key, ever recorded.\<close>

fun dupLog :: "history_key \<Rightarrow> hist_op list \<Rightarrow> dup_event list" where
  "dupLog k [] = []"
| "dupLog k (OpDup t c u x # evs) =
     (if (c, u) = k then [\<lparr>de_hash = x, de_ts = t\<rparr>] else []) @ dupLog k evs"
| "dupLog k (OpShort t c u # evs) = dupLog k evs"
| "dupLog k (OpSweep t # evs) = dupLog k evs"

fun shortLog :: "history_key \<Rightarrow> hist_op list \<Rightarrow> short_event list" where
  "shortLog k [] = []"
| "shortLog k (OpShort t c u # evs) = (if (c, u) = k then [\<lparr>se_ts = t\<rparr>] else []) @ shortLog k evs"
| "shortLog k (OpDup t c u x # evs) = shortLog k evs"
| "shortLog k (OpSweep t # evs) = shortLog k evs"

lemma dupLog_append: "dupLog k (xs @ ys) = dupLog k xs @ dupLog k ys"
  by (induction k xs rule: dupLog.induct) auto

lemma shortLog_append: "shortLog k (xs @ ys) = shortLog k xs @ shortLog k ys"
  by (induction k xs rule: shortLog.induct) auto

lemma bucketOf_upd: "bucketOf (h(k \<mapsto> b)) k' = (if k' = k then b else bucketOf h k')"
  by (simp add: bucketOf_def)

lemma bucketOf_Sweep:
  "bucketOf (Sweep h t w) k =
     \<lparr>hb_dup = pruneDupEvents (hb_dup (bucketOf h k)) t w,
      hb_short = pruneShortEvents (hb_short (bucketOf h k)) t w\<rparr>"
  by (auto simp: bucketOf_def Sweep_def sweepBucket_def Let_def split: option.splits)

text \<open>The invariant: at the time of the last operation and later, what is left
  inside a window is what was recorded inside it.\<close>

definition histInv :: "int \<Rightarrow> int \<Rightarrow> int \<Rightarrow> hist_op list \<Rightarrow> mem_history \<Rightarrow> bool" where
  "histInv wd ws now evs h \<longleftrightarrow>
     (\<forall>k. pruneDupEvents (hb_dup (bucketOf h k)) now wd = pruneDupEvents (dupLog k evs) now wd \<and>
          pruneShortEvents (hb_short (bucketOf h k)) now ws = pruneShortEvents (shortLog k evs) now ws)"

lemma histInv_later: "histInv wd ws now evs h \<Longrightarrow> now \<le> now' \<Longrightarrow> histInv wd ws now' evs h"
  unfolding histInv_def using dup_window.prune_grow short_window.prune_grow by blast

lemma histInv_step:
  assumes inv: "histInv wd ws now evs h" and "now \<le> opTime e" and "wd \<le> wa" "ws \<le> wa"
  shows "histInv wd ws (opTime e) (evs @ [e]) (histStep wd ws wa e h)"
proof -
  have I: "histInv wd ws (opTime e) evs h" using histInv_later [OF inv assms(2)] .
  show ?thesis
  proof (cases e)
    case (OpDup t c u x)
    then show ?thesis using I
      by (auto simp: histInv_def RecordAndCountDup_def Let_def bucketOf_upd dupLog_append shortLog_append
          dup_window.prune_append dup_window.prune_prune)
  next
    case (OpShort t c u)
    then show ?thesis using I
      by (auto simp: histInv_def RecentShortCount_def Let_def bucketOf_upd dupLog_append shortLog_append
          short_window.prune_append short_window.prune_prune)
  next
    case (OpSweep t)
    then show ?thesis using I assms(3,4)
      by (auto simp: histInv_def bucketOf_Sweep dupLog_append shortLog_append
          dup_window.prune_prune short_window.prune_prune)
  qed
qed

lemma histInv_run:
  assumes "sorted (map opTime evs)" and "wd \<le> wa" "ws \<le> wa" and "\<And>e. e \<in> set evs \<Longrightarrow> opTime e \<le> now"
  shows "histInv wd ws now evs (histRun wd ws wa evs)"
  using assms(1,4)
proof (induction evs arbitrary: now rule: rev_induct)
  case Nil
  then show ?case by (simp add: histInv_def histRun_def NewMemHistory_def bucketOf_def)
next
  case (snoc e evs)
  have "histInv wd ws (opTime e) evs (histRun wd ws wa evs)"
    using snoc by (intro snoc.IH) (auto simp: sorted_append)
  then have "histInv wd ws (opTime e) (evs @ [e]) (histRun wd ws wa (evs @ [e]))"
    using histInv_step [OF _ _ assms(2,3)] by (simp add: histRun_def)
  then show ?case using histInv_later snoc.prems by simp
qed

lemma dup_count_exact:
  assumes "sorted (map opTime evs)" and "wd \<le> wa" "ws \<le> wa"
    and "\<And>e. e \<in> set evs \<Longrightarrow> opTime e \<le> now"
  shows "fst (RecordAndCountDup (histRun wd ws wa evs) now c u x wd) =
    1 + length (filter (\<lambda>e. de_hash e = x \<and> now - de_ts e \<le> wd) (dupLog (c, u) evs))"
proof -
  let ?in = "filter (\<lambda>e. now - de_ts e \<le> wd)"
  have "?in (hb_dup (bucketOf (histRun wd ws wa evs) (c, u))) = ?in (dupLog (c, u) evs)"
    using histInv_run [OF assms] by (simp add: histInv_def dup_window.prune_filter)
  then have "filter (\<lambda>e. de_hash e = x) (?in (hb_dup (bucketOf (histRun wd ws wa evs) (c, u)))) =
             filter (\<lambda>e. de_hash e = x) (?in (dupLog (c, u) evs))" by (rule arg_cong)
  then show ?thesis
    by (simp add: RecordAndCountDup_def Let_def dup_window.prune_filter conj_commute)
qed

lemma short_count_exact:
  assumes "sorted (map opTime evs)" and "wd \<le> wa" "ws \<le> wa"
    and "\<And>e. e \<in> set evs \<Longrightarrow> opTime e \<le> now"
  shows "fst (RecentShortCount (histRun wd ws wa evs) now c u ws) =
    1 + length (filter (\<lambda>e. now - se_ts e \<le> ws) (shortLog (c, u) evs))"
  using histInv_run [OF assms]
  by (simp add: RecentShortCount_def Let_def histInv_def short_window.prune_filter)

text \<open>Observing a message records exactly what checking it records, when the
  check does not return early.\<close>

lemma CheckBehavior_observes:
  assumes "fst (CheckBehavior U t1 t2 h c u n edited trusted cfg) = None"
  shows "Some (snd (CheckBehavior U t1 t2 h c u n edited trusted cfg)) =
     ObserveBehavior U t1 t2 (Some h) c u n cfg"
  using assms
  by (auto simp: CheckBehavior_def ObserveBehavior_def Let_def split: if_splits prod.splits)

lemma CheckBehavior_dup_hit:
  assumes "fst (CheckBehavior U t1 t2 h c u n edited trusted cfg) = Some sig"
    and "sg_Name sig = ''duplicate_flood''"
  shows "dupEligible n cfg \<and>
     bc_DupThreshold cfg \<le> int (fst (RecordAndCountDup h t1 c u (DupHash U n) (bc_DupWindow cfg)))"
  using assms
  by (auto simp: CheckBehavior_def Let_def mkSignal_def split: if_splits prod.splits)

lemma CheckBehavior_short_hit:
  assumes "fst (CheckBehavior U t1 t2 h c u n edited trusted cfg) = Some sig"
    and "sg_Name sig = ''short_flood''"
  shows "\<not> trusted \<and> shortFloodEligible n cfg"
  using assms
  by (auto simp: CheckBehavior_def Let_def mkSignal_def split: if_splits prod.splits)

end
