(* ===== verification/Bayes.thy ===== *)
theory Bayes
  imports Behavior
begin

text \<open>
  \<open>internal/detect/tokenize.go\<close> (the features of a message),
  \<open>bayes.go\<close> (the naive Bayes log-ratio) and \<open>calibrate.go\<close> (the
  confusion matrix over a labelled set). Scores are real numbers: rounding of
  \<open>float64\<close> is idealised, the order of the sums is the program's.
\<close>

section \<open>Tokens\<close>

text \<open>\<open>strings.FieldsFunc\<close>: the maximal runs of runes the predicate rejects.\<close>

fun fieldsFuncAux :: "(rune \<Rightarrow> bool) \<Rightarrow> str \<Rightarrow> str \<Rightarrow> str list" where
  "fieldsFuncAux f cur [] = (if cur = [] then [] else [rev cur])"
| "fieldsFuncAux f cur (r # s) =
     (if f r then (if cur = [] then [] else [rev cur]) @ fieldsFuncAux f [] s
      else fieldsFuncAux f (r # cur) s)"

definition FieldsFunc :: "(rune \<Rightarrow> bool) \<Rightarrow> str \<Rightarrow> str list" where
  "FieldsFunc f s = fieldsFuncAux f [] s"

definition extractUnigrams :: "golib \<Rightarrow> str \<Rightarrow> str list" where
  "extractUnigrams U t =
     map (ToLower U) (filter (\<lambda>token. byteLen token \<ge> 2)
       (FieldsFunc (\<lambda>r. \<not> u_letter U r \<and> \<not> u_number U r) t))"

fun bigrams :: "str list \<Rightarrow> str list" where
  "bigrams (u # v # us) = (lit ''bi:'' @ u @ lit ''_'' @ v) # bigrams (v # us)"
| "bigrams _ = []"

definition hostTokens :: "golib \<Rightarrow> str list \<Rightarrow> str list" where
  "hostTokens U links =
     map (\<lambda>host. lit ''host:'' @ host) (filter (\<lambda>host. host \<noteq> []) (map (extractHost U) links))"

definition Tokenize :: "golib \<Rightarrow> normalized_message \<Rightarrow> str list" where
  "Tokenize U n =
     (let unigrams = extractUnigrams U (nm_Text n);
          ownLen = max (nm_RawLen n) (nm_OwnLen n)
      in unigrams @ bigrams unigrams
           @ (if length (nm_Links n) > 0 then lit ''has:link'' # hostTokens U (nm_Links n) else [])
           @ (if nm_HasCustomEmoji n then [lit ''has:custom_emoji''] else [])
           @ (if length (nm_Mentions n) > 0 then [lit ''has:mention''] else [])
           @ (if ownLen \<le> 10 then [lit ''len:short''] else [])
           @ (if ownLen \<ge> 200 then [lit ''len:long''] else []))"

section \<open>The score\<close>

record bayes_counts =
  by_SpamDocs :: int
  by_HamDocs :: int
  by_SpamTokenTotal :: int
  by_HamTokenTotal :: int

text \<open>\<open>BayesSource\<close>: two reads, each of which may fail.\<close>

record bayes_source =
  bs_Totals :: "string \<Rightarrow> bayes_counts option"
  bs_TokenCounts :: "string \<Rightarrow> str list \<Rightarrow> ((str \<rightharpoonup> int) \<times> (str \<rightharpoonup> int)) option"

definition countOf :: "(str \<rightharpoonup> int) \<Rightarrow> str \<Rightarrow> int" where
  "countOf m tok = (case m tok of None \<Rightarrow> 0 | Some c \<Rightarrow> c)"

definition bayesScore :: "bayes_source \<Rightarrow> string \<Rightarrow> str list \<Rightarrow> int \<Rightarrow> (real \<times> bool) option" where
  "bayesScore src sc tokens vocabGuess0 =
     (let vocabGuess = (if vocabGuess0 < 1 then 1 else vocabGuess0) in
      case bs_Totals src sc of
        None \<Rightarrow> None
      | Some totals \<Rightarrow>
          if by_SpamDocs totals + by_HamDocs totals = 0 then Some (0, False)
          else
            (case bs_TokenCounts src sc tokens of
               None \<Rightarrow> None
             | Some (spamCounts, hamCounts) \<Rightarrow>
                 (let docs = real_of_int (by_SpamDocs totals + by_HamDocs totals + 2);
                      logPriorSpam = ln (real_of_int (by_SpamDocs totals + 1) / docs);
                      logPriorHam = ln (real_of_int (by_HamDocs totals + 1) / docs);
                      spamDenom = real_of_int (by_SpamTokenTotal totals + vocabGuess);
                      hamDenom = real_of_int (by_HamTokenTotal totals + vocabGuess);
                      logLikelihoodSpam =
                        fold (\<lambda>tok l. l + ln (real_of_int (countOf spamCounts tok + 1) / spamDenom)) tokens 0;
                      logLikelihoodHam =
                        fold (\<lambda>tok l. l + ln (real_of_int (countOf hamCounts tok + 1) / hamDenom)) tokens 0
                  in Some ((logLikelihoodSpam + logPriorSpam) - (logLikelihoodHam + logPriorHam),
                           length tokens > 0))))"

definition BayesLogRatio :: "bayes_source \<Rightarrow> string \<Rightarrow> str list \<Rightarrow> int \<Rightarrow> real option" where
  "BayesLogRatio src sc tokens vocabGuess = map_option fst (bayesScore src sc tokens vocabGuess)"

definition BayesIsSpam :: "bayes_source \<Rightarrow> string \<Rightarrow> str list \<Rightarrow> int \<Rightarrow> real \<Rightarrow> (bool \<times> real) option" where
  "BayesIsSpam src sc tokens vocabGuess threshold =
     (case bayesScore src sc tokens vocabGuess of
        None \<Rightarrow> None
      | Some (ratio, scoreable) \<Rightarrow>
          if \<not> scoreable then Some (False, ratio) else Some (ratio \<ge> threshold, ratio))"

section \<open>Calibration\<close>

record labeled_doc =
  ld_Tokens :: "str list"
  ld_Spam :: bool

record bayes_metrics =
  mt_TP :: int
  mt_FP :: int
  mt_TN :: int
  mt_FN :: int
  mt_Precision :: real
  mt_Recall :: real

definition tallyDoc :: "bayes_source \<Rightarrow> string \<Rightarrow> int \<Rightarrow> real \<Rightarrow> labeled_doc \<Rightarrow> bayes_metrics \<Rightarrow> bayes_metrics" where
  "tallyDoc src sc vocabGuess threshold doc m =
     (case BayesIsSpam src sc (ld_Tokens doc) vocabGuess threshold of
        None \<Rightarrow> m
      | Some (isSpam, _) \<Rightarrow>
          if isSpam \<and> ld_Spam doc then m\<lparr>mt_TP := mt_TP m + 1\<rparr>
          else if isSpam \<and> \<not> ld_Spam doc then m\<lparr>mt_FP := mt_FP m + 1\<rparr>
          else if \<not> isSpam \<and> \<not> ld_Spam doc then m\<lparr>mt_TN := mt_TN m + 1\<rparr>
          else m\<lparr>mt_FN := mt_FN m + 1\<rparr>)"

definition Evaluate :: "bayes_source \<Rightarrow> string \<Rightarrow> labeled_doc list \<Rightarrow> int \<Rightarrow> real \<Rightarrow> bayes_metrics" where
  "Evaluate src sc labeled vocabGuess threshold =
     (let m = fold (tallyDoc src sc vocabGuess threshold) labeled
                \<lparr>mt_TP = 0, mt_FP = 0, mt_TN = 0, mt_FN = 0, mt_Precision = 0, mt_Recall = 0\<rparr>;
          m1 = (if mt_TP m + mt_FP m > 0
                then m\<lparr>mt_Precision := real_of_int (mt_TP m) / real_of_int (mt_TP m + mt_FP m)\<rparr> else m)
      in if mt_TP m1 + mt_FN m1 > 0
         then m1\<lparr>mt_Recall := real_of_int (mt_TP m1) / real_of_int (mt_TP m1 + mt_FN m1)\<rparr> else m1)"

section \<open>Properties of the tokens\<close>

lemma fieldsFuncAux_runs:
  assumes "t \<in> set (fieldsFuncAux f cur s)" and "list_all (\<lambda>r. \<not> f r) cur"
  shows "t \<noteq> [] \<and> list_all (\<lambda>r. \<not> f r) t"
  using assms
proof (induction f cur s rule: fieldsFuncAux.induct)
  case (1 f cur)
  then show ?case by (simp add: list_all_iff split: if_splits)
next
  case (2 f cur r s)
  show ?case
  proof (cases "f r")
    case True
    then show ?thesis using 2 by (cases "cur = []") (auto simp: list_all_iff)
  next
    case False
    then show ?thesis using 2 by simp
  qed
qed

lemma concat_fieldsFuncAux: "concat (fieldsFuncAux f cur s) = rev cur @ filter (\<lambda>r. \<not> f r) s"
  by (induction f cur s rule: fieldsFuncAux.induct) auto

lemma length_bigrams: "length (bigrams us) = length us - 1"
  by (induction us rule: bigrams.induct) auto

section \<open>Properties of the score\<close>

lemma fold_add_sum: "fold (\<lambda>x a. a + f x) xs (a :: real) = a + sum_list (map f xs)"
  by (induction xs arbitrary: a) (auto simp: algebra_simps)

text \<open>A corpus in which every count is one the store can hold.\<close>

definition wfSource :: "bayes_source \<Rightarrow> bool" where
  "wfSource src \<longleftrightarrow>
     (\<forall>sc t. bs_Totals src sc = Some t \<longrightarrow>
        by_SpamDocs t \<ge> 0 \<and> by_HamDocs t \<ge> 0 \<and> by_SpamTokenTotal t \<ge> 0 \<and> by_HamTokenTotal t \<ge> 0) \<and>
     (\<forall>sc toks s h. bs_TokenCounts src sc toks = Some (s, h) \<longrightarrow>
        (\<forall>tok. countOf s tok \<ge> 0 \<and> countOf h tok \<ge> 0))"

text \<open>The odds the score is the logarithm of: one factor per token, times the
  smoothed prior odds.\<close>

definition tokenOdds :: "bayes_counts \<Rightarrow> int \<Rightarrow> (str \<rightharpoonup> int) \<Rightarrow> (str \<rightharpoonup> int) \<Rightarrow> str \<Rightarrow> real" where
  "tokenOdds t v s h tok =
     (real_of_int (countOf s tok + 1) / real_of_int (by_SpamTokenTotal t + v)) /
     (real_of_int (countOf h tok + 1) / real_of_int (by_HamTokenTotal t + v))"

definition priorOdds :: "bayes_counts \<Rightarrow> real" where
  "priorOdds t = real_of_int (by_SpamDocs t + 1) / real_of_int (by_HamDocs t + 1)"

lemma sum_list_ln:
  "(\<And>x. x \<in> set xs \<Longrightarrow> f x > 0) \<Longrightarrow> sum_list (map (\<lambda>x. ln (f x)) xs) = ln (prod_list (map f xs :: real list))"
proof (induction xs)
  case (Cons x xs)
  have "\<forall>x \<in> set xs. f x > 0" using Cons.prems by simp
  then have "prod_list (map f xs) > 0" by (induction xs) auto
  moreover have "f x \<noteq> 0" using Cons.prems [of x] by simp
  ultimately show ?case using Cons by (simp add: ln_mult)
qed simp

lemma bayesScore_odds:
  assumes "wfSource src" and "1 \<le> v" and "bs_Totals src sc = Some t" and "by_SpamDocs t + by_HamDocs t \<noteq> 0"
    and "bs_TokenCounts src sc tokens = Some (s, h)"
  shows "bayesScore src sc tokens v =
    Some (ln (priorOdds t * prod_list (map (tokenOdds t v s h) tokens)), tokens \<noteq> [])"
proof -
  have t: "by_SpamDocs t \<ge> 0" "by_HamDocs t \<ge> 0" "by_SpamTokenTotal t \<ge> 0" "by_HamTokenTotal t \<ge> 0"
    using assms by (auto simp: wfSource_def)
  have c: "countOf s tok \<ge> 0" "countOf h tok \<ge> 0" for tok using assms by (auto simp: wfSource_def)
  let ?S = "\<lambda>tok. real_of_int (countOf s tok + 1) / real_of_int (by_SpamTokenTotal t + v)"
  let ?H = "\<lambda>tok. real_of_int (countOf h tok + 1) / real_of_int (by_HamTokenTotal t + v)"
  let ?D = "real_of_int (by_SpamDocs t + by_HamDocs t + 2)"
  have pos: "?S tok > 0" "?H tok > 0" for tok
    using t c [of tok] assms(2) by (auto intro!: divide_pos_pos simp del: of_int_add)
  have odds: "tokenOdds t v s h tok > 0" for tok
    unfolding tokenOdds_def using pos [of tok] by (rule divide_pos_pos)
  have odds_ln: "ln (?S tok) - ln (?H tok) = ln (tokenOdds t v s h tok)" for tok
    unfolding tokenOdds_def using pos [of tok] ln_div [of "?S tok" "?H tok"] by (metis less_irrefl)
  have prior: "ln (real_of_int (by_SpamDocs t + 1) / ?D) - ln (real_of_int (by_HamDocs t + 1) / ?D) = ln (priorOdds t)"
    using t by (simp add: priorOdds_def ln_div)
  have prior_pos: "priorOdds t > 0" using t by (simp add: priorOdds_def)
  have "sum_list (map (\<lambda>tok. ln (?S tok)) tokens) - sum_list (map (\<lambda>tok. ln (?H tok)) tokens) =
        sum_list (map (\<lambda>tok. ln (tokenOdds t v s h tok)) tokens)"
    by (simp only: sum_list_subtractf [symmetric] odds_ln)
  also have "\<dots> = ln (prod_list (map (tokenOdds t v s h) tokens))"
    using odds by (intro sum_list_ln) auto
  finally have lik: "sum_list (map (\<lambda>tok. ln (?S tok)) tokens) - sum_list (map (\<lambda>tok. ln (?H tok)) tokens) =
        ln (prod_list (map (tokenOdds t v s h) tokens))" .
  have prod_pos: "prod_list (map (tokenOdds t v s h) tokens) > 0"
    using odds by (induction tokens) auto
  have "bayesScore src sc tokens v =
      Some ((sum_list (map (\<lambda>tok. ln (?S tok)) tokens) + ln (real_of_int (by_SpamDocs t + 1) / ?D)) -
            (sum_list (map (\<lambda>tok. ln (?H tok)) tokens) + ln (real_of_int (by_HamDocs t + 1) / ?D)), tokens \<noteq> [])"
    using assms by (simp add: bayesScore_def Let_def fold_add_sum del: of_int_add)
  then show ?thesis using lik prior prior_pos prod_pos by (simp add: ln_mult del: of_int_add)
qed

text \<open>An untrained corpus, or a message without a token, is never spam.\<close>

lemma BayesIsSpam_no_basis:
  assumes "BayesIsSpam src sc tokens v thr = Some (isSpam, ratio)"
    and "tokens = [] \<or> (\<exists>t. bs_Totals src sc = Some t \<and> by_SpamDocs t + by_HamDocs t = 0)"
  shows "\<not> isSpam"
  using assms
  by (auto simp: BayesIsSpam_def bayesScore_def Let_def split: option.splits if_splits prod.splits)

lemma tallyDoc_sum:
  "mt_TP (tallyDoc src sc v thr doc m) + mt_FP (tallyDoc src sc v thr doc m)
     + mt_TN (tallyDoc src sc v thr doc m) + mt_FN (tallyDoc src sc v thr doc m) =
   mt_TP m + mt_FP m + mt_TN m + mt_FN m
     + (if BayesIsSpam src sc (ld_Tokens doc) v thr = None then 0 else 1)"
  by (auto simp: tallyDoc_def split: option.splits)

lemma tallyDocs_sum:
  "mt_TP (fold (tallyDoc src sc v thr) docs m) + mt_FP (fold (tallyDoc src sc v thr) docs m)
     + mt_TN (fold (tallyDoc src sc v thr) docs m) + mt_FN (fold (tallyDoc src sc v thr) docs m) =
   mt_TP m + mt_FP m + mt_TN m + mt_FN m
     + int (length (filter (\<lambda>doc. BayesIsSpam src sc (ld_Tokens doc) v thr \<noteq> None) docs))"
  by (induction docs arbitrary: m) (simp_all add: tallyDoc_sum)

lemma Evaluate_tally:
  "mt_TP (Evaluate src sc docs v thr) + mt_FP (Evaluate src sc docs v thr)
     + mt_TN (Evaluate src sc docs v thr) + mt_FN (Evaluate src sc docs v thr) =
   int (length (filter (\<lambda>doc. BayesIsSpam src sc (ld_Tokens doc) v thr \<noteq> None) docs))"
  using tallyDocs_sum [of src sc v thr docs
      "\<lparr>mt_TP = 0, mt_FP = 0, mt_TN = 0, mt_FN = 0, mt_Precision = 0, mt_Recall = 0\<rparr>"]
  by (simp add: Evaluate_def Let_def)

end
