(* ===== verification/Cascade.thy ===== *)
theory Cascade
  imports Bayes
begin

text \<open>
  \<open>internal/detect/cascade.go\<close>: the decision over one message, every
  detector in order and the first hit winning, and the review-only candidate
  the caller asks for last. The sources a cascade is given are its fields;
  the sliding windows are passed in and returned.
\<close>

text \<open>\<open>AdminSource\<close>: a list, and the text of an error that may come with it.\<close>

type_synonym admin_source = "chat_id \<Rightarrow> admin_identity list \<times> str option"

record cascade =
  cs_Trust :: trust_source
  cs_Rules :: rules
  cs_Behavior :: behavior_cfg
  cs_TrustThreshold :: int
  cs_DefaultAction :: action
  cs_DefaultScope :: scope
  cs_Bayes :: bayes_source
  cs_BayesScope :: "(chat_id \<Rightarrow> string) option"
  cs_BayesThreshold :: real
  cs_BayesVocabGuess :: int
  cs_BayesEnabled :: bool
  cs_BayesBorderlineBand :: real
  cs_BayesAlwaysBorderline :: bool
  cs_Admins :: "admin_source option"
  cs_FakeAdmin :: fake_admin_cfg
  cs_Blocklist :: "(user_id \<Rightarrow> bool) option"
  cs_BlocklistEnabled :: bool
  cs_CaptionMinLen :: int
  cs_ReviewKeyboard :: bool

definition ReasonAdminLookupUnavailable :: string where
  "ReasonAdminLookupUnavailable = ''admin_lookup_unavailable''"

definition zeroVerdict :: verdict where
  "zeroVerdict = \<lparr>vd_Action = ActionOther '''', vd_Scope = ScopeUnset, vd_Confidence = 0,
     vd_Signals = [], vd_Reason = [], vd_ReviewOnly = False\<rparr>"

definition passVerdict :: "signal list \<Rightarrow> str \<Rightarrow> verdict" where
  "passVerdict sigs reason = zeroVerdict\<lparr>vd_Action := ActionNone, vd_Signals := sigs, vd_Reason := reason\<rparr>"

definition isCurrentAdmin :: "admin_identity list \<Rightarrow> user_id \<Rightarrow> bool" where
  "isCurrentAdmin admins userID =
     (if userID = 0 then False else list_ex (\<lambda>a. ad_UserID a = userID) admins)"

definition bayesScopeFor :: "cascade \<Rightarrow> chat_id \<Rightarrow> string" where
  "bayesScopeFor c chatID = (case cs_BayesScope c of None \<Rightarrow> ''global'' | Some f \<Rightarrow> f chatID)"

definition actionable :: "cascade \<Rightarrow> signal \<Rightarrow> verdict" where
  "actionable c sig = \<lparr>vd_Action = cs_DefaultAction c, vd_Scope = cs_DefaultScope c, vd_Confidence = 1,
     vd_Signals = [sig], vd_Reason = lit (sg_Name sig), vd_ReviewOnly = False\<rparr>"

definition reviewVerdict :: "cascade \<Rightarrow> signal \<Rightarrow> verdict" where
  "reviewVerdict c sig = \<lparr>vd_Action = ActionQuarantine, vd_Scope = cs_DefaultScope c, vd_Confidence = 0,
     vd_Signals = [sig], vd_Reason = lit (sg_Name sig), vd_ReviewOnly = True\<rparr>"

section \<open>The stages of \<open>Decide\<close>\<close>

definition bayesDetail :: "golib \<Rightarrow> real \<Rightarrow> real \<Rightarrow> str" where
  "bayesDetail U ratio thr = lit ''ratio='' @ lib_fmt2 U ratio @ lit '' threshold='' @ lib_fmt2 U thr"

text \<open>The Bayes stage: \<open>None\<close> falls through to the end of the function.\<close>

definition bayesStage :: "golib \<Rightarrow> cascade \<Rightarrow> chat_id \<Rightarrow> normalized_message \<Rightarrow> (verdict \<times> bool) option" where
  "bayesStage U c chatID n =
     (case bayesScore (cs_Bayes c) (bayesScopeFor c chatID) (Tokenize U n) (cs_BayesVocabGuess c) of
        None \<Rightarrow> Some (passVerdict [] [], False)
      | Some (ratio, scoreable) \<Rightarrow>
          if scoreable then
            (let detail = bayesDetail U ratio (cs_BayesThreshold c) in
             if ratio \<ge> cs_BayesThreshold c then Some (actionable c (mkSignal ''bayes'' detail), True)
             else if cs_BayesAlwaysBorderline c \<or>
                (cs_BayesBorderlineBand c > 0 \<and> cs_BayesThreshold c - ratio \<le> cs_BayesBorderlineBand c)
               then Some (passVerdict [mkSignal ''bayes_borderline'' detail] [], False)
             else Some (passVerdict [mkSignal ''bayes_pass'' detail] [], False))
          else if cs_BayesBorderlineBand c > 0 \<and> TrimSpace (nm_Text n) \<noteq> []
            then Some (passVerdict [mkSignal ''bayes_borderline'' []] [], False)
          else None)"

text \<open>The detectors behind the admin gate.\<close>

definition detectors ::
  "golib \<Rightarrow> int \<Rightarrow> int \<Rightarrow> cascade \<Rightarrow> 'a envelope_scheme \<Rightarrow> bool \<Rightarrow> normalized_message \<Rightarrow> admin_identity list \<Rightarrow> mem_history
     \<Rightarrow> verdict \<times> bool \<times> mem_history" where
  "detectors U t1 t2 c m edited n admins h =
     (let chatID = msg_ChatID m; userID = sn_UserID (msg_Sender m);
          trusted = IsTrusted (cs_Trust c) chatID userID (cs_TrustThreshold c)
      in if cs_BlocklistEnabled c \<and> (case cs_Blocklist c of None \<Rightarrow> False | Some listed \<Rightarrow> listed userID)
           then (actionable c (mkSignal ''blocklist'' []), True, h)
         else (case RulesCheck U (cs_Rules c) n trusted of
           Some sig \<Rightarrow> (actionable c sig, True, h)
         | None \<Rightarrow>
             (case (if fc_Enabled (cs_FakeAdmin c) \<and> \<not> trusted
                    then (case ClassifyFakeAdmin U m admins (cs_FakeAdmin c) of
                            (sig, strength) \<Rightarrow> if strength = FakeAdminStrong then sig else None)
                    else None) of
                Some sig \<Rightarrow> (actionable c sig, True, h)
              | None \<Rightarrow>
                  (case CheckBehavior U t1 t2 h chatID userID n edited trusted (cs_Behavior c) of
                     (Some sig, h') \<Rightarrow> (actionable c sig, True, h')
                   | (None, h') \<Rightarrow>
                       (case (if cs_BayesEnabled c \<and> \<not> trusted then bayesStage U c chatID n else None) of
                          Some (v, hit) \<Rightarrow> (v, hit, h')
                        | None \<Rightarrow> (passVerdict [] [], False, h'))))))"

definition Decide ::
  "golib \<Rightarrow> int \<Rightarrow> int \<Rightarrow> cascade \<Rightarrow> 'a envelope_scheme \<Rightarrow> bool \<Rightarrow> mem_history \<Rightarrow> verdict \<times> bool \<times> mem_history" where
  "Decide U t1 t2 c m edited h =
     (let n = NormalizeMessage U m; userID = sn_UserID (msg_Sender m) in
      case (case cs_Admins c of None \<Rightarrow> ([], None) | Some src \<Rightarrow> src (msg_ChatID m)) of
        (admins, Some err) \<Rightarrow>
          if isCurrentAdmin admins userID then (passVerdict [] [], False, h)
          else
            (passVerdict [mkSignal ReasonAdminLookupUnavailable err] (lit ReasonAdminLookupUnavailable), False,
             the (ObserveBehavior U t1 t2 (Some h) (msg_ChatID m) userID n (cs_Behavior c)))
      | (admins, None) \<Rightarrow>
          if isCurrentAdmin admins userID then (passVerdict [] [], False, h)
          else detectors U t1 t2 c m edited n admins h)"

section \<open>The review candidate\<close>

definition reviewSignal :: "cascade \<Rightarrow> normalized_message \<Rightarrow> signal option" where
  "reviewSignal c n =
     (if length (nm_MediaKinds n) > 0 \<and> int (nm_RawLen n) < cs_CaptionMinLen c
      then Some (mkSignal ''captionless_media''
             (lit (''kinds='' @ Join '','' (nm_MediaKinds n) @ '' len='' @ FormatInt (int (nm_RawLen n)))))
      else if cs_ReviewKeyboard c \<and> nm_HasKeyboard n \<and> \<not> nm_ViaBot n then Some (mkSignal ''bot_keyboard'' [])
      else None)"

definition ReviewCandidate :: "golib \<Rightarrow> cascade \<Rightarrow> 'a envelope_scheme \<Rightarrow> verdict \<times> bool" where
  "ReviewCandidate U c m =
     (if cs_CaptionMinLen c \<le> 0 \<and> \<not> cs_ReviewKeyboard c \<and> \<not> fc_Enabled (cs_FakeAdmin c) then (zeroVerdict, False)
      else
        (let n = NormalizeMessage U m; userID = sn_UserID (msg_Sender m);
             signals = (case reviewSignal c n of None \<Rightarrow> [] | Some sig \<Rightarrow> [sig]);
             decide = (\<lambda>signals. if signals = [] then (zeroVerdict, False)
                                 else ((reviewVerdict c (hd signals))\<lparr>vd_Signals := signals\<rparr>, True))
         in if IsTrusted (cs_Trust c) (msg_ChatID m) userID (cs_TrustThreshold c) then (zeroVerdict, False)
            else (case cs_Admins c of
                    None \<Rightarrow> decide signals
                  | Some src \<Rightarrow>
                      (case src (msg_ChatID m) of
                         (admins, err) \<Rightarrow>
                           if err \<noteq> None \<or> isCurrentAdmin admins userID then (zeroVerdict, False)
                           else (case ClassifyFakeAdmin U m admins (cs_FakeAdmin c) of
                                   (sig, strength) \<Rightarrow>
                                     decide (if strength = FakeAdminNameOnly
                                             then signals @ (case sig of None \<Rightarrow> [] | Some s \<Rightarrow> [s])
                                             else signals))))))"

section \<open>What \<open>Decide\<close> guarantees\<close>

lemma passVerdict_simps [simp]:
  "vd_Action (passVerdict sigs r) = ActionNone" "vd_Signals (passVerdict sigs r) = sigs"
  "vd_Reason (passVerdict sigs r) = r" "vd_ReviewOnly (passVerdict sigs r) = False"
  "vd_Confidence (passVerdict sigs r) = 0"
  by (simp_all add: passVerdict_def zeroVerdict_def)

lemma actionable_simps [simp]:
  "vd_Action (actionable c sig) = cs_DefaultAction c" "vd_Signals (actionable c sig) = [sig]"
  "vd_Reason (actionable c sig) = lit (sg_Name sig)" "vd_ReviewOnly (actionable c sig) = False"
  "vd_Scope (actionable c sig) = cs_DefaultScope c" "vd_Confidence (actionable c sig) = 1"
  by (simp_all add: actionable_def)

lemma zeroVerdict_simps [simp]:
  "vd_ReviewOnly zeroVerdict = False" "vd_Signals zeroVerdict = []" "vd_Action zeroVerdict = ActionOther ''''"
  by (simp_all add: zeroVerdict_def)

definition adminsFor :: "cascade \<Rightarrow> chat_id \<Rightarrow> admin_identity list \<times> str option" where
  "adminsFor c chatID = (case cs_Admins c of None \<Rightarrow> ([], None) | Some src \<Rightarrow> src chatID)"

text \<open>A sender on the administrators' list, fresh or stale, is never moderated
  and never observed.\<close>

lemma Decide_admin_immune:
  assumes "isCurrentAdmin (fst (adminsFor c (msg_ChatID m))) (sn_UserID (msg_Sender m))"
  shows "Decide U t1 t2 c m edited h = (passVerdict [] [], False, h)"
  using assms by (auto simp: Decide_def adminsFor_def Let_def split: option.splits prod.splits)

lemma Decide_deferred:
  assumes "adminsFor c (msg_ChatID m) = (admins, Some err)"
    and "\<not> isCurrentAdmin admins (sn_UserID (msg_Sender m))"
  shows "Decide U t1 t2 c m edited h =
    (passVerdict [mkSignal ReasonAdminLookupUnavailable err] (lit ReasonAdminLookupUnavailable), False,
     the (ObserveBehavior U t1 t2 (Some h) (msg_ChatID m) (sn_UserID (msg_Sender m))
            (NormalizeMessage U m) (cs_Behavior c)))"
  using assms by (auto simp: Decide_def adminsFor_def Let_def split: option.splits prod.splits)

lemma Decide_detectors:
  assumes "adminsFor c (msg_ChatID m) = (admins, None)"
    and "\<not> isCurrentAdmin admins (sn_UserID (msg_Sender m))"
  shows "Decide U t1 t2 c m edited h =
    detectors U t1 t2 c m edited (NormalizeMessage U m) admins h"
  using assms by (auto simp: Decide_def adminsFor_def Let_def split: option.splits prod.splits)

lemma bayesStage_verdict:
  assumes "bayesStage U c chatID n = Some (v, hit)"
  shows "if hit then (\<exists>sig. v = actionable c sig) else vd_Action v = ActionNone \<and> \<not> vd_ReviewOnly v"
  using assms
  by (auto simp: bayesStage_def Let_def split: option.splits prod.splits if_splits)

lemma detectors_verdict:
  assumes "detectors U t1 t2 c m edited n admins h = (v, hit, h')"
  shows "if hit then (\<exists>sig. v = actionable c sig) else vd_Action v = ActionNone \<and> \<not> vd_ReviewOnly v"
  using assms
  by (auto simp: detectors_def Let_def dest: bayesStage_verdict split: option.splits prod.splits if_splits)

lemma Decide_verdict:
  assumes "Decide U t1 t2 c m edited h = (v, hit, h')"
  shows "if hit then (\<exists>sig. v = actionable c sig) else vd_Action v = ActionNone \<and> \<not> vd_ReviewOnly v"
proof -
  obtain admins err where a: "adminsFor c (msg_ChatID m) = (admins, err)" by (cases "adminsFor c (msg_ChatID m)")
  show ?thesis
  proof (cases "isCurrentAdmin admins (sn_UserID (msg_Sender m))")
    case True
    then show ?thesis using assms a Decide_admin_immune [of c m U t1 t2 edited h] by auto
  next
    case False
    show ?thesis
    proof (cases err)
      case None
      then show ?thesis using assms a False Decide_detectors [of c m admins U t1 t2 edited h] detectors_verdict by fastforce
    next
      case (Some e)
      then show ?thesis using assms a False Decide_deferred [of c m admins e U t1 t2 edited h] by auto
    qed
  qed
qed

lemma Decide_blocklisted:
  assumes "adminsFor c (msg_ChatID m) = (admins, None)"
    and "\<not> isCurrentAdmin admins (sn_UserID (msg_Sender m))"
    and "cs_BlocklistEnabled c" and "cs_Blocklist c = Some listed" and "listed (sn_UserID (msg_Sender m))"
  shows "Decide U t1 t2 c m edited h = (actionable c (mkSignal ''blocklist'' []), True, h)"
  using assms by (simp add: Decide_detectors detectors_def Let_def)

text \<open>A trusted sender skips exactly the semantic stages: what can still hit is
  the blocklist, a hard rule, an edit or a repeated text.\<close>

lemma Decide_trusted_hit:
  assumes hit: "Decide U t1 t2 c m edited h = (v, True, h')"
    and trusted: "IsTrusted (cs_Trust c) (msg_ChatID m) (sn_UserID (msg_Sender m)) (cs_TrustThreshold c)"
  shows "(\<exists>listed. cs_BlocklistEnabled c \<and> cs_Blocklist c = Some listed \<and> listed (sn_UserID (msg_Sender m)))
    \<or> (\<exists>sig. RulesCheck U (cs_Rules c) (NormalizeMessage U m) True = Some sig \<and> v = actionable c sig)
    \<or> (\<exists>sig. fst (CheckBehavior U t1 t2 h (msg_ChatID m) (sn_UserID (msg_Sender m)) (NormalizeMessage U m)
               edited True (cs_Behavior c)) = Some sig \<and> v = actionable c sig)"
proof -
  obtain admins err where a: "adminsFor c (msg_ChatID m) = (admins, err)" by (cases "adminsFor c (msg_ChatID m)")
  have na: "\<not> isCurrentAdmin admins (sn_UserID (msg_Sender m))"
    using hit a Decide_admin_immune [of c m U t1 t2 edited h] by auto
  have e: "err = None" using hit a na Decide_deferred [of c m admins _ U t1 t2 edited h] by (cases err) auto
  have "detectors U t1 t2 c m edited (NormalizeMessage U m) admins h = (v, True, h')"
    using hit Decide_detectors [of c m admins U t1 t2 edited h] a na e by simp
  then show ?thesis using trusted
    by (auto simp: detectors_def Let_def split: option.splits prod.splits if_splits)
qed

lemma ReviewCandidate_verdict:
  assumes "ReviewCandidate U c m = (v, True)"
  shows "vd_Action v = ActionQuarantine \<and> vd_ReviewOnly v \<and> vd_Confidence v = 0 \<and> vd_Signals v \<noteq> []
     \<and> \<not> IsTrusted (cs_Trust c) (msg_ChatID m) (sn_UserID (msg_Sender m)) (cs_TrustThreshold c)
     \<and> snd (adminsFor c (msg_ChatID m)) = None
     \<and> \<not> isCurrentAdmin (fst (adminsFor c (msg_ChatID m))) (sn_UserID (msg_Sender m))"
proof -
  have none: "\<not> isCurrentAdmin [] u" for u by (simp add: isCurrentAdmin_def)
  show ?thesis
  proof (cases "cs_Admins c")
    case None
    then show ?thesis using assms none
      by (auto simp: ReviewCandidate_def adminsFor_def Let_def reviewVerdict_def split: if_splits option.splits)
  next
    case (Some src)
    then show ?thesis using assms
      by (auto simp: ReviewCandidate_def adminsFor_def Let_def reviewVerdict_def
          split: if_splits option.splits prod.splits)
  qed
qed

end
