(* ===== verification/DetectProps.thy ===== *)
theory DetectProps
  imports Cascade
begin

text \<open>
  The properties of the detection pipeline, each with a concrete input at
  which its hypotheses hold. The witnesses run on a small instance of the
  library data (ASCII and the Cyrillic block, no URL parsed) and on a cascade
  with one administrator.
\<close>

section \<open>Concrete inputs\<close>

definition demoLib :: golib where
  "demoLib = \<lparr>u_nfkc = (\<lambda>s. s),
     u_lower = (\<lambda>r. if (65 \<le> r \<and> r \<le> 90) \<or> (0x410 \<le> r \<and> r \<le> 0x42F) then r + 32 else r),
     u_fold = (\<lambda>r. if (97 \<le> r \<and> r \<le> 122) \<or> (0x430 \<le> r \<and> r \<le> 0x44F) then r - 32 else r),
     u_letter = (\<lambda>r. (65 \<le> r \<and> r \<le> 90) \<or> (97 \<le> r \<and> r \<le> 122) \<or> (0x410 \<le> r \<and> r \<le> 0x44F)),
     u_number = (\<lambda>r. 48 \<le> r \<and> r \<le> 57),
     lib_sha256hex = (\<lambda>s. s), lib_fmt2 = (\<lambda>x. []), lib_parseURL = (\<lambda>s. None)\<rparr>"

definition demoRules :: rules where
  "demoRules = \<lparr>ru_DenyStopwords = [lit ''casino''], ru_AllowStopwords = [], ru_DenyExact = [],
     ru_BlockLinksForUntrusted = False, ru_AllowGoogleMapsLinks = False, ru_BannedDomains = [],
     ru_BannedDocumentExtensions = [], ru_BannedDocumentMIMETypes = [],
     ru_MaxLinks = 0, ru_MaxMentions = 0, ru_MaxEmoji = 0\<rparr>"

definition demoBehavior :: behavior_cfg where
  "demoBehavior = \<lparr>bc_DupThreshold = 2, bc_DupWindow = 60, bc_ShortLen = 0, bc_ShortFloodThreshold = 0,
     bc_ShortWindow = 60, bc_FlagEdits = False\<rparr>"

definition demoFakeAdmin :: fake_admin_cfg where
  "demoFakeAdmin = \<lparr>fc_Enabled = True, fc_SuspiciousTags = [], fc_MaxDistance = 1,
     fc_NameMatchSanction = False, fc_MinFuzzyLen = 5\<rparr>"

definition demoAdmin :: admin_identity where
  "demoAdmin = \<lparr>ad_UserID = 7, ad_Username = lit ''chief'', ad_DisplayName = lit ''Chief'', ad_CustomTitle = []\<rparr>"

definition demoBayes :: bayes_source where
  "demoBayes = \<lparr>bs_Totals = (\<lambda>sc. Some \<lparr>by_SpamDocs = 1, by_HamDocs = 1, by_SpamTokenTotal = 1, by_HamTokenTotal = 1\<rparr>),
     bs_TokenCounts = (\<lambda>sc toks. Some (Map.empty, Map.empty))\<rparr>"

definition demoCascade :: "(chat_id \<Rightarrow> admin_identity list \<times> str option) \<Rightarrow> int \<Rightarrow> cascade" where
  "demoCascade src count = \<lparr>cs_Trust = (\<lambda>c u. Some count), cs_Rules = demoRules, cs_Behavior = demoBehavior,
     cs_TrustThreshold = 5, cs_DefaultAction = ActionDeleteMute, cs_DefaultScope = ScopeChat,
     cs_Bayes = demoBayes, cs_BayesScope = None, cs_BayesThreshold = 3, cs_BayesVocabGuess = 100,
     cs_BayesEnabled = False, cs_BayesBorderlineBand = 0, cs_BayesAlwaysBorderline = False,
     cs_Admins = Some src, cs_FakeAdmin = demoFakeAdmin, cs_Blocklist = Some (\<lambda>u. u = 9),
     cs_BlocklistEnabled = True, cs_CaptionMinLen = 10, cs_ReviewKeyboard = False\<rparr>"

definition demoMessage :: "user_id \<Rightarrow> string \<Rightarrow> string list \<Rightarrow> message" where
  "demoMessage u t kinds = \<lparr>msg_ChatID = -100, msg_MessageID = 1, msg_ThreadID = 0, msg_MediaGroupID = [],
     msg_Sender = \<lparr>sn_Kind = SenderUser, sn_UserID = u, sn_SenderChatID = 0, sn_Username = [],
                   sn_DisplayName = lit ''someone''\<rparr>,
     msg_Text = lit t, msg_Date = 0, msg_IsAutomaticForward = False, msg_LinkedChatID = 0, msg_Entities = [],
     msg_SenderTag = [], msg_ExternalReplyText = [], msg_ExternalReplyMediaKinds = [],
     msg_ExternalReplyDocumentExtensions = [], msg_ExternalReplyDocumentMIMETypes = [],
     msg_StructuredTexts = [], msg_EditDate = 0, msg_MediaKinds = kinds, msg_DocumentExtensions = [],
     msg_DocumentMIMETypes = [], msg_Forwarded = False, msg_ForwardedFromChat = False,
     msg_HasKeyboard = False, msg_ViaBot = False, msg_ServiceKind = [], msg_ReplyTo = None\<rparr>"

lemmas demo_defs = demoLib_def demoRules_def demoBehavior_def demoFakeAdmin_def demoAdmin_def
  demoBayes_def demoCascade_def demoMessage_def

section \<open>The administrators' gate\<close>

text \<open>C1. A sender on the list of administrators, even a stale list that came
  with an error, is never moderated, whatever the rest of the cascade and the
  message are, and leaves the behavioural windows as they were.\<close>

theorem admins_are_immune:
  assumes "isCurrentAdmin (fst (adminsFor c (msg_ChatID m))) (sn_UserID (msg_Sender m))"
  shows "Decide U t1 t2 c m edited h = (passVerdict [] [], False, h) \<and>
         ReviewCandidate U c m = (zeroVerdict, False)"
proof (rule conjI)
  show "Decide U t1 t2 c m edited h = (passVerdict [] [], False, h)"
    by (rule Decide_admin_immune) (rule assms)
  have "\<not> snd (ReviewCandidate U c m)"
    using ReviewCandidate_verdict [of U c m "fst (ReviewCandidate U c m)"] assms
    by (cases "ReviewCandidate U c m") auto
  then show "ReviewCandidate U c m = (zeroVerdict, False)"
    by (auto simp: ReviewCandidate_def Let_def split: option.splits prod.splits if_splits)
qed

lemma admins_are_immune_witness:
  "Decide demoLib 0 0 (demoCascade (\<lambda>c. ([demoAdmin], Some [1])) 0) (demoMessage 7 ''casino'' []) False NewMemHistory
     = (passVerdict [] [], False, NewMemHistory) \<and>
   ReviewCandidate demoLib (demoCascade (\<lambda>c. ([demoAdmin], Some [1])) 0) (demoMessage 7 ''casino'' [])
     = (zeroVerdict, False)"
  by (rule admins_are_immune) (simp add: demo_defs adminsFor_def isCurrentAdmin_def)

text \<open>When the administrators cannot be listed and the sender is not on the
  stale list, no detector judges the message: the verdict takes no action and
  names the reason, and the windows are updated exactly as observing does.\<close>

theorem unknown_admins_defer:
  assumes "adminsFor c (msg_ChatID m) = (admins, Some err)"
    and "\<not> isCurrentAdmin admins (sn_UserID (msg_Sender m))"
  shows "case Decide U t1 t2 c m edited h of (v, hit, h') \<Rightarrow>
    \<not> hit \<and> \<not> IsActionable v \<and> vd_Reason v = lit ReasonAdminLookupUnavailable \<and>
    Some h' = ObserveBehavior U t1 t2 (Some h) (msg_ChatID m) (sn_UserID (msg_Sender m))
                (NormalizeMessage U m) (cs_Behavior c)"
  using Decide_deferred [OF assms, of U t1 t2 edited h] by (simp add: ObserveBehavior_def Let_def)

lemma unknown_admins_defer_witness:
  "case Decide demoLib 0 0 (demoCascade (\<lambda>c. ([demoAdmin], Some [1])) 0) (demoMessage 9 ''casino'' []) False NewMemHistory of
     (v, hit, h') \<Rightarrow> \<not> hit \<and> \<not> IsActionable v \<and> vd_Reason v = lit ReasonAdminLookupUnavailable \<and>
       Some h' = ObserveBehavior demoLib 0 0 (Some NewMemHistory) (msg_ChatID (demoMessage 9 ''casino'' []))
          (sn_UserID (msg_Sender (demoMessage 9 ''casino'' []))) (NormalizeMessage demoLib (demoMessage 9 ''casino'' []))
          (cs_Behavior (demoCascade (\<lambda>c. ([demoAdmin], Some [1])) 0))"
  by (rule unknown_admins_defer [where admins = "[demoAdmin]" and err = "[1]"])
     (simp_all add: demo_defs adminsFor_def isCurrentAdmin_def)

section \<open>The order of the detectors\<close>

text \<open>The blocklist is authoritative: a listed sender who is not an
  administrator is acted on whatever the message is and however trusted the
  sender has become.\<close>

theorem blocklist_beats_trust:
  assumes "adminsFor c (msg_ChatID m) = (admins, None)"
    and "\<not> isCurrentAdmin admins (sn_UserID (msg_Sender m))"
    and "cs_BlocklistEnabled c" and "cs_Blocklist c = Some listed" and "listed (sn_UserID (msg_Sender m))"
  shows "Decide U t1 t2 c m edited h = (actionable c (mkSignal ''blocklist'' []), True, h)"
  by (rule Decide_blocklisted [OF assms])

lemma blocklist_beats_trust_witness:
  "Decide demoLib 0 0 (demoCascade (\<lambda>c. ([demoAdmin], None)) 100) (demoMessage 9 ''hello'' []) False NewMemHistory
     = (actionable (demoCascade (\<lambda>c. ([demoAdmin], None)) 100) (mkSignal ''blocklist'' []), True, NewMemHistory)"
  by (rule blocklist_beats_trust [where admins = "[demoAdmin]" and listed = "\<lambda>u. u = 9"])
     (simp_all add: demo_defs adminsFor_def isCurrentAdmin_def)

text \<open>What can still hit a sender who cleared the trust threshold: the
  blocklist, a hard rule, or an edit or repeated text. Impersonation, the
  short-message flood and Bayes never act on one.\<close>

theorem trusted_senders_skip_semantic_stages:
  assumes "Decide U t1 t2 c m edited h = (v, True, h')"
    and "IsTrusted (cs_Trust c) (msg_ChatID m) (sn_UserID (msg_Sender m)) (cs_TrustThreshold c)"
  shows "(\<exists>listed. cs_BlocklistEnabled c \<and> cs_Blocklist c = Some listed \<and> listed (sn_UserID (msg_Sender m)))
    \<or> (\<exists>sig. RulesCheck U (cs_Rules c) (NormalizeMessage U m) True = Some sig \<and> v = actionable c sig)
    \<or> (\<exists>sig. fst (CheckBehavior U t1 t2 h (msg_ChatID m) (sn_UserID (msg_Sender m)) (NormalizeMessage U m)
               edited True (cs_Behavior c)) = Some sig \<and> v = actionable c sig \<and> sg_Name sig \<noteq> ''short_flood'')"
  using Decide_trusted_hit [OF assms] CheckBehavior_short_hit by blast

definition demoTrusted :: cascade where
  "demoTrusted = demoCascade (\<lambda>c. ([demoAdmin], None)) 100"

lemma demoTrusted_rules:
  "RulesCheck demoLib demoRules (NormalizeMessage demoLib (demoMessage 1 ''casino'' [])) True \<noteq> None"
  by code_simp

lemma demoTrusted_hit:
  "fst (snd (Decide demoLib 0 0 demoTrusted (demoMessage 1 ''casino'' []) False NewMemHistory))"
proof -
  have adm: "adminsFor demoTrusted (msg_ChatID (demoMessage 1 ''casino'' [])) = ([demoAdmin], None)"
    by (simp add: demoTrusted_def demoCascade_def adminsFor_def)
  have na: "\<not> isCurrentAdmin [demoAdmin] (sn_UserID (msg_Sender (demoMessage 1 ''casino'' [])))"
    by (simp add: demo_defs isCurrentAdmin_def)
  have "cs_Rules demoTrusted = demoRules \<and> IsTrusted (cs_Trust demoTrusted) c u (cs_TrustThreshold demoTrusted)" for c u
    by (simp add: demoTrusted_def demoCascade_def IsTrusted_def)
  then show ?thesis using demoTrusted_rules
    by (auto simp: Decide_detectors [OF adm na] detectors_def Let_def)
qed

lemma trusted_senders_skip_semantic_stages_witness:
  "\<exists>v h'. Decide demoLib 0 0 demoTrusted (demoMessage 1 ''casino'' []) False NewMemHistory = (v, True, h') \<and>
     ((\<exists>sig. RulesCheck demoLib (cs_Rules demoTrusted) (NormalizeMessage demoLib (demoMessage 1 ''casino'' [])) True
        = Some sig \<and> v = actionable demoTrusted sig) \<or>
      (\<exists>sig. v = actionable demoTrusted sig \<and> sg_Name sig \<noteq> ''short_flood''))"
proof -
  obtain v h' where run: "Decide demoLib 0 0 demoTrusted (demoMessage 1 ''casino'' []) False NewMemHistory = (v, True, h')"
    using demoTrusted_hit by (metis prod.collapse)
  have "IsTrusted (cs_Trust demoTrusted) (msg_ChatID (demoMessage 1 ''casino'' []))
      (sn_UserID (msg_Sender (demoMessage 1 ''casino'' []))) (cs_TrustThreshold demoTrusted)"
    by (simp add: demo_defs demoTrusted_def IsTrusted_def)
  from trusted_senders_skip_semantic_stages [OF run this] show ?thesis
    using run by (fastforce simp: demoTrusted_def demoCascade_def demoMessage_def)
qed

section \<open>The review candidate\<close>

text \<open>A review candidate never carries a sanction: it is a quarantine that
  only a human may act on, with no confidence of its own and at least one
  signal, for a sender who is neither trusted nor, as far as a list without an
  error says, an administrator.\<close>

theorem review_candidates_only_review:
  assumes "ReviewCandidate U c m = (v, True)"
  shows "vd_Action v = ActionQuarantine \<and> vd_ReviewOnly v \<and> vd_Confidence v = 0 \<and> vd_Signals v \<noteq> []
     \<and> \<not> IsTrusted (cs_Trust c) (msg_ChatID m) (sn_UserID (msg_Sender m)) (cs_TrustThreshold c)
     \<and> snd (adminsFor c (msg_ChatID m)) = None
     \<and> \<not> isCurrentAdmin (fst (adminsFor c (msg_ChatID m))) (sn_UserID (msg_Sender m))"
  by (rule ReviewCandidate_verdict [OF assms])

definition demoNewcomer :: cascade where
  "demoNewcomer = demoCascade (\<lambda>c. ([demoAdmin], None)) 0"

lemma demoNewcomer_review:
  "snd (ReviewCandidate demoLib demoNewcomer (demoMessage 1 [] [''photo'']))"
  by code_simp

lemma review_candidates_only_review_witness:
  "\<exists>v. ReviewCandidate demoLib demoNewcomer (demoMessage 1 [] [''photo'']) = (v, True) \<and>
     vd_Action v = ActionQuarantine \<and> vd_ReviewOnly v"
proof -
  obtain v where "ReviewCandidate demoLib demoNewcomer (demoMessage 1 [] [''photo'']) = (v, True)"
    using demoNewcomer_review by (metis prod.collapse)
  then show ?thesis using review_candidates_only_review by blast
qed

section \<open>Impersonation\<close>

text \<open>The strength of an impersonation, by what is borrowed: a username or a
  custom title of any administrator, or a suspicious tag, is strong; a display
  name alone is left for review unless the configuration sanctions it.\<close>

theorem impersonation_strength:
  "snd (ClassifyFakeAdmin U m admins cfg) =
     (if \<not> fc_Enabled cfg then FakeAdminNoMatch
      else if (\<exists>admin \<in> set admins. strongMatch U cfg m admin) \<or> wearsSuspiciousTag U cfg m
        then FakeAdminStrong
      else if \<exists>admin \<in> set admins. borrowsField U cfg m admin FieldDisplayName
        then (if fc_NameMatchSanction cfg then FakeAdminStrong else FakeAdminNameOnly)
      else FakeAdminNoMatch)"
  by (rule ClassifyFakeAdmin_strength)

text \<open>C5. Two names match exactly when neither is empty and they are equal or,
  both being long enough for a fuzzy match, one becomes the other by at most
  the configured number of insertions, deletions and replacements; the two-row
  table with its early exit decides that.\<close>

theorem name_match_is_edit_distance:
  "nameMatch cfg a b \<longleftrightarrow> a \<noteq> [] \<and> b \<noteq> [] \<and>
     (a = b \<or> (0 < fc_MaxDistance cfg \<and> fc_MinFuzzyLen cfg \<le> int (length a) \<and>
        fc_MinFuzzyLen cfg \<le> int (length b) \<and>
        (\<exists>n. int n \<le> fc_MaxDistance cfg \<and> align n a b)))"
proof -
  have "int (ed a b) \<le> k \<longleftrightarrow> (\<exists>n. int n \<le> k \<and> align n a b)" for k
    using align_ed [of a b] ed_le_align [of _ a b] by (meson of_nat_le_iff order_trans)
  then show ?thesis by (simp add: nameMatch_edits)
qed

text \<open>Every detail the impersonation detector writes is inside the grammar
  that the outcome log admits, for every 64-bit administrator id; no name of a
  person can be part of one.\<close>

theorem fake_admin_details_are_loggable:
  assumes "senderField \<noteq> FieldCustomTitle" and "inInt64 adminID"
  shows "IsFakeAdminDetail (FakeAdminMatchDetail senderField adminField adminID ex)"
  using FakeAdminMatchDetail_safe [OF _ assms(2)] assms(1) by (cases senderField) auto

lemma fake_admin_details_are_loggable_witness:
  "IsFakeAdminDetail (FakeAdminMatchDetail FieldUsername FieldCustomTitle (-42) True)"
  by (rule fake_admin_details_are_loggable) (simp_all add: inInt64_def)

section \<open>Behaviour over time\<close>

text \<open>The duplicate counter is exact: after any history of messages and
  sweeps in the order of time, with one window per counter and a sweeper that
  keeps events at least that long, it returns one more than the number of
  earlier messages of that member with that text inside the window.\<close>

theorem duplicate_counts_are_exact:
  assumes "sorted (map opTime evs)" and "wd \<le> wa" "ws \<le> wa"
    and "\<And>e. e \<in> set evs \<Longrightarrow> opTime e \<le> now"
  shows "fst (RecordAndCountDup (histRun wd ws wa evs) now c u x wd) =
    1 + length (filter (\<lambda>e. de_hash e = x \<and> now - de_ts e \<le> wd) (dupLog (c, u) evs))"
  by (rule dup_count_exact [OF assms])

lemma duplicate_counts_are_exact_witness:
  "fst (RecordAndCountDup (histRun 10 10 10 [OpDup 0 1 1 [65], OpDup 5 1 1 [65], OpSweep 12, OpDup 13 1 2 [65]])
          14 1 1 [65] 10) = 2"
  by (subst duplicate_counts_are_exact) auto

text \<open>The short-message counter is exact in the same sense.\<close>

theorem short_counts_are_exact:
  assumes "sorted (map opTime evs)" and "wd \<le> wa" "ws \<le> wa"
    and "\<And>e. e \<in> set evs \<Longrightarrow> opTime e \<le> now"
  shows "fst (RecentShortCount (histRun wd ws wa evs) now c u ws) =
    1 + length (filter (\<lambda>e. now - se_ts e \<le> ws) (shortLog (c, u) evs))"
  by (rule short_count_exact [OF assms])

lemma short_counts_are_exact_witness:
  "fst (RecentShortCount (histRun 10 10 10 [OpShort 0 1 1, OpShort 5 1 1, OpSweep 12]) 14 1 1 10) = 2"
  by (subst short_counts_are_exact) auto

section \<open>Text\<close>

text \<open>Deobfuscated text holds no zero-width rune and no rune the confusables
  table folds, so a stopword is compared in one alphabet.\<close>

theorem deobfuscated_text_is_clean:
  "list_all (\<lambda>r. \<not> isZeroWidth r \<and> Confusable r = None) (Deobfuscate U s)"
  using Deobfuscate_clean by (auto simp: list_all_iff)

text \<open>A span of a Telegram entity is found exactly when its offset and length,
  in UTF-16 units, begin and end at rune boundaries of the text: never a span
  outside the text, never half of a surrogate pair.\<close>

theorem entity_spans_are_utf16:
  "entityBounds s off len = Some (a, b) \<longleftrightarrow>
     0 \<le> off \<and> 0 < len \<and> a < b \<and> b \<le> length s \<and>
     utf16Len (take a s) = off \<and> utf16Len (substr s (a, b)) = len"
  by (rule entityBounds_Some_iff)

text \<open>C6. The links of a text are counted by groups of overlapping spans: an
  occurrence is a start that every earlier-starting span has ended before,
  whatever order spans with one start were sorted into; and the count's own
  table of UTF-16 boundaries finds the span the link collector finds.\<close>

theorem link_occurrences_are_clusters:
  "countLinkOccurrences t es = card {a. opensOccurrence (set (linkSpans t es)) a} \<and>
   (isLinkEntity e \<longrightarrow>
      entityLinkSpan (boundariesFrom 0 t) e =
        (case entityBounds t (en_Offset e) (en_Length e) of None \<Rightarrow> [] | Some ab \<Rightarrow> [ab]))"
  using countLinkOccurrences_clusters entityLinkSpan_entityBounds by blast

definition demoLinkEntity :: entity where
  "demoLinkEntity = \<lparr>en_Type = ''url'', en_URL = [], en_Offset = 2, en_Length = 3\<rparr>"

lemma link_occurrences_are_clusters_witness:
  "entityLinkSpan (boundariesFrom 0 [0x1F600, 97, 98, 99]) demoLinkEntity = [(1, 4)]"
proof -
  have e: "isLinkEntity demoLinkEntity" by (simp add: isLinkEntity_def demoLinkEntity_def)
  have "entityBounds [0x1F600, 97, 98, 99] (en_Offset demoLinkEntity) (en_Length demoLinkEntity) = Some (1, 4)"
    by (simp add: entityBounds_def demoLinkEntity_def runeUnits_def)
  then show ?thesis
    using link_occurrences_are_clusters [of "[0x1F600, 97, 98, 99]" "[]" demoLinkEntity] e by simp
qed

section \<open>Scores\<close>

text \<open>The Bayes score is the logarithm of the smoothed prior odds times one
  likelihood ratio per token, for every corpus whose counts are not negative;
  it is scoreable exactly when the message has a token.\<close>

theorem bayes_score_is_log_odds:
  assumes "wfSource src" and "1 \<le> v" and "bs_Totals src sc = Some t" and "by_SpamDocs t + by_HamDocs t \<noteq> 0"
    and "bs_TokenCounts src sc tokens = Some (s, h)"
  shows "bayesScore src sc tokens v =
    Some (ln (priorOdds t * prod_list (map (tokenOdds t v s h) tokens)), tokens \<noteq> [])"
  by (rule bayesScore_odds [OF assms])

lemma bayes_score_is_log_odds_witness:
  "bayesScore demoBayes ''global'' [[97]] 100 = Some (0, True)"
proof -
  have "wfSource demoBayes" by (auto simp: demoBayes_def wfSource_def countOf_def)
  from bayes_score_is_log_odds [OF this, of 100 "''global''"
      "\<lparr>by_SpamDocs = 1, by_HamDocs = 1, by_SpamTokenTotal = 1, by_HamTokenTotal = 1\<rparr>" "[[97]]" Map.empty Map.empty]
  show ?thesis by (simp add: demoBayes_def priorOdds_def tokenOdds_def countOf_def)
qed

text \<open>With nothing to score (no training data, or no token), a message is not
  spam whatever the threshold is.\<close>

theorem untrained_corpus_flags_nothing:
  assumes "BayesIsSpam src sc tokens v thr = Some (isSpam, ratio)"
    and "tokens = [] \<or> (\<exists>t. bs_Totals src sc = Some t \<and> by_SpamDocs t + by_HamDocs t = 0)"
  shows "\<not> isSpam"
  by (rule BayesIsSpam_no_basis [OF assms])

definition demoEmptyCorpus :: bayes_source where
  "demoEmptyCorpus = demoBayes\<lparr>bs_Totals :=
     (\<lambda>sc. Some \<lparr>by_SpamDocs = 0, by_HamDocs = 0, by_SpamTokenTotal = 0, by_HamTokenTotal = 0\<rparr>)\<rparr>"

lemma untrained_corpus_flags_nothing_witness:
  "\<exists>isSpam. BayesIsSpam demoEmptyCorpus ''global'' [[97]] 100 (-5) = Some (isSpam, 0) \<and> \<not> isSpam"
proof -
  have run: "BayesIsSpam demoEmptyCorpus ''global'' [[97]] 100 (-5) = Some (False, 0)"
    by (simp add: BayesIsSpam_def bayesScore_def demoEmptyCorpus_def)
  show ?thesis
    using untrained_corpus_flags_nothing [OF run] run by (intro exI [of _ False]) (simp add: demoEmptyCorpus_def)
qed

text \<open>A single Cyrillic letter is a word of the model: the length test of the
  tokenizer counts bytes, and one letter of that script is two.\<close>

theorem one_letter_words_survive:
  "extractUnigrams demoLib [0x44F] = [[0x44F]] \<and> extractUnigrams demoLib [97] = []"
  by (simp add: extractUnigrams_def FieldsFunc_def demoLib_def runeBytes_def ToLower_def)

end
