(* ===== verification/Tables.thy ===== *)
theory Tables
  imports Domain
begin

text \<open>
  The database: the rows of each table of \<open>internal/store/migrate.go\<close>'s
  schema and the record of all tables, with the generic facts about updating
  and finding rows. A table is the list of its rows in insertion order, its
  keys being an invariant the operations keep; a table with a primary key
  that is only read and upserted by key is an association list.

  A transaction (\<open>engine.go\<close>'s \<open>Write\<close>) is a function from the
  database to an optional result: \<open>None\<close> is a callback that returned an
  error, which rolls back, so nothing it did remains.
\<close>

record incident_rec =
  ir_ID :: int
  ir_ChatID :: chat_id
  ir_MessageID :: message_id
  ir_MessageIDs :: string
  ir_UserID :: user_id
  ir_SenderChatID :: chat_id
  ir_State :: incident_state
  ir_DryRun :: bool
  ir_Decision :: string
  ir_CreatedAt :: unix_time

record audit_rec =
  au_IncidentID :: int
  au_Action :: action
  au_Scope :: scope
  au_Reason :: str
  au_Signals :: "signal list"
  au_CreatedAt :: unix_time

record evidence_rec =
  ev_IncidentID :: int
  ev_AdminChatID :: chat_id
  ev_AdminMessageID :: message_id

record incident_card =
  ic_ChatID :: chat_id
  ic_MessageID :: message_id

record tokens_rec =
  tk_Tokens :: str
  tk_CreatedAt :: unix_time

record chat_rec =
  ch_ChatID :: chat_id
  ch_Enabled :: bool
  ch_DryRun :: bool
  ch_LinkedChatID :: chat_id

datatype captcha_state =
  CaptchaNew | CaptchaChallenged | CaptchaPassing | CaptchaPassed | CaptchaFailing | CaptchaFailed
  | CaptchaCancelled

record captcha_rec =
  cr_ChatID :: chat_id
  cr_UserID :: user_id
  cr_Attempt :: int
  cr_State :: captcha_state
  cr_Deadline :: unix_time
  cr_FailAction :: string
  cr_Tries :: int
  cr_EphemeralID :: message_id
  cr_MessageID :: message_id
  cr_CreatedAt :: unix_time
  cr_Mode :: string
  cr_PromptChatID :: chat_id

record identity_rec =
  id_Username :: str
  id_DisplayName :: str

record sample_rec =
  sm_Scope :: string
  sm_Label :: string
  sm_Origin :: string
  sm_Hash :: str

record db =
  db_incidents :: "incident_rec list"
  db_nextIncident :: int
  db_audit :: "audit_rec list"
  db_evidence :: "evidence_rec list"
  db_cards :: "(int \<times> incident_card) list"
  db_tokens :: "(int \<times> tokens_rec) list"
  db_samples :: "sample_rec list"
  db_users :: "((chat_id \<times> user_id) \<times> int) list"
  db_trustSeen :: "(chat_id \<times> user_id \<times> str) list"
  db_bayesTokens :: "((string \<times> str \<times> string) \<times> int) list"
  db_bayesTotals :: "((string \<times> string) \<times> int \<times> int) list"
  db_chats :: "(chat_id \<times> chat_rec) list"
  db_aliases :: "(chat_id \<times> chat_id) list"
  db_updates :: "int list"
  db_identity :: "((chat_id \<times> user_id) \<times> identity_rec) list"
  db_welcome :: "(chat_id \<times> user_id) list"
  db_captcha :: "captcha_rec list"

definition emptyDB :: db where
  "emptyDB = \<lparr>db_incidents = [], db_nextIncident = 1, db_audit = [], db_evidence = [], db_cards = [],
     db_tokens = [], db_samples = [], db_users = [], db_trustSeen = [], db_bayesTokens = [],
     db_bayesTotals = [], db_chats = [], db_aliases = [], db_updates = [], db_identity = [],
     db_welcome = [], db_captcha = []\<rparr>"

type_synonym 'r tx = "db \<Rightarrow> (db \<times> 'r) option"

section \<open>Rows\<close>

text \<open>\<open>UPDATE ... WHERE\<close>, and the rows it affects.\<close>

definition updateWhere :: "('r \<Rightarrow> bool) \<Rightarrow> ('r \<Rightarrow> 'r) \<Rightarrow> 'r list \<Rightarrow> 'r list" where
  "updateWhere P f rows = map (\<lambda>r. if P r then f r else r) rows"

definition affected :: "('r \<Rightarrow> bool) \<Rightarrow> 'r list \<Rightarrow> nat" where
  "affected P rows = length (filter P rows)"

lemma updateWhere_Nil [simp]: "updateWhere P f [] = []"
  by (simp add: updateWhere_def)

lemma length_updateWhere [simp]: "length (updateWhere P f rows) = length rows"
  by (simp add: updateWhere_def)

lemma map_updateWhere:
  "(\<And>r. g (f r) = g r) \<Longrightarrow> map g (updateWhere P f rows) = map g rows"
  by (induction rows) (auto simp: updateWhere_def)

lemma set_updateWhere: "set (updateWhere P f rows) = (\<lambda>r. if P r then f r else r) ` set rows"
  by (simp add: updateWhere_def)

text \<open>A row found by its key, before and after an update that keeps keys.\<close>

definition findBy :: "('r \<Rightarrow> 'k) \<Rightarrow> 'k \<Rightarrow> 'r list \<Rightarrow> 'r option" where
  "findBy key k rows = first (\<lambda>r. key r = k) rows"

lemma findBy_updateWhere:
  assumes "\<And>r. key (f r) = key r"
  shows "findBy key k (updateWhere P f rows) =
     map_option (\<lambda>r. if P r then f r else r) (findBy key k rows)"
  using assms by (induction rows) (auto simp: findBy_def updateWhere_def)

lemma findBy_append:
  "findBy key k (rows @ [r]) =
     (case findBy key k rows of Some r' \<Rightarrow> Some r' | None \<Rightarrow> if key r = k then Some r else None)"
  by (induction rows) (auto simp: findBy_def)

lemma findBy_Nil [simp]: "findBy key k [] = None"
  by (simp add: findBy_def)

lemma findBy_Some: "findBy key k rows = Some r \<Longrightarrow> r \<in> set rows \<and> key r = k"
  unfolding findBy_def by (rule first_Some)

lemma findBy_None: "findBy key k rows = None \<longleftrightarrow> k \<notin> key ` set rows"
  by (auto simp: findBy_def first_None_iff)

lemma findBy_distinct:
  "distinct (map key rows) \<Longrightarrow> r \<in> set rows \<Longrightarrow> findBy key (key r) rows = Some r"
  by (induction rows) (auto simp: findBy_def rev_image_eqI)

lemma affected_key:
  assumes "distinct (map key rows)"
  shows "affected (\<lambda>r. key r = k \<and> Q r) rows =
     (case findBy key k rows of None \<Rightarrow> 0 | Some r \<Rightarrow> if Q r then 1 else 0)"
  using assms
proof (induction rows)
  case Nil
  then show ?case by (simp add: affected_def)
next
  case (Cons x rows)
  have "filter (\<lambda>r. key r = k \<and> Q r) rows = []" if "key x = k"
    using Cons.prems that by (auto simp: filter_empty_conv) (metis imageI)
  then show ?case using Cons by (auto simp: affected_def findBy_def)
qed

lemma affected_key_only:
  "distinct (map key rows) \<Longrightarrow> affected (\<lambda>r. key r = k) rows = (if findBy key k rows = None then 0 else 1)"
  using affected_key [of key rows k "\<lambda>r. True"] by (auto split: option.splits)

end
