(* ===== verification/Store.thy ===== *)
theory Store
  imports Tables
begin

text \<open>
  The incident tables of \<open>internal/store\<close>: \<open>incidents.go\<close>,
  \<open>undo.go\<close>, \<open>cards.go\<close>, \<open>spammer.go\<close> and
  \<open>digest.go\<close>. Every function is one transaction or one read; times are
  the ones SQLite's clock returned.
\<close>

section \<open>Message id lists\<close>

definition trimSpaceS :: "string \<Rightarrow> string" where
  "trimSpaceS s = (let sp = (\<lambda>c. isSpace (of_char c)) in rev (dropWhile sp (rev (dropWhile sp s))))"

definition Atoi :: "string \<Rightarrow> int option" where
  "Atoi s = ParseInt s"

fun parseParts :: "string list \<Rightarrow> int list" where
  "parseParts [] = []"
| "parseParts (p # ps) =
     (let part = trimSpaceS p in
      if part = [] then parseParts ps
      else (case Atoi part of Some n \<Rightarrow> n # parseParts ps | None \<Rightarrow> parseParts ps))"

definition parseMessageIDs :: "string \<Rightarrow> int \<Rightarrow> int list" where
  "parseMessageIDs l keyed =
     (let out = parseParts (Split CHR '','' l) in if length out = 0 then [keyed] else out)"

definition joinMessageIDs :: "int list \<Rightarrow> string" where
  "joinMessageIDs ids = Join '','' (map FormatInt ids)"

section \<open>Incidents\<close>

abbreviation findIncident :: "int \<Rightarrow> db \<Rightarrow> incident_rec option" where
  "findIncident iid db \<equiv> findBy ir_ID iid (db_incidents db)"

definition auditOf :: "int \<Rightarrow> db \<Rightarrow> audit_rec option" where
  "auditOf iid db = findBy au_IncidentID iid (db_audit db)"

definition updIncidents :: "(incident_rec \<Rightarrow> bool) \<Rightarrow> (incident_rec \<Rightarrow> incident_rec) \<Rightarrow> db \<Rightarrow> db" where
  "updIncidents P f db = db\<lparr>db_incidents := updateWhere P f (db_incidents db)\<rparr>"

definition updAudit :: "int \<Rightarrow> (audit_rec \<Rightarrow> audit_rec) \<Rightarrow> db \<Rightarrow> db" where
  "updAudit iid f db = db\<lparr>db_audit := updateWhere (\<lambda>a. au_IncidentID a = iid) f (db_audit db)\<rparr>"

definition InsertPending ::
  "unix_time \<Rightarrow> chat_id \<Rightarrow> message_id \<Rightarrow> user_id \<Rightarrow> chat_id \<Rightarrow> bool \<Rightarrow> verdict \<Rightarrow> (int \<times> bool) tx" where
  "InsertPending now chatID messageID userID senderChatID dryRun v db =
     (case first (\<lambda>r. ir_ChatID r = chatID \<and> ir_MessageID r = messageID) (db_incidents db) of
        Some r \<Rightarrow> Some (db, (ir_ID r, False))
      | None \<Rightarrow>
          (let iid = db_nextIncident db;
               row = \<lparr>ir_ID = iid, ir_ChatID = chatID, ir_MessageID = messageID, ir_MessageIDs = [],
                      ir_UserID = userID, ir_SenderChatID = senderChatID, ir_State = StatePending,
                      ir_DryRun = dryRun, ir_Decision = [], ir_CreatedAt = now\<rparr>;
               au = \<lparr>au_IncidentID = iid, au_Action = vd_Action v, au_Scope = vd_Scope v,
                     au_Reason = vd_Reason v, au_Signals = vd_Signals v, au_CreatedAt = now\<rparr>
           in Some (db\<lparr>db_incidents := db_incidents db @ [row], db_nextIncident := iid + 1,
                       db_audit := db_audit db @ [au]\<rparr>, (iid, True))))"

definition SetIncidentState :: "int \<Rightarrow> incident_state \<Rightarrow> unit tx" where
  "SetIncidentState iid s db = Some (updIncidents (\<lambda>r. ir_ID r = iid) (ir_State_update (\<lambda>_. s)) db, ())"

definition MarkSanctionUnknown :: "int \<Rightarrow> action \<Rightarrow> unit tx" where
  "MarkSanctionUnknown iid attempted db =
     Some (updAudit iid (au_Action_update (\<lambda>_. attempted))
             (updIncidents (\<lambda>r. ir_ID r = iid) (ir_State_update (\<lambda>_. StateSanctionUnknown)) db), ())"

definition MarkSanctionRefused :: "int \<Rightarrow> unit tx" where
  "MarkSanctionRefused iid db =
     Some (updIncidents (\<lambda>r. ir_ID r = iid \<and> ir_State r \<noteq> StateSanctionUnknown)
             (ir_State_update (\<lambda>_. StateNotActed)) db, ())"

definition GetIncidentState :: "int \<Rightarrow> db \<Rightarrow> incident_state option" where
  "GetIncidentState iid db = map_option ir_State (findIncident iid db)"

text \<open>Foreign keys are on: a row that refers to an incident needs the incident.\<close>

definition refersTo :: "int \<Rightarrow> db \<Rightarrow> bool" where
  "refersTo iid db \<longleftrightarrow> findIncident iid db \<noteq> None"

definition AddEvidence :: "int \<Rightarrow> chat_id \<Rightarrow> message_id list \<Rightarrow> unit tx" where
  "AddEvidence iid adminChatID adminMessageIDs db =
     (if adminMessageIDs \<noteq> [] \<and> \<not> refersTo iid db then None
      else Some (db\<lparr>db_evidence := db_evidence db @
        map (\<lambda>mid. \<lparr>ev_IncidentID = iid, ev_AdminChatID = adminChatID, ev_AdminMessageID = mid\<rparr>)
          adminMessageIDs\<rparr>, ()))"

definition GetIncidentChat :: "int \<Rightarrow> db \<Rightarrow> chat_id option" where
  "GetIncidentChat iid db = map_option ir_ChatID (findIncident iid db)"

definition ManualOverrideClaim :: string where
  "ManualOverrideClaim = ''enf''"

definition sanctioningActions :: "action list" where
  "sanctioningActions = [ActionBan, ActionMute, ActionDeleteMute, ActionDeleteOnly]"

text \<open>The condition of the conditional update: no sanction was ever applied.\<close>

definition neverSanctioned :: "db \<Rightarrow> incident_rec \<Rightarrow> bool" where
  "neverSanctioned db r \<longleftrightarrow>
     ir_DryRun r \<or>
     ir_State r \<in> {StatePending, StateEvidenced, StateEvidenceFailed, StateNotActed, StateSanctionUnknown} \<or>
     \<not> list_ex (\<lambda>a. au_IncidentID a = ir_ID r \<and> au_Action a \<in> set sanctioningActions) (db_audit db)"

definition evidenceIDsOf :: "int \<Rightarrow> db \<Rightarrow> message_id list" where
  "evidenceIDsOf iid db = sort (map ev_AdminMessageID (filter (\<lambda>e. ev_IncidentID e = iid) (db_evidence db)))"

definition ClaimManualOverride :: "int \<Rightarrow> (bool \<times> message_id list \<times> message_id list) tx" where
  "ClaimManualOverride iid db =
     (let P = (\<lambda>r. ir_ID r = iid \<and> ir_Decision r = [] \<and> neverSanctioned db r);
          db1 = updIncidents P (ir_Decision_update (\<lambda>_. ManualOverrideClaim)) db
      in if affected P (db_incidents db) \<noteq> 1 then Some (db1, (False, [], []))
         else (case findIncident iid db1 of
                 None \<Rightarrow> None
               | Some r \<Rightarrow>
                   Some (db1, (True, parseMessageIDs (ir_MessageIDs r) (ir_MessageID r), evidenceIDsOf iid db1))))"

definition actedOr :: "incident_state \<Rightarrow> incident_state" where
  "actedOr s = (if s \<in> {StateActed, StateCleaned, StateDone} then s else StateActed)"

definition FinishManualOverride :: "int \<Rightarrow> verdict \<Rightarrow> bool \<Rightarrow> unit tx" where
  "FinishManualOverride iid v sanctioned db =
     (let db1 =
            (if sanctioned then
               updAudit iid (\<lambda>a. a\<lparr>au_Action := vd_Action v, au_Scope := vd_Scope v,
                                  au_Reason := vd_Reason v, au_Signals := vd_Signals v\<rparr>)
                 (updIncidents (\<lambda>r. ir_ID r = iid)
                    (\<lambda>r. r\<lparr>ir_DryRun := False, ir_State := actedOr (ir_State r)\<rparr>) db)
             else db)
      in Some (updIncidents (\<lambda>r. ir_ID r = iid \<and> ir_Decision r = ManualOverrideClaim)
                 (ir_Decision_update (\<lambda>_. [])) db1, ()))"

section \<open>Undoing\<close>

record incident_row =
  rw_ID :: int
  rw_ChatID :: chat_id
  rw_UserID :: user_id
  rw_SenderChatID :: chat_id
  rw_MessageIDs :: "message_id list"
  rw_DryRun :: bool
  rw_State :: incident_state
  rw_Action :: action

definition punitive :: "action \<Rightarrow> bool" where
  "punitive a \<longleftrightarrow> a \<in> {ActionBan, ActionMute, ActionDeleteMute}"

definition actedState :: "incident_state \<Rightarrow> bool" where
  "actedState s \<longleftrightarrow> s \<in> {StateActed, StateCleaned, StateDone}"

definition Sanctioned :: "incident_row \<Rightarrow> bool" where
  "Sanctioned r =
     (if rw_State r = StateSanctionUnknown then punitive (rw_Action r)
      else if rw_DryRun r then False
      else if rw_SenderChatID r \<noteq> 0 \<and> rw_UserID r = 0
        then actedState (rw_State r) \<and> punitive (rw_Action r)
      else if \<not> actedState (rw_State r) then False
      else punitive (rw_Action r))"

definition ReleaseDecision :: "int \<Rightarrow> string \<Rightarrow> unit tx" where
  "ReleaseDecision iid decision db =
     Some (updIncidents (\<lambda>r. ir_ID r = iid \<and> ir_Decision r = decision) (ir_Decision_update (\<lambda>_. [])) db, ())"

definition RecordDecision :: "int \<Rightarrow> string \<Rightarrow> (bool \<times> string) tx" where
  "RecordDecision iid decision db =
     (let P = (\<lambda>r. ir_ID r = iid \<and> ir_Decision r = []);
          db1 = updIncidents P (ir_Decision_update (\<lambda>_. decision)) db
      in if affected P (db_incidents db) = 1 then Some (db1, (True, []))
         else (case findIncident iid db1 of None \<Rightarrow> None | Some r \<Rightarrow> Some (db1, (False, ir_Decision r))))"

definition SaveIncidentMessageIDs :: "int \<Rightarrow> message_id list \<Rightarrow> unit tx" where
  "SaveIncidentMessageIDs iid ids db =
     Some (updIncidents (\<lambda>r. ir_ID r = iid) (ir_MessageIDs_update (\<lambda>_. joinMessageIDs ids)) db, ())"

definition MarkIncidentEnforced :: "int \<Rightarrow> action \<Rightarrow> unit tx" where
  "MarkIncidentEnforced iid a db =
     Some (updAudit iid (au_Action_update (\<lambda>_. a))
             (updIncidents (\<lambda>r. ir_ID r = iid) (ir_DryRun_update (\<lambda>_. False)) db), ())"

definition GetIncident :: "int \<Rightarrow> db \<Rightarrow> incident_row option" where
  "GetIncident iid db =
     (case findIncident iid db of
        None \<Rightarrow> None
      | Some r \<Rightarrow>
          Some \<lparr>rw_ID = ir_ID r, rw_ChatID = ir_ChatID r, rw_UserID = ir_UserID r,
                rw_SenderChatID = ir_SenderChatID r,
                rw_MessageIDs = parseMessageIDs (ir_MessageIDs r) (ir_MessageID r),
                rw_DryRun = ir_DryRun r, rw_State = ir_State r,
                rw_Action = (case auditOf iid db of Some a \<Rightarrow> au_Action a | None \<Rightarrow> ActionOther [])\<rparr>)"

definition cardCurrent :: "int \<Rightarrow> incident_card \<Rightarrow> db \<Rightarrow> bool" where
  "cardCurrent iid crd db = (case map_of (db_cards db) iid of None \<Rightarrow> True | Some c \<Rightarrow> c = crd)"

definition ListEvidence :: "int \<Rightarrow> incident_card option \<Rightarrow> db \<Rightarrow> chat_id \<times> message_id list" where
  "ListEvidence iid crd db =
     (let rows = filter (\<lambda>e. ev_IncidentID e = iid \<and> (case crd of None \<Rightarrow> True | Some c \<Rightarrow> cardCurrent iid c db))
                   (db_evidence db);
          sorted = sort_key ev_AdminMessageID rows
      in (if sorted = [] then 0 else ev_AdminChatID (last sorted), map ev_AdminMessageID sorted))"

definition DeleteEvidenceRows :: "int \<Rightarrow> unit tx" where
  "DeleteEvidenceRows iid db =
     Some (db\<lparr>db_evidence := filter (\<lambda>e. ev_IncidentID e \<noteq> iid) (db_evidence db)\<rparr>, ())"

definition tokenSep :: str where "tokenSep = [32]"

definition SaveIncidentTokens :: "unix_time \<Rightarrow> int \<Rightarrow> str list \<Rightarrow> unit tx" where
  "SaveIncidentTokens now iid tokens db =
     (if length tokens = 0 then Some (db, ())
      else if \<not> refersTo iid db then None
      else Some (db\<lparr>db_tokens := AList.update iid \<lparr>tk_Tokens = Join tokenSep tokens, tk_CreatedAt = now\<rparr>
                                   (db_tokens db)\<rparr>, ()))"

definition GetIncidentTokens :: "int \<Rightarrow> db \<Rightarrow> str list \<times> bool" where
  "GetIncidentTokens iid db =
     (case map_of (db_tokens db) iid of
        None \<Rightarrow> ([], False)
      | Some t \<Rightarrow> if tk_Tokens t = [] then ([], False) else (Split 32 (tk_Tokens t), True))"

definition DeleteIncidentTokens :: "int \<Rightarrow> unit tx" where
  "DeleteIncidentTokens iid db = Some (db\<lparr>db_tokens := AList.delete iid (db_tokens db)\<rparr>, ())"

definition PruneIncidentTokens :: "unix_time \<Rightarrow> int \<Rightarrow> int tx" where
  "PruneIncidentTokens now maxAge db =
     (if maxAge \<le> 0 then Some (db, 0)
      else
        (let old = (\<lambda>kt. tk_CreatedAt (snd kt) < now - maxAge div 1000000000) in
         Some (db\<lparr>db_tokens := filter (\<lambda>kt. \<not> old kt) (db_tokens db)\<rparr>,
               int (length (filter old (db_tokens db))))))"

section \<open>Cards\<close>

definition SaveIncidentCard :: "int \<Rightarrow> incident_card \<Rightarrow> unit tx" where
  "SaveIncidentCard iid crd db =
     (if \<not> refersTo iid db then None
      else Some (db\<lparr>db_cards := AList.update iid crd (db_cards db)\<rparr>, ()))"

definition IsIncidentCard :: "int \<Rightarrow> incident_card \<Rightarrow> db \<Rightarrow> bool" where
  "IsIncidentCard iid crd db = cardCurrent iid crd db"

definition DeleteEvidenceSet :: "int \<Rightarrow> chat_id \<Rightarrow> message_id list \<Rightarrow> unit tx" where
  "DeleteEvidenceSet iid chat ids db =
     Some (db\<lparr>db_evidence := filter (\<lambda>e. \<not> (ev_IncidentID e = iid \<and> ev_AdminChatID e = chat \<and>
                                               ev_AdminMessageID e \<in> set ids)) (db_evidence db)\<rparr>, ())"

section \<open>Known spammers, sanctions in flight, the digest\<close>

definition HasSpamIncident :: "chat_id \<Rightarrow> user_id \<Rightarrow> db \<Rightarrow> bool" where
  "HasSpamIncident chatID userID db =
     list_ex (\<lambda>r. ir_ChatID r = chatID \<and> ir_UserID r = userID \<and> \<not> ir_DryRun r \<and> actedState (ir_State r)
                  \<and> ir_Decision r \<noteq> ''fp'' \<and> ir_Decision r \<noteq> ''lift'') (db_incidents db)"

definition SanctionSince :: "chat_id \<Rightarrow> user_id \<Rightarrow> unix_time \<Rightarrow> db \<Rightarrow> bool" where
  "SanctionSince chatID userID since db =
     list_ex (\<lambda>i. ir_ChatID i = chatID \<and> ir_UserID i = userID \<and> ir_CreatedAt i \<ge> since \<and>
        (ir_Decision i = ManualOverrideClaim \<or> ir_State i = StateSanctionUnknown \<or>
         (\<not> ir_DryRun i \<and>
          ir_State i \<in> {StatePending, StateEvidenced, StateActed, StateCleaned, StateDone} \<and>
          list_ex (\<lambda>a. au_IncidentID a = ir_ID i \<and>
                       au_Action a \<in> {ActionDeleteMute, ActionMute, ActionBan}) (db_audit db))))
       (db_incidents db)"

text \<open>\<open>ActionCountsSince\<close>: for each action, the audit rows joined with their
  incident, by what became of them.\<close>

definition auditJoin :: "unix_time \<Rightarrow> db \<Rightarrow> (audit_rec \<times> incident_rec) list" where
  "auditJoin ts db =
     concat (map (\<lambda>a. if au_CreatedAt a \<ge> ts
                      then (case findIncident (au_IncidentID a) db of None \<Rightarrow> [] | Some r \<Rightarrow> [(a, r)])
                      else []) (db_audit db))"

definition ActionCountsSince :: "unix_time \<Rightarrow> db \<Rightarrow> (action \<Rightarrow> nat) \<times> (action \<Rightarrow> nat) \<times> (action \<Rightarrow> nat)" where
  "ActionCountsSince ts db =
     (let rows = auditJoin ts db;
          cnt = (\<lambda>P act. length (filter (\<lambda>(a, r). au_Action a = act \<and> P r) rows))
      in (cnt (\<lambda>r. \<not> ir_DryRun r \<and> actedState (ir_State r)),
          cnt (\<lambda>r. ir_DryRun r),
          cnt (\<lambda>r. \<not> ir_DryRun r \<and> \<not> actedState (ir_State r))))"

end
