(* ===== verification/StoreLemmas.thy ===== *)
theory StoreLemmas
  imports Store
begin

text \<open>
  What the incident transactions do: the invariant of the tables and its
  preservation, the row each transaction leaves behind, and the one-decision
  rule as a lock that every transaction on an incident respects.
\<close>

section \<open>Round trips\<close>

lemma FormatInt_no_comma: "CHR '','' \<notin> set (FormatInt i)"
  using FormatInt_chars [of "CHR '',''" i] by (auto simp: isDigitChar_def)

lemma FormatInt_no_space: "c \<in> set (FormatInt i) \<Longrightarrow> \<not> isSpace (of_char c)"
proof -
  assume "c \<in> set (FormatInt i)"
  then have c: "isDigitChar c \<or> c = CHR ''-''" by (rule FormatInt_chars)
  have e: "(of_char c :: int) = int (of_char c)" by (simp add: of_nat_of_char)
  show ?thesis using c unfolding isSpace_def isDigitChar_def e by auto
qed

lemma trimSpaceS_FormatInt [simp]: "trimSpaceS (FormatInt i) = FormatInt i"
proof -
  have "dropWhile (\<lambda>c. isSpace (of_char c)) (FormatInt i) = FormatInt i"
    by (intro dropWhile_id_if) (metis FormatInt_no_space hd_in_set)
  moreover have "dropWhile (\<lambda>c. isSpace (of_char c)) (rev (FormatInt i)) = rev (FormatInt i)"
    by (intro dropWhile_id_if) (metis FormatInt_no_space hd_in_set set_rev)
  ultimately show ?thesis by (simp add: trimSpaceS_def)
qed

lemma parseParts_FormatInt:
  "(\<And>i. i \<in> set ids \<Longrightarrow> inInt64 i) \<Longrightarrow> parseParts (map FormatInt ids) = ids"
  by (induction ids) (auto simp: Atoi_def ParseInt_FormatInt)

lemma parse_joinMessageIDs:
  assumes "ids \<noteq> []" and "\<And>i. i \<in> set ids \<Longrightarrow> inInt64 i"
  shows "parseMessageIDs (joinMessageIDs ids) keyed = ids"
proof -
  have "Split CHR '','' (Join '','' (map FormatInt ids)) = map FormatInt ids"
    using assms(1) FormatInt_no_comma by (intro Split_Join) auto
  then show ?thesis
    using assms parseParts_FormatInt [of ids] by (simp add: parseMessageIDs_def joinMessageIDs_def)
qed

lemma parseMessageIDs_empty [simp]: "parseMessageIDs [] keyed = [keyed]"
  by (simp add: parseMessageIDs_def trimSpaceS_def)

lemma parseMessageIDs_nonempty: "parseMessageIDs l keyed \<noteq> []"
  by (simp add: parseMessageIDs_def Let_def)

section \<open>The invariant of the tables\<close>

definition dbInv :: "db \<Rightarrow> bool" where
  "dbInv db \<longleftrightarrow>
     distinct (map ir_ID (db_incidents db)) \<and>
     (\<forall>r \<in> set (db_incidents db). ir_ID r < db_nextIncident db) \<and>
     distinct (map (\<lambda>r. (ir_ChatID r, ir_MessageID r)) (db_incidents db)) \<and>
     map au_IncidentID (db_audit db) = map ir_ID (db_incidents db)"

lemma dbInv_emptyDB [simp]: "dbInv emptyDB"
  by (simp add: dbInv_def emptyDB_def)

lemma dbInv_distinct: "dbInv db \<Longrightarrow> distinct (map ir_ID (db_incidents db))"
  by (simp add: dbInv_def)

lemma updIncidents_simps [simp]:
  "db_audit (updIncidents P f db) = db_audit db" "db_evidence (updIncidents P f db) = db_evidence db"
  "db_cards (updIncidents P f db) = db_cards db" "db_tokens (updIncidents P f db) = db_tokens db"
  "db_captcha (updIncidents P f db) = db_captcha db"
  "db_nextIncident (updIncidents P f db) = db_nextIncident db"
  "db_incidents (updIncidents P f db) = updateWhere P f (db_incidents db)"
  by (simp_all add: updIncidents_def)

lemma updAudit_simps [simp]:
  "db_incidents (updAudit i f db) = db_incidents db" "db_evidence (updAudit i f db) = db_evidence db"
  "db_cards (updAudit i f db) = db_cards db" "db_tokens (updAudit i f db) = db_tokens db"
  "db_captcha (updAudit i f db) = db_captcha db"
  "db_nextIncident (updAudit i f db) = db_nextIncident db"
  by (simp_all add: updAudit_def)

lemma dbInv_updIncidents [simp]:
  assumes "dbInv db" and "\<And>r. ir_ID (f r) = ir_ID r" and "\<And>r. ir_ChatID (f r) = ir_ChatID r"
    and "\<And>r. ir_MessageID (f r) = ir_MessageID r"
  shows "dbInv (updIncidents P f db)"
proof -
  have "map ir_ID (updateWhere P f rows) = map ir_ID rows" for rows
    using assms(2) by (rule map_updateWhere)
  moreover have "map (\<lambda>r. (ir_ChatID r, ir_MessageID r)) (updateWhere P f rows) =
      map (\<lambda>r. (ir_ChatID r, ir_MessageID r)) rows" for rows
    using assms(3,4) by (intro map_updateWhere) simp
  moreover have "\<forall>r \<in> set (updateWhere P f rows). ir_ID r < n" if "\<forall>r \<in> set rows. ir_ID r < n" for rows n
    using that assms(2) by (auto simp: set_updateWhere)
  ultimately show ?thesis using assms(1) by (auto simp: dbInv_def)
qed

lemma dbInv_updAudit [simp]:
  assumes "dbInv db" and "\<And>a. au_IncidentID (f a) = au_IncidentID a"
  shows "dbInv (updAudit i f db)"
proof -
  have "map au_IncidentID (updateWhere Q f rows) = map au_IncidentID rows" for rows Q
    using assms(2) by (rule map_updateWhere)
  then show ?thesis using assms(1) by (simp add: dbInv_def updAudit_def)
qed

lemma dbInv_InsertPending:
  assumes "dbInv db" and "InsertPending now c m u sc d v db = Some (db', r)"
  shows "dbInv db'"
proof (cases "first (\<lambda>r. ir_ChatID r = c \<and> ir_MessageID r = m) (db_incidents db)")
  case (Some x)
  then show ?thesis using assms by (simp add: InsertPending_def)
next
  case None
  then have "(c, m) \<notin> (\<lambda>r. (ir_ChatID r, ir_MessageID r)) ` set (db_incidents db)"
    by (auto simp: first_None_iff)
  moreover have "db_nextIncident db \<notin> ir_ID ` set (db_incidents db)"
    using assms(1) by (auto simp: dbInv_def)
  ultimately show ?thesis using assms None
    by (auto simp: InsertPending_def dbInv_def Let_def less_imp_le)
qed

text \<open>The transactions that only change columns of existing rows, or other
  tables, keep the keys.\<close>

definition keepsKeys :: "'r tx \<Rightarrow> bool" where
  "keepsKeys t \<longleftrightarrow> (\<forall>db db' r. dbInv db \<longrightarrow> t db = Some (db', r) \<longrightarrow> dbInv db')"

lemma dbInv_other_tables [simp]:
  "dbInv (db\<lparr>db_evidence := e\<rparr>) = dbInv db" "dbInv (db\<lparr>db_cards := c\<rparr>) = dbInv db"
  "dbInv (db\<lparr>db_tokens := t\<rparr>) = dbInv db" "dbInv (db\<lparr>db_captcha := k\<rparr>) = dbInv db"
  "dbInv (db\<lparr>db_samples := s\<rparr>) = dbInv db" "dbInv (db\<lparr>db_users := us\<rparr>) = dbInv db"
  "dbInv (db\<lparr>db_trustSeen := ts\<rparr>) = dbInv db" "dbInv (db\<lparr>db_bayesTokens := bt\<rparr>) = dbInv db"
  "dbInv (db\<lparr>db_bayesTotals := bo\<rparr>) = dbInv db" "dbInv (db\<lparr>db_welcome := w\<rparr>) = dbInv db"
  "dbInv (db\<lparr>db_chats := ch\<rparr>) = dbInv db" "dbInv (db\<lparr>db_updates := up\<rparr>) = dbInv db"
  by (simp_all add: dbInv_def)

lemma keepsKeysD: "keepsKeys t \<Longrightarrow> dbInv db \<Longrightarrow> t db = Some (db', r) \<Longrightarrow> dbInv db'"
  unfolding keepsKeys_def by blast

lemma keepsKeys_ops:
  "keepsKeys (InsertPending now c m u sc d v)" "keepsKeys (SetIncidentState i s)"
  "keepsKeys (MarkSanctionUnknown i a)" "keepsKeys (MarkSanctionRefused i)"
  "keepsKeys (AddEvidence i ac ids)" "keepsKeys (ClaimManualOverride i)"
  "keepsKeys (FinishManualOverride i v b)" "keepsKeys (ReleaseDecision i dc)"
  "keepsKeys (RecordDecision i dc)" "keepsKeys (SaveIncidentMessageIDs i ids)"
  "keepsKeys (MarkIncidentEnforced i a)" "keepsKeys (DeleteEvidenceRows i)"
  "keepsKeys (SaveIncidentTokens now i toks)" "keepsKeys (DeleteIncidentTokens i)"
  "keepsKeys (PruneIncidentTokens now age)" "keepsKeys (SaveIncidentCard i crd)"
  "keepsKeys (DeleteEvidenceSet i ac ids)"
  by (auto simp: keepsKeys_def SetIncidentState_def MarkSanctionUnknown_def MarkSanctionRefused_def
      AddEvidence_def ClaimManualOverride_def FinishManualOverride_def ReleaseDecision_def
      RecordDecision_def SaveIncidentMessageIDs_def MarkIncidentEnforced_def DeleteEvidenceRows_def
      SaveIncidentTokens_def DeleteIncidentTokens_def PruneIncidentTokens_def SaveIncidentCard_def
      DeleteEvidenceSet_def Let_def dbInv_InsertPending
      split: if_splits option.splits)

section \<open>The row a transaction leaves\<close>

lemma findIncident_updIncidents:
  "(\<And>r. ir_ID (f r) = ir_ID r) \<Longrightarrow>
     findIncident i (updIncidents P f db) = map_option (\<lambda>r. if P r then f r else r) (findIncident i db)"
  by (simp add: findBy_updateWhere)

lemma findIncident_updAudit [simp]: "findIncident i (updAudit j f db) = findIncident i db"
  by simp

lemma auditOf_updIncidents [simp]: "auditOf i (updIncidents P f db) = auditOf i db"
  by (simp add: auditOf_def)

lemma auditOf_updAudit:
  "(\<And>a. au_IncidentID (f a) = au_IncidentID a) \<Longrightarrow>
     auditOf i (updAudit j f db) = (if i = j then map_option f (auditOf i db) else auditOf i db)"
proof -
  assume f: "\<And>a. au_IncidentID (f a) = au_IncidentID a"
  have "auditOf i (updAudit j f db) =
        map_option (\<lambda>a. if au_IncidentID a = j then f a else a) (auditOf i db)"
    using f by (simp add: auditOf_def updAudit_def findBy_updateWhere)
  also have "\<dots> = (if i = j then map_option f (auditOf i db) else auditOf i db)"
    using findBy_Some [of au_IncidentID i "db_audit db"] by (cases "auditOf i db") (auto simp: auditOf_def)
  finally show ?thesis .
qed

lemma findIncident_ID: "findIncident i db = Some r \<Longrightarrow> ir_ID r = i"
  using findBy_Some by fastforce

lemma dbInv_audit_exists:
  assumes "dbInv db" and "findIncident i db = Some r"
  shows "\<exists>a. auditOf i db = Some a"
proof -
  have "i \<in> set (map ir_ID (db_incidents db))" using findBy_Some [OF assms(2)] by auto
  then have "i \<in> au_IncidentID ` set (db_audit db)" using assms(1) by (metis dbInv_def list.set_map)
  then show ?thesis by (metis auditOf_def findBy_None not_None_eq)
qed

lemma audit_row_unique:
  assumes "dbInv db" and "a \<in> set (db_audit db)" and "au_IncidentID a = i"
  shows "auditOf i db = Some a"
proof -
  have "distinct (map au_IncidentID (db_audit db))" using assms(1) by (simp add: dbInv_def)
  then show ?thesis using findBy_distinct [of au_IncidentID "db_audit db" a] assms by (simp add: auditOf_def)
qed

text \<open>The claims: the row after, and whether the claim is taken.\<close>

lemma affected_free:
  "dbInv db \<Longrightarrow>
   affected (\<lambda>r. ir_ID r = i \<and> Q r) (db_incidents db) =
     (case findIncident i db of None \<Rightarrow> 0 | Some r \<Rightarrow> if Q r then 1 else 0)"
  by (simp add: affected_key dbInv_distinct)

lemma RecordDecision_result:
  assumes "dbInv db"
  shows "RecordDecision i d db =
    (case findIncident i db of
       None \<Rightarrow> None
     | Some r \<Rightarrow>
         Some (updIncidents (\<lambda>r. ir_ID r = i \<and> ir_Decision r = []) (ir_Decision_update (\<lambda>_. d)) db,
               if ir_Decision r = [] then (True, []) else (False, ir_Decision r)))"
  using assms
  by (auto simp: RecordDecision_def Let_def affected_free findBy_updateWhere split: option.splits)

lemma ClaimManualOverride_result:
  assumes "dbInv db"
  shows "case findIncident i db of
       None \<Rightarrow> ClaimManualOverride i db = Some (db, False, [], [])
     | Some r \<Rightarrow>
         if ir_Decision r = [] \<and> neverSanctioned db r
         then ClaimManualOverride i db =
            Some (updIncidents (\<lambda>r. ir_ID r = i \<and> ir_Decision r = [] \<and> neverSanctioned db r)
                    (ir_Decision_update (\<lambda>_. ManualOverrideClaim)) db,
                  True, parseMessageIDs (ir_MessageIDs r) (ir_MessageID r), evidenceIDsOf i db)
         else ClaimManualOverride i db = Some (db, False, [], [])"
proof -
  let ?P = "\<lambda>r. ir_ID r = i \<and> ir_Decision r = [] \<and> neverSanctioned db r"
  let ?f = "ir_Decision_update (\<lambda>_. ManualOverrideClaim)"
  have aff: "affected ?P (db_incidents db) =
     (case findIncident i db of None \<Rightarrow> 0 | Some r \<Rightarrow> if ir_Decision r = [] \<and> neverSanctioned db r then 1 else 0)"
    using affected_free [OF assms, of i "\<lambda>r. ir_Decision r = [] \<and> neverSanctioned db r"] by simp
  have same: "updIncidents ?P ?f db = db" if "affected ?P (db_incidents db) = 0"
  proof -
    have "\<not> ?P r" if "r \<in> set (db_incidents db)" for r
      using that \<open>affected ?P (db_incidents db) = 0\<close> by (auto simp: affected_def filter_empty_conv)
    then have "updateWhere ?P ?f (db_incidents db) = db_incidents db"
      by (auto simp: updateWhere_def intro!: map_idI)
    then show ?thesis by (simp add: updIncidents_def)
  qed
  have ev: "evidenceIDsOf i (updIncidents ?P ?f db) = evidenceIDsOf i db"
    by (simp add: evidenceIDsOf_def)
  show ?thesis
  proof (cases "findIncident i db")
    case None
    then show ?thesis using aff same by (simp add: ClaimManualOverride_def Let_def)
  next
    case (Some r)
    then show ?thesis using aff same ev findIncident_ID [OF Some]
      by (auto simp: ClaimManualOverride_def Let_def findBy_updateWhere)
  qed
qed

lemma FinishManualOverride_row:
  assumes "findIncident i db = Some r" and "FinishManualOverride i v b db = Some (db', u)"
  shows "findIncident i db' = Some (r\<lparr>ir_DryRun := (if b then False else ir_DryRun r),
      ir_State := (if b then actedOr (ir_State r) else ir_State r),
      ir_Decision := (if ir_Decision r = ManualOverrideClaim then [] else ir_Decision r)\<rparr>)"
  using assms findIncident_ID [OF assms(1)]
  by (auto simp: FinishManualOverride_def Let_def findBy_updateWhere)

lemma FinishManualOverride_audit:
  assumes "FinishManualOverride i v True db = Some (db', u)" and "auditOf i db = Some a"
  shows "\<exists>a'. auditOf i db' = Some a' \<and> au_Action a' = vd_Action v \<and> au_Reason a' = vd_Reason v"
  using assms by (auto simp: FinishManualOverride_def Let_def auditOf_updAudit)

section \<open>One decision per incident\<close>

text \<open>The interface: a row has a holder (the decision stored in it, empty for
  none), requests may be granted, and a release names the value it gives
  back. The laws are what keeps two moderators from both winning.\<close>

locale claim_store =
  fixes inv :: "'s \<Rightarrow> bool"
    and holder :: "'s \<Rightarrow> string option"
    and req :: "'q \<Rightarrow> 's \<Rightarrow> ('s \<times> bool) option"
    and valueOf :: "'q \<Rightarrow> string"
    and release :: "'p \<Rightarrow> 's \<Rightarrow> 's option"
    and givesBack :: "'p \<Rightarrow> string"
  assumes req_inv: "inv s \<Longrightarrow> req q s = Some (s', g) \<Longrightarrow> inv s'"
    and release_inv: "inv s \<Longrightarrow> release p s = Some s' \<Longrightarrow> inv s'"
    and granted: "inv s \<Longrightarrow> req q s = Some (s', True) \<Longrightarrow> holder s = Some [] \<and> holder s' = Some (valueOf q)"
    and refused: "inv s \<Longrightarrow> req q s = Some (s', False) \<Longrightarrow> holder s' = holder s"
    and released: "inv s \<Longrightarrow> release p s = Some s' \<Longrightarrow>
       holder s' = (if holder s = Some (givesBack p) then Some [] else holder s)"
begin

text \<open>A history of requests and releases by anyone, in the order the single
  writer ran them; a transaction that fails leaves the state.\<close>

fun step :: "'q + 'p \<Rightarrow> 's \<Rightarrow> 's \<times> (string \<times> bool) option" where
  "step (Inl q) s = (case req q s of None \<Rightarrow> (s, None) | Some (s', g) \<Rightarrow> (s', if g then Some (valueOf q, True) else None))"
| "step (Inr p) s = (case release p s of None \<Rightarrow> (s, None) | Some s' \<Rightarrow> (s', Some (givesBack p, False)))"

fun run :: "('q + 'p) list \<Rightarrow> 's \<Rightarrow> (string \<times> bool) list" where
  "run [] s = []"
| "run (e # es) s = (case step e s of (s', ev) \<Rightarrow> (case ev of None \<Rightarrow> [] | Some x \<Rightarrow> [x]) @ run es s')"

text \<open>The abstract lock: a grant needs it free; a release frees it only for the
  value it names.\<close>

fun lockOK :: "string \<Rightarrow> (string \<times> bool) list \<Rightarrow> bool" where
  "lockOK owner [] = True"
| "lockOK owner ((d, True) # es) = (owner = [] \<and> lockOK d es)"
| "lockOK owner ((d, False) # es) = lockOK (if owner = d then [] else owner) es"

lemma run_lockOK: "inv s \<Longrightarrow> holder s = Some d \<Longrightarrow> lockOK d (run es s)"
proof (induction es arbitrary: s d)
  case Nil
  then show ?case by simp
next
  case (Cons e es)
  show ?case
  proof (cases e)
    case (Inl q)
    show ?thesis
    proof (cases "req q s")
      case None
      then show ?thesis using Cons.IH [OF Cons.prems] Inl by simp
    next
      case (Some sg)
      obtain s' g where sg: "sg = (s', g)" by (cases sg)
      have inv: "inv s'" using req_inv [OF Cons.prems(1)] Some sg by simp
      show ?thesis
      proof (cases g)
        case True
        then have h: "holder s = Some [] \<and> holder s' = Some (valueOf q)"
          using granted [OF Cons.prems(1), of q s'] Some sg by simp
        then have "lockOK (valueOf q) (run es s')" by (intro Cons.IH [OF inv]) simp
        then show ?thesis using Cons.prems(2) h Inl Some sg True by simp
      next
        case False
        then have "holder s' = Some d" using refused [OF Cons.prems(1), of q s'] Some sg Cons.prems(2) by simp
        then show ?thesis using Cons.IH [OF inv] Inl Some sg False by simp
      qed
    qed
  next
    case (Inr p)
    show ?thesis
    proof (cases "release p s")
      case None
      then show ?thesis using Cons.IH [OF Cons.prems] Inr by simp
    next
      case (Some s')
      then have "holder s' = Some (if d = givesBack p then [] else d)"
        using released [OF Cons.prems(1), of p s'] Cons.prems(2) by auto
      then have "lockOK (if d = givesBack p then [] else d) (run es s')"
        by (rule Cons.IH [OF release_inv [OF Cons.prems(1) Some]])
      then show ?thesis using Inr Some by simp
    qed
  qed
qed

end

text \<open>The program's requests and releases on one incident: a button
  (\<open>RecordDecision\<close>, \<open>ReleaseDecision\<close>) and a command
  (\<open>ClaimManualOverride\<close>, \<open>FinishManualOverride\<close>).\<close>

datatype claim_req = ByButton string | ByCommand
datatype claim_release = RelButton string | RelCommand verdict bool

fun claimValue :: "claim_req \<Rightarrow> string" where
  "claimValue (ByButton d) = d"
| "claimValue ByCommand = ManualOverrideClaim"

fun releaseValue :: "claim_release \<Rightarrow> string" where
  "releaseValue (RelButton d) = d"
| "releaseValue (RelCommand v b) = ManualOverrideClaim"

fun claimReq :: "int \<Rightarrow> claim_req \<Rightarrow> db \<Rightarrow> (db \<times> bool) option" where
  "claimReq i (ByButton d) db = map_option (\<lambda>(db', g, _). (db', g)) (RecordDecision i d db)"
| "claimReq i ByCommand db = map_option (\<lambda>(db', g, _). (db', g)) (ClaimManualOverride i db)"

fun claimRelease :: "int \<Rightarrow> claim_release \<Rightarrow> db \<Rightarrow> db option" where
  "claimRelease i (RelButton d) db = map_option fst (ReleaseDecision i d db)"
| "claimRelease i (RelCommand v b) db = map_option fst (FinishManualOverride i v b db)"

definition decisionOf :: "int \<Rightarrow> db \<Rightarrow> string option" where
  "decisionOf i db = map_option ir_Decision (findIncident i db)"

lemma claimReq_granted:
  assumes "dbInv db" and "claimReq i q db = Some (db', True)"
  shows "decisionOf i db = Some [] \<and> decisionOf i db' = Some (claimValue q)"
proof (cases q)
  case (ByButton d)
  then show ?thesis using assms findIncident_ID
    by (auto simp: RecordDecision_result decisionOf_def findBy_updateWhere split: option.splits if_splits)
next
  case ByCommand
  then show ?thesis using assms ClaimManualOverride_result [OF assms(1), of i] findIncident_ID
    by (auto simp: decisionOf_def findBy_updateWhere split: option.splits if_splits)
qed

lemma claimReq_refused:
  assumes "dbInv db" and "claimReq i q db = Some (db', False)"
  shows "decisionOf i db' = decisionOf i db"
proof (cases q)
  case (ByButton d)
  then show ?thesis using assms
    by (auto simp: RecordDecision_result decisionOf_def findBy_updateWhere split: option.splits if_splits)
next
  case ByCommand
  then show ?thesis using assms ClaimManualOverride_result [OF assms(1), of i]
    by (auto split: option.splits if_splits)
qed

lemma claimRelease_released:
  assumes "claimRelease i p db = Some db'"
  shows "decisionOf i db' =
     (if decisionOf i db = Some (releaseValue p) then Some [] else decisionOf i db)"
proof (cases p)
  case (RelButton d)
  then show ?thesis using assms findIncident_ID
    by (cases "findIncident i db") (auto simp: ReleaseDecision_def decisionOf_def findBy_updateWhere)
next
  case (RelCommand v b)
  then show ?thesis using assms findIncident_ID
    by (cases "findIncident i db") (auto simp: FinishManualOverride_def Let_def decisionOf_def findBy_updateWhere)
qed

lemma claimReq_inv:
  assumes "dbInv db" and "claimReq i q db = Some (db', g)"
  shows "dbInv db'"
proof (cases q)
  case (ByButton d)
  then obtain r where "RecordDecision i d db = Some (db', r)" using assms(2) by auto
  then show ?thesis by (rule keepsKeysD [OF keepsKeys_ops(9) assms(1)])
next
  case ByCommand
  then obtain r where "ClaimManualOverride i db = Some (db', r)" using assms(2) by auto
  then show ?thesis by (rule keepsKeysD [OF keepsKeys_ops(6) assms(1)])
qed

lemma claimRelease_inv:
  assumes "dbInv db" and "claimRelease i p db = Some db'"
  shows "dbInv db'"
proof (cases p)
  case (RelButton d)
  then have "ReleaseDecision i d db = Some (db', ())" using assms(2) by (cases "ReleaseDecision i d db") auto
  then show ?thesis by (rule keepsKeysD [OF keepsKeys_ops(8) assms(1)])
next
  case (RelCommand v b)
  then have "FinishManualOverride i v b db = Some (db', ())"
    using assms(2) by (cases "FinishManualOverride i v b db") auto
  then show ?thesis by (rule keepsKeysD [OF keepsKeys_ops(7) assms(1)])
qed

interpretation decisions: claim_store dbInv "decisionOf i" "claimReq i" claimValue "claimRelease i" releaseValue
  for i
  by (rule claim_store.intro)
     (erule (1) claimReq_inv, erule (1) claimRelease_inv, erule (1) claimReq_granted, erule (1) claimReq_refused,
      rule claimRelease_released)

end
