(* ===== verification/Effects.thy ===== *)
theory Effects
  imports StoreLemmas "HOL-Library.State_Monad"
begin

text \<open>
  The effects of the program: the Telegram surface (\<open>internal/telegram/port.go\<close>)
  and the database, in the library's state monad. The world is the database
  and the trace of what was done; the environment answers every call, may
  fail any transaction or read, runs other goroutines' transactions before
  each of ours, and is read at every tick, so a theorem about all
  environments covers every pattern of failures and interleavings.
\<close>

section \<open>Errors\<close>

text \<open>An error is its text and the sentinel errors \<open>errors.Is\<close> finds in its
  chain; wrapping with \<open>%w\<close> keeps them.\<close>

record goerr =
  ge_text :: str
  ge_is :: "string list"

definition errIs :: "goerr \<Rightarrow> string \<Rightarrow> bool" where
  "errIs e sentinel \<longleftrightarrow> sentinel \<in> set (ge_is e)"

definition newErr :: "str \<Rightarrow> goerr" where
  "newErr t = \<lparr>ge_text = t, ge_is = []\<rparr>"

definition wrapErr :: "str \<Rightarrow> goerr \<Rightarrow> str \<Rightarrow> goerr" where
  "wrapErr pre e post = \<lparr>ge_text = pre @ ge_text e @ post, ge_is = ge_is e\<rparr>"

text \<open>\<open>errors.Join\<close> of two optional errors.\<close>

definition joinErr :: "goerr option \<Rightarrow> goerr option \<Rightarrow> goerr option" where
  "joinErr a b =
     (case (a, b) of
        (None, None) \<Rightarrow> None
      | (Some e, None) \<Rightarrow> Some e
      | (None, Some e) \<Rightarrow> Some e
      | (Some e, Some f) \<Rightarrow> Some \<lparr>ge_text = ge_text e @ [10] @ ge_text f, ge_is = ge_is e @ ge_is f\<rparr>)"

definition ErrRefused :: string where "ErrRefused = ''ErrRefused''"
definition ErrEphemeralNotHonored :: string where "ErrEphemeralNotHonored = ''ErrEphemeralNotHonored''"

section \<open>The Telegram surface\<close>

record button =
  bt_Text :: str
  bt_Data :: string

type_synonym buttons = "button list list"

record admin_message =
  am_Text :: str
  am_IncidentKey :: string
  am_SourceChatID :: chat_id
  am_CopiedFromChatID :: chat_id
  am_CopyMessageIDs :: "message_id list"
  am_Buttons :: buttons

record bot_rights =
  br_IsAdmin :: bool
  br_CanDelete :: bool
  br_CanRestrict :: bool
  br_AggressiveAntiSpam :: bool

record member =
  mb_UserID :: user_id
  mb_Status :: string
  mb_Username :: str
  mb_DisplayName :: str
  mb_CustomTitle :: str

datatype pcall =
    CopyMessages chat_id chat_id "message_id list"
  | DeleteMessages chat_id "message_id list"
  | BanMember chat_id user_id
  | UnbanMember chat_id user_id
  | UnrestrictMember chat_id user_id
  | RestrictMember chat_id user_id bool unix_time
  | SendAdmin chat_id admin_message
  | BanSenderChat chat_id chat_id
  | UnbanSenderChat chat_id chat_id
  | GetChatAdministrators chat_id
  | ChatTitle chat_id
  | LinkedChatID chat_id
  | AnswerCallback string str
  | EditAdminMarkup chat_id message_id buttons
  | DeleteMessageReaction chat_id message_id user_id
  | SendEphemeral chat_id user_id str
  | SendWelcome chat_id user_id str
  | SendCaptchaEphemeral chat_id user_id str buttons
  | SendCaptchaMessage chat_id str buttons
  | ApproveJoinRequest chat_id user_id
  | DeclineJoinRequest chat_id user_id
  | DeleteEphemeral chat_id user_id message_id
  | CheckBotRights chat_id

text \<open>What a call may return: an error, and the values of whichever result
  type the call has.\<close>

record preply =
  pr_err :: "goerr option"
  pr_ids :: "message_id list"
  pr_id :: message_id
  pr_text :: str
  pr_members :: "member list"
  pr_rights :: bot_rights

text \<open>A call that changes what a member of a moderated chat sees or may do.\<close>

fun sanctions :: "pcall \<Rightarrow> bool" where
  "sanctions (BanMember c u) = True"
| "sanctions (RestrictMember c u p t) = True"
| "sanctions (BanSenderChat c s) = True"
| "sanctions _ = False"

section \<open>The world\<close>

datatype event =
    EvPort pcall preply
  | EvStore string int bool
  | EvLog str
  | EvCount string

text \<open>A call to Telegram.\<close>

definition isPort :: "event \<Rightarrow> bool" where
  "isPort e = (case e of EvPort c r \<Rightarrow> True | _ \<Rightarrow> False)"

lemma isPort_simps [simp]: "isPort (EvPort c r)" "\<not> isPort (EvStore n i b)" "\<not> isPort (EvLog s)" "\<not> isPort (EvCount m)"
  by (simp_all add: isPort_def)

record world =
  w_db :: db
  w_trace :: "event list"
  w_ticks :: nat
  w_inflight :: "(chat_id \<times> user_id) list"

record env =
  en_port :: "nat \<Rightarrow> pcall \<Rightarrow> preply"
  en_dbfail :: "nat \<Rightarrow> goerr option"
  en_txerr :: "nat \<Rightarrow> goerr"
  en_others :: "nat \<Rightarrow> db \<Rightarrow> db"
  en_now :: "nat \<Rightarrow> unix_time"
  en_ctx :: "nat \<Rightarrow> goerr option"

type_synonym 'a act = "(world, 'a) state"

definition tick :: "event \<Rightarrow> world \<Rightarrow> world" where
  "tick ev w = w\<lparr>w_trace := w_trace w @ [ev], w_ticks := Suc (w_ticks w)\<rparr>"

definition call :: "env \<Rightarrow> pcall \<Rightarrow> preply act" where
  "call E c = State (\<lambda>w. let r = en_port E (w_ticks w) c in (r, tick (EvPort c r) w))"

text \<open>A write: the transactions other goroutines committed before it, then the
  callback, whose error rolls back. The name and the row it is about are
  recorded with whether it committed.\<close>

definition store :: "env \<Rightarrow> string \<Rightarrow> int \<Rightarrow> (unix_time \<Rightarrow> 'r tx) \<Rightarrow> (goerr + 'r) act" where
  "store E name i t = State (\<lambda>w.
     let n = w_ticks w; db = en_others E n (w_db w) in
     case en_dbfail E n of
       Some e \<Rightarrow> (Inl e, tick (EvStore name i False) (w\<lparr>w_db := db\<rparr>))
     | None \<Rightarrow>
         (case t (en_now E n) db of
            None \<Rightarrow> (Inl (en_txerr E n), tick (EvStore name i False) (w\<lparr>w_db := db\<rparr>))
          | Some (db', r) \<Rightarrow> (Inr r, tick (EvStore name i True) (w\<lparr>w_db := db'\<rparr>))))"

text \<open>A read: an error, or the value in the database as it is then.\<close>

definition query :: "env \<Rightarrow> (db \<Rightarrow> 'r option) \<Rightarrow> (goerr + 'r) act" where
  "query E q = State (\<lambda>w.
     let n = w_ticks w; db = en_others E n (w_db w); w' = w\<lparr>w_db := db, w_ticks := Suc n\<rparr> in
     case en_dbfail E n of
       Some e \<Rightarrow> (Inl e, w')
     | None \<Rightarrow> (case q db of None \<Rightarrow> (Inl (en_txerr E n), w') | Some r \<Rightarrow> (Inr r, w')))"

definition logLine :: "str \<Rightarrow> unit act" where
  "logLine s = State (\<lambda>w. ((), w\<lparr>w_trace := w_trace w @ [EvLog s]\<rparr>))"

definition clock :: "env \<Rightarrow> unix_time act" where
  "clock E = State (\<lambda>w. (en_now E (w_ticks w), w))"

text \<open>The error of the context, when it was cancelled; a metric's counter; and
  the set of members a challenge is being sent to, which lives in memory.\<close>

definition ctxErr :: "env \<Rightarrow> goerr option act" where
  "ctxErr E = State (\<lambda>w. (en_ctx E (w_ticks w), w))"

definition countMetric :: "string \<Rightarrow> unit act" where
  "countMetric s = State (\<lambda>w. ((), w\<lparr>w_trace := w_trace w @ [EvCount s]\<rparr>))"

definition getInflight :: "(chat_id \<times> user_id) list act" where
  "getInflight = State (\<lambda>w. (w_inflight w, w))"

definition setInflight :: "(chat_id \<times> user_id) list \<Rightarrow> unit act" where
  "setInflight s = State (\<lambda>w. ((), w\<lparr>w_inflight := s\<rparr>))"

definition sumErr :: "goerr + 'r \<Rightarrow> goerr option" where
  "sumErr x = (case x of Inl e \<Rightarrow> Some e | Inr _ \<Rightarrow> None)"

section \<open>Reasoning about runs\<close>

text \<open>The events a run adds to the trace.\<close>

definition events :: "'a act \<Rightarrow> world \<Rightarrow> event list" where
  "events m w = drop (length (w_trace w)) (w_trace (snd (run_state m w)))"

definition result :: "'a act \<Rightarrow> world \<Rightarrow> 'a" where
  "result m w = fst (run_state m w)"

definition after :: "'a act \<Rightarrow> world \<Rightarrow> world" where
  "after m w = snd (run_state m w)"

text \<open>An action only appends to the trace, and every event it appends satisfies
  \<open>Q\<close>: the rules below prove this of a handler by its text.\<close>

definition emits :: "(event \<Rightarrow> bool) \<Rightarrow> 'a act \<Rightarrow> bool" where
  "emits Q m \<longleftrightarrow> (\<forall>w. \<exists>evs. w_trace (snd (run_state m w)) = w_trace w @ evs \<and> list_all Q evs)"

named_theorems emit_intros \<open>how the events of an action follow from those of its parts\<close>

lemma run_bind: "run_state (State_Monad.bind m f) w = (case run_state m w of (x, w') \<Rightarrow> run_state (f x) w')"
  by (simp add: State_Monad.bind_def)

lemma run_return: "run_state (State_Monad.return x) w = (x, w)"
  by (simp add: State_Monad.return_def)

lemma emits_bind [emit_intros]:
  assumes "emits Q m" and "\<And>x. emits Q (f x)"
  shows "emits Q (State_Monad.bind m f)"
  unfolding emits_def
proof
  fix w
  obtain x w1 where m: "run_state m w = (x, w1)" by (cases "run_state m w")
  obtain e1 where e1: "w_trace w1 = w_trace w @ e1" "list_all Q e1"
    using assms(1) m by (metis emits_def snd_conv)
  obtain e2 where e2: "w_trace (snd (run_state (f x) w1)) = w_trace w1 @ e2" "list_all Q e2"
    using assms(2) by (metis emits_def)
  have "w_trace (snd (run_state (State_Monad.bind m f) w)) = w_trace w @ (e1 @ e2)"
    using m e1 e2 by (simp add: run_bind)
  then show "\<exists>evs. w_trace (snd (run_state (State_Monad.bind m f) w)) = w_trace w @ evs \<and> list_all Q evs"
    using e1 e2 by (metis list_all_append)
qed

lemma emits_return [emit_intros]: "emits Q (State_Monad.return x)"
  by (simp add: emits_def run_return)

lemma emits_call [emit_intros]: "(\<And>r. Q (EvPort c r)) \<Longrightarrow> emits Q (call E c)"
  by (simp add: emits_def call_def tick_def Let_def)

lemma emits_store [emit_intros]: "(\<And>b. Q (EvStore name i b)) \<Longrightarrow> emits Q (store E name i t)"
  by (auto simp: emits_def store_def tick_def Let_def split: option.splits)

lemma emits_query [emit_intros]: "emits Q (query E q)"
  by (auto simp: emits_def query_def Let_def split: option.splits)

lemma emits_log [emit_intros]: "Q (EvLog s) \<Longrightarrow> emits Q (logLine s)"
  by (simp add: emits_def logLine_def)

lemma emits_clock [emit_intros]: "emits Q (clock E)"
  by (simp add: emits_def clock_def)

lemma emits_ctxErr [emit_intros]: "emits Q (ctxErr E)"
  by (simp add: emits_def ctxErr_def)

lemma emits_count [emit_intros]: "Q (EvCount s) \<Longrightarrow> emits Q (countMetric s)"
  by (simp add: emits_def countMetric_def)

lemma emits_inflight [emit_intros]: "emits Q getInflight" "emits Q (setInflight s)"
  by (simp_all add: emits_def getInflight_def setInflight_def)

lemma emits_if [emit_intros]: "(b \<Longrightarrow> emits Q m) \<Longrightarrow> (\<not> b \<Longrightarrow> emits Q n) \<Longrightarrow> emits Q (if b then m else n)"
  by simp

lemma emits_option [emit_intros]:
  "(x = None \<Longrightarrow> emits Q m) \<Longrightarrow> (\<And>y. x = Some y \<Longrightarrow> emits Q (f y)) \<Longrightarrow>
     emits Q (case x of None \<Rightarrow> m | Some y \<Rightarrow> f y)"
  by (cases x) auto

lemma emits_sum [emit_intros]:
  "(\<And>e. x = Inl e \<Longrightarrow> emits Q (f e)) \<Longrightarrow> (\<And>r. x = Inr r \<Longrightarrow> emits Q (g r)) \<Longrightarrow>
     emits Q (case x of Inl e \<Rightarrow> f e | Inr r \<Rightarrow> g r)"
  by (cases x) auto

lemma emits_prod [emit_intros]:
  "(\<And>a b. x = (a, b) \<Longrightarrow> emits Q (f a b)) \<Longrightarrow> emits Q (case x of (a, b) \<Rightarrow> f a b)"
  by (cases x) auto

lemma emits_let [emit_intros]: "(\<And>y. y = x \<Longrightarrow> emits Q (f y)) \<Longrightarrow> emits Q (let y = x in f y)"
  by simp

lemma emits_mono: "emits Q m \<Longrightarrow> (\<And>e. Q e \<Longrightarrow> R e) \<Longrightarrow> emits R m"
  unfolding emits_def by (metis list.pred_mono_strong)

lemma emits_events: "emits Q m \<Longrightarrow> list_all Q (events m w)"
  unfolding emits_def events_def by (metis append_eq_conv_conj)

lemma emits_trace: "emits Q m \<Longrightarrow> w_trace (after m w) = w_trace w @ events m w"
  unfolding emits_def events_def after_def by (metis append_eq_conv_conj)

text \<open>An invariant of the database kept by an action when the other goroutines'
  transactions keep it.\<close>

definition keepsDB :: "env \<Rightarrow> (db \<Rightarrow> bool) \<Rightarrow> 'a act \<Rightarrow> bool" where
  "keepsDB E I m \<longleftrightarrow> (\<forall>w. I (w_db w) \<longrightarrow> I (w_db (snd (run_state m w))))"

named_theorems keeps_intros \<open>how an action keeps an invariant of the database\<close>

lemma keepsDB_bind [keeps_intros]:
  "keepsDB E I m \<Longrightarrow> (\<And>x. keepsDB E I (f x)) \<Longrightarrow> keepsDB E I (State_Monad.bind m f)"
  by (simp add: keepsDB_def run_bind split: prod.split) (metis snd_conv)

lemma keepsDB_return [keeps_intros]: "keepsDB E I (State_Monad.return x)"
  by (simp add: keepsDB_def run_return)

lemma keepsDB_call [keeps_intros]: "keepsDB E I (call E c)"
  by (simp add: keepsDB_def call_def tick_def Let_def)

lemma keepsDB_log [keeps_intros]: "keepsDB E I (logLine s)"
  by (simp add: keepsDB_def logLine_def)

lemma keepsDB_clock [keeps_intros]: "keepsDB E I (clock E)"
  by (simp add: keepsDB_def clock_def)

lemma keepsDB_ctxErr [keeps_intros]: "keepsDB E I (ctxErr E')"
  by (simp add: keepsDB_def ctxErr_def)

lemma keepsDB_count [keeps_intros]: "keepsDB E I (countMetric s)"
  by (simp add: keepsDB_def countMetric_def)

lemma keepsDB_inflight [keeps_intros]: "keepsDB E I getInflight" "keepsDB E I (setInflight s)"
  by (simp_all add: keepsDB_def getInflight_def setInflight_def)

lemma keepsDB_if [keeps_intros]:
  "(b \<Longrightarrow> keepsDB E I m) \<Longrightarrow> (\<not> b \<Longrightarrow> keepsDB E I n) \<Longrightarrow> keepsDB E I (if b then m else n)"
  by simp

lemma keepsDB_option [keeps_intros]:
  "(x = None \<Longrightarrow> keepsDB E I m) \<Longrightarrow> (\<And>y. x = Some y \<Longrightarrow> keepsDB E I (f y)) \<Longrightarrow>
     keepsDB E I (case x of None \<Rightarrow> m | Some y \<Rightarrow> f y)"
  by (cases x) auto

lemma keepsDB_sum [keeps_intros]:
  "(\<And>e. x = Inl e \<Longrightarrow> keepsDB E I (f e)) \<Longrightarrow> (\<And>r. x = Inr r \<Longrightarrow> keepsDB E I (g r)) \<Longrightarrow>
     keepsDB E I (case x of Inl e \<Rightarrow> f e | Inr r \<Rightarrow> g r)"
  by (cases x) auto

lemma keepsDB_prod [keeps_intros]:
  "(\<And>a b. x = (a, b) \<Longrightarrow> keepsDB E I (f a b)) \<Longrightarrow> keepsDB E I (case x of (a, b) \<Rightarrow> f a b)"
  by (cases x) auto

lemma keepsDB_let [keeps_intros]: "(\<And>y. y = x \<Longrightarrow> keepsDB E I (f y)) \<Longrightarrow> keepsDB E I (let y = x in f y)"
  by simp

lemma keepsDB_store:
  assumes "\<And>n db. I db \<Longrightarrow> I (en_others E n db)"
    and "\<And>now db db' r. I db \<Longrightarrow> t now db = Some (db', r) \<Longrightarrow> I db'"
  shows "keepsDB E I (store E name i t)"
  using assms(1)
  by (auto simp: keepsDB_def store_def tick_def Let_def split: option.splits) (use assms in blast)

lemma keepsDB_query:
  "(\<And>n db. I db \<Longrightarrow> I (en_others E n db)) \<Longrightarrow> keepsDB E I (query E q)"
  by (auto simp: keepsDB_def query_def Let_def split: option.splits)

text \<open>Stepping through a run.\<close>

lemmas run_simps = run_bind run_return call_def store_def query_def logLine_def clock_def tick_def Let_def

definition quietEnv :: "(nat \<Rightarrow> pcall \<Rightarrow> preply) \<Rightarrow> env" where
  "quietEnv port = \<lparr>en_port = port, en_dbfail = (\<lambda>n. None), en_txerr = (\<lambda>n. newErr []),
     en_others = (\<lambda>n db. db), en_now = (\<lambda>n. 0), en_ctx = (\<lambda>n. None)\<rparr>"

definition okReply :: preply where
  "okReply = \<lparr>pr_err = None, pr_ids = [1], pr_id = 1, pr_text = [], pr_members = [],
     pr_rights = \<lparr>br_IsAdmin = True, br_CanDelete = True, br_CanRestrict = True, br_AggressiveAntiSpam = False\<rparr>\<rparr>"

definition startWorld :: "db \<Rightarrow> world" where
  "startWorld db = \<lparr>w_db = db, w_trace = [], w_ticks = 0, w_inflight = []\<rparr>"

section \<open>What a run did, with its result\<close>

text \<open>\<open>sat R m\<close>: every run of \<open>m\<close> only appends to the trace, and its
  result and the events it appended are related by \<open>R\<close>.\<close>

definition sat :: "('a \<Rightarrow> event list \<Rightarrow> bool) \<Rightarrow> 'a act \<Rightarrow> bool" where
  "sat R m \<longleftrightarrow> (\<forall>w. \<exists>evs. w_trace (snd (run_state m w)) = w_trace w @ evs \<and> R (fst (run_state m w)) evs)"

lemma sat_bind:
  assumes "sat S m" and "\<And>x. sat (T x) (f x)"
    and "\<And>x y e1 e2. S x e1 \<Longrightarrow> T x y e2 \<Longrightarrow> R y (e1 @ e2)"
  shows "sat R (State_Monad.bind m f)"
  unfolding sat_def
proof
  fix w
  obtain x w1 where m: "run_state m w = (x, w1)" by (cases "run_state m w")
  obtain e1 where e1: "w_trace w1 = w_trace w @ e1" "S x e1"
    using assms(1) m by (metis sat_def fst_conv snd_conv)
  obtain e2 where e2: "w_trace (snd (run_state (f x) w1)) = w_trace w1 @ e2" "T x (fst (run_state (f x) w1)) e2"
    using assms(2) by (metis sat_def)
  have "run_state (State_Monad.bind m f) w = run_state (f x) w1" using m by (simp add: run_bind)
  then show "\<exists>evs. w_trace (snd (run_state (State_Monad.bind m f) w)) = w_trace w @ evs \<and>
      R (fst (run_state (State_Monad.bind m f) w)) evs"
    using e1 e2 assms(3) by (metis append.assoc)
qed

lemma sat_return: "R x [] \<Longrightarrow> sat R (State_Monad.return x)"
  by (simp add: sat_def run_return)

lemma sat_call: "(\<And>r. R r [EvPort c r]) \<Longrightarrow> sat R (call E c)"
  by (simp add: sat_def call_def tick_def Let_def)

lemma sat_store:
  "(\<And>e. R (Inl e) [EvStore name i False]) \<Longrightarrow> (\<And>r. R (Inr r) [EvStore name i True]) \<Longrightarrow>
     sat R (store E name i t)"
  by (auto simp: sat_def store_def tick_def Let_def split: option.splits)

lemma sat_log: "R () [EvLog s] \<Longrightarrow> sat R (logLine s)"
  by (simp add: sat_def logLine_def)

lemma sat_emits: "emits Q m \<Longrightarrow> sat (\<lambda>x evs. list_all Q evs) m"
  by (simp add: sat_def emits_def)

lemma sat_mono: "sat R m \<Longrightarrow> (\<And>x evs. R x evs \<Longrightarrow> R' x evs) \<Longrightarrow> sat R' m"
  unfolding sat_def by metis

lemma sat_conj: "sat R m \<Longrightarrow> sat R' m \<Longrightarrow> sat (\<lambda>x evs. R x evs \<and> R' x evs) m"
  unfolding sat_def by (metis same_append_eq)

lemma sat_events: "sat R m \<Longrightarrow> R (result m w) (events m w)"
  unfolding sat_def events_def result_def by (metis append_eq_conv_conj)

lemma sat_if: "(b \<Longrightarrow> sat R m) \<Longrightarrow> (\<not> b \<Longrightarrow> sat R n) \<Longrightarrow> sat R (if b then m else n)"
  by simp

lemma sat_option:
  "(x = None \<Longrightarrow> sat R m) \<Longrightarrow> (\<And>y. x = Some y \<Longrightarrow> sat R (f y)) \<Longrightarrow>
     sat R (case x of None \<Rightarrow> m | Some y \<Rightarrow> f y)"
  by (cases x) auto

lemma sat_sum:
  "(\<And>e. x = Inl e \<Longrightarrow> sat R (f e)) \<Longrightarrow> (\<And>r. x = Inr r \<Longrightarrow> sat R (g r)) \<Longrightarrow>
     sat R (case x of Inl e \<Rightarrow> f e | Inr r \<Rightarrow> g r)"
  by (cases x) auto

text \<open>Facts about the result alone.\<close>

definition yields :: "('a \<Rightarrow> bool) \<Rightarrow> 'a act \<Rightarrow> bool" where
  "yields P m \<longleftrightarrow> (\<forall>w. P (fst (run_state m w)))"

named_theorems yield_intros \<open>how the result of an action follows from its parts\<close>

lemma yields_bind [yield_intros]: "(\<And>x. yields P (f x)) \<Longrightarrow> yields P (State_Monad.bind m f)"
  by (simp add: yields_def run_bind split: prod.split)

text \<open>The same with what the first part is known to return.\<close>

lemma yields_then:
  "yields S m \<Longrightarrow> (\<And>x. S x \<Longrightarrow> yields P (f x)) \<Longrightarrow> yields P (State_Monad.bind m f)"
  by (simp add: yields_def run_bind split: prod.split) (metis fst_conv)

lemma yields_after: "run_state m w = (x, w1) \<Longrightarrow> yields P (f x) \<Longrightarrow> P (result (State_Monad.bind m f) w)"
  by (simp add: yields_def result_def run_bind)

lemma yields_call: "(\<And>n. P (en_port E n c)) \<Longrightarrow> yields P (call E c)"
  by (simp add: yields_def call_def Let_def)

lemma yields_return [yield_intros]: "P x \<Longrightarrow> yields P (State_Monad.return x)"
  by (simp add: yields_def run_return)

lemma yields_if [yield_intros]:
  "(b \<Longrightarrow> yields P m) \<Longrightarrow> (\<not> b \<Longrightarrow> yields P n) \<Longrightarrow> yields P (if b then m else n)"
  by simp

lemma yields_option [yield_intros]:
  "(x = None \<Longrightarrow> yields P m) \<Longrightarrow> (\<And>y. x = Some y \<Longrightarrow> yields P (f y)) \<Longrightarrow>
     yields P (case x of None \<Rightarrow> m | Some y \<Rightarrow> f y)"
  by (cases x) auto

lemma yields_sum [yield_intros]:
  "(\<And>e. x = Inl e \<Longrightarrow> yields P (f e)) \<Longrightarrow> (\<And>r. x = Inr r \<Longrightarrow> yields P (g r)) \<Longrightarrow>
     yields P (case x of Inl e \<Rightarrow> f e | Inr r \<Rightarrow> g r)"
  by (cases x) auto

lemma yields_let [yield_intros]: "(\<And>y. y = x \<Longrightarrow> yields P (f y)) \<Longrightarrow> yields P (let y = x in f y)"
  by simp

lemma sat_emits_yields: "emits Q m \<Longrightarrow> yields P m \<Longrightarrow> sat (\<lambda>x evs. P x \<and> list_all Q evs) m"
  by (simp add: sat_def emits_def yields_def)

section \<open>A quiet environment\<close>

text \<open>No database failure and no other goroutine: what a run does to the
  database is then the transactions it asks for, one after the other.\<close>

definition quiet :: "env \<Rightarrow> bool" where
  "quiet E \<longleftrightarrow> en_dbfail E = (\<lambda>n. None) \<and> en_others E = (\<lambda>n db. db)"

lemma quiet_quietEnv [simp]: "quiet (quietEnv port)"
  by (simp add: quiet_def quietEnv_def)

lemma run_store_quiet:
  "quiet E \<Longrightarrow> t (en_now E (w_ticks w)) (w_db w) = Some (db', r) \<Longrightarrow>
     run_state (store E name i t) w = (Inr r, tick (EvStore name i True) (w\<lparr>w_db := db'\<rparr>))"
  by (simp add: store_def quiet_def Let_def)

lemma run_query_quiet:
  "quiet E \<Longrightarrow> q (w_db w) = Some r \<Longrightarrow>
     run_state (query E q) w = (Inr r, w\<lparr>w_ticks := Suc (w_ticks w)\<rparr>)"
  by (simp add: query_def quiet_def Let_def)

lemma tick_simps [simp]:
  "w_db (tick ev w) = w_db w" "w_trace (tick ev w) = w_trace w @ [ev]" "w_ticks (tick ev w) = Suc (w_ticks w)"
  by (simp_all add: tick_def)

lemma run_call: "run_state (call E c) w = (en_port E (w_ticks w) c, tick (EvPort c (en_port E (w_ticks w) c)) w)"
  by (simp add: call_def Let_def)

lemma run_log: "run_state (logLine s) w = ((), w\<lparr>w_trace := w_trace w @ [EvLog s]\<rparr>)"
  by (simp add: logLine_def)

lemma events_eqI: "w_trace (snd (run_state m w)) = w_trace w @ evs \<Longrightarrow> events m w = evs"
  by (simp add: events_def)

end
