(* ===== verification/Card.thy ===== *)
theory Card
  imports Effects
begin

text \<open>
  \<open>internal/incident/card.go\<close>: the text of the verdict card, and
  \<open>sanitize\<close> of \<open>machine.go\<close>, which every field a spammer controls
  passes through.
\<close>

definition maxCardField :: nat where "maxCardField = 64"
definition maxCardNote :: nat where "maxCardNote = 200"
definition maxCard :: nat where "maxCard = 1024"

fun actionText :: "action \<Rightarrow> string" where
  "actionText ActionNone = ''none''"
| "actionText ActionDeleteMute = ''delete_mute''"
| "actionText ActionMute = ''mute''"
| "actionText ActionBan = ''ban''"
| "actionText ActionDeleteOnly = ''delete_only''"
| "actionText ActionQuarantine = ''quarantine''"
| "actionText (ActionOther s) = s"

fun kindText :: "sender_kind \<Rightarrow> string" where
  "kindText SenderUser = ''user''"
| "kindText SenderExternalChannel = ''external_channel''"
| "kindText SenderAnonAdmin = ''anon_admin''"
| "kindText SenderLinkedChannel = ''linked_channel''"
| "kindText SenderBot = ''bot''"

definition sanitizeRune :: "rune \<Rightarrow> str" where
  "sanitizeRune r =
     (if r = 10 \<or> r = 13 \<or> r = 9 \<or> r < 0x20 \<or> (0x7F \<le> r \<and> r \<le> 0x9F) \<or> r = 0x2028 \<or> r = 0x2029 then [32]
      else if (0x202A \<le> r \<and> r \<le> 0x202E) \<or> (0x2066 \<le> r \<and> r \<le> 0x2069) \<or> r = 0x61C then []
      else if (0x200B \<le> r \<and> r \<le> 0x200F) \<or> r = 0xFEFF then []
      else [r])"

definition sanitize :: "str \<Rightarrow> str" where
  "sanitize s = concat (map sanitizeRune s)"

definition clip :: "str \<Rightarrow> nat \<Rightarrow> str" where
  "clip s n = (if length s \<le> n then s else take n s @ [0x2026])"

definition showInt :: "int \<Rightarrow> str" where
  "showInt i = lit (FormatInt i)"

definition outcomeLabel :: "incident \<Rightarrow> bool \<Rightarrow> str" where
  "outcomeLabel inc willAct =
     (let act = clip (sanitize (lit (actionText (vd_Action (inc_Verdict inc))))) maxCardField in
      if vd_ReviewOnly (inc_Verdict inc) then lit ''review only: nothing applied (suggested '' @ act @ lit '')''
      else if inc_DryRun inc then lit ''dry-run: nothing applied (would be '' @ act @ lit '')''
      else if \<not> willAct then lit ''nothing applied (would be '' @ act @ lit '')''
      else lit ''applying '' @ act)"

definition senderLine :: "sender \<Rightarrow> str" where
  "senderLine s =
     (let kind = clip (sanitize (lit (kindText (sn_Kind s)))) maxCardField in
      if sn_SenderChatID s \<noteq> 0
      then lit ''channel id='' @ showInt (sn_SenderChatID s) @ lit '' ('' @ kind @ lit '')''
      else
        (let tag = clip (sanitize (sn_Username s)) maxCardField;
             name = clip (sanitize (sn_DisplayName s)) maxCardField
         in Join [32]
              ((if tag \<noteq> [] then [64 # tag] else [])
               @ [lit ''id='' @ showInt (sn_UserID s)]
               @ (if name \<noteq> [] then [34 # name @ [34]] else [])
               @ (if sn_Kind s \<noteq> SenderUser then [lit ''('' @ kind @ lit '')''] else []))))"

definition cardMatch :: "signal list \<Rightarrow> str" where
  "cardMatch sigs =
     (case first (\<lambda>sig. sg_Name sig = ''fake_admin'' \<and> sg_Detail sig \<noteq> []) sigs of
        None \<Rightarrow> []
      | Some sig \<Rightarrow> 10 # lit ''match: '' @ clip (sanitize (sg_Detail sig)) maxCardNote)"

definition cardText :: "int \<Rightarrow> incident \<Rightarrow> str \<Rightarrow> str \<Rightarrow> bool \<Rightarrow> str" where
  "cardText iid inc chatTitle note willAct =
     35 # showInt iid @ [32] @ clip (sanitize (vd_Reason (inc_Verdict inc))) maxCardField
       @ [32, 0x2192, 32] @ outcomeLabel inc willAct
     @ (if note \<noteq> [] then 10 # clip (sanitize note) maxCardNote else [])
     @ 10 # lit ''chat: ''
     @ (let t = clip (sanitize chatTitle) maxCardField in
        if t \<noteq> [] then t @ lit '' ('' @ showInt (inc_ChatID inc) @ lit '')'' else showInt (inc_ChatID inc))
     @ (let n = length (inc_MessageIDs inc) in
        if n > 0 then
          lit '' msg='' @ showInt (hd (inc_MessageIDs inc))
            @ (if n > 1 then lit '' (+'' @ showInt (int n - 1) @ lit '' album parts)'' else [])
        else [])
     @ (if inc_ThreadID inc \<noteq> 0 then lit '' topic='' @ showInt (inc_ThreadID inc) else [])
     @ 10 # lit ''from: '' @ senderLine (inc_Sender inc) @ cardMatch (vd_Signals (inc_Verdict inc))"

definition formatCard :: "int \<Rightarrow> incident \<Rightarrow> str \<Rightarrow> str \<Rightarrow> bool \<Rightarrow> str" where
  "formatCard iid inc chatTitle note willAct = clip (cardText iid inc chatTitle note willAct) maxCard"

section \<open>What a card can and cannot contain\<close>

text \<open>A rune that could break a line, end the card early or reverse its text.\<close>

definition forging :: "rune \<Rightarrow> bool" where
  "forging r \<longleftrightarrow> r < 32 \<or> (0x7F \<le> r \<and> r \<le> 0x9F) \<or> r = 0x2028 \<or> r = 0x2029
     \<or> (0x202A \<le> r \<and> r \<le> 0x202E) \<or> (0x2066 \<le> r \<and> r \<le> 0x2069) \<or> r = 0x61C
     \<or> (0x200B \<le> r \<and> r \<le> 0x200F) \<or> r = 0xFEFF"

definition cleanText :: "str \<Rightarrow> bool" where
  "cleanText s \<longleftrightarrow> list_all (\<lambda>r. \<not> forging r) s"

lemma cleanText_simps [simp]:
  "cleanText []" "cleanText (r # s) \<longleftrightarrow> \<not> forging r \<and> cleanText s"
  "cleanText (s @ t) \<longleftrightarrow> cleanText s \<and> cleanText t"
  by (auto simp: cleanText_def)

lemma cleanText_sanitize [simp]: "cleanText (sanitize s)"
proof -
  have "cleanText (sanitizeRune r)" for r by (auto simp: sanitizeRune_def forging_def)
  then show ?thesis by (induction s) (auto simp: sanitize_def)
qed

lemma cleanText_take: "cleanText s \<Longrightarrow> cleanText (take n s)"
  by (auto simp: cleanText_def list_all_iff dest: in_set_takeD)

lemma cleanText_clip [simp]: "cleanText s \<Longrightarrow> cleanText (clip s n)"
  by (simp add: clip_def cleanText_take forging_def)

lemma length_clip [simp]: "length (clip s n) \<le> n + 1"
  by (simp add: clip_def)

lemma forging_char: "isDigitChar c \<or> c = CHR ''-'' \<Longrightarrow> \<not> forging (of_char c)"
proof -
  assume c: "isDigitChar c \<or> c = CHR ''-''"
  have e: "(of_char c :: int) = int (of_char c)" by (simp add: of_nat_of_char)
  show ?thesis using c unfolding forging_def isDigitChar_def e by auto
qed

lemma cleanText_showInt [simp]: "cleanText (showInt i)"
  using forging_char FormatInt_chars by (auto simp: showInt_def cleanText_def list_all_iff)

text \<open>The lines of a card are the ones the program writes: no field of the
  sender, of the chat or of an error can add one.\<close>

lemma cleanText_outcomeLabel [simp]: "cleanText (outcomeLabel inc willAct)"
  by (simp add: outcomeLabel_def Let_def forging_def)

lemma cleanText_Join: "cleanText sep \<Longrightarrow> (\<And>t. t \<in> set ts \<Longrightarrow> cleanText t) \<Longrightarrow> cleanText (Join sep ts)"
  by (induction sep ts rule: Join.induct) auto

lemma cleanText_senderLine [simp]: "cleanText (senderLine s)"
  unfolding senderLine_def Let_def
  by (auto intro!: cleanText_Join simp: forging_def)

end
