(* ===== verification/Machine.thy ===== *)
theory Machine
  imports Card
begin

text \<open>
  \<open>internal/incident/machine.go\<close>: the incident machine. It records an
  incident, copies the evidence, shows the verdict card, sanctions and
  deletes, in that order; and lets a moderator's verdict, or an edit that
  turns a review into a live verdict, take over an incident that never
  sanctioned anyone. Each function of the file is one definition here, the
  long ones split where their early returns are.
\<close>

record machine =
  mc_AdminChatID :: chat_id
  mc_ButtonsFor :: "(string \<Rightarrow> bool \<Rightarrow> buttons) option"
  mc_EphemeralNotice :: bool
  mc_EphemeralText :: str

definition errNothingCopied :: goerr where
  "errNothingCopied = newErr (lit ''copyMessages copied nothing (message type not copyable?)'')"

definition errCardNotRecorded :: string where
  "errCardNotRecorded = ''errCardNotRecorded''"

section \<open>Verdicts\<close>

definition actsWithoutEvidence :: "verdict \<Rightarrow> bool" where
  "actsWithoutEvidence v =
     list_ex (\<lambda>s. sg_Name s \<in> {''blocklist'', ''manual_spam'', ''manual_ban''}) (vd_Signals v)"

definition isManual :: "verdict \<Rightarrow> bool" where
  "isManual v = list_ex (\<lambda>s. sg_Name s \<in> {''manual_spam'', ''manual_ban''}) (vd_Signals v)"

section \<open>Logging\<close>

record outcome =
  oc_Sanctioned :: bool
  oc_Deleted :: bool
  oc_Err :: "goerr option"

definition outcomeOf :: "outcome \<Rightarrow> string" where
  "outcomeOf out =
     (if oc_Sanctioned out \<and> oc_Deleted out then ''succeeded''
      else if oc_Sanctioned out \<or> oc_Deleted out then ''partial''
      else ''failed'')"

definition signalNames :: "signal list \<Rightarrow> str" where
  "signalNames sigs =
     (if sigs = [] then lit ''no signals'' else Join [32] (map (\<lambda>s. sanitize (lit (sg_Name s))) sigs))"

definition showBool :: "bool \<Rightarrow> string" where
  "showBool b = (if b then ''true'' else ''false'')"

definition strChars :: "str \<Rightarrow> string" where
  "strChars s = map char_of s"

text \<open>The line \<open>logOutcome\<close> prints; a loggable fake-admin detail is plain
  ASCII, so quoting it (\<open>%q\<close>) only adds the quotes.\<close>

definition outcomeLine :: "int \<Rightarrow> incident \<Rightarrow> string \<Rightarrow> string \<Rightarrow> goerr option \<Rightarrow> str" where
  "outcomeLine iid inc what detail err =
     (let msgID = (if length (inc_MessageIDs inc) > 0 then hd (inc_MessageIDs inc) else 0);
          parts = (if length (inc_MessageIDs inc) > 1
                   then lit '' parts='' @ showInt (int (length (inc_MessageIDs inc))) else []);
          tail = (case err of None \<Rightarrow> [] | Some e \<Rightarrow> lit '': '' @ sanitize (ge_text e));
          match = (case first (\<lambda>s. sg_Name s = ''fake_admin'' \<and> IsFakeAdminDetail (strChars (sg_Detail s))
                                   \<and> lit (strChars (sg_Detail s)) = sg_Detail s)
                          (vd_Signals (inc_Verdict inc)) of
                     None \<Rightarrow> []
                   | Some s \<Rightarrow> lit '' fake_admin_match='' @ 34 # sg_Detail s @ [34])
      in lit ''chat='' @ showInt (inc_ChatID inc) @ lit '' msg='' @ showInt msgID @ lit '' sender=''
           @ lit (kindText (sn_Kind (inc_Sender inc))) @ lit '': '' @ lit what @ lit '' incident='' @ showInt iid
           @ lit '' action='' @ lit (actionText (vd_Action (inc_Verdict inc))) @ [32] @ lit detail @ parts
           @ lit '' ['' @ signalNames (vd_Signals (inc_Verdict inc)) @ lit '']'' @ match @ tail)"

definition logOutcome :: "int \<Rightarrow> incident \<Rightarrow> string \<Rightarrow> string \<Rightarrow> goerr option \<Rightarrow> unit act" where
  "logOutcome iid inc what detail err = logLine (outcomeLine iid inc what detail err)"

section \<open>The steps\<close>

definition setState :: "env \<Rightarrow> int \<Rightarrow> incident_state \<Rightarrow> unit act" where
  "setState E iid st = do {
     _ \<leftarrow> store E ''SetIncidentState'' iid (\<lambda>now. SetIncidentState iid st);
     State_Monad.return ()
   }"

definition sendCard :: "env \<Rightarrow> machine \<Rightarrow> int \<Rightarrow> admin_message \<Rightarrow> goerr option act" where
  "sendCard E mc iid msg = do {
     r \<leftarrow> call E (SendAdmin (mc_AdminChatID mc) msg);
     case pr_err r of
       Some e \<Rightarrow> State_Monad.return (Some e)
     | None \<Rightarrow> do {
         saved \<leftarrow> store E ''SaveIncidentCard'' iid
           (\<lambda>now. SaveIncidentCard iid \<lparr>ic_ChatID = mc_AdminChatID mc, ic_MessageID = pr_id r\<rparr>);
         case saved of
           Inr _ \<Rightarrow> State_Monad.return None
         | Inl e \<Rightarrow> do {
             d \<leftarrow> call E (DeleteMessages (mc_AdminChatID mc) [pr_id r]);
             _ \<leftarrow> (case pr_err d of
                     Some _ \<Rightarrow> do { _ \<leftarrow> call E (EditAdminMarkup (mc_AdminChatID mc) (pr_id r) []); State_Monad.return () }
                   | None \<Rightarrow> State_Monad.return ());
             State_Monad.return (Some \<lparr>ge_text = lit ''admin card not recorded: '' @ ge_text e,
                                       ge_is = errCardNotRecorded # ge_is e\<rparr>)
           }
       }
   }"

definition applyAction :: "env \<Rightarrow> incident \<Rightarrow> goerr option act" where
  "applyAction E inc =
     (let act = vd_Action (inc_Verdict inc); s = inc_Sender inc; one = (\<lambda>c. do { r \<leftarrow> call E c; State_Monad.return (pr_err r) }) in
      if sn_Kind s = SenderExternalChannel \<and> sn_SenderChatID s \<noteq> 0 \<and> act \<in> {ActionBan, ActionMute, ActionDeleteMute}
      then one (BanSenderChat (inc_ChatID inc) (sn_SenderChatID s))
      else (case act of
              ActionBan \<Rightarrow> one (BanMember (inc_ChatID inc) (sn_UserID s))
            | ActionMute \<Rightarrow> one (RestrictMember (inc_ChatID inc) (sn_UserID s) False 0)
            | ActionDeleteMute \<Rightarrow> one (RestrictMember (inc_ChatID inc) (sn_UserID s) False 0)
            | ActionDeleteOnly \<Rightarrow> State_Monad.return None
            | ActionQuarantine \<Rightarrow> State_Monad.return None
            | ActionNone \<Rightarrow> State_Monad.return None
            | ActionOther x \<Rightarrow> State_Monad.return (Some (newErr (lit ''unknown action '' @ 34 # lit x @ [34])))))"

definition enforceErr :: "goerr option \<Rightarrow> goerr option \<Rightarrow> goerr option" where
  "enforceErr actErr delErr =
     (case (actErr, delErr) of
        (Some a, Some d) \<Rightarrow>
          Some (wrapErr (lit ''apply action: '') a (lit '' (originals also not deleted: '' @ ge_text d @ lit '')''))
      | (None, Some d) \<Rightarrow> Some (wrapErr (lit ''delete originals: '') d [])
      | (Some a, None) \<Rightarrow> Some (wrapErr (lit ''apply action: '') a (lit '' (originals deleted)''))
      | (None, None) \<Rightarrow> None)"

definition Enforce :: "env \<Rightarrow> int \<Rightarrow> incident \<Rightarrow> outcome act" where
  "Enforce E iid inc = do {
     actErr \<leftarrow> applyAction E inc;
     _ \<leftarrow> (case actErr of
             Some e \<Rightarrow>
               if errIs e ErrRefused
               then do { _ \<leftarrow> store E ''MarkSanctionRefused'' iid (\<lambda>now. MarkSanctionRefused iid); State_Monad.return () }
               else do {
                 _ \<leftarrow> store E ''MarkSanctionUnknown'' iid
                   (\<lambda>now. MarkSanctionUnknown iid (vd_Action (inc_Verdict inc)));
                 State_Monad.return ()
               }
           | None \<Rightarrow> setState E iid StateActed);
     d \<leftarrow> call E (DeleteMessages (inc_ChatID inc) (inc_MessageIDs inc));
     let out = \<lparr>oc_Sanctioned = (actErr = None), oc_Deleted = (pr_err d = None),
                oc_Err = enforceErr actErr (pr_err d)\<rparr>;
     _ \<leftarrow> (if oc_Err out = None then setState E iid StateCleaned else State_Monad.return ());
     _ \<leftarrow> logOutcome iid inc ''enforced''
       (''outcome='' @ outcomeOf out @ '' action_ok='' @ showBool (oc_Sanctioned out)
          @ '' deleted='' @ showBool (oc_Deleted out)) (oc_Err out);
     State_Monad.return out
   }"

definition adminMessage :: "machine \<Rightarrow> int \<Rightarrow> incident \<Rightarrow> message_id list \<Rightarrow> bool \<Rightarrow> str \<Rightarrow> admin_message" where
  "adminMessage mc iid inc copies unenforced t =
     \<lparr>am_Text = t, am_IncidentKey = FormatInt iid, am_SourceChatID = inc_ChatID inc,
      am_CopiedFromChatID = inc_ChatID inc, am_CopyMessageIDs = copies,
      am_Buttons = (case mc_ButtonsFor mc of None \<Rightarrow> [] | Some f \<Rightarrow> f (FormatInt iid) unenforced)\<rparr>"

text \<open>The branch of \<open>process\<close> in which the evidence copy failed: the error to
  return, or \<open>None\<close> to go on to the sanction.\<close>

definition withoutEvidence :: "env \<Rightarrow> machine \<Rightarrow> int \<Rightarrow> incident \<Rightarrow> goerr \<Rightarrow> str \<Rightarrow> goerr option act" where
  "withoutEvidence E mc iid inc copyErr chatTitle =
     (let acting = actsWithoutEvidence (inc_Verdict inc);
          tail = (if acting then lit ''acting without a copied evidence trail''
                  else lit ''not acting without evidence'' @ [32, 0x2014, 32] @ lit ''review manually'') in do {
     _ \<leftarrow> (if \<not> acting then setState E iid StateEvidenceFailed else State_Monad.return ());
     sendErr \<leftarrow> sendCard E mc iid
       (adminMessage mc iid inc [] False
          (formatCard iid inc chatTitle
             (lit ''evidence copy failed: '' @ ge_text copyErr @ lit ''; '' @ tail)
             (acting \<and> \<not> inc_DryRun inc)));
     if \<not> acting then
       (case sendErr of
          Some e \<Rightarrow> do {
            let err = wrapErr (lit ''evidence copy failed ('' @ ge_text copyErr @ lit ''), admins not notified either: '') e [];
            _ \<leftarrow> logOutcome iid inc ''not enforced'' ''stage=admin_notify'' (Some err);
            State_Monad.return (Some err)
          }
        | None \<Rightarrow> do {
            let err = wrapErr (lit ''evidence copy failed, not acting on a probabilistic verdict: '') copyErr [];
            _ \<leftarrow> logOutcome iid inc ''not enforced'' ''stage=evidence_copy'' (Some err);
            State_Monad.return (Some err)
          })
     else
       (case sendErr of
          Some e \<Rightarrow> do {
            _ \<leftarrow> setState E iid StateNotActed;
            let err = wrapErr (lit ''send admin: '') e [];
            _ \<leftarrow> logOutcome iid inc ''not enforced'' ''stage=admin_notify'' (Some err);
            State_Monad.return (Some err)
          }
        | None \<Rightarrow> State_Monad.return None)
   })"

text \<open>The branch in which some evidence arrived.\<close>

definition withEvidence :: "env \<Rightarrow> machine \<Rightarrow> int \<Rightarrow> incident \<Rightarrow> message_id list \<Rightarrow> str \<Rightarrow> goerr option act" where
  "withEvidence E mc iid inc adminIDs chatTitle =
     (let got = length adminIDs; want = length (inc_MessageIDs inc);
          note = (if got < want
                  then lit ''evidence INCOMPLETE: copied '' @ showInt (int got) @ lit '' of '' @ showInt (int want)
                    @ lit '' messages'' @ [32, 0x2014, 32] @ lit ''the part that triggered the verdict may be missing''
                  else []) in do {
     sendErr \<leftarrow> sendCard E mc iid
       (adminMessage mc iid inc adminIDs (inc_DryRun inc) (formatCard iid inc chatTitle note (\<not> inc_DryRun inc)));
     case sendErr of
       Some e \<Rightarrow> do {
         _ \<leftarrow> (if errIs e errCardNotRecorded
                then do { _ \<leftarrow> call E (DeleteMessages (mc_AdminChatID mc) adminIDs); State_Monad.return () }
                else State_Monad.return ());
         _ \<leftarrow> setState E iid StateNotActed;
         let err = wrapErr (lit ''send admin: '') e [];
         _ \<leftarrow> logOutcome iid inc ''not enforced'' ''stage=admin_notify'' (Some err);
         State_Monad.return (Some err)
       }
     | None \<Rightarrow> do {
         added \<leftarrow> store E ''AddEvidence'' iid (\<lambda>now. AddEvidence iid (mc_AdminChatID mc) adminIDs);
         case added of
           Inl e \<Rightarrow> do {
             _ \<leftarrow> setState E iid StateNotActed;
             let err = wrapErr (lit ''save evidence: '') e [];
             _ \<leftarrow> logOutcome iid inc ''not enforced'' ''stage=evidence_store'' (Some err);
             State_Monad.return (Some err)
           }
         | Inr _ \<Rightarrow> do { _ \<leftarrow> setState E iid StateEvidenced; State_Monad.return None }
       }
   })"

definition notice :: "env \<Rightarrow> machine \<Rightarrow> incident \<Rightarrow> unit act" where
  "notice E mc inc =
     (if mc_EphemeralNotice mc \<and> mc_EphemeralText mc \<noteq> [] \<and> sn_UserID (inc_Sender inc) \<noteq> 0
      then do {
        _ \<leftarrow> call E (SendEphemeral (inc_ChatID inc) (sn_UserID (inc_Sender inc)) (mc_EphemeralText mc));
        State_Monad.return ()
      }
      else State_Monad.return ())"

text \<open>The dry-run gate and the sanction: the end of \<open>process\<close>.\<close>

definition finish :: "env \<Rightarrow> machine \<Rightarrow> int \<Rightarrow> incident \<Rightarrow> (bool \<times> goerr option) act" where
  "finish E mc iid inc =
     (if inc_DryRun inc \<or> vd_ReviewOnly (inc_Verdict inc) then do {
        _ \<leftarrow> logOutcome iid inc ''not enforced''
          (''dry_run='' @ showBool (inc_DryRun inc) @ '' review_only='' @ showBool (vd_ReviewOnly (inc_Verdict inc))) None;
        r \<leftarrow> store E ''SetIncidentState'' iid (\<lambda>now. SetIncidentState iid StateDone);
        State_Monad.return (False, sumErr r)
      }
      else do {
        out \<leftarrow> Enforce E iid inc;
        case oc_Err out of
          Some e \<Rightarrow> State_Monad.return (oc_Sanctioned out, Some e)
        | None \<Rightarrow> do {
            _ \<leftarrow> notice E mc inc;
            r \<leftarrow> store E ''SetIncidentState'' iid (\<lambda>now. SetIncidentState iid StateDone);
            State_Monad.return (oc_Sanctioned out, sumErr r)
          }
      })"

definition recordParts :: "env \<Rightarrow> int \<Rightarrow> incident \<Rightarrow> unit act" where
  "recordParts E iid inc = do {
     _ \<leftarrow> (if length (inc_MessageIDs inc) > 1
            then store E ''SaveIncidentMessageIDs'' iid (\<lambda>now. SaveIncidentMessageIDs iid (inc_MessageIDs inc))
            else State_Monad.return (Inr ()));
     _ \<leftarrow> (if length (inc_Tokens inc) > 0
            then store E ''SaveIncidentTokens'' iid (\<lambda>now. SaveIncidentTokens now iid (inc_Tokens inc))
            else State_Monad.return (Inr ()));
     State_Monad.return ()
   }"

definition process :: "env \<Rightarrow> machine \<Rightarrow> int \<Rightarrow> incident \<Rightarrow> (bool \<times> goerr option) act" where
  "process E mc iid inc = do {
     _ \<leftarrow> recordParts E iid inc;
     cp \<leftarrow> call E (CopyMessages (mc_AdminChatID mc) (inc_ChatID inc) (inc_MessageIDs inc));
     let copyErr = (if pr_err cp = None \<and> length (pr_ids cp) = 0 then Some errNothingCopied else pr_err cp);
     title \<leftarrow> call E (ChatTitle (inc_ChatID inc));
     early \<leftarrow> (case copyErr of
                  Some e \<Rightarrow> withoutEvidence E mc iid inc e (pr_text title)
                | None \<Rightarrow> withEvidence E mc iid inc (pr_ids cp) (pr_text title));
     case early of
       Some e \<Rightarrow> State_Monad.return (False, Some e)
     | None \<Rightarrow> finish E mc iid inc
   }"

section \<open>Taking over a recorded incident\<close>

definition overrideCard :: "machine \<Rightarrow> int \<Rightarrow> incident \<Rightarrow> message_id list \<Rightarrow> outcome \<Rightarrow> admin_message" where
  "overrideCard mc iid inc evidenceIDs out =
     adminMessage mc iid inc evidenceIDs False
       (formatCard iid inc []
          (lit ''manual override of an incident that applied no sanction: '' @ lit (outcomeOf out))
          (oc_Sanctioned out))"

definition manualOverride :: "env \<Rightarrow> machine \<Rightarrow> int \<Rightarrow> incident \<Rightarrow> message_id list \<Rightarrow> outcome act" where
  "manualOverride E mc iid inc evidenceIDs = do {
     out \<leftarrow> Enforce E iid inc;
     _ \<leftarrow> (if oc_Sanctioned out \<and> oc_Err out = None then setState E iid StateDone else State_Monad.return ());
     _ \<leftarrow> sendCard E mc iid (overrideCard mc iid inc evidenceIDs out);
     State_Monad.return out
   }"

text \<open>The result is whether the caller's verdict was taken up, and the error.\<close>

definition override :: "env \<Rightarrow> machine \<Rightarrow> int \<Rightarrow> incident \<Rightarrow> (bool \<times> goerr option) act" where
  "override E mc iid inc0 = do {
     cl \<leftarrow> store E ''ClaimManualOverride'' iid (\<lambda>now. ClaimManualOverride iid);
     case cl of
       Inl e \<Rightarrow> State_Monad.return (False, Some (wrapErr (lit ''claim manual override: '') e []))
     | Inr (claimed, ids, evidenceIDs) \<Rightarrow>
         if \<not> claimed then State_Monad.return (False, None)
         else do {
           let automatic = \<not> isManual (inc_Verdict inc0);
           refusal \<leftarrow> (if automatic then do {
                row \<leftarrow> query E (GetIncident iid);
                State_Monad.return
                  (case row of
                     Inl e \<Rightarrow> Some (Some e)
                   | Inr r \<Rightarrow> if rw_Action r \<noteq> ActionQuarantine then Some None else None)
              } else State_Monad.return None);
           case refusal of
             Some readErr \<Rightarrow> do {
               f \<leftarrow> store E ''FinishManualOverride'' iid (\<lambda>now. FinishManualOverride iid (inc_Verdict inc0) False);
               State_Monad.return (False, joinErr readErr (sumErr f))
             }
           | None \<Rightarrow> do {
               let inc = (if length ids > 0 then inc0\<lparr>inc_MessageIDs := ids\<rparr> else inc0);
               res \<leftarrow> (if automatic then process E mc iid inc
                        else do {
                          out \<leftarrow> manualOverride E mc iid inc evidenceIDs;
                          State_Monad.return (oc_Sanctioned out, oc_Err out)
                        });
               _ \<leftarrow> store E ''FinishManualOverride'' iid
                 (\<lambda>now. FinishManualOverride iid (inc_Verdict inc) (fst res));
               _ \<leftarrow> (if \<not> automatic \<and> snd res = None then notice E mc inc else State_Monad.return ());
               State_Monad.return (True, snd res)
             }
         }
   }"

definition handle :: "env \<Rightarrow> machine \<Rightarrow> incident \<Rightarrow> (bool \<times> goerr option) act" where
  "handle E mc inc =
     (if length (inc_MessageIDs inc) = 0
      then State_Monad.return (False, Some (newErr (lit ''incident has no message ids'')))
      else do {
        ins \<leftarrow> store E ''InsertPending'' 0
          (\<lambda>now. InsertPending now (inc_ChatID inc) (hd (inc_MessageIDs inc)) (sn_UserID (inc_Sender inc))
                   (sn_SenderChatID (inc_Sender inc)) (inc_DryRun inc) (inc_Verdict inc));
        case ins of
          Inl e \<Rightarrow> State_Monad.return (False, Some (wrapErr (lit ''insert pending: '') e []))
        | Inr (iid, fresh) \<Rightarrow>
            if \<not> fresh then
              (if isManual (inc_Verdict inc) then override E mc iid inc
               else if \<not> inc_DryRun inc \<and> \<not> vd_ReviewOnly (inc_Verdict inc) \<and> IsActionable (inc_Verdict inc)
                      \<and> vd_Action (inc_Verdict inc) \<noteq> ActionQuarantine
                 then override E mc iid inc
               else State_Monad.return (False, None))
            else do {
              r \<leftarrow> process E mc iid inc;
              State_Monad.return (True, snd r)
            }
      })"

definition HandleReport :: "env \<Rightarrow> machine \<Rightarrow> incident \<Rightarrow> (bool \<times> goerr option) act" where
  "HandleReport E mc inc = handle E mc inc"

definition Handle :: "env \<Rightarrow> machine \<Rightarrow> incident \<Rightarrow> goerr option act" where
  "Handle E mc inc = do {
     r \<leftarrow> HandleReport E mc inc;
     State_Monad.return (snd r)
   }"

end
