(* ===== verification/MachineLemmas.thy ===== *)
theory MachineLemmas
  imports Machine
begin

text \<open>
  What the incident machine does, proved step by step: which events each
  stage may add to the trace, in what order the evidence, the card and the
  sanction come, what \<open>Enforce\<close> leaves in the row, and that an incident
  that already sanctioned someone is not acted on again.
\<close>

section \<open>Which events a stage may cause\<close>

text \<open>A destructive event: a sanction, or a deletion outside the admin chat.\<close>

fun destructive :: "chat_id \<Rightarrow> event \<Rightarrow> bool" where
  "destructive admin (EvPort (DeleteMessages c ids) r) = (c \<noteq> admin)"
| "destructive admin (EvPort c r) = sanctions c"
| "destructive admin _ = False"

text \<open>Calls that concern the admin chat only, and the two reads of the source
  chat; everything a verdict that is not enforced may do.\<close>

fun reportOnly :: "chat_id \<Rightarrow> event \<Rightarrow> bool" where
  "reportOnly admin (EvPort (CopyMessages d s ids) r) = (d = admin)"
| "reportOnly admin (EvPort (ChatTitle c) r) = True"
| "reportOnly admin (EvPort (SendAdmin a m) r) = (a = admin)"
| "reportOnly admin (EvPort (DeleteMessages c ids) r) = (c = admin)"
| "reportOnly admin (EvPort (EditAdminMarkup a m b) r) = (a = admin)"
| "reportOnly admin (EvPort _ r) = False"
| "reportOnly admin (EvStore n i b) = True"
| "reportOnly admin (EvLog s) = True"
| "reportOnly admin (EvCount s) = True"

lemma reportOnly_not_destructive: "reportOnly admin e \<Longrightarrow> \<not> destructive admin e"
  by (induction admin e rule: reportOnly.induct) auto

abbreviation reports :: "machine \<Rightarrow> event \<Rightarrow> bool" where
  "reports mc \<equiv> reportOnly (mc_AdminChatID mc)"

lemma emits_setState [emit_intros]: "(\<And>b. Q (EvStore ''SetIncidentState'' i b)) \<Longrightarrow> emits Q (setState E i s)"
  unfolding setState_def by (intro emit_intros)

lemma emits_sendCard: "emits (reports mc) (sendCard E mc i msg)"
  unfolding sendCard_def by (intro emit_intros; simp)

lemma emits_logOutcome [emit_intros]: "(\<And>s. Q (EvLog s)) \<Longrightarrow> emits Q (logOutcome i inc what detail err)"
  unfolding logOutcome_def by (intro emit_intros)

lemma emits_recordParts: "emits (reports mc) (recordParts E i inc)"
  unfolding recordParts_def by (intro emit_intros; simp)

lemma emits_withoutEvidence: "emits (reports mc) (withoutEvidence E mc i inc ce t)"
  unfolding withoutEvidence_def by (intro emit_intros emits_sendCard; simp)

lemma emits_withEvidence: "emits (reports mc) (withEvidence E mc i inc ids t)"
  unfolding withEvidence_def by (intro emit_intros emits_sendCard; simp)

text \<open>A dry-run or review-only incident is only reported.\<close>

lemma emits_finish_dry:
  "inc_DryRun inc \<or> vd_ReviewOnly (inc_Verdict inc) \<Longrightarrow> emits (reports mc) (finish E mc i inc)"
  unfolding finish_def by (simp, intro emit_intros; simp)

lemma emits_process_dry:
  "inc_DryRun inc \<or> vd_ReviewOnly (inc_Verdict inc) \<Longrightarrow> emits (reports mc) (process E mc i inc)"
  unfolding process_def
  by (intro emit_intros emits_recordParts emits_withoutEvidence emits_withEvidence emits_finish_dry; simp)

section \<open>Evidence, then card, then sanction\<close>

definition cardRegistered :: "int \<Rightarrow> event list \<Rightarrow> bool" where
  "cardRegistered i evs \<longleftrightarrow> EvStore ''SaveIncidentCard'' i True \<in> set evs"

text \<open>Evidence in the admin chat: a copy call without an error that copied
  something.\<close>

definition copiedSome :: "incident \<Rightarrow> chat_id \<Rightarrow> event list \<Rightarrow> bool" where
  "copiedSome inc admin evs \<longleftrightarrow>
     (\<exists>r. EvPort (CopyMessages admin (inc_ChatID inc) (inc_MessageIDs inc)) r \<in> set evs \<and>
          pr_err r = None \<and> pr_ids r \<noteq> [])"

definition copyTried :: "incident \<Rightarrow> chat_id \<Rightarrow> event list \<Rightarrow> bool" where
  "copyTried inc admin evs \<longleftrightarrow>
     (\<exists>r. EvPort (CopyMessages admin (inc_ChatID inc) (inc_MessageIDs inc)) r \<in> set evs)"

lemma sat_sendCard: "sat (\<lambda>err evs. err = None \<longrightarrow> cardRegistered i evs) (sendCard E mc i msg)"
  by (auto simp: sat_def sendCard_def run_simps cardRegistered_def split: option.splits sum.splits)

lemma emits_any:
  "emits Q m \<Longrightarrow> emits (\<lambda>_. True) m"
  by (erule emits_mono) simp

lemma cardRegistered_append [simp]:
  "cardRegistered i (xs @ ys) \<longleftrightarrow> cardRegistered i xs \<or> cardRegistered i ys"
  by (auto simp: cardRegistered_def)

lemma sat_withEvidence:
  "sat (\<lambda>err evs. err = None \<longrightarrow> cardRegistered i evs) (withEvidence E mc i inc ids t)"
  unfolding withEvidence_def Let_def
  by (rule sat_bind [OF sat_sendCard, where T = "\<lambda>e0 err evs. (err = None \<longrightarrow> e0 = None) \<and> list_all (\<lambda>_. True) evs"],
      rule sat_emits_yields)
     (auto intro!: emit_intros yield_intros)

lemma sat_withoutEvidence:
  "sat (\<lambda>err evs. err = None \<longrightarrow> cardRegistered i evs \<and> actsWithoutEvidence (inc_Verdict inc))
     (withoutEvidence E mc i inc ce t)"
  unfolding withoutEvidence_def Let_def
proof (rule sat_bind [where S = "\<lambda>_ _. True"
      and T = "\<lambda>_ err evs. err = None \<longrightarrow> cardRegistered i evs \<and> actsWithoutEvidence (inc_Verdict inc)"],
    goal_cases)
  case 1
  show ?case by (rule sat_mono [OF sat_emits [where Q = "\<lambda>_. True"]]) (auto intro!: emit_intros)
next
  case (2 x)
  show ?case
    by (rule sat_bind [OF sat_sendCard, where T = "\<lambda>e0 err evs. (err = None \<longrightarrow> e0 = None \<and>
           actsWithoutEvidence (inc_Verdict inc)) \<and> list_all (\<lambda>_. True) evs"], rule sat_emits_yields)
       (auto intro!: emit_intros yield_intros)
qed auto

text \<open>The order of a processed incident: everything up to some point only
  reports, and what comes after it, if anything does, comes after a
  registered card and either evidence in the admin chat or a verdict that
  may act without it.\<close>

definition ordered :: "machine \<Rightarrow> int \<Rightarrow> incident \<Rightarrow> event list \<Rightarrow> bool" where
  "ordered mc i inc evs \<longleftrightarrow>
     (\<exists>before post. evs = before @ post \<and> list_all (reports mc) before \<and>
        (post \<noteq> [] \<longrightarrow>
           cardRegistered i before \<and> copyTried inc (mc_AdminChatID mc) before \<and>
           (copiedSome inc (mc_AdminChatID mc) before \<or> actsWithoutEvidence (inc_Verdict inc))))"

lemma sat_any: "emits Q m \<Longrightarrow> sat (\<lambda>_ _. True) m"
  by (erule sat_mono [OF sat_emits]) simp

lemma emits_applyAction: "(\<And>c r. Q (EvPort c r)) \<Longrightarrow> emits Q (applyAction E inc)"
  unfolding applyAction_def Let_def
  by (cases "vd_Action (inc_Verdict inc)") (auto intro!: emit_intros)

lemma emits_Enforce: "emits (\<lambda>_. True) (Enforce E i inc)"
  unfolding Enforce_def Let_def by (intro emit_intros emits_applyAction; simp)

lemma emits_finish: "emits (\<lambda>_. True) (finish E mc i inc)"
  unfolding finish_def notice_def by (intro emit_intros emits_Enforce; simp)

lemma sat_stage:
  assumes "copyErr = (if pr_err cp = None \<and> length (pr_ids cp) = 0 then Some errNothingCopied else pr_err cp)"
  shows "sat (\<lambda>err evs. list_all (reports mc) evs \<and>
      (err = None \<longrightarrow> cardRegistered i evs \<and>
         (pr_err cp = None \<and> pr_ids cp \<noteq> [] \<or> actsWithoutEvidence (inc_Verdict inc))))
    (case copyErr of None \<Rightarrow> withEvidence E mc i inc (pr_ids cp) t
     | Some e \<Rightarrow> withoutEvidence E mc i inc e t)"
proof (cases copyErr)
  case None
  then have "pr_err cp = None \<and> pr_ids cp \<noteq> []" using assms by (auto split: if_splits)
  then show ?thesis unfolding None option.case
    by (intro sat_mono [OF sat_conj [OF sat_emits [OF emits_withEvidence] sat_withEvidence]]) auto
next
  case (Some e)
  show ?thesis unfolding Some option.case
    by (intro sat_mono [OF sat_conj [OF sat_emits [OF emits_withoutEvidence] sat_withoutEvidence]]) auto
qed

lemma sat_process: "sat (\<lambda>_ evs. ordered mc i inc evs) (process E mc i inc)"
  unfolding process_def Let_def
proof (rule sat_bind [OF sat_emits [OF emits_recordParts [of mc]],
    where T = "\<lambda>_ _ evs. ordered mc i inc evs"], goal_cases)
  case (1 u)
  let ?copy = "CopyMessages (mc_AdminChatID mc) (inc_ChatID inc) (inc_MessageIDs inc)"
  have copy: "sat (\<lambda>r evs. evs = [EvPort ?copy r]) (call E ?copy)" by (rule sat_call) simp
  show ?case
  proof (rule sat_bind [OF copy,
      where T = "\<lambda>cp _ evs. \<exists>before post. evs = before @ post \<and> list_all (reports mc) before \<and>
        (post \<noteq> [] \<longrightarrow> cardRegistered i before \<and>
           (pr_err cp = None \<and> pr_ids cp \<noteq> [] \<or> actsWithoutEvidence (inc_Verdict inc)))"], goal_cases)
    case (1 cp)
    let ?ev = "pr_err cp = None \<and> pr_ids cp \<noteq> [] \<or> actsWithoutEvidence (inc_Verdict inc)"
    show ?case
    proof (rule sat_bind [OF sat_emits [where Q = "reports mc"],
        where T = "\<lambda>_ _ evs. \<exists>before post. evs = before @ post \<and> list_all (reports mc) before \<and>
          (post \<noteq> [] \<longrightarrow> cardRegistered i before \<and> ?ev)"], goal_cases)
      case 1
      show ?case by (intro emit_intros) simp
    next
      case (2 title)
      show ?case
      proof (rule sat_bind [OF sat_stage [OF refl], where T = "\<lambda>early _ evs. early \<noteq> None \<longrightarrow> evs = []"], goal_cases)
        case (1 early)
        show ?case
          by (cases early) (auto intro!: sat_return sat_mono [OF sat_any [OF emits_finish]])
      next
        case (2 early y e1 e2)
        then show ?case by (cases early) auto
      qed
    next
      case (3 title y e1 e2)
      then obtain before post where "e2 = before @ post" "list_all (reports mc) before"
        "post \<noteq> [] \<longrightarrow> cardRegistered i before \<and> ?ev" by blast
      then show ?case using 3(1) by (intro exI [of _ "e1 @ before"] exI [of _ post]) auto
    qed
  next
    case (2 cp y e1 e2)
    then obtain before post where bp: "e2 = before @ post" "list_all (reports mc) before"
      "post \<noteq> [] \<longrightarrow> cardRegistered i before \<and>
         (pr_err cp = None \<and> pr_ids cp \<noteq> [] \<or> actsWithoutEvidence (inc_Verdict inc))" by blast
    then show ?case unfolding ordered_def using 2(1)
      by (intro exI [of _ "e1 @ before"] exI [of _ post])
         (auto simp: cardRegistered_def copyTried_def copiedSome_def)
  qed
next
  case (2 u y e1 e2)
  then obtain before post where "e2 = before @ post" "list_all (reports mc) before"
    "post \<noteq> [] \<longrightarrow> cardRegistered i before \<and> copyTried inc (mc_AdminChatID mc) before \<and>
       (copiedSome inc (mc_AdminChatID mc) before \<or> actsWithoutEvidence (inc_Verdict inc))"
    unfolding ordered_def by blast
  then show ?case unfolding ordered_def using 2(1)
    by (intro exI [of _ "e1 @ before"] exI [of _ post]) (auto simp: copyTried_def copiedSome_def)
qed

section \<open>What \<open>Enforce\<close> leaves behind\<close>

lemma applyAction_db: "w_db (snd (run_state (applyAction E inc) w)) = w_db w"
  by (cases "vd_Action (inc_Verdict inc)")
     (auto simp: applyAction_def Let_def run_bind run_return run_call)

lemma run_setState_quiet:
  "quiet E \<Longrightarrow> run_state (setState E i s) w =
     ((), tick (EvStore ''SetIncidentState'' i True)
            (w\<lparr>w_db := updIncidents (\<lambda>r. ir_ID r = i) (ir_State_update (\<lambda>_. s)) (w_db w)\<rparr>))"
  by (simp add: setState_def run_bind run_return SetIncidentState_def run_store_quiet)

text \<open>The state a sanction's answer moves a row to, and the state after the
  deletion's.\<close>

fun sanctionState :: "goerr option \<Rightarrow> incident_state \<Rightarrow> incident_state" where
  "sanctionState None s = StateActed"
| "sanctionState (Some e) s =
     (if errIs e ErrRefused then (if s = StateSanctionUnknown then s else StateNotActed)
      else StateSanctionUnknown)"

definition enforcedState :: "goerr option \<Rightarrow> goerr option \<Rightarrow> incident_state \<Rightarrow> incident_state" where
  "enforcedState actErr delErr s =
     (if actErr = None \<and> delErr = None then StateCleaned else sanctionState actErr s)"

text \<open>A failed sanction that Telegram did not refuse also leaves the attempted
  action in the audit row.\<close>

definition enforcedAction :: "goerr option \<Rightarrow> action \<Rightarrow> action \<Rightarrow> action" where
  "enforcedAction actErr attempted old =
     (case actErr of Some e \<Rightarrow> if errIs e ErrRefused then old else attempted | None \<Rightarrow> old)"

lemma enforceErr_None: "enforceErr a d = None \<longleftrightarrow> a = None \<and> d = None"
  by (auto simp: enforceErr_def split: option.splits)

lemma Enforce_run:
  assumes q: "quiet E" and r: "findIncident i (w_db w) = Some r"
    and a: "run_state (applyAction E inc) w = (actErr, w1)"
  shows "\<exists>del. result (Enforce E i inc) w =
       \<lparr>oc_Sanctioned = (actErr = None), oc_Deleted = (pr_err del = None), oc_Err = enforceErr actErr (pr_err del)\<rparr> \<and>
     EvPort (DeleteMessages (inc_ChatID inc) (inc_MessageIDs inc)) del \<in> set (events (Enforce E i inc) w) \<and>
     findIncident i (w_db (after (Enforce E i inc) w)) =
       Some (r\<lparr>ir_State := enforcedState actErr (pr_err del) (ir_State r)\<rparr>) \<and>
     auditOf i (w_db (after (Enforce E i inc) w)) =
       map_option (\<lambda>x. x\<lparr>au_Action := enforcedAction actErr (vd_Action (inc_Verdict inc)) (au_Action x)\<rparr>)
         (auditOf i (w_db w))"
proof -
  have db1: "w_db w1 = w_db w" using applyAction_db [of E inc w] a by simp
  have id: "ir_ID r = i" using findIncident_ID [OF r] .
  have tr: "\<exists>evs. w_trace w1 = w_trace w @ evs"
    using emits_applyAction [of "\<lambda>_. True" E inc] a by (simp add: emits_def) (metis snd_conv)
  show ?thesis
  proof (cases actErr)
    case None
    then show ?thesis using q r a db1 id tr
      by (auto simp: Enforce_def result_def after_def events_def run_bind run_return run_call run_log logOutcome_def
          run_setState_quiet Let_def enforceErr_None enforcedState_def enforcedAction_def findBy_updateWhere
          option.map_ident)
  next
    case (Some e)
    show ?thesis
    proof (cases "errIs e ErrRefused")
      case True
      then show ?thesis using q r a db1 id tr Some
        by (auto simp: Enforce_def result_def after_def events_def run_bind run_return run_call run_log logOutcome_def
            run_store_quiet MarkSanctionRefused_def Let_def enforceErr_None enforcedState_def enforcedAction_def
            findBy_updateWhere option.map_ident)
    next
      case False
      then show ?thesis using q r a db1 id tr Some
        by (auto simp: Enforce_def result_def after_def events_def run_bind run_return run_call run_log logOutcome_def
            run_store_quiet MarkSanctionUnknown_def Let_def enforceErr_None enforcedState_def enforcedAction_def
            findBy_updateWhere auditOf_updAudit)
    qed
  qed
qed

text \<open>A sanction with an unknown outcome protects its member from the captcha
  sweep, for as long as the incident is in the window asked about.\<close>

lemma Enforce_unknown_protects:
  assumes q: "quiet E" and r: "findIncident i (w_db w) = Some r"
    and a: "run_state (applyAction E inc) w = (Some e, w1)" and amb: "\<not> errIs e ErrRefused"
    and since: "since \<le> ir_CreatedAt r"
  shows "SanctionSince (ir_ChatID r) (ir_UserID r) since (w_db (after (Enforce E i inc) w))"
proof -
  obtain r' where "findIncident i (w_db (after (Enforce E i inc) w)) = Some r'"
    "ir_State r' = StateSanctionUnknown" "ir_ChatID r' = ir_ChatID r" "ir_UserID r' = ir_UserID r"
    "ir_CreatedAt r' = ir_CreatedAt r"
    using Enforce_run [OF q r a] amb by (auto simp: enforcedState_def)
  then show ?thesis using since findBy_Some [of ir_ID i]
    by (auto simp: SanctionSince_def list_ex_iff intro!: bexI [of _ r'])
qed

section \<open>A sanctioned incident is not acted on again\<close>

text \<open>The row of an incident that applied its sanction, or a deletion.\<close>

definition settled :: "int \<Rightarrow> db \<Rightarrow> bool" where
  "settled i db \<longleftrightarrow>
     (\<exists>r a. findIncident i db = Some r \<and> \<not> ir_DryRun r \<and> actedState (ir_State r) \<and>
            auditOf i db = Some a \<and> au_Action a \<in> set sanctioningActions)"

lemma settled_not_claimable:
  assumes "settled i db" and "findIncident i db = Some r"
  shows "\<not> neverSanctioned db r"
proof -
  obtain a where a: "\<not> ir_DryRun r" "actedState (ir_State r)" "auditOf i db = Some a"
    "au_Action a \<in> set sanctioningActions" using assms by (auto simp: settled_def)
  have "a \<in> set (db_audit db) \<and> au_IncidentID a = ir_ID r"
    using a(3) findBy_Some [of au_IncidentID i] findIncident_ID [OF assms(2)] by (auto simp: auditOf_def)
  then show ?thesis using a by (auto simp: neverSanctioned_def actedState_def list_ex_iff)
qed

lemma ClaimManualOverride_settled:
  assumes "dbInv db" and "settled i db"
  shows "ClaimManualOverride i db = Some (db, False, [], [])"
  using ClaimManualOverride_result [OF assms(1), of i] settled_not_claimable [OF assms(2)] assms(2)
  by (auto simp: settled_def)

lemma InsertPending_known:
  assumes "dbInv db" and "findIncident i db = Some r"
  shows "InsertPending now (ir_ChatID r) (ir_MessageID r) u sc d v db = Some (db, i, False)"
proof -
  let ?key = "\<lambda>r. (ir_ChatID r, ir_MessageID r)"
  have mem: "r \<in> set (db_incidents db)" using findBy_Some [OF assms(2)] by simp
  have "findBy ?key (?key r) (db_incidents db) = Some r"
    using assms(1) mem by (intro findBy_distinct) (auto simp: dbInv_def)
  then have "first (\<lambda>x. ir_ChatID x = ir_ChatID r \<and> ir_MessageID x = ir_MessageID r) (db_incidents db) = Some r"
    by (simp add: findBy_def)
  then show ?thesis using findIncident_ID [OF assms(2)] by (simp add: InsertPending_def)
qed

lemma override_settled:
  assumes "en_others E = (\<lambda>n db. db)" and "dbInv (w_db w)" and "settled i (w_db w)"
  shows "list_all (\<lambda>e. \<not> isPort e) (events (override E mc i inc) w) \<and>
    w_db (after (override E mc i inc) w) = w_db w \<and> \<not> fst (result (override E mc i inc) w)"
  using assms ClaimManualOverride_settled [OF assms(2,3)]
  by (cases "en_dbfail E (w_ticks w)")
     (simp_all add: override_def events_def after_def result_def run_bind run_return store_def Let_def)

lemma handle_settled:
  assumes others: "en_others E = (\<lambda>n db. db)" and inv: "dbInv (w_db w)" and s: "settled i (w_db w)"
    and r: "findIncident i (w_db w) = Some r"
    and key: "inc_MessageIDs inc \<noteq> []" "ir_ChatID r = inc_ChatID inc" "ir_MessageID r = hd (inc_MessageIDs inc)"
  shows "list_all (\<lambda>e. \<not> isPort e) (events (handle E mc inc) w) \<and>
    w_db (after (handle E mc inc) w) = w_db w \<and> \<not> fst (result (handle E mc inc) w)"
proof (cases "en_dbfail E (w_ticks w)")
  case (Some e)
  then show ?thesis using others key
    by (simp add: handle_def events_def after_def result_def run_bind run_return store_def Let_def)
next
  case None
  let ?w1 = "tick (EvStore ''InsertPending'' 0 True) w"
  have ins: "run_state (store E ''InsertPending'' 0
      (\<lambda>now. InsertPending now (inc_ChatID inc) (hd (inc_MessageIDs inc)) (sn_UserID (inc_Sender inc))
                   (sn_SenderChatID (inc_Sender inc)) (inc_DryRun inc) (inc_Verdict inc))) w =
      (Inr (i, False), ?w1)"
    using None others InsertPending_known [OF inv r] key by (simp add: store_def Let_def tick_def)
  have ov: "list_all (\<lambda>e. \<not> isPort e) (events (override E mc i inc) ?w1) \<and>
    w_db (after (override E mc i inc) ?w1) = w_db ?w1 \<and> \<not> fst (result (override E mc i inc) ?w1)"
    using override_settled [OF others] inv s by simp
  have tr: "w_trace (after (override E mc i inc) ?w1) = w_trace ?w1 @ events (override E mc i inc) ?w1"
    using others ClaimManualOverride_settled [OF inv s]
    by (cases "en_dbfail E (w_ticks ?w1)")
       (simp_all add: override_def events_def after_def run_bind run_return store_def Let_def)
  show ?thesis
  proof (cases "isManual (inc_Verdict inc) \<or>
      (\<not> inc_DryRun inc \<and> \<not> vd_ReviewOnly (inc_Verdict inc) \<and> IsActionable (inc_Verdict inc)
         \<and> vd_Action (inc_Verdict inc) \<noteq> ActionQuarantine)")
    case True
    then have run: "run_state (handle E mc inc) w = run_state (override E mc i inc) ?w1"
      using key(1) ins by (auto simp: handle_def run_bind)
    have "events (handle E mc inc) w = EvStore ''InsertPending'' 0 True # events (override E mc i inc) ?w1"
      using tr by (intro events_eqI) (simp add: run after_def)
    then show ?thesis using ov run by (simp add: after_def result_def)
  next
    case False
    then show ?thesis using key(1) ins
      by (auto simp: handle_def events_def after_def result_def run_bind run_return)
  qed
qed

section \<open>A moderator's verdict on an incident that sanctioned nobody\<close>

lemma sendCard_row:
  assumes "quiet E"
  shows "findIncident j (w_db (snd (run_state (sendCard E mc i msg) w))) = findIncident j (w_db w) \<and>
    auditOf j (w_db (snd (run_state (sendCard E mc i msg) w))) = auditOf j (w_db w)"
proof -
  let ?I = "\<lambda>db. findIncident j db = findIncident j (w_db w) \<and> auditOf j db = auditOf j (w_db w)"
  have "keepsDB E ?I (store E ''SaveIncidentCard'' i (\<lambda>now. SaveIncidentCard i c))" for c
    using assms by (intro keepsDB_store) (auto simp: quiet_def SaveIncidentCard_def auditOf_def split: if_splits)
  then have "keepsDB E ?I (sendCard E mc i msg)"
    unfolding sendCard_def by (intro keeps_intros)
  then show ?thesis by (simp add: keepsDB_def)
qed

lemma run_finishManual_quiet:
  "quiet E \<Longrightarrow> \<exists>db'. FinishManualOverride i v b (w_db w) = Some (db', ()) \<and>
     run_state (store E ''FinishManualOverride'' i (\<lambda>now. FinishManualOverride i v b)) w =
       (Inr (), tick (EvStore ''FinishManualOverride'' i True) (w\<lparr>w_db := db'\<rparr>))"
  by (auto simp: FinishManualOverride_def Let_def intro!: run_store_quiet)

lemma notice_db: "w_db (snd (run_state (notice E mc inc) w)) = w_db w"
  by (simp add: notice_def run_bind run_return run_call)

text \<open>The row and the audit after the sanction and the new card, when nothing
  went wrong.\<close>

lemma manualOverride_ok:
  assumes q: "quiet E" and r: "findIncident i (w_db w) = Some r"
    and ok: "oc_Err (result (manualOverride E mc i inc evs) w) = None"
  shows "oc_Sanctioned (result (manualOverride E mc i inc evs) w) \<and>
    findIncident i (w_db (after (manualOverride E mc i inc evs) w)) = Some (r\<lparr>ir_State := StateDone\<rparr>) \<and>
    auditOf i (w_db (after (manualOverride E mc i inc evs) w)) = auditOf i (w_db w)"
proof -
  obtain actErr w1 where a: "run_state (applyAction E inc) w = (actErr, w1)" by (cases "run_state (applyAction E inc) w")
  obtain out w2 where e: "run_state (Enforce E i inc) w = (out, w2)" by (cases "run_state (Enforce E i inc) w")
  from Enforce_run [OF q r a] obtain del :: preply where
    "result (Enforce E i inc) w = \<lparr>oc_Sanctioned = (actErr = None), oc_Deleted = (pr_err del = None),
        oc_Err = enforceErr actErr (pr_err del)\<rparr>"
    "findIncident i (w_db (after (Enforce E i inc) w)) =
       Some (r\<lparr>ir_State := enforcedState actErr (pr_err del) (ir_State r)\<rparr>)"
    "auditOf i (w_db (after (Enforce E i inc) w)) =
       map_option (\<lambda>x. x\<lparr>au_Action := enforcedAction actErr (vd_Action (inc_Verdict inc)) (au_Action x)\<rparr>)
         (auditOf i (w_db w))" by (elim exE conjE) (rule that; assumption)
  then have E: "out = \<lparr>oc_Sanctioned = (actErr = None), oc_Deleted = (pr_err del = None),
        oc_Err = enforceErr actErr (pr_err del)\<rparr>"
    "findIncident i (w_db w2) = Some (r\<lparr>ir_State := enforcedState actErr (pr_err del) (ir_State r)\<rparr>)"
    "auditOf i (w_db w2) =
       map_option (\<lambda>x. x\<lparr>au_Action := enforcedAction actErr (vd_Action (inc_Verdict inc)) (au_Action x)\<rparr>)
         (auditOf i (w_db w))"
    using e by (simp_all add: result_def after_def)
  have res: "fst (run_state (manualOverride E mc i inc evs) w) = out"
    using e by (simp add: manualOverride_def run_bind run_return split: prod.split)
  have none: "actErr = None" "pr_err del = None" using ok res E(1) by (auto simp: result_def enforceErr_None)
  let ?w3 = "tick (EvStore ''SetIncidentState'' i True)
      (w2\<lparr>w_db := updIncidents (\<lambda>r. ir_ID r = i) (ir_State_update (\<lambda>_. StateDone)) (w_db w2)\<rparr>)"
  have fin: "w_db (after (manualOverride E mc i inc evs) w) =
      w_db (snd (run_state (sendCard E mc i (overrideCard mc i inc evs out)) ?w3))"
    using e E(1) none q
    by (simp add: manualOverride_def after_def run_bind run_return run_setState_quiet enforceErr_None
        split: prod.split)
  have "findIncident i (w_db ?w3) = Some (r\<lparr>ir_State := StateDone\<rparr>)"
    using E(2) findIncident_ID [OF r] by (simp add: findBy_updateWhere)
  then show ?thesis
    using fin sendCard_row [OF q, of i mc i "overrideCard mc i inc evs out" ?w3] res E(1,3) none
    by (simp add: result_def enforcedAction_def option.map_ident)
qed

text \<open>What \<open>override\<close> does for a moderator whose claim is granted.\<close>

lemma override_manual_run:
  assumes q: "quiet E" and inv: "dbInv (w_db w)" and r: "findIncident i (w_db w) = Some r"
    and free: "ir_Decision r = []" "neverSanctioned (w_db w) r" and man: "isManual (inc_Verdict inc)"
    and ok: "snd (result (override E mc i inc) w) = None"
  shows "fst (result (override E mc i inc) w) \<and>
    findIncident i (w_db (after (override E mc i inc) w)) =
       Some (r\<lparr>ir_State := StateDone, ir_DryRun := False, ir_Decision := []\<rparr>) \<and>
    (\<exists>a. auditOf i (w_db (after (override E mc i inc) w)) = Some a \<and> au_Action a = vd_Action (inc_Verdict inc))"
proof -
  let ?ids = "parseMessageIDs (ir_MessageIDs r) (ir_MessageID r)" and ?evs = "evidenceIDsOf i (w_db w)"
  let ?db1 = "updIncidents (\<lambda>r. ir_ID r = i \<and> ir_Decision r = [] \<and> neverSanctioned (w_db w) r)
                (ir_Decision_update (\<lambda>_. ManualOverrideClaim)) (w_db w)"
  let ?w1 = "tick (EvStore ''ClaimManualOverride'' i True) (w\<lparr>w_db := ?db1\<rparr>)"
  let ?inc = "inc\<lparr>inc_MessageIDs := ?ids\<rparr>" and ?r1 = "r\<lparr>ir_Decision := ManualOverrideClaim\<rparr>"
  have claim: "run_state (store E ''ClaimManualOverride'' i (\<lambda>now. ClaimManualOverride i)) w =
      (Inr (True, ?ids, ?evs), ?w1)"
    using ClaimManualOverride_result [OF inv, of i] r free by (intro run_store_quiet [OF q]) simp
  have r1: "findIncident i (w_db ?w1) = Some ?r1"
    using r free findIncident_ID [OF r] by (simp add: findBy_updateWhere)
  obtain out w2 where mo: "run_state (manualOverride E mc i ?inc ?evs) ?w1 = (out, w2)"
    by (cases "run_state (manualOverride E mc i ?inc ?evs) ?w1")
  obtain db' where f: "FinishManualOverride i (inc_Verdict ?inc) (oc_Sanctioned out) (w_db w2) = Some (db', ())"
    "run_state (store E ''FinishManualOverride'' i
        (\<lambda>now. FinishManualOverride i (inc_Verdict ?inc) (oc_Sanctioned out))) w2 =
       (Inr (), tick (EvStore ''FinishManualOverride'' i True) (w2\<lparr>w_db := db'\<rparr>))"
    using run_finishManual_quiet [OF q] by blast
  let ?w3 = "tick (EvStore ''FinishManualOverride'' i True) (w2\<lparr>w_db := db'\<rparr>)"
  obtain u w4 where w4: "run_state (notice E mc ?inc) ?w3 = (u, w4)"
    by (cases "run_state (notice E mc ?inc) ?w3") blast
  have w4db: "w_db w4 = db'" using notice_db [of E mc ?inc ?w3] w4 by simp
  have run: "fst (run_state (override E mc i inc) w) = (True, oc_Err out) \<and>
      w_db (snd (run_state (override E mc i inc) w)) = db'"
    using claim mo f man parseMessageIDs_nonempty w4 w4db
    by (simp add: override_def run_bind run_return notice_db Let_def split: prod.split)
  have ok': "oc_Err out = None" using ok run by (simp add: result_def)
  have m: "oc_Sanctioned out" "findIncident i (w_db w2) = Some (?r1\<lparr>ir_State := StateDone\<rparr>)"
    "auditOf i (w_db w2) = auditOf i (w_db w)"
    using manualOverride_ok [OF q r1, of mc ?inc ?evs] mo ok' by (simp_all add: result_def after_def)
  obtain a where a: "auditOf i (w_db w2) = Some a" using dbInv_audit_exists [OF inv r] m(3) by auto
  have f': "FinishManualOverride i (inc_Verdict inc) True (w_db w2) = Some (db', ())" using f(1) m(1) by simp
  show ?thesis
    using FinishManualOverride_row [OF m(2) f'] FinishManualOverride_audit [OF f' a] run ok'
    by (auto simp: result_def after_def actedOr_def)
qed

end
