(* ===== verification/Runs.thy ===== *)
theory Runs
  imports Effects
begin

text \<open>
  A Hoare logic for the programs of \<open>Effects\<close>: what an action does to the
  database and returns, from a database with a given property, together with
  a predicate on every event it causes. The rules follow the program text; an
  invariant that other goroutines keep is the special case \<open>guarded\<close>.
\<close>

section \<open>Triples\<close>

definition hoare :: "(event \<Rightarrow> bool) \<Rightarrow> (db \<Rightarrow> bool) \<Rightarrow> 'a act \<Rightarrow> ('a \<Rightarrow> db \<Rightarrow> bool) \<Rightarrow> bool" where
  "hoare Q P m R \<longleftrightarrow>
     (\<forall>w. P (w_db w) \<longrightarrow>
        (\<exists>evs. w_trace (snd (run_state m w)) = w_trace w @ evs \<and> list_all Q evs) \<and>
        R (fst (run_state m w)) (w_db (snd (run_state m w))))"

lemma hoareD:
  assumes "hoare Q P m R" and "P (w_db w)"
  shows "list_all Q (events m w)" "R (result m w) (w_db (after m w))"
  using assms unfolding hoare_def events_def result_def after_def by (metis append_eq_conv_conj)+

lemma hoare_bind:
  assumes "hoare Q P m S" and "\<And>x. hoare Q (S x) (f x) R"
  shows "hoare Q P (State_Monad.bind m f) R"
  unfolding hoare_def
proof (intro allI impI)
  fix w :: world
  assume P: "P (w_db w)"
  obtain x w1 where m: "run_state m w = (x, w1)" by (cases "run_state m w")
  obtain e1 where e1: "w_trace w1 = w_trace w @ e1" "list_all Q e1" "S x (w_db w1)"
    using assms(1) P m unfolding hoare_def by (metis fst_conv snd_conv)
  obtain y w2 where f: "run_state (f x) w1 = (y, w2)" by (cases "run_state (f x) w1")
  obtain e2 where e2: "w_trace w2 = w_trace w1 @ e2" "list_all Q e2" "R y (w_db w2)"
    using assms(2) [of x] e1(3) f unfolding hoare_def by (metis fst_conv snd_conv)
  have "run_state (State_Monad.bind m f) w = (y, w2)" using m f by (simp add: run_bind)
  then show "(\<exists>evs. w_trace (snd (run_state (State_Monad.bind m f) w)) = w_trace w @ evs \<and> list_all Q evs) \<and>
      R (fst (run_state (State_Monad.bind m f) w)) (w_db (snd (run_state (State_Monad.bind m f) w)))"
    using e1 e2 by (auto intro: exI [of _ "e1 @ e2"])
qed

lemma hoare_pre: "hoare Q P m R \<Longrightarrow> (\<And>db. P' db \<Longrightarrow> P db) \<Longrightarrow> hoare Q P' m R"
  unfolding hoare_def by blast

lemma hoare_post: "hoare Q P m R \<Longrightarrow> (\<And>x db. R x db \<Longrightarrow> R' x db) \<Longrightarrow> hoare Q P m R'"
  unfolding hoare_def by blast

lemma hoare_false: "(\<And>db. \<not> P db) \<Longrightarrow> hoare Q P m R"
  unfolding hoare_def by blast

text \<open>Case analysis on what the precondition says of the program's values.\<close>

lemma hoare_assume: "(b \<Longrightarrow> hoare Q P m R) \<Longrightarrow> hoare Q (\<lambda>db. b \<and> P db) m R"
  unfolding hoare_def by blast

lemma hoare_return: "(\<And>db. P db \<Longrightarrow> R x db) \<Longrightarrow> hoare Q P (State_Monad.return x) R"
  by (simp add: hoare_def run_return)

lemma hoare_call: "(\<And>r. Q (EvPort c r)) \<Longrightarrow> (\<And>n db. P db \<Longrightarrow> R (en_port E n c) db) \<Longrightarrow> hoare Q P (call E c) R"
  by (simp add: hoare_def run_call)

lemma hoare_log: "Q (EvLog s) \<Longrightarrow> (\<And>db. P db \<Longrightarrow> R () db) \<Longrightarrow> hoare Q P (logLine s) R"
  by (simp add: hoare_def run_log)

lemma hoare_count: "Q (EvCount s) \<Longrightarrow> (\<And>db. P db \<Longrightarrow> R () db) \<Longrightarrow> hoare Q P (countMetric s) R"
  by (simp add: hoare_def countMetric_def)

lemma hoare_clock: "(\<And>n db. P db \<Longrightarrow> R (en_now E n) db) \<Longrightarrow> hoare Q P (clock E) R"
  by (simp add: hoare_def clock_def)

lemma hoare_ctx: "(\<And>n db. P db \<Longrightarrow> R (en_ctx E n) db) \<Longrightarrow> hoare Q P (ctxErr E) R"
  by (simp add: hoare_def ctxErr_def)

lemma hoare_getInflight: "(\<And>s db. P db \<Longrightarrow> R s db) \<Longrightarrow> hoare Q P getInflight R"
  by (simp add: hoare_def getInflight_def)

lemma hoare_setInflight: "(\<And>db. P db \<Longrightarrow> R () db) \<Longrightarrow> hoare Q P (setInflight s) R"
  by (simp add: hoare_def setInflight_def)

text \<open>The database stays a \<open>P\<close> whatever the other goroutines commit.\<close>

definition stable :: "env \<Rightarrow> (db \<Rightarrow> bool) \<Rightarrow> bool" where
  "stable E P \<longleftrightarrow> (\<forall>n db. P db \<longrightarrow> P (en_others E n db))"

lemma stable_quiet [simp]: "quiet E \<Longrightarrow> stable E P"
  by (simp add: stable_def quiet_def)

lemma stable_quietEnv [simp]: "stable (quietEnv port) P"
  by simp

lemma hoare_store:
  assumes "stable E P"
    and "\<And>b. Q (EvStore name i b)"
    and "\<And>e db. P db \<Longrightarrow> R (Inl e) db"
    and "\<And>now db db' r. P db \<Longrightarrow> t now db = Some (db', r) \<Longrightarrow> R (Inr r) db'"
  shows "hoare Q P (store E name i t) R"
  unfolding hoare_def
proof (intro allI impI)
  fix w :: world
  assume "P (w_db w)"
  then have P: "P (en_others E (w_ticks w) (w_db w))" using assms(1) by (simp add: stable_def)
  show "(\<exists>evs. w_trace (snd (run_state (store E name i t) w)) = w_trace w @ evs \<and> list_all Q evs) \<and>
      R (fst (run_state (store E name i t) w)) (w_db (snd (run_state (store E name i t) w)))"
    using assms(2) assms(3) [OF P] assms(4) [OF P]
    by (auto simp: store_def tick_def Let_def split: option.splits)
qed

lemma hoare_query:
  assumes "stable E P"
    and "\<And>e db. P db \<Longrightarrow> R (Inl e) db"
    and "\<And>db x. P db \<Longrightarrow> q db = Some x \<Longrightarrow> R (Inr x) db"
  shows "hoare Q P (query E q) R"
  unfolding hoare_def
proof (intro allI impI)
  fix w :: world
  assume "P (w_db w)"
  then have P: "P (en_others E (w_ticks w) (w_db w))" using assms(1) by (simp add: stable_def)
  show "(\<exists>evs. w_trace (snd (run_state (query E q) w)) = w_trace w @ evs \<and> list_all Q evs) \<and>
      R (fst (run_state (query E q) w)) (w_db (snd (run_state (query E q) w)))"
    using assms(2) [OF P] assms(3) [OF P] by (auto simp: query_def Let_def split: option.splits)
qed

text \<open>With no failure and no other goroutine a write gives its result.\<close>

lemma hoare_store_quiet:
  assumes "quiet E" and "\<And>b. Q (EvStore name i b)"
    and "\<And>now db. P db \<Longrightarrow> \<exists>db' r. t now db = Some (db', r) \<and> R (Inr r) db'"
  shows "hoare Q P (store E name i t) R"
  unfolding hoare_def
proof (intro allI impI)
  fix w :: world
  assume "P (w_db w)"
  then obtain db' r where "t (en_now E (w_ticks w)) (w_db w) = Some (db', r)" "R (Inr r) db'"
    using assms(3) by blast
  then show "(\<exists>evs. w_trace (snd (run_state (store E name i t) w)) = w_trace w @ evs \<and> list_all Q evs) \<and>
      R (fst (run_state (store E name i t) w)) (w_db (snd (run_state (store E name i t) w)))"
    using assms(2) by (simp add: run_store_quiet [OF assms(1)])
qed

lemma hoare_query_quiet:
  assumes "quiet E" and "\<And>db. P db \<Longrightarrow> \<exists>x. q db = Some x \<and> R (Inr x) db"
  shows "hoare Q P (query E q) R"
  unfolding hoare_def
proof (intro allI impI)
  fix w :: world
  assume "P (w_db w)"
  then obtain x where "q (w_db w) = Some x" "R (Inr x) (w_db w)" using assms(2) by blast
  then show "(\<exists>evs. w_trace (snd (run_state (query E q) w)) = w_trace w @ evs \<and> list_all Q evs) \<and>
      R (fst (run_state (query E q) w)) (w_db (snd (run_state (query E q) w)))"
    by (simp add: run_query_quiet [OF assms(1)])
qed

text \<open>Sequencing, when the first part returns a value, or a success.\<close>

lemma hoare_bind_value:
  "hoare Q P m (\<lambda>x db. x = v \<and> P' db) \<Longrightarrow> hoare Q P' (f v) R \<Longrightarrow> hoare Q P (State_Monad.bind m f) R"
  by (erule hoare_bind) (auto intro: hoare_assume)

lemma hoare_bind_success:
  "hoare Q P m (\<lambda>x db. (\<exists>s. x = Inr s) \<and> P' db) \<Longrightarrow> (\<And>s. hoare Q P' (f (Inr s)) R) \<Longrightarrow>
     hoare Q P (State_Monad.bind m f) R"
  by (erule hoare_bind) (rule hoare_assume, blast)

named_theorems hoare_intros \<open>case analysis in a program\<close>

lemma hoare_if [hoare_intros]:
  "(b \<Longrightarrow> hoare Q P m R) \<Longrightarrow> (\<not> b \<Longrightarrow> hoare Q P n R) \<Longrightarrow> hoare Q P (if b then m else n) R"
  by simp

lemma hoare_option [hoare_intros]:
  "(x = None \<Longrightarrow> hoare Q P m R) \<Longrightarrow> (\<And>y. x = Some y \<Longrightarrow> hoare Q P (f y) R) \<Longrightarrow>
     hoare Q P (case x of None \<Rightarrow> m | Some y \<Rightarrow> f y) R"
  by (cases x) auto

lemma hoare_let [hoare_intros]: "(\<And>y. y = x \<Longrightarrow> hoare Q P (f y) R) \<Longrightarrow> hoare Q P (let y = x in f y) R"
  by simp

section \<open>Invariants\<close>

text \<open>\<open>guarded I Q S m\<close>: \<open>m\<close> keeps \<open>I\<close>, causes only
  \<open>Q\<close> events and returns an \<open>S\<close>.\<close>

definition guarded :: "(db \<Rightarrow> bool) \<Rightarrow> (event \<Rightarrow> bool) \<Rightarrow> ('a \<Rightarrow> bool) \<Rightarrow> 'a act \<Rightarrow> bool" where
  "guarded I Q S m \<longleftrightarrow> hoare Q I m (\<lambda>x db. I db \<and> S x)"

abbreviation safe :: "(db \<Rightarrow> bool) \<Rightarrow> (event \<Rightarrow> bool) \<Rightarrow> 'a act \<Rightarrow> bool" where
  "safe I Q \<equiv> guarded I Q (\<lambda>_. True)"

lemma guardedD:
  assumes "guarded I Q S m" and "I (w_db w)"
  shows "list_all Q (events m w)" "I (w_db (after m w))" "S (result m w)"
  using hoareD [OF assms(1)[unfolded guarded_def] assms(2)] by simp_all

named_theorems guard_intros \<open>how an action keeps an invariant and what it causes\<close>

lemma guarded_bind:
  assumes "guarded I Q S m" and "\<And>x. S x \<Longrightarrow> guarded I Q R (f x)"
  shows "guarded I Q R (State_Monad.bind m f)"
  unfolding guarded_def
proof (rule hoare_bind [OF assms(1)[unfolded guarded_def]])
  fix x
  show "hoare Q (\<lambda>db. I db \<and> S x) (f x) (\<lambda>x db. I db \<and> R x)"
    using assms(2) [of x] unfolding guarded_def hoare_def by blast
qed

lemma guarded_weaken: "guarded I Q S m \<Longrightarrow> (\<And>x. S x \<Longrightarrow> T x) \<Longrightarrow> guarded I Q T m"
  unfolding guarded_def by (erule hoare_post) blast

lemma guarded_safe: "guarded I Q S m \<Longrightarrow> safe I Q m"
  by (erule guarded_weaken) simp

lemma safe_bind [guard_intros]:
  "safe I Q m \<Longrightarrow> (\<And>x. guarded I Q R (f x)) \<Longrightarrow> guarded I Q R (State_Monad.bind m f)"
  by (rule guarded_bind)

text \<open>A step that keeps the precondition, in a triple.\<close>

lemma hoare_skip: "safe P Q m \<Longrightarrow> hoare Q P m (\<lambda>_. P)"
  unfolding guarded_def by (erule hoare_post) blast

lemma hoare_bind_skip: "safe P Q m \<Longrightarrow> (\<And>x. hoare Q P (f x) R) \<Longrightarrow> hoare Q P (State_Monad.bind m f) R"
  by (rule hoare_bind, rule hoare_skip)

lemma guarded_return: "S x \<Longrightarrow> guarded I Q S (State_Monad.return x)"
  unfolding guarded_def by (rule hoare_return) blast

lemma safe_return [guard_intros]: "safe I Q (State_Monad.return x)"
  by (rule guarded_return) simp

lemma safe_call: "(\<And>r. Q (EvPort c r)) \<Longrightarrow> safe I Q (call E c)"
  unfolding guarded_def by (rule hoare_call) auto

lemma safe_log: "Q (EvLog s) \<Longrightarrow> safe I Q (logLine s)"
  unfolding guarded_def by (rule hoare_log) auto

lemma safe_count: "Q (EvCount s) \<Longrightarrow> safe I Q (countMetric s)"
  unfolding guarded_def by (rule hoare_count) auto

lemma safe_clock [guard_intros]: "safe I Q (clock E)"
  unfolding guarded_def by (rule hoare_clock) auto

lemma safe_ctx [guard_intros]: "safe I Q (ctxErr E)"
  unfolding guarded_def by (rule hoare_ctx) auto

lemma safe_inflight [guard_intros]: "safe I Q getInflight" "safe I Q (setInflight s)"
  unfolding guarded_def by (rule hoare_getInflight hoare_setInflight; blast)+

lemma guarded_if [guard_intros]:
  "(b \<Longrightarrow> guarded I Q S m) \<Longrightarrow> (\<not> b \<Longrightarrow> guarded I Q S n) \<Longrightarrow> guarded I Q S (if b then m else n)"
  by simp

lemma guarded_option [guard_intros]:
  "(x = None \<Longrightarrow> guarded I Q S m) \<Longrightarrow> (\<And>y. x = Some y \<Longrightarrow> guarded I Q S (f y)) \<Longrightarrow>
     guarded I Q S (case x of None \<Rightarrow> m | Some y \<Rightarrow> f y)"
  by (cases x) auto

lemma guarded_sum [guard_intros]:
  "(\<And>e. x = Inl e \<Longrightarrow> guarded I Q S (f e)) \<Longrightarrow> (\<And>r. x = Inr r \<Longrightarrow> guarded I Q S (g r)) \<Longrightarrow>
     guarded I Q S (case x of Inl e \<Rightarrow> f e | Inr r \<Rightarrow> g r)"
  by (cases x) auto

lemma guarded_prod [guard_intros]:
  "(\<And>a b. x = (a, b) \<Longrightarrow> guarded I Q S (f a b)) \<Longrightarrow> guarded I Q S (case x of (a, b) \<Rightarrow> f a b)"
  by (cases x) auto

lemma guarded_let [guard_intros]: "(\<And>y. y = x \<Longrightarrow> guarded I Q S (f y)) \<Longrightarrow> guarded I Q S (let y = x in f y)"
  by simp

lemma guarded_store:
  assumes "stable E I" and "\<And>b. Q (EvStore name i b)"
    and "\<And>now db db' r. I db \<Longrightarrow> t now db = Some (db', r) \<Longrightarrow> I db' \<and> S r"
  shows "guarded I Q (\<lambda>x. \<forall>r. x = Inr r \<longrightarrow> S r) (store E name i t)"
  unfolding guarded_def using assms by (intro hoare_store) auto

lemma safe_store:
  assumes "stable E I" and "\<And>b. Q (EvStore name i b)"
    and "\<And>now db db' r. I db \<Longrightarrow> t now db = Some (db', r) \<Longrightarrow> I db'"
  shows "safe I Q (store E name i t)"
  unfolding guarded_def using assms by (intro hoare_store) auto

lemma guarded_query:
  assumes "stable E I" and "\<And>db x. I db \<Longrightarrow> q db = Some x \<Longrightarrow> S x"
  shows "guarded I Q (\<lambda>x. \<forall>r. x = Inr r \<longrightarrow> S r) (query E q)"
  unfolding guarded_def using assms by (intro hoare_query) auto

lemma safe_query: "stable E I \<Longrightarrow> safe I Q (query E q)"
  unfolding guarded_def by (intro hoare_query) auto

end
