(* ===== verification/MachineKeeps.thy ===== *)
theory MachineKeeps
  imports MachineLemmas Runs
begin

text \<open>
  What the incident machine keeps of the database, for any invariant its
  transactions keep: a locale whose laws are one fact per transaction, with
  the machine's steps and \<open>handle\<close> proved inside it once. It is
  interpreted on the keys of the incident tables and on everything the bot
  has learned.
\<close>

definition keepsTx :: "(db \<Rightarrow> bool) \<Rightarrow> 'r tx \<Rightarrow> bool" where
  "keepsTx I t \<longleftrightarrow> (\<forall>db db' r. I db \<longrightarrow> t db = Some (db', r) \<longrightarrow> I db')"

lemma keepsDB_tx:
  assumes "stable E I" and "\<And>now. keepsTx I (t now)"
  shows "keepsDB E I (store E name i t)"
  by (rule keepsDB_store) (use assms [unfolded stable_def keepsTx_def] in blast)+

lemma keeps_applyAction: "keepsDB E I (applyAction E inc)"
  by (simp add: keepsDB_def applyAction_db)

lemma keeps_logOutcome: "keepsDB E I (logOutcome i inc what detail err)"
  unfolding logOutcome_def by (rule keepsDB_log)

lemma keeps_notice: "keepsDB E I (notice E mc inc)"
  unfolding notice_def by (intro keeps_intros)

lemma keeps_query: "stable E I \<Longrightarrow> keepsDB E I (query E q)"
  by (rule keepsDB_query) (simp add: stable_def)

text \<open>\<open>saves\<close>: whether the invariant also survives that an incident's tokens
  are saved.\<close>

locale machine_invariant =
  fixes I :: "db \<Rightarrow> bool" and saves :: bool
  assumes pending: "keepsTx I (InsertPending now c m u sc d v)"
    and states: "keepsTx I (SetIncidentState i s)"
    and sanctions: "keepsTx I (MarkSanctionUnknown i a)" "keepsTx I (MarkSanctionRefused i)"
    and evidence: "keepsTx I (AddEvidence i ac ids)" "keepsTx I (SaveIncidentCard i crd)"
    and parts: "keepsTx I (SaveIncidentMessageIDs i ids)"
    and tokens: "saves \<Longrightarrow> keepsTx I (SaveIncidentTokens now i toks)"
    and claims: "keepsTx I (ClaimManualOverride i)" "keepsTx I (FinishManualOverride i v b)"
begin

lemmas ops = pending states sanctions evidence parts claims

lemma keeps_setState: "stable E I \<Longrightarrow> keepsDB E I (setState E i s)"
  unfolding setState_def by (intro keeps_intros keepsDB_tx ops)

lemma keeps_sendCard: "stable E I \<Longrightarrow> keepsDB E I (sendCard E mc i msg)"
  unfolding sendCard_def by (intro keeps_intros keepsDB_tx ops)

lemma keeps_Enforce: "stable E I \<Longrightarrow> keepsDB E I (Enforce E i inc)"
  unfolding Enforce_def
  by (intro keeps_intros keepsDB_tx keeps_setState keeps_logOutcome keeps_applyAction ops)

lemmas keeps_steps = keepsDB_tx keeps_setState keeps_sendCard keeps_logOutcome keeps_notice keeps_Enforce ops

lemma keeps_recordParts:
  assumes "stable E I" and "inc_Tokens inc \<noteq> [] \<Longrightarrow> saves"
  shows "keepsDB E I (recordParts E i inc)"
  unfolding recordParts_def Let_def
  by (intro keeps_intros keeps_steps tokens assms) simp

lemma keeps_withoutEvidence: "stable E I \<Longrightarrow> keepsDB E I (withoutEvidence E mc i inc ce t)"
  unfolding withoutEvidence_def Let_def by (intro keeps_intros keeps_steps)

lemma keeps_withEvidence: "stable E I \<Longrightarrow> keepsDB E I (withEvidence E mc i inc ids t)"
  unfolding withEvidence_def Let_def by (intro keeps_intros keeps_steps)

lemma keeps_finish: "stable E I \<Longrightarrow> keepsDB E I (finish E mc i inc)"
  unfolding finish_def Let_def by (intro keeps_intros keeps_steps)

lemma keeps_process:
  assumes "stable E I" and "inc_Tokens inc \<noteq> [] \<Longrightarrow> saves"
  shows "keepsDB E I (process E mc i inc)"
  unfolding process_def Let_def
  by (intro keeps_intros keeps_recordParts keeps_withoutEvidence keeps_withEvidence keeps_finish assms)

lemma keeps_override:
  assumes "stable E I" and "inc_Tokens inc \<noteq> [] \<Longrightarrow> saves"
  shows "keepsDB E I (override E mc i inc)"
  unfolding override_def manualOverride_def Let_def
  by (intro keeps_intros keeps_steps keeps_query keeps_process assms) (simp_all add: assms(2) split: if_splits)

lemma keeps_handle:
  assumes "stable E I" and "inc_Tokens inc \<noteq> [] \<Longrightarrow> saves"
  shows "keepsDB E I (handle E mc inc)"
  unfolding handle_def
  by (intro keeps_intros keeps_steps keeps_process keeps_override assms)

end

lemma keepsTx_keys: "keepsKeys t \<Longrightarrow> keepsTx dbInv t"
  by (simp add: keepsTx_def keepsKeys_def)

interpretation tables: machine_invariant dbInv True
  by unfold_locales (rule keepsTx_keys, rule keepsKeys_ops)+

text \<open>What was learned, and what could still be: the samples, the corpus, and
  the tokens kept of incidents for later training.\<close>

definition learnedAs :: "db \<Rightarrow> db \<Rightarrow> bool" where
  "learnedAs old db \<longleftrightarrow> db_samples db = db_samples old \<and> db_bayesTokens db = db_bayesTokens old \<and>
     db_bayesTotals db = db_bayesTotals old \<and> db_tokens db = db_tokens old"

interpretation learning: machine_invariant "learnedAs old" False for old
  by unfold_locales
    (auto simp: keepsTx_def learnedAs_def InsertPending_def SetIncidentState_def MarkSanctionUnknown_def
      MarkSanctionRefused_def AddEvidence_def SaveIncidentCard_def SaveIncidentMessageIDs_def
      ClaimManualOverride_def FinishManualOverride_def updIncidents_def updAudit_def Let_def
      split: option.splits if_splits)

end
