(* ===== verification/MachineProps.thy ===== *)
theory MachineProps
  imports MachineKeeps
begin

text \<open>
  The properties of the incident machine and of the transactions it rests
  on, each with a concrete run at which its hypotheses hold: a world with
  one pending incident, a Telegram that answers every call, and a verdict
  that mutes.
\<close>

section \<open>A concrete run\<close>

definition demoMachine :: machine where
  "demoMachine = \<lparr>mc_AdminChatID = -1, mc_ButtonsFor = None, mc_EphemeralNotice = False, mc_EphemeralText = []\<rparr>"

definition demoVerdict :: "string \<Rightarrow> verdict" where
  "demoVerdict name = \<lparr>vd_Action = ActionMute, vd_Scope = ScopeChat, vd_Confidence = 1,
     vd_Signals = [\<lparr>sg_Name = name, sg_Detail = []\<rparr>], vd_Reason = lit name, vd_ReviewOnly = False\<rparr>"

definition demoIncident :: "string \<Rightarrow> bool \<Rightarrow> incident" where
  "demoIncident name dry = \<lparr>inc_ChatID = -100, inc_MessageIDs = [5], inc_ThreadID = 0,
     inc_Sender = \<lparr>sn_Kind = SenderUser, sn_UserID = 42, sn_SenderChatID = 0, sn_Username = [], sn_DisplayName = []\<rparr>,
     inc_Verdict = demoVerdict name, inc_State = StatePending, inc_DryRun = dry,
     inc_AdminMessageIDs = [], inc_Tokens = []\<rparr>"

definition demoRow :: "incident_state \<Rightarrow> bool \<Rightarrow> incident_rec" where
  "demoRow s dry = \<lparr>ir_ID = 1, ir_ChatID = -100, ir_MessageID = 5, ir_MessageIDs = [], ir_UserID = 42,
     ir_SenderChatID = 0, ir_State = s, ir_DryRun = dry, ir_Decision = [], ir_CreatedAt = 0\<rparr>"

definition demoAudit :: audit_rec where
  "demoAudit = \<lparr>au_IncidentID = 1, au_Action = ActionMute, au_Scope = ScopeChat, au_Reason = [],
     au_Signals = [], au_CreatedAt = 0\<rparr>"

definition demoDB :: "incident_state \<Rightarrow> bool \<Rightarrow> db" where
  "demoDB s dry = emptyDB\<lparr>db_incidents := [demoRow s dry], db_nextIncident := 2, db_audit := [demoAudit]\<rparr>"

definition demoEnv :: env where
  "demoEnv = quietEnv (\<lambda>n c. okReply)"

text \<open>Telegram times out on a restriction; everything else succeeds.\<close>

definition demoTimeout :: env where
  "demoTimeout = quietEnv (\<lambda>n c. if sanctions c then okReply\<lparr>pr_err := Some (newErr (lit ''timeout''))\<rparr> else okReply)"

lemmas demo_machine_defs = demoMachine_def demoVerdict_def demoIncident_def demoRow_def demoAudit_def
  demoDB_def demoEnv_def demoTimeout_def quietEnv_def okReply_def startWorld_def emptyDB_def

lemma dbInv_demoDB [simp]: "dbInv (demoDB s dry)"
  by (simp add: dbInv_def demoDB_def demoRow_def demoAudit_def emptyDB_def)

lemma findIncident_demoDB [simp]: "findIncident 1 (demoDB s dry) = Some (demoRow s dry)"
  by (simp add: demoDB_def findBy_def demoRow_def)

lemma auditOf_demoDB [simp]: "auditOf 1 (demoDB s dry) = Some demoAudit"
  by (simp add: demoDB_def findBy_def auditOf_def demoAudit_def)

lemma w_db_startWorld [simp]: "w_db (startWorld db) = db"
  by (simp add: startWorld_def)

lemma quiet_demo [simp]: "quiet demoEnv" "quiet demoTimeout"
  by (simp_all add: demoEnv_def demoTimeout_def)

section \<open>Evidence first\<close>

text \<open>What a destructive event of an automatic incident comes after: a card that
  was registered, and a copy of the originals that put something into the
  admin chat, unless the verdict is one that may act without.\<close>

definition justified :: "chat_id \<Rightarrow> incident \<Rightarrow> event list \<Rightarrow> bool" where
  "justified admin inc before \<longleftrightarrow>
     (\<exists>i. cardRegistered i before) \<and>
     (\<exists>ids r. EvPort (CopyMessages admin (inc_ChatID inc) ids) r \<in> set before \<and>
        (pr_err r = None \<and> pr_ids r \<noteq> [] \<or> actsWithoutEvidence (inc_Verdict inc)))"

definition evidenceFirst :: "machine \<Rightarrow> incident \<Rightarrow> event list \<Rightarrow> bool" where
  "evidenceFirst mc inc evs \<longleftrightarrow>
     (\<exists>before post. evs = before @ post \<and> list_all (reports mc) before \<and>
        (post \<noteq> [] \<longrightarrow> justified (mc_AdminChatID mc) inc before))"

lemma justified_mono:
  "justified a inc xs \<Longrightarrow> set xs \<subseteq> set ys \<Longrightarrow> justified a inc ys"
  unfolding justified_def cardRegistered_def by blast

lemma evidenceFirst_reports: "list_all (reports mc) evs \<Longrightarrow> evidenceFirst mc inc evs"
  unfolding evidenceFirst_def by (intro exI [of _ evs] exI [of _ "[]"]) simp

lemma evidenceFirst_pre:
  assumes "list_all (reports mc) xs" and "evidenceFirst mc inc evs"
  shows "evidenceFirst mc inc (xs @ evs)"
proof -
  obtain before post where "evs = before @ post" "list_all (reports mc) before"
    "post \<noteq> [] \<longrightarrow> justified (mc_AdminChatID mc) inc before"
    using assms(2) by (auto simp: evidenceFirst_def)
  then show ?thesis unfolding evidenceFirst_def using assms(1)
    by (intro exI [of _ "xs @ before"] exI [of _ post]) (auto intro: justified_mono)
qed

lemma evidenceFirst_post:
  assumes "list_all (reports mc) ys" and "evidenceFirst mc inc evs"
  shows "evidenceFirst mc inc (evs @ ys)"
proof -
  obtain before post where bp: "evs = before @ post" "list_all (reports mc) before"
    "post \<noteq> [] \<longrightarrow> justified (mc_AdminChatID mc) inc before"
    using assms(2) by (auto simp: evidenceFirst_def)
  show ?thesis
  proof (cases "post = []")
    case True
    then show ?thesis using bp assms(1) by (intro evidenceFirst_reports) simp
  next
    case False
    then show ?thesis using bp unfolding evidenceFirst_def
      by (intro exI [of _ before] exI [of _ "post @ ys"]) simp
  qed
qed

lemma evidenceFirst_ordered:
  assumes "ordered mc i (inc\<lparr>inc_MessageIDs := ids\<rparr>) evs"
  shows "evidenceFirst mc inc evs"
proof -
  obtain before post where bp: "evs = before @ post" "list_all (reports mc) before"
    "post \<noteq> [] \<longrightarrow> cardRegistered i before \<and> copyTried (inc\<lparr>inc_MessageIDs := ids\<rparr>) (mc_AdminChatID mc) before \<and>
       (copiedSome (inc\<lparr>inc_MessageIDs := ids\<rparr>) (mc_AdminChatID mc) before \<or> actsWithoutEvidence (inc_Verdict inc))"
    using assms by (auto simp: ordered_def)
  then show ?thesis unfolding evidenceFirst_def justified_def copyTried_def copiedSome_def
    by (intro exI [of _ before] exI [of _ post]) auto
qed

lemma evidenceFirst_before:
  assumes "evidenceFirst mc inc (xs @ e # ys)" and "destructive (mc_AdminChatID mc) e"
  shows "justified (mc_AdminChatID mc) inc xs"
proof -
  obtain before post where bp: "xs @ e # ys = before @ post" "list_all (reports mc) before"
    "post \<noteq> [] \<longrightarrow> justified (mc_AdminChatID mc) inc before"
    using assms(1) by (auto simp: evidenceFirst_def)
  have "length before \<le> length xs"
  proof (rule ccontr)
    assume n: "\<not> length before \<le> length xs"
    then have "e = before ! length xs" using bp(1) by (metis nth_append nth_append_length not_le)
    then have "reports mc e" using bp(2) n by (simp add: list_all_length)
    then show False using assms(2) reportOnly_not_destructive by blast
  qed
  then have "prefix before xs" and "post \<noteq> []" using bp(1)
    by (metis append_eq_append_conv_if prefixI append_take_drop_id)
       (use bp(1) \<open>length before \<le> length xs\<close> in \<open>auto simp: not_less_eq_eq\<close>)
  then show ?thesis using bp(3) by (auto simp: prefix_def elim: justified_mono)
qed


lemma sat_process_first:
  "sat (\<lambda>_ evs. evidenceFirst mc inc evs) (process E mc i (inc\<lparr>inc_MessageIDs := ids\<rparr>))"
  by (rule sat_mono [OF sat_process]) (rule evidenceFirst_ordered)

lemma sat_finishOverride:
  "sat (\<lambda>_ evs. list_all (reports mc) evs) (store E ''FinishManualOverride'' i t)"
  by (rule sat_emits) (intro emit_intros; simp)

lemma sat_override_automatic:
  assumes "\<not> isManual (inc_Verdict inc)"
  shows "sat (\<lambda>_ evs. evidenceFirst mc inc evs) (override E mc i inc)"
  unfolding override_def
proof (rule sat_bind [where S = "\<lambda>_ evs. list_all (reports mc) evs" and T = "\<lambda>_ _ evs. evidenceFirst mc inc evs"],
    goal_cases)
  case 1
  show ?case by (rule sat_emits) (intro emit_intros; simp)
next
  case (2 cl)
  have retn: "sat (\<lambda>_ evs. evidenceFirst mc inc evs) (State_Monad.return x)" for x :: "bool \<times> goerr option"
    by (intro sat_return evidenceFirst_reports) simp
  show ?case
  proof (cases cl)
    case (Inl e)
    then show ?thesis by (simp add: retn)
  next
    case (Inr c)
    obtain claimed ids evs0 where c: "c = (claimed, ids, evs0)" by (cases c)
    let ?ids = "if length ids > 0 then ids else inc_MessageIDs inc"
    have inc': "(if length ids > 0 then inc\<lparr>inc_MessageIDs := ids\<rparr> else inc) = inc\<lparr>inc_MessageIDs := ?ids\<rparr>" by simp
    show ?thesis
      unfolding Inr c sum.case prod.case inc' Let_def using assms
      apply (simp only: if_True if_False not_False_eq_True simp_thms)
      apply (rule sat_if)
       apply (rule retn)
      apply (rule sat_bind [where S = "\<lambda>_ evs. list_all (reports mc) evs" and T = "\<lambda>_ _ evs. evidenceFirst mc inc evs"])
        apply (rule sat_emits, intro emit_intros)
       apply (rule sat_option)
        apply (rule sat_bind [OF sat_process_first, where T = "\<lambda>_ _ evs. list_all (reports mc) evs"])
         apply (rule sat_emits, intro emit_intros; simp)
        apply (erule (1) evidenceFirst_post)
       apply (rule sat_bind [OF sat_finishOverride [of mc], where T = "\<lambda>_ _ evs. evs = []"])
        apply (rule sat_return, simp)
       apply (simp add: evidenceFirst_reports)
      apply (erule (1) evidenceFirst_pre)
      done
  qed
next
  case (3 cl y e1 e2)
  then show ?case by (intro evidenceFirst_pre)
qed

lemma sat_handle_automatic:
  assumes "\<not> isManual (inc_Verdict inc)"
  shows "sat (\<lambda>_ evs. evidenceFirst mc inc evs) (handle E mc inc)"
proof -
  have retn: "sat (\<lambda>_ evs. evidenceFirst mc inc evs) (State_Monad.return x)" for x :: "bool \<times> goerr option"
    by (intro sat_return evidenceFirst_reports) simp
  have proc: "sat (\<lambda>_ evs. evidenceFirst mc inc evs) (process E mc i inc)" for i
    using sat_process_first [of mc inc E i "inc_MessageIDs inc"] by simp
  show ?thesis unfolding handle_def
    apply (rule sat_if [OF retn])
    apply (rule sat_bind [where S = "\<lambda>_ evs. list_all (reports mc) evs" and T = "\<lambda>_ _ evs. evidenceFirst mc inc evs"])
      apply (rule sat_emits, intro emit_intros; simp)
     apply (rule sat_sum [OF retn])
     apply (simp only: split_paired_all prod.case)
     apply (intro sat_if retn sat_override_automatic [OF assms])
     apply (rule sat_bind [OF proc, where T = "\<lambda>_ _ evs. evs = []"])
      apply (rule sat_return, simp)
     apply simp
    apply (erule (1) evidenceFirst_pre)
    done
qed



lemma demo_handle_mutes:
  "EvPort (RestrictMember (-100) 42 False 0) okReply
     \<in> set (events (handle demoEnv demoMachine (demoIncident ''bayes'' False)) (startWorld emptyDB))"
  by (simp add: events_def handle_def process_def recordParts_def withEvidence_def sendCard_def finish_def
      Enforce_def applyAction_def setState_def notice_def logOutcome_def run_simps demo_machine_defs
      InsertPending_def SaveIncidentCard_def AddEvidence_def SetIncidentState_def enforceErr_def refersTo_def findBy_def)


lemma emits_handle_dry:
  assumes "inc_DryRun inc \<or> vd_ReviewOnly (inc_Verdict inc)" and "\<not> isManual (inc_Verdict inc)"
  shows "emits (reports mc) (handle E mc inc)"
  unfolding handle_def using assms by (intro emit_intros emits_process_dry) auto

text \<open>A dry-run or review-only verdict that no moderator gave changes nothing
  in the moderated chat: everything it does is a copy into, a card in or a
  clean-up of the admin chat, a write of its own rows, or a log line.\<close>

theorem dry_runs_only_report:
  assumes "inc_DryRun inc \<or> vd_ReviewOnly (inc_Verdict inc)" and "\<not> isManual (inc_Verdict inc)"
  shows "list_all (\<lambda>ev. reportOnly (mc_AdminChatID mc) ev \<and> \<not> destructive (mc_AdminChatID mc) ev)
           (events (handle E mc inc) w)"
  using emits_events [OF emits_handle_dry [OF assms]] reportOnly_not_destructive by (auto simp: list_all_iff)

lemma dry_runs_only_report_witness:
  "list_all (\<lambda>ev. reportOnly (-1) ev \<and> \<not> destructive (-1) ev)
     (events (handle demoTimeout demoMachine (demoIncident ''bayes'' True)) (startWorld emptyDB))"
  using dry_runs_only_report [of "demoIncident ''bayes'' True" demoMachine demoTimeout "startWorld emptyDB"]
  by (simp add: demoIncident_def demoVerdict_def demoMachine_def isManual_def)

section \<open>What a sanction leaves behind\<close>

text \<open>After an attempt to enforce, with the database up: the row says acted
  and cleaned when both the sanction and the deletion succeeded, acted when
  only the sanction did, not acted when Telegram refused the sanction, unless
  an earlier attempt of unknown outcome stands, and sanction_unknown when the
  answer was lost; only then the audit takes over the attempted action. The
  deletion is asked for in every case.\<close>

theorem enforce_records_outcome:
  assumes "quiet E" and "findIncident i (w_db w) = Some r" and "run_state (applyAction E inc) w = (actErr, w1)"
  shows "\<exists>del. result (Enforce E i inc) w =
       \<lparr>oc_Sanctioned = (actErr = None), oc_Deleted = (pr_err del = None), oc_Err = enforceErr actErr (pr_err del)\<rparr> \<and>
     EvPort (DeleteMessages (inc_ChatID inc) (inc_MessageIDs inc)) del \<in> set (events (Enforce E i inc) w) \<and>
     findIncident i (w_db (after (Enforce E i inc) w)) =
       Some (r\<lparr>ir_State := enforcedState actErr (pr_err del) (ir_State r)\<rparr>) \<and>
     auditOf i (w_db (after (Enforce E i inc) w)) =
       map_option (\<lambda>x. x\<lparr>au_Action := enforcedAction actErr (vd_Action (inc_Verdict inc)) (au_Action x)\<rparr>)
         (auditOf i (w_db w))"
  by (rule Enforce_run [OF assms])

lemma enforce_records_outcome_witness:
  "map_option ir_State (findIncident 1 (w_db (after (Enforce demoTimeout 1 (demoIncident ''bayes'' False))
      (startWorld (demoDB StateEvidenced False))))) = Some StateSanctionUnknown"
proof -
  obtain err w1 where a: "run_state (applyAction demoTimeout (demoIncident ''bayes'' False))
      (startWorld (demoDB StateEvidenced False)) = (Some err, w1)" "\<not> errIs err ErrRefused"
    by (simp add: applyAction_def demoIncident_def demoVerdict_def demoTimeout_def quietEnv_def run_simps
        errIs_def newErr_def okReply_def)
  from enforce_records_outcome [OF _ _ a(1), of 1 "demoRow StateEvidenced False"] a(2)
  show ?thesis by (auto simp: enforcedState_def)
qed

text \<open>A sanction whose answer was lost keeps the captcha sweep from lifting the
  member's restriction: the sweep's query finds the incident, whatever the
  row's dry-run flag and audit say.\<close>

theorem unknown_sanction_protects_member:
  assumes "quiet E" and "findIncident i (w_db w) = Some r"
    and "run_state (applyAction E inc) w = (Some e, w1)" and "\<not> errIs e ErrRefused"
    and "since \<le> ir_CreatedAt r"
  shows "SanctionSince (ir_ChatID r) (ir_UserID r) since (w_db (after (Enforce E i inc) w))"
  by (rule Enforce_unknown_protects [OF assms])

lemma unknown_sanction_protects_member_witness:
  "SanctionSince (-100) 42 0 (w_db (after (Enforce demoTimeout 1 (demoIncident ''bayes'' False))
      (startWorld (demoDB StateEvidenced True))))"
proof -
  obtain err w1 where a: "run_state (applyAction demoTimeout (demoIncident ''bayes'' False))
      (startWorld (demoDB StateEvidenced True)) = (Some err, w1)" "\<not> errIs err ErrRefused"
    by (simp add: applyAction_def demoIncident_def demoVerdict_def demoTimeout_def quietEnv_def run_simps
        errIs_def newErr_def okReply_def)
  show ?thesis
    using unknown_sanction_protects_member [OF _ _ a, of 1 "demoRow StateEvidenced True" 0]
    by (simp add: demoRow_def)
qed

section \<open>Once\<close>




text \<open>A moderator's order on an incident that sanctioned nobody, once it is
  carried out without an error, makes the row a sanction that every later undo
  accepts: not a dry run, done, its claim released, and an audit that names
  the action really applied; the same order is then final.\<close>

theorem manual_override_takes_over:
  assumes "quiet E" and "dbInv (w_db w)" and "findIncident i (w_db w) = Some r"
    and "ir_Decision r = []" and "neverSanctioned (w_db w) r" and "isManual (inc_Verdict inc)"
    and "snd (result (override E mc i inc) w) = None"
  shows "fst (result (override E mc i inc) w) \<and>
    findIncident i (w_db (after (override E mc i inc) w)) =
       Some (r\<lparr>ir_State := StateDone, ir_DryRun := False, ir_Decision := []\<rparr>) \<and>
    (vd_Action (inc_Verdict inc) \<in> set sanctioningActions \<longrightarrow>
       settled i (w_db (after (override E mc i inc) w)))"
  using override_manual_run [OF assms] by (auto simp: settled_def actedState_def)

lemma demoEnv_call: "yields (\<lambda>r. r = okReply) (call demoEnv c)"
  by (rule yields_call) (simp add: demoEnv_def quietEnv_def)

lemma demoEnv_Enforce:
  "vd_Action (inc_Verdict inc) = ActionMute \<Longrightarrow> yields (\<lambda>out. oc_Err out = None) (Enforce demoEnv i inc)"
proof -
  assume a: "vd_Action (inc_Verdict inc) = ActionMute"
  have act: "yields (\<lambda>e. e = None) (applyAction demoEnv inc)"
    using a by (auto simp: applyAction_def Let_def okReply_def
        intro!: yields_then [OF demoEnv_call] yields_return)
  show ?thesis unfolding Enforce_def Let_def
    by (rule yields_then [OF act], rule yields_bind, rule yields_then [OF demoEnv_call])
       (auto intro!: yield_intros simp: enforceErr_def okReply_def)
qed

lemma demo_override_ok:
  "snd (result (override demoEnv demoMachine 1 (demoIncident ''manual_spam'' False))
      (startWorld (demoDB StateEvidenceFailed True))) = None"
proof -
  let ?inc = "demoIncident ''manual_spam'' False" and ?w = "startWorld (demoDB StateEvidenceFailed True)"
  obtain db' ids evs where "ClaimManualOverride 1 (w_db ?w) = Some (db', True, ids, evs)"
    using ClaimManualOverride_result [OF dbInv_demoDB, of 1 StateEvidenceFailed True]
    by (simp add: demoRow_def neverSanctioned_def)
  then have claim: "run_state (store demoEnv ''ClaimManualOverride'' 1 (\<lambda>now. ClaimManualOverride 1)) ?w =
      (Inr (True, ids, evs), tick (EvStore ''ClaimManualOverride'' 1 True) (?w\<lparr>w_db := db'\<rparr>))"
    by (intro run_store_quiet) simp_all
  have act: "vd_Action (inc_Verdict (if length ids > 0 then ?inc\<lparr>inc_MessageIDs := ids\<rparr> else ?inc)) = ActionMute"
    by (simp add: demoIncident_def demoVerdict_def)
  have man: "isManual (inc_Verdict ?inc)"
    by (simp add: isManual_def demoIncident_def demoVerdict_def)
  have over: "yields (\<lambda>out. oc_Err out = None) (manualOverride demoEnv demoMachine 1
      (if length ids > 0 then ?inc\<lparr>inc_MessageIDs := ids\<rparr> else ?inc) evs)"
    unfolding manualOverride_def by (rule yields_then [OF demoEnv_Enforce [OF act]]) (auto intro!: yield_intros)
  show ?thesis unfolding override_def
    apply (rule yields_after [where P = "\<lambda>r. snd r = None", OF claim])
    apply (simp only: sum.case prod.case man Let_def not_True_eq_False not_False_eq_True if_True if_False)
    apply (rule yields_then [where S = "\<lambda>x. x = None"], rule yields_return, simp)
    apply (simp only: option.case)
    apply (rule yields_then [where S = "\<lambda>r. snd r = None"], rule yields_then [OF over])
     apply (auto intro!: yield_intros)
    done
qed

lemma manual_override_takes_over_witness:
  "settled 1 (w_db (after (override demoEnv demoMachine 1 (demoIncident ''manual_spam'' False))
      (startWorld (demoDB StateEvidenceFailed True))))"
  using manual_override_takes_over [OF _ _ _ _ _ _ demo_override_ok, of "demoRow StateEvidenceFailed True"]
  by (simp add: demoRow_def neverSanctioned_def demoIncident_def demoVerdict_def isManual_def sanctioningActions_def)

section \<open>The tables\<close>

text \<open>One incident per message, whatever fails: identifiers and message keys
  stay unique and every incident keeps exactly one audit row, at any moment
  after the machine has handled an incident between other goroutines'
  transactions that keep this too.\<close>

theorem handling_keeps_tables:
  assumes "\<And>n db. dbInv db \<Longrightarrow> dbInv (en_others E n db)" and "dbInv (w_db w)"
  shows "dbInv (w_db (after (handle E mc inc) w))"
proof -
  have "stable E dbInv" using assms(1) by (simp add: stable_def)
  then have "keepsDB E dbInv (handle E mc inc)" by (rule tables.keeps_handle) simp
  then show ?thesis using assms(2) by (simp add: keepsDB_def after_def)
qed

lemma handling_keeps_tables_witness:
  "dbInv (w_db (after (handle demoTimeout demoMachine (demoIncident ''bayes'' False)) (startWorld emptyDB)))"
  by (rule handling_keeps_tables) (simp_all add: demoTimeout_def quietEnv_def)

text \<open>C4. One decision at a time: along any history of button presses, commands
  and their releases on an incident, each failing or not, a decision is
  granted only when none stands, and only a release that names the standing
  decision frees it.\<close>

theorem one_decision_at_a_time:
  assumes "dbInv db" and "decisionOf i db = Some d"
  shows "decisions.lockOK d (decisions.run i es db)"
  by (rule decisions.run_lockOK [OF assms])

lemma one_decision_at_a_time_witness:
  "decisions.run 1 [Inl (ByButton ''enf''), Inl (ByButton ''fp''), Inr (RelButton ''fp''), Inl ByCommand]
     (demoDB StateNotActed True) = [(''enf'', True), (''fp'', False)] \<and>
   decisions.lockOK [] (decisions.run 1 [Inl (ByButton ''enf''), Inl (ByButton ''fp''), Inr (RelButton ''fp''), Inl ByCommand]
     (demoDB StateNotActed True))"
proof (rule conjI)
  show "decisions.run 1 [Inl (ByButton ''enf''), Inl (ByButton ''fp''), Inr (RelButton ''fp''), Inl ByCommand]
     (demoDB StateNotActed True) = [(''enf'', True), (''fp'', False)]"
    by (simp add: RecordDecision_def ReleaseDecision_def ClaimManualOverride_def demo_machine_defs affected_def
        updIncidents_def updateWhere_def findBy_def)
  have "decisionOf 1 (demoDB StateNotActed True) = Some []" by (simp add: decisionOf_def demoRow_def)
  from one_decision_at_a_time [OF dbInv_demoDB this]
  show "decisions.lockOK [] (decisions.run 1 [Inl (ByButton ''enf''), Inl (ByButton ''fp''), Inr (RelButton ''fp''), Inl ByCommand]
     (demoDB StateNotActed True))" .
qed

text \<open>The list of an album's message ids survives its column: what is read
  back is what was written, in order, for every list of 64-bit ids; and a row
  that never had a list yields the message it is keyed on.\<close>

theorem message_ids_round_trip:
  assumes "\<And>m. m \<in> set ids \<Longrightarrow> inInt64 m"
  shows "parseMessageIDs (joinMessageIDs ids) keyed = (if ids = [] then [keyed] else ids)"
  using parse_joinMessageIDs [of ids keyed] assms by (simp add: joinMessageIDs_def)

lemma message_ids_round_trip_witness:
  "parseMessageIDs (joinMessageIDs [7, -3, 12]) 7 = [7, -3, 12]"
proof -
  have "inInt64 m" if "m \<in> set [7, -3, 12]" for m :: int using that by (auto simp: inInt64_def)
  from message_ids_round_trip [OF this, of "[7, -3, 12]" 7] show ?thesis by simp
qed

section \<open>What people read\<close>


text \<open>The digest counts every audit row of the window exactly once per
  action: as enforced, as dry run or as neither.\<close>

theorem digest_partitions_window:
  "(case ActionCountsSince ts db of (enforced, dry, other) \<Rightarrow>
      enforced a + dry a + other a = length (filter (\<lambda>(x, r). au_Action x = a) (auditJoin ts db)))"
proof -
  have "length (filter (\<lambda>(x, r). au_Action x = a \<and> \<not> ir_DryRun r \<and> actedState (ir_State r)) rows)
      + length (filter (\<lambda>(x, r). au_Action x = a \<and> ir_DryRun r) rows)
      + length (filter (\<lambda>(x, r). au_Action x = a \<and> \<not> ir_DryRun r \<and> \<not> actedState (ir_State r)) rows)
      = length (filter (\<lambda>(x, r). au_Action x = a) rows)" for rows :: "(audit_rec \<times> incident_rec) list"
    by (induction rows) auto
  then show ?thesis by (simp add: ActionCountsSince_def Let_def)
qed

end
