(* ===== verification/Config.thy ===== *)
theory Config
  imports Domain
begin

text \<open>
  The configuration, \<open>internal/config/config.go\<close>: the blocks of the YAML
  file as records, their defaults, their validation, and the policies the
  rest of the bot asks for (\<open>DryRunFor\<close>, \<open>Welcome.For\<close>,
  \<open>Captcha.For\<close>, \<open>ProviderPromptFor\<close>). A pointer field is an option, a YAML map
  is an association list in the order Go's iteration takes (any order), a
  duration is its nanoseconds. Decoding YAML is the library's; \<open>Parse\<close>
  starts from the decoded block. Each error of \<open>Validate\<close> is the
  key its text names.
\<close>

section \<open>The blocks\<close>

record chats_policy =
  cp_Mode :: string
  cp_StartInDryRun :: "bool option"
  cp_Allowlist :: "chat_id list"
  cp_Operators :: "user_id list"
  cp_Enforce :: "chat_id list"
  cp_ForceDryRun :: "chat_id list"

definition containsChat :: "chat_id list \<Rightarrow> chat_id \<Rightarrow> bool" where
  "containsChat ids chatID \<longleftrightarrow> list_ex (\<lambda>i. i = chatID) ids"

definition DryRunFor :: "chats_policy \<Rightarrow> chat_id \<Rightarrow> bool \<Rightarrow> bool" where
  "DryRunFor p chatID stored =
     (if containsChat (cp_ForceDryRun p) chatID then True
      else if containsChat (cp_Enforce p) chatID then False
      else stored)"

definition DryRunDefault :: "chats_policy \<Rightarrow> bool" where
  "DryRunDefault p = (case cp_StartInDryRun p of None \<Rightarrow> True | Some b \<Rightarrow> b)"

type_synonym duration = int

definition second :: duration where "second = 1000000000"
definition minute :: duration where "minute = 60 * second"
definition hour :: duration where "hour = 60 * minute"

record detection_rules =
  dr_DenyStopwords :: "str list"
  dr_AllowStopwords :: "str list"
  dr_DenyExact :: "str list"
  dr_BlockLinksForUntrusted :: "bool option"
  dr_AllowGoogleMapsLinks :: "bool option"
  dr_BannedDomains :: "str list"
  dr_BannedDocumentExtensions :: "str list"
  dr_BannedDocumentMIMETypes :: "str list"
  dr_MaxLinks :: int
  dr_MaxMentions :: int
  dr_MaxEmoji :: int

record detection_behavior =
  db_DupThreshold :: "int option"
  db_DupWindow :: duration
  db_ShortLen :: "int option"
  db_ShortFloodThreshold :: "int option"
  db_ShortWindow :: duration
  db_FlagEdits :: bool

definition BayesScopeGlobal :: string where "BayesScopeGlobal = ''global''"
definition BayesScopePerChat :: string where "BayesScopePerChat = ''per_chat''"
definition FakeAdminNameMatchReview :: string where "FakeAdminNameMatchReview = ''review''"
definition FakeAdminNameMatchSanction :: string where "FakeAdminNameMatchSanction = ''sanction''"

record detection =
  dt_TrustThreshold :: "int option"
  dt_Rules :: detection_rules
  dt_Behavior :: detection_behavior
  dt_BayesEnabled :: "bool option"
  dt_BayesThreshold :: "real option"
  dt_BayesVocabGuess :: int
  dt_BayesScope :: string
  dt_FakeAdminEnabled :: "bool option"
  dt_FakeAdminNameMatch :: string
  dt_FakeAdminMaxDistance :: int
  dt_FakeAdminMinFuzzyLen :: int
  dt_FakeAdminSuspiciousTags :: "str list option"
  dt_AdminCacheTTLSeconds :: int
  dt_MediaCaptionMinLen :: int
  dt_MeaningfulMinLen :: int
  dt_ReviewKeyboard :: bool
  dt_DeleteJoinMessages :: bool
  dt_DeleteLeaveMessages :: bool
  dt_ReactionCleanupEnabled :: "bool option"
  dt_EphemeralNoticeEnabled :: "bool option"
  dt_EphemeralNoticeText :: str

record blocklist_cfg =
  bl_Enabled :: "bool option"
  bl_LolsFullURL :: str
  bl_LolsDeltaURL :: str
  bl_CasCheckEnabled :: "bool option"
  bl_CasCheckURL :: str
  bl_CasAPIKey :: string
  bl_CasPositiveTTL :: duration
  bl_CasNegativeTTL :: duration
  bl_CasTimeout :: duration
  bl_CasRatePerSec :: real
  bl_CasBurst :: int
  bl_FullRefresh :: duration
  bl_DeltaRefresh :: duration
  bl_HTTPTimeout :: duration

record ops_cfg =
  op_MetricsEnabled :: "bool option"
  op_MetricsAddr :: string
  op_DigestEnabled :: "bool option"
  op_DigestInterval :: duration

record jev_criteria =
  jc_Spam :: str
  jc_Ham :: str

record llm_provider =
  lp_Shadow :: bool
  lp_Prompt :: str
  lp_PromptOverrides :: "(chat_id \<times> str) list"
  lp_Kind :: string
  lp_APIKey :: string
  lp_Model :: string
  lp_APIBase :: str
  lp_Threshold :: "real option"
  lp_MaxSymbols :: "int option"
  lp_CriteriaSpam :: str
  lp_CriteriaHam :: str
  lp_CriteriaOverrides :: "(chat_id \<times> jev_criteria) list"

record llm_cfg =
  ll_Enabled :: "bool option"
  ll_Policy :: string
  ll_BorderlineBand :: real
  ll_AlwaysForUntrusted :: bool
  ll_HTTPTimeout :: duration
  ll_Providers :: "llm_provider list"
  ll_PromptOverrides :: "(chat_id \<times> str) list"
  ll_Prompt :: str
  ll_Temperature :: "real option"
  ll_MaxTokens :: int
  ll_ReasoningEffort :: string

definition blank :: "str \<Rightarrow> bool" where
  "blank s \<longleftrightarrow> TrimSpace s = []"

definition PromptFor :: "llm_cfg \<Rightarrow> chat_id \<Rightarrow> str" where
  "PromptFor l chatID =
     (case map_of (ll_PromptOverrides l) chatID of
        Some p \<Rightarrow> if TrimSpace p \<noteq> [] then p else ll_Prompt l
      | None \<Rightarrow> ll_Prompt l)"

text \<open>A missing key of a Go map reads as the empty string.\<close>

definition strAt :: "(chat_id \<times> str) list \<Rightarrow> chat_id \<Rightarrow> str" where
  "strAt m k = (case map_of m k of Some s \<Rightarrow> s | None \<Rightarrow> [])"

definition ProviderPromptFor :: "llm_cfg \<Rightarrow> nat \<Rightarrow> chat_id \<Rightarrow> str" where
  "ProviderPromptFor l i chatID =
     (let p = ll_Providers l ! i in
      case first (\<lambda>prompt. TrimSpace prompt \<noteq> [])
             [strAt (lp_PromptOverrides p) chatID, lp_Prompt p, PromptFor l chatID] of
        Some prompt \<Rightarrow> prompt
      | None \<Rightarrow> [])"

record welcome_chat =
  wc_Enabled :: "bool option"
  wc_Text :: str

record welcome_cfg =
  we_Enabled :: "bool option"
  we_Text :: str
  we_MaxPerMinute :: "int option"
  we_Chats :: "(chat_id \<times> welcome_chat) list"

definition telegramMessageRunes :: nat where "telegramMessageRunes = 4096"

definition WelcomeFor :: "welcome_cfg \<Rightarrow> chat_id \<Rightarrow> str \<times> bool" where
  "WelcomeFor w chatID =
     (let enabled0 = (we_Enabled w = Some True); text0 = TrimSpace (we_Text w);
          (enabled, t) =
            (case map_of (we_Chats w) chatID of
               None \<Rightarrow> (enabled0, text0)
             | Some chat \<Rightarrow>
                 (case wc_Enabled chat of Some b \<Rightarrow> b | None \<Rightarrow> enabled0,
                  if TrimSpace (wc_Text chat) \<noteq> [] then TrimSpace (wc_Text chat) else text0))
      in if \<not> enabled \<or> t = [] then (t, False) else (t, True))"

record captcha_chat =
  cc_Enabled :: "bool option"
  cc_Mode :: string
  cc_Timeout :: duration
  cc_OnFail :: string
  cc_Text :: str
  cc_ButtonText :: str

record captcha_cfg =
  ca_Enabled :: "bool option"
  ca_Mode :: string
  ca_Timeout :: "duration option"
  ca_OnFail :: string
  ca_Text :: "str option"
  ca_ButtonText :: "str option"
  ca_Chats :: "(chat_id \<times> captcha_chat) list"

record captcha_policy =
  po_Mode :: string
  po_Timeout :: duration
  po_OnFail :: string
  po_Text :: str
  po_ButtonText :: str

definition defaultCaptchaText :: str where
  "defaultCaptchaText = lit ''Press the button below to confirm you are not a bot, otherwise you will be removed from the chat.''"

definition defaultCaptchaButton :: str where
  "defaultCaptchaButton = lit ''I am not a bot''"

definition captchaTimeoutMin :: duration where "captchaTimeoutMin = 30 * second"
definition captchaTimeoutMax :: duration where "captchaTimeoutMax = hour"
definition captchaButtonRunes :: nat where "captchaButtonRunes = 64"

definition captchaDuration :: "duration option \<Rightarrow> duration \<Rightarrow> duration" where
  "captchaDuration d fallback = (case d of None \<Rightarrow> fallback | Some x \<Rightarrow> x)"

definition captchaString :: "str option \<Rightarrow> str \<Rightarrow> str" where
  "captchaString s fallback = (case s of None \<Rightarrow> fallback | Some x \<Rightarrow> TrimSpace x)"

text \<open>\<open>Captcha.For\<close>: the global policy, and the chat's entry laid over it.\<close>

definition globalPolicy :: "captcha_cfg \<Rightarrow> captcha_policy" where
  "globalPolicy c =
     \<lparr>po_Mode = ca_Mode c, po_Timeout = captchaDuration (ca_Timeout c) (2 * minute), po_OnFail = ca_OnFail c,
      po_Text = captchaString (ca_Text c) defaultCaptchaText,
      po_ButtonText = captchaString (ca_ButtonText c) defaultCaptchaButton\<rparr>"

definition overlay :: "captcha_chat \<Rightarrow> captcha_policy \<Rightarrow> captcha_policy" where
  "overlay ch p =
     \<lparr>po_Mode = (if cc_Mode ch \<noteq> [] then cc_Mode ch else po_Mode p),
      po_Timeout = (if cc_Timeout ch \<noteq> 0 then cc_Timeout ch else po_Timeout p),
      po_OnFail = (if cc_OnFail ch \<noteq> [] then cc_OnFail ch else po_OnFail p),
      po_Text = (if cc_Text ch \<noteq> [] then TrimSpace (cc_Text ch) else po_Text p),
      po_ButtonText = (if cc_ButtonText ch \<noteq> [] then TrimSpace (cc_ButtonText ch) else po_ButtonText p)\<rparr>"

definition CaptchaFor :: "captcha_cfg \<Rightarrow> chat_id \<Rightarrow> captcha_policy \<times> bool" where
  "CaptchaFor c chatID =
     (let en = (ca_Enabled c = Some True); p = globalPolicy c in
      case map_of (ca_Chats c) chatID of
        None \<Rightarrow> (p, en)
      | Some ch \<Rightarrow> (overlay ch p, case cc_Enabled ch of Some b \<Rightarrow> b | None \<Rightarrow> en))"

record config =
  cf_BotToken :: string
  cf_AdminChatID :: chat_id
  cf_Action :: action
  cf_Chats :: chats_policy
  cf_Detection :: detection
  cf_Blocklist :: blocklist_cfg
  cf_Ops :: ops_cfg
  cf_LLM :: llm_cfg
  cf_Welcome :: welcome_cfg
  cf_Captcha :: captcha_cfg

section \<open>Defaults\<close>

text \<open>A nil pointer takes the default; an explicit value stays.\<close>

definition orDefault :: "'a \<Rightarrow> 'a option \<Rightarrow> 'a option" where
  "orDefault d x = (case x of None \<Rightarrow> Some d | Some v \<Rightarrow> Some v)"

text \<open>A zero value takes the default (unset); so does, for the intervals, any
  value that is not positive.\<close>

definition orZero :: "'a \<Rightarrow> 'a \<Rightarrow> 'a \<Rightarrow> 'a" where
  "orZero z d x = (if x = z then d else x)"

definition orPositive :: "'a::{zero,linorder} \<Rightarrow> 'a \<Rightarrow> 'a" where
  "orPositive d x = (if x \<le> 0 then d else x)"

definition defaultTags :: "str list" where
  "defaultTags = [lit ''admin'', lit ''support'', lit ''verified'', lit ''moderator'',
     [0x430, 0x434, 0x43C, 0x438, 0x43D],
     [0x441, 0x430, 0x43F, 0x43F, 0x43E, 0x440, 0x442],
     [0x43F, 0x43E, 0x434, 0x434, 0x435, 0x440, 0x436, 0x43A, 0x430],
     [0x43C, 0x43E, 0x434, 0x435, 0x440, 0x430, 0x442, 0x43E, 0x440],
     [0x43C, 0x43E, 0x434, 0x435, 0x440],
     [0x432, 0x435, 0x440, 0x438, 0x444, 0x438, 0x446, 0x438, 0x440, 0x43E, 0x432, 0x430, 0x43D]]"

definition applyRulesDefaults :: "detection_rules \<Rightarrow> detection_rules" where
  "applyRulesDefaults r = r\<lparr>dr_BlockLinksForUntrusted := orDefault True (dr_BlockLinksForUntrusted r),
     dr_AllowGoogleMapsLinks := orDefault False (dr_AllowGoogleMapsLinks r)\<rparr>"

definition applyBehaviorDefaults :: "detection_behavior \<Rightarrow> detection_behavior" where
  "applyBehaviorDefaults b = b\<lparr>db_DupThreshold := orDefault 3 (db_DupThreshold b),
     db_DupWindow := orZero 0 (60 * second) (db_DupWindow b),
     db_ShortLen := orDefault 10 (db_ShortLen b),
     db_ShortFloodThreshold := orDefault 5 (db_ShortFloodThreshold b),
     db_ShortWindow := orZero 0 (30 * second) (db_ShortWindow b)\<rparr>"

definition applyDetectionDefaults :: "detection \<Rightarrow> detection" where
  "applyDetectionDefaults d = d\<lparr>dt_TrustThreshold := orDefault 5 (dt_TrustThreshold d),
     dt_Rules := applyRulesDefaults (dt_Rules d),
     dt_Behavior := applyBehaviorDefaults (dt_Behavior d),
     dt_BayesEnabled := orDefault True (dt_BayesEnabled d),
     dt_BayesThreshold := orDefault 1 (dt_BayesThreshold d),
     dt_BayesScope := orZero [] BayesScopeGlobal (dt_BayesScope d),
     dt_BayesVocabGuess := orZero 0 5000 (dt_BayesVocabGuess d),
     dt_FakeAdminEnabled := orDefault True (dt_FakeAdminEnabled d),
     dt_FakeAdminNameMatch := orZero [] FakeAdminNameMatchReview (dt_FakeAdminNameMatch d),
     dt_FakeAdminMaxDistance := orZero 0 1 (dt_FakeAdminMaxDistance d),
     dt_FakeAdminMinFuzzyLen := orZero 0 5 (dt_FakeAdminMinFuzzyLen d),
     dt_FakeAdminSuspiciousTags := orDefault defaultTags (dt_FakeAdminSuspiciousTags d),
     dt_AdminCacheTTLSeconds := orZero 0 300 (dt_AdminCacheTTLSeconds d),
     dt_ReactionCleanupEnabled := orDefault True (dt_ReactionCleanupEnabled d),
     dt_EphemeralNoticeEnabled := orDefault False (dt_EphemeralNoticeEnabled d)\<rparr>"

definition applyBlocklistDefaults :: "blocklist_cfg \<Rightarrow> blocklist_cfg" where
  "applyBlocklistDefaults b = b\<lparr>bl_Enabled := orDefault True (bl_Enabled b),
     bl_LolsFullURL := orZero [] (lit ''https://lols.bot/spam/banlist.txt'') (bl_LolsFullURL b),
     bl_LolsDeltaURL := orZero [] (lit ''https://lols.bot/spam/banlist-1h.txt'') (bl_LolsDeltaURL b),
     bl_CasCheckEnabled := orDefault True (bl_CasCheckEnabled b),
     bl_CasCheckURL := orZero [] (lit ''https://api.cas.chat/check'') (bl_CasCheckURL b),
     bl_CasPositiveTTL := orPositive (24 * hour) (bl_CasPositiveTTL b),
     bl_CasNegativeTTL := orPositive (6 * hour) (bl_CasNegativeTTL b),
     bl_CasTimeout := orPositive (2 * second) (bl_CasTimeout b),
     bl_CasRatePerSec := orPositive 10 (bl_CasRatePerSec b),
     bl_CasBurst := orPositive 20 (bl_CasBurst b),
     bl_FullRefresh := orPositive (6 * hour) (bl_FullRefresh b),
     bl_DeltaRefresh := orPositive hour (bl_DeltaRefresh b),
     bl_HTTPTimeout := orPositive (30 * second) (bl_HTTPTimeout b)\<rparr>"

definition applyOpsDefaults :: "ops_cfg \<Rightarrow> ops_cfg" where
  "applyOpsDefaults c = c\<lparr>op_MetricsEnabled := orDefault True (op_MetricsEnabled c),
     op_MetricsAddr := orZero [] '':9090'' (op_MetricsAddr c),
     op_DigestEnabled := orDefault True (op_DigestEnabled c),
     op_DigestInterval := orPositive (24 * hour) (op_DigestInterval c)\<rparr>"

definition applyWelcomeDefaults :: "welcome_cfg \<Rightarrow> welcome_cfg" where
  "applyWelcomeDefaults w = w\<lparr>we_Enabled := orDefault False (we_Enabled w),
     we_MaxPerMinute := orDefault 20 (we_MaxPerMinute w)\<rparr>"

definition applyCaptchaDefaults :: "captcha_cfg \<Rightarrow> captcha_cfg" where
  "applyCaptchaDefaults c = c\<lparr>ca_Enabled := orDefault False (ca_Enabled c),
     ca_Mode := orZero [] ''button'' (ca_Mode c),
     ca_Timeout := orDefault (2 * minute) (ca_Timeout c),
     ca_OnFail := orZero [] ''kick'' (ca_OnFail c),
     ca_Text := orDefault defaultCaptchaText (ca_Text c),
     ca_ButtonText := orDefault defaultCaptchaButton (ca_ButtonText c)\<rparr>"

definition applyProviderDefaults :: "llm_provider \<Rightarrow> llm_provider" where
  "applyProviderDefaults p =
     (if lp_Kind p \<noteq> ''jev'' then p
      else p\<lparr>lp_Model := orZero [] ''jev-1.13.0'' (lp_Model p),
             lp_Threshold := orDefault (3 / 10) (lp_Threshold p),
             lp_MaxSymbols := orDefault 6000 (lp_MaxSymbols p)\<rparr>)"

definition applyLLMDefaults :: "llm_cfg \<Rightarrow> llm_cfg" where
  "applyLLMDefaults l = l\<lparr>ll_Providers := map applyProviderDefaults (ll_Providers l),
     ll_Enabled := orDefault False (ll_Enabled l),
     ll_Policy := orZero [] ''any'' (ll_Policy l),
     ll_BorderlineBand := orZero 0 (1 / 2) (ll_BorderlineBand l),
     ll_HTTPTimeout := orPositive (10 * second) (ll_HTTPTimeout l)\<rparr>"

section \<open>Validation\<close>

text \<open>An error names the key at fault, and the chat or the provider of a list
  it is about.\<close>

datatype cfg_error = CfgError string "int list"

text \<open>A sequence of checks returns the first error; a captcha key of a chat's
  entry names the chat.\<close>

fun firstErr :: "cfg_error option list \<Rightarrow> cfg_error option" where
  "firstErr [] = None"
| "firstErr (None # xs) = firstErr xs"
| "firstErr (Some e # xs) = Some e"

definition check :: "bool \<Rightarrow> cfg_error \<Rightarrow> cfg_error option" where
  "check ok e = (if ok then None else Some e)"

definition validateJEVCriteria :: "llm_cfg \<Rightarrow> nat \<Rightarrow> llm_provider \<Rightarrow> cfg_error option" where
  "validateJEVCriteria l i p =
     (if blank (lp_CriteriaSpam p) \<noteq> blank (lp_CriteriaHam p) then Some (CfgError ''criteria pair'' [int i])
      else if blank (lp_CriteriaSpam p) then check (length (lp_CriteriaOverrides p) = 0) (CfgError ''criteria_overrides without criteria'' [int i])
      else firstErr
        (map (\<lambda>(chatID, c). check (\<not> (blank (jc_Spam c) \<or> blank (jc_Ham c))) (CfgError ''criteria_overrides pair'' [int i, chatID]))
           (lp_CriteriaOverrides p)
         @ map (\<lambda>(chatID, _). check (map_of (lp_CriteriaOverrides p) chatID \<noteq> None) (CfgError ''criteria_overrides cover'' [int i, chatID]))
             (lp_PromptOverrides p @ ll_PromptOverrides l)))"

definition validateProvider :: "llm_cfg \<Rightarrow> nat \<Rightarrow> llm_provider \<Rightarrow> cfg_error option" where
  "validateProvider l i p = firstErr
     ((if TrimSpace (lp_Prompt p) \<noteq> []
       then map (\<lambda>(chatID, _). check (TrimSpace (strAt (lp_PromptOverrides p) chatID) \<noteq> []) (CfgError ''prompt_overrides cover'' [int i, chatID]))
              (ll_PromptOverrides l)
       else [])
      @ [check (lp_Kind p \<in> {''openai'', ''anthropic'', ''jev''}) (CfgError ''kind'' [int i])]
      @ (if lp_Kind p = ''jev''
         then [check (case lp_Threshold p of None \<Rightarrow> False | Some t \<Rightarrow> 0 < t \<and> t \<le> 1) (CfgError ''threshold'' [int i]),
               check (case lp_MaxSymbols p of None \<Rightarrow> False | Some n \<Rightarrow> 0 < n) (CfgError ''max_symbols'' [int i]),
               validateJEVCriteria l i p]
         else if lp_Threshold p \<noteq> None \<or> lp_MaxSymbols p \<noteq> None then [Some (CfgError ''threshold requires jev'' [int i])]
         else if lp_CriteriaSpam p \<noteq> [] \<or> lp_CriteriaHam p \<noteq> [] \<or> length (lp_CriteriaOverrides p) > 0
           then [Some (CfgError ''criteria require jev'' [int i])]
         else [])
      @ [check (lp_APIKey p \<noteq> []) (CfgError ''api_key'' [int i]), check (lp_Model p \<noteq> []) (CfgError ''model'' [int i])])"

definition validateLLM :: "llm_cfg \<Rightarrow> cfg_error option" where
  "validateLLM l =
     (if ll_Enabled l \<noteq> Some True then None
      else firstErr
        ([check (ll_Policy l \<in> {''any'', ''all''}) (CfgError ''llm.policy'' []),
          check (length (ll_Providers l) \<noteq> 0) (CfgError ''llm.providers'' [])]
         @ map (\<lambda>(i, p). validateProvider l i p) (enumerate 0 (ll_Providers l))
         @ [check (list_ex (\<lambda>p. \<not> lp_Shadow p) (ll_Providers l)) (CfgError ''llm voting provider'' [])]))"

definition captchaMode :: "int list \<Rightarrow> string \<Rightarrow> cfg_error option" where
  "captchaMode key mode = check (mode \<in> {'''', ''button'', ''join_request''}) (CfgError ''captcha mode'' key)"

definition captchaOnFail :: "int list \<Rightarrow> string \<Rightarrow> cfg_error option" where
  "captchaOnFail key act = check (act \<in> {'''', ''kick'', ''keep_muted''}) (CfgError ''captcha on_fail'' key)"

definition captchaTimeout :: "int list \<Rightarrow> duration \<Rightarrow> bool \<Rightarrow> cfg_error option" where
  "captchaTimeout key d required =
     (if d = 0 \<and> \<not> required then None
      else check (\<not> (d < captchaTimeoutMin \<or> d > captchaTimeoutMax)) (CfgError ''captcha timeout'' key))"

definition captchaText :: "int list \<Rightarrow> str \<Rightarrow> bool \<Rightarrow> cfg_error option" where
  "captchaText key t rejectEmpty =
     (if rejectEmpty \<and> TrimSpace t = [] then Some (CfgError ''captcha text empty'' key)
      else check (\<not> length (TrimSpace t) > telegramMessageRunes) (CfgError ''captcha text'' key))"

definition captchaButton :: "int list \<Rightarrow> str \<Rightarrow> bool \<Rightarrow> cfg_error option" where
  "captchaButton key t rejectEmpty =
     (if rejectEmpty \<and> TrimSpace t = [] then Some (CfgError ''captcha button_text empty'' key)
      else check (\<not> length (TrimSpace t) > captchaButtonRunes) (CfgError ''captcha button_text'' key))"

definition captchaFields ::
  "int list \<Rightarrow> string \<Rightarrow> string \<Rightarrow> str \<Rightarrow> str \<Rightarrow> duration \<Rightarrow> bool \<Rightarrow> bool \<Rightarrow> cfg_error option" where
  "captchaFields key mode onFail t button timeout timeoutRequired rejectEmpty = firstErr
     [captchaMode key mode, captchaOnFail key onFail, captchaTimeout key timeout timeoutRequired,
      captchaText key t rejectEmpty, captchaButton key button rejectEmpty]"

definition validateCaptcha :: "config \<Rightarrow> cfg_error option" where
  "validateCaptcha c =
     (let g = cf_Captcha c in firstErr
        ([captchaFields [] (ca_Mode g) (ca_OnFail g) (captchaString (ca_Text g) [])
            (captchaString (ca_ButtonText g) []) (case ca_Timeout g of None \<Rightarrow> 0 | Some d \<Rightarrow> d) True True]
         @ (if cp_Mode (cf_Chats c) = ''allowlist''
            then map (\<lambda>(i, _). check (containsChat (cp_Allowlist (cf_Chats c)) i) (CfgError ''captcha.chats'' [i])) (ca_Chats g)
            else [])
         @ concat (map (\<lambda>(i, chat).
             [captchaFields [i] (cc_Mode chat) (cc_OnFail chat) (cc_Text chat) (cc_ButtonText chat)
                (cc_Timeout chat) False False,
              (case CaptchaFor g i of (pol, on) \<Rightarrow>
                 check (\<not> (on \<and> (po_Text pol = [] \<or> po_ButtonText pol = []))) (CfgError ''captcha.chats empty'' [i]))])
             (ca_Chats g))))"

definition validateWelcome :: "config \<Rightarrow> cfg_error option" where
  "validateWelcome c =
     (let w = cf_Welcome c; globalOn = (we_Enabled w = Some True) in firstErr
        ([(case we_MaxPerMinute w of None \<Rightarrow> None | Some n \<Rightarrow> check (\<not> n < 1) (CfgError ''welcome.max_per_minute'' [n])),
          check (\<not> length (TrimSpace (we_Text w)) > telegramMessageRunes) (CfgError ''welcome.text'' []),
          check (\<not> (globalOn \<and> TrimSpace (we_Text w) = [])) (CfgError ''welcome.text empty'' [])]
         @ (if cp_Mode (cf_Chats c) = ''allowlist''
            then map (\<lambda>(i, _). check (containsChat (cp_Allowlist (cf_Chats c)) i) (CfgError ''welcome.chats'' [i])) (we_Chats w)
            else [])
         @ concat (map (\<lambda>(i, chat).
             [check (\<not> length (TrimSpace (wc_Text chat)) > telegramMessageRunes)
                (CfgError ''welcome.chats text'' [i]),
              (if (case wc_Enabled chat of Some b \<Rightarrow> b | None \<Rightarrow> globalOn)
               then check (snd (WelcomeFor w i)) (CfgError ''welcome.chats empty'' [i]) else None)])
             (we_Chats w))))"

definition Validate :: "config \<Rightarrow> cfg_error option" where
  "Validate c =
     (let p = cf_Chats c; d = cf_Detection c; l = cf_LLM c in firstErr
        ([check (cf_BotToken c \<noteq> []) (CfgError ''bot_token'' []),
          check (cf_AdminChatID c \<noteq> 0) (CfgError ''admin_chat_id'' []),
          check (cp_Mode p \<in> {''auto'', ''allowlist'', ''owners_only''}) (CfgError ''chats.mode'' []),
          check (dt_BayesScope d \<in> {'''', BayesScopeGlobal, BayesScopePerChat}) (CfgError ''detection.bayes_scope'' []),
          check (dt_FakeAdminNameMatch d \<in> {'''', FakeAdminNameMatchReview, FakeAdminNameMatchSanction})
            (CfgError ''detection.fake_admin_name_match'' [])]
         @ (if cp_Mode p = ''allowlist''
            then map (\<lambda>i. check (containsChat (cp_Allowlist p) i) (CfgError ''chats.enforce'' [i])) (cp_Enforce p)
            else [])
         @ [check (cf_Action c \<in> {ActionDeleteMute, ActionMute, ActionBan, ActionDeleteOnly}) (CfgError ''action'' []),
            check (ll_ReasoningEffort l \<in> {'''', ''none'', ''off'', ''low'', ''medium'', ''high''})
              (CfgError ''llm.reasoning_effort'' []),
            validateLLM l, validateWelcome c, validateCaptcha c]))"

section \<open>Parsing\<close>

text \<open>The environment variable that may override a provider's key.\<close>

definition envKeyOf :: "string \<Rightarrow> string option" where
  "envKeyOf kind =
     (if kind = ''openai'' then Some ''OPENAI_API_KEY''
      else if kind = ''anthropic'' then Some ''ANTHROPIC_API_KEY''
      else if kind = ''jev'' then Some ''JEV_TOKEN''
      else None)"

definition fromEnv :: "(string \<Rightarrow> string) \<Rightarrow> string \<Rightarrow> string \<Rightarrow> string" where
  "fromEnv getenv name v = (if getenv name \<noteq> [] then getenv name else v)"

definition applyProviderEnv :: "(string \<Rightarrow> string) \<Rightarrow> llm_provider \<Rightarrow> llm_provider" where
  "applyProviderEnv getenv p =
     (case envKeyOf (lp_Kind p) of None \<Rightarrow> p
      | Some name \<Rightarrow> p\<lparr>lp_APIKey := fromEnv getenv name (lp_APIKey p)\<rparr>)"

definition applyDefaults :: "config \<Rightarrow> config" where
  "applyDefaults c = c\<lparr>cf_Detection := applyDetectionDefaults (cf_Detection c),
     cf_Blocklist := applyBlocklistDefaults (cf_Blocklist c), cf_Ops := applyOpsDefaults (cf_Ops c),
     cf_LLM := applyLLMDefaults (cf_LLM c), cf_Welcome := applyWelcomeDefaults (cf_Welcome c),
     cf_Captcha := applyCaptchaDefaults (cf_Captcha c)\<rparr>"

definition applyEnv :: "(string \<Rightarrow> string) \<Rightarrow> config \<Rightarrow> config" where
  "applyEnv getenv c = c\<lparr>cf_BotToken := fromEnv getenv ''BOT_TOKEN'' (cf_BotToken c),
     cf_LLM := (cf_LLM c)\<lparr>ll_Providers := map (applyProviderEnv getenv) (ll_Providers (cf_LLM c))\<rparr>,
     cf_Blocklist := (cf_Blocklist c)\<lparr>bl_CasAPIKey := fromEnv getenv ''CAS_API_KEY'' (bl_CasAPIKey (cf_Blocklist c))\<rparr>\<rparr>"

definition Parse :: "(string \<Rightarrow> string) \<Rightarrow> config \<Rightarrow> cfg_error + config" where
  "Parse getenv c0 =
     (let c = applyEnv getenv (applyDefaults c0) in
      case Validate c of Some e \<Rightarrow> Inl e | None \<Rightarrow> Inr c)"

section \<open>What a parsed configuration satisfies\<close>

lemma firstErr_Cons: "firstErr (x # xs) = None \<longleftrightarrow> x = None \<and> firstErr xs = None"
  by (cases x) auto

lemma firstErr_append: "firstErr (xs @ ys) = None \<longleftrightarrow> firstErr xs = None \<and> firstErr ys = None"
  by (induction xs) (auto simp: firstErr_Cons)

lemma firstErr_map: "firstErr (map f xs) = None \<longleftrightarrow> (\<forall>x \<in> set xs. f x = None)"
  by (induction xs) (auto simp: firstErr_Cons)

lemma firstErr_concat: "firstErr (concat (map f xs)) = None \<longleftrightarrow> (\<forall>x \<in> set xs. firstErr (f x) = None)"
  by (induction xs) (auto simp: firstErr_append)

lemmas firstErr_None = firstErr_Cons firstErr_append firstErr_map firstErr_concat

lemma check_None [simp]: "check ok e = None \<longleftrightarrow> ok"
  by (simp add: check_def)

text \<open>The defaults change only what is unset.\<close>

lemma orDefault_simps [simp]: "orDefault d (Some v) = Some v" "orDefault d (orDefault d' x) = orDefault d' x"
  by (simp_all add: orDefault_def split: option.splits)

lemma orZero_idem [simp]: "orZero z d (orZero z d x) = orZero z d x"
  by (simp add: orZero_def)

lemma orPositive_idem [simp]: "orPositive d (orPositive d x) = orPositive d x"
  by (simp add: orPositive_def)

lemma applyProviderDefaults_idem [simp]:
  "applyProviderDefaults (applyProviderDefaults p) = applyProviderDefaults p"
  by (simp add: applyProviderDefaults_def)

lemma applyProviderEnv_kind [simp]: "lp_Kind (applyProviderEnv g p) = lp_Kind p"
  by (simp add: applyProviderEnv_def split: option.splits)

lemma applyProviderDefaults_kind [simp]: "lp_Kind (applyProviderDefaults p) = lp_Kind p"
  by (simp add: applyProviderDefaults_def)

lemma applyProviderEnv_idem [simp]: "applyProviderEnv g (applyProviderEnv g p) = applyProviderEnv g p"
  by (cases "envKeyOf (lp_Kind p)") (simp_all add: applyProviderEnv_def fromEnv_def)

lemma applyProvider_commute: "applyProviderDefaults (applyProviderEnv g p) = applyProviderEnv g (applyProviderDefaults p)"
  by (cases "lp_Kind p = ''jev''"; cases "envKeyOf (lp_Kind p)")
     (simp_all add: applyProviderEnv_def applyProviderDefaults_def)

lemma applyProvider_idem [simp]:
  "applyProviderEnv g (applyProviderDefaults (applyProviderEnv g (applyProviderDefaults p))) =
     applyProviderEnv g (applyProviderDefaults p)"
  by (simp add: applyProvider_commute)

lemma applyProvider_idem_map [simp]:
  "map (applyProviderEnv g \<circ> applyProviderDefaults \<circ> (applyProviderEnv g \<circ> applyProviderDefaults)) ps =
     map (applyProviderEnv g \<circ> applyProviderDefaults) ps"
  by simp

lemma applyRulesDefaults_idem [simp]: "applyRulesDefaults (applyRulesDefaults r) = applyRulesDefaults r"
  by (simp add: applyRulesDefaults_def)

lemma applyBehaviorDefaults_idem [simp]: "applyBehaviorDefaults (applyBehaviorDefaults b) = applyBehaviorDefaults b"
  by (simp add: applyBehaviorDefaults_def)

lemma applyDetectionDefaults_sel [simp]:
  "dt_TrustThreshold (applyDetectionDefaults d) = orDefault 5 (dt_TrustThreshold d)"
  "dt_Rules (applyDetectionDefaults d) = applyRulesDefaults (dt_Rules d)"
  "dt_Behavior (applyDetectionDefaults d) = applyBehaviorDefaults (dt_Behavior d)"
  "dt_BayesEnabled (applyDetectionDefaults d) = orDefault True (dt_BayesEnabled d)"
  "dt_BayesThreshold (applyDetectionDefaults d) = orDefault 1 (dt_BayesThreshold d)"
  "dt_BayesVocabGuess (applyDetectionDefaults d) = orZero 0 5000 (dt_BayesVocabGuess d)"
  "dt_BayesScope (applyDetectionDefaults d) = orZero [] BayesScopeGlobal (dt_BayesScope d)"
  "dt_FakeAdminEnabled (applyDetectionDefaults d) = orDefault True (dt_FakeAdminEnabled d)"
  "dt_FakeAdminNameMatch (applyDetectionDefaults d) = orZero [] FakeAdminNameMatchReview (dt_FakeAdminNameMatch d)"
  "dt_FakeAdminMaxDistance (applyDetectionDefaults d) = orZero 0 1 (dt_FakeAdminMaxDistance d)"
  "dt_FakeAdminMinFuzzyLen (applyDetectionDefaults d) = orZero 0 5 (dt_FakeAdminMinFuzzyLen d)"
  "dt_FakeAdminSuspiciousTags (applyDetectionDefaults d) = orDefault defaultTags (dt_FakeAdminSuspiciousTags d)"
  "dt_AdminCacheTTLSeconds (applyDetectionDefaults d) = orZero 0 300 (dt_AdminCacheTTLSeconds d)"
  "dt_MediaCaptionMinLen (applyDetectionDefaults d) = dt_MediaCaptionMinLen d"
  "dt_MeaningfulMinLen (applyDetectionDefaults d) = dt_MeaningfulMinLen d"
  "dt_ReviewKeyboard (applyDetectionDefaults d) = dt_ReviewKeyboard d"
  "dt_DeleteJoinMessages (applyDetectionDefaults d) = dt_DeleteJoinMessages d"
  "dt_DeleteLeaveMessages (applyDetectionDefaults d) = dt_DeleteLeaveMessages d"
  "dt_ReactionCleanupEnabled (applyDetectionDefaults d) = orDefault True (dt_ReactionCleanupEnabled d)"
  "dt_EphemeralNoticeEnabled (applyDetectionDefaults d) = orDefault False (dt_EphemeralNoticeEnabled d)"
  "dt_EphemeralNoticeText (applyDetectionDefaults d) = dt_EphemeralNoticeText d"
  "detection.more (applyDetectionDefaults d) = detection.more d"
  by (simp_all add: applyDetectionDefaults_def)

lemma applyDetectionDefaults_idem [simp]: "applyDetectionDefaults (applyDetectionDefaults d) = applyDetectionDefaults d"
  by (rule detection.equality) simp_all

lemma applyOpsDefaults_idem [simp]: "applyOpsDefaults (applyOpsDefaults c) = applyOpsDefaults c"
  by (simp add: applyOpsDefaults_def)

lemma applyWelcomeDefaults_idem [simp]: "applyWelcomeDefaults (applyWelcomeDefaults w) = applyWelcomeDefaults w"
  by (simp add: applyWelcomeDefaults_def)

lemma applyCaptchaDefaults_idem [simp]: "applyCaptchaDefaults (applyCaptchaDefaults k) = applyCaptchaDefaults k"
  by (simp add: applyCaptchaDefaults_def)

lemma applyBlocklistDefaults_idem [simp]: "applyBlocklistDefaults (applyBlocklistDefaults b) = applyBlocklistDefaults b"
  by (cases b) (simp add: applyBlocklistDefaults_def)

lemma applyBlocklistDefaults_key [simp]:
  "applyBlocklistDefaults (b\<lparr>bl_CasAPIKey := k\<rparr>) = (applyBlocklistDefaults b)\<lparr>bl_CasAPIKey := k\<rparr>"
  by (cases b) (simp add: applyBlocklistDefaults_def)

lemma bl_CasAPIKey_defaults [simp]: "bl_CasAPIKey (applyBlocklistDefaults b) = bl_CasAPIKey b"
  by (cases b) (simp add: applyBlocklistDefaults_def)

lemma Parse_again:
  assumes "Parse g c0 = Inr c"
  shows "Parse g c = Inr c"
proof -
  have c: "c = applyEnv g (applyDefaults c0)" and v: "Validate c = None"
    using assms by (auto simp: Parse_def Let_def split: option.splits)
  have "applyEnv g (applyDefaults (applyEnv g (applyDefaults c0))) = applyEnv g (applyDefaults c0)"
    by (simp add: applyEnv_def applyDefaults_def fromEnv_def applyLLMDefaults_def comp_def)
  then show ?thesis using v c by (simp add: Parse_def Let_def)
qed

text \<open>What \<open>Validate\<close> promises about a captcha policy that is on.\<close>

definition wellFormedPolicy :: "captcha_policy \<Rightarrow> bool" where
  "wellFormedPolicy p \<longleftrightarrow>
     po_Mode p \<in> {''button'', ''join_request''} \<and> po_OnFail p \<in> {''kick'', ''keep_muted''} \<and>
     captchaTimeoutMin \<le> po_Timeout p \<and> po_Timeout p \<le> captchaTimeoutMax \<and>
     po_Text p \<noteq> [] \<and> length (po_Text p) \<le> telegramMessageRunes \<and>
     po_ButtonText p \<noteq> [] \<and> length (po_ButtonText p) \<le> captchaButtonRunes"

lemma TrimSpace_idem [simp]: "TrimSpace (TrimSpace s) = TrimSpace s"
proof (cases "TrimSpace s")
  case Nil
  then show ?thesis by (simp only: Nil) (simp add: TrimSpace_def TrimLeft_def TrimRight_def)
next
  case (Cons a u)
  let ?t = "dropWhile isSpace s"
  have ts: "TrimSpace s = rev (dropWhile isSpace (rev ?t))"
    by (simp add: TrimSpace_def TrimLeft_def TrimRight_def)
  have "?t = TrimSpace s @ rev (takeWhile isSpace (rev ?t))"
    by (metis ts rev_append rev_rev_ident takeWhile_dropWhile_id)
  then obtain v where "?t = a # v" using Cons by auto
  then have "\<not> isSpace a" using hd_dropWhile [of isSpace s] by simp
  then have l: "dropWhile isSpace (TrimSpace s) = TrimSpace s" using Cons by simp
  have "dropWhile isSpace (rev (TrimSpace s)) = rev (TrimSpace s)"
    by (simp add: ts)
  then show ?thesis using l by (simp add: TrimSpace_def [of "TrimSpace s"] TrimLeft_def TrimRight_def)
qed

lemma defaults_captcha:
  "ca_Mode (applyCaptchaDefaults k) \<noteq> []" "ca_OnFail (applyCaptchaDefaults k) \<noteq> []"
  "\<exists>t. ca_Text (applyCaptchaDefaults k) = Some t" "\<exists>t. ca_ButtonText (applyCaptchaDefaults k) = Some t"
  "\<exists>d. ca_Timeout (applyCaptchaDefaults k) = Some d"
  by (auto simp: applyCaptchaDefaults_def orZero_def orDefault_def split: option.splits)

lemma captchaFields_None:
  assumes "captchaFields key mode onFail t b d req rej = None"
  shows "mode \<in> {'''', ''button'', ''join_request''} \<and> onFail \<in> {'''', ''kick'', ''keep_muted''} \<and>
    (d = 0 \<and> \<not> req \<or> captchaTimeoutMin \<le> d \<and> d \<le> captchaTimeoutMax) \<and>
    (rej \<longrightarrow> TrimSpace t \<noteq> [] \<and> TrimSpace b \<noteq> []) \<and>
    length (TrimSpace t) \<le> telegramMessageRunes \<and> length (TrimSpace b) \<le> captchaButtonRunes"
  using assms
  by (auto simp: captchaFields_def firstErr_None captchaMode_def captchaOnFail_def captchaTimeout_def
      captchaText_def captchaButton_def split: if_splits)

lemma validateCaptcha_policy:
  assumes v: "validateCaptcha c = None" and k: "cf_Captcha c = applyCaptchaDefaults k"
    and f: "CaptchaFor (cf_Captcha c) chat = (p, True)"
  shows "wellFormedPolicy p"
proof -
  let ?g = "cf_Captcha c"
  obtain t b d where opts: "ca_Text ?g = Some t" "ca_ButtonText ?g = Some b" "ca_Timeout ?g = Some d"
    using defaults_captcha(3-5) [of k] unfolding k by blast
  have "captchaFields [] (ca_Mode ?g) (ca_OnFail ?g) (TrimSpace t) (TrimSpace b) d True True = None"
    using v opts by (simp add: validateCaptcha_def Let_def firstErr_None captchaString_def)
  from captchaFields_None [OF this] have g: "wellFormedPolicy (globalPolicy ?g)"
    using opts defaults_captcha(1,2) [of k]
    by (auto simp: wellFormedPolicy_def globalPolicy_def captchaString_def captchaDuration_def k)
  show ?thesis
  proof (cases "map_of (ca_Chats ?g) chat")
    case None
    then show ?thesis using f g by (simp add: CaptchaFor_def Let_def)
  next
    case (Some ch)
    then have mem: "(chat, ch) \<in> set (ca_Chats ?g)" by (rule map_of_SomeD)
    have p: "p = overlay ch (globalPolicy ?g)" using f Some by (simp add: CaptchaFor_def Let_def)
    have "captchaFields [chat] (cc_Mode ch) (cc_OnFail ch) (cc_Text ch) (cc_ButtonText ch)
             (cc_Timeout ch) False False = None"
      and ne: "po_Text p \<noteq> [] \<and> po_ButtonText p \<noteq> []"
      using v mem f by (auto simp: validateCaptcha_def Let_def firstErr_None split: prod.splits)
    from captchaFields_None [OF this(1)] show ?thesis
      using g ne by (auto simp: wellFormedPolicy_def overlay_def p)
  qed
qed

lemma Parse_captcha:
  assumes "Parse g c0 = Inr c" and "CaptchaFor (cf_Captcha c) chat = (p, True)"
  shows "wellFormedPolicy p"
proof -
  have c: "c = applyEnv g (applyDefaults c0)" and v: "Validate c = None"
    using assms(1) by (auto simp: Parse_def Let_def split: option.splits)
  show ?thesis
    using v c assms(2)
    by (intro validateCaptcha_policy [of c "cf_Captcha c0"])
       (simp_all add: Validate_def Let_def firstErr_None applyEnv_def applyDefaults_def)
qed

text \<open>And about a greeting that is on.\<close>

lemma Parse_welcome:
  assumes "Parse g c0 = Inr c" and "WelcomeFor (cf_Welcome c) chat = (t, True)"
  shows "t \<noteq> [] \<and> length t \<le> telegramMessageRunes \<and> TrimSpace t = t"
proof -
  have v: "validateWelcome c = None"
    using assms(1) by (auto simp: Parse_def Let_def Validate_def firstErr_None split: option.splits)
  have g: "length (TrimSpace (we_Text (cf_Welcome c))) \<le> telegramMessageRunes"
    using v by (simp add: validateWelcome_def Let_def firstErr_None)
  have "length (TrimSpace (wc_Text ch)) \<le> telegramMessageRunes" if "map_of (we_Chats (cf_Welcome c)) chat = Some ch" for ch
    using v map_of_SomeD [OF that]
    by (auto simp: validateWelcome_def Let_def firstErr_None)
  then show ?thesis using assms(2) g
    by (auto simp: WelcomeFor_def Let_def split: option.splits if_splits prod.splits)
qed

text \<open>The policies of an allowlisted deployment name only allowed chats.\<close>

lemma Parse_enforce:
  assumes "Parse g c0 = Inr c" and "cp_Mode (cf_Chats c) = ''allowlist''" and "chat \<in> set (cp_Enforce (cf_Chats c))"
  shows "chat \<in> set (cp_Allowlist (cf_Chats c))"
  using assms
  by (auto simp: Parse_def Let_def Validate_def firstErr_None containsChat_def list_ex_iff
      split: option.splits)


section \<open>The running configuration\<close>

text \<open>\<open>reload.go\<close>: the file is read and decoded (\<open>None\<close> when
  that fails), parsed, and swapped in only when it is valid.\<close>

definition Load :: "(string \<Rightarrow> string) \<Rightarrow> config option \<Rightarrow> config option" where
  "Load getenv file =
     (case file of None \<Rightarrow> None
      | Some c0 \<Rightarrow> (case Parse getenv c0 of Inl e \<Rightarrow> None | Inr c \<Rightarrow> Some c))"

definition tryReload :: "(string \<Rightarrow> string) \<Rightarrow> config option \<Rightarrow> config \<Rightarrow> config \<times> bool" where
  "tryReload getenv file cur =
     (case Load getenv file of None \<Rightarrow> (cur, False) | Some candidate \<Rightarrow> (candidate, True))"

text \<open>Any number of reloads, each of whatever the file held then.\<close>

definition reloads :: "(string \<Rightarrow> string) \<Rightarrow> config option list \<Rightarrow> config \<Rightarrow> config" where
  "reloads getenv files cur = fold (\<lambda>file c. fst (tryReload getenv file c)) files cur"

lemma Parse_valid: "Parse g c0 = Inr c \<Longrightarrow> Validate c = None"
  by (simp add: Parse_def Let_def split: option.splits)

lemma tryReload_parsed:
  assumes "Parse g c = Inr c"
  shows "Parse g (fst (tryReload g file c)) = Inr (fst (tryReload g file c))"
  using assms Parse_again by (auto simp: tryReload_def Load_def split: option.splits sum.splits)

lemma reloads_parsed: "Parse g c = Inr c \<Longrightarrow> Parse g (reloads g files c) = Inr (reloads g files c)"
  unfolding reloads_def by (induction files arbitrary: c) (auto simp: tryReload_parsed)

section \<open>Admission\<close>

text \<open>\<open>RegisteredChat\<close> of \<open>internal/telegram/bot.go\<close>.\<close>

definition RegisteredChat :: "config \<Rightarrow> chat_id \<Rightarrow> bool" where
  "RegisteredChat cfg chatID =
     (if cp_Mode (cf_Chats cfg) = ''allowlist''
      then list_ex (\<lambda>i. i = chatID) (cp_Allowlist (cf_Chats cfg))
      else True)"


end
