(* ===== verification/ConfigProps.thy ===== *)
theory ConfigProps
  imports Config
begin

text \<open>
  What a configuration that was accepted guarantees the rest of the bot.
\<close>

definition demoChats :: chats_policy where
  "demoChats = \<lparr>cp_Mode = ''allowlist'', cp_StartInDryRun = None, cp_Allowlist = [-100, -200],
     cp_Operators = [], cp_Enforce = [-100], cp_ForceDryRun = []\<rparr>"

definition demoDetection :: detection where
  "demoDetection = \<lparr>dt_TrustThreshold = Some 0,
     dt_Rules = \<lparr>dr_DenyStopwords = [], dr_AllowStopwords = [], dr_DenyExact = [],
       dr_BlockLinksForUntrusted = Some False, dr_AllowGoogleMapsLinks = None, dr_BannedDomains = [],
       dr_BannedDocumentExtensions = [], dr_BannedDocumentMIMETypes = [], dr_MaxLinks = 0, dr_MaxMentions = 0,
       dr_MaxEmoji = 0\<rparr>,
     dt_Behavior = \<lparr>db_DupThreshold = Some 0, db_DupWindow = 0, db_ShortLen = None,
       db_ShortFloodThreshold = None, db_ShortWindow = 0, db_FlagEdits = False\<rparr>,
     dt_BayesEnabled = None, dt_BayesThreshold = None, dt_BayesVocabGuess = 0, dt_BayesScope = [],
     dt_FakeAdminEnabled = None, dt_FakeAdminNameMatch = [], dt_FakeAdminMaxDistance = 0,
     dt_FakeAdminMinFuzzyLen = 0, dt_FakeAdminSuspiciousTags = Some [], dt_AdminCacheTTLSeconds = 0,
     dt_MediaCaptionMinLen = 0, dt_MeaningfulMinLen = 0, dt_ReviewKeyboard = False,
     dt_DeleteJoinMessages = False, dt_DeleteLeaveMessages = False, dt_ReactionCleanupEnabled = None,
     dt_EphemeralNoticeEnabled = None, dt_EphemeralNoticeText = []\<rparr>"

definition demoCaptchaCfg :: captcha_cfg where
  "demoCaptchaCfg = \<lparr>ca_Enabled = Some True, ca_Mode = [], ca_Timeout = None, ca_OnFail = [],
     ca_Text = Some [32, 104, 105], ca_ButtonText = None,
     ca_Chats = [(-200, \<lparr>cc_Enabled = None, cc_Mode = ''join_request'', cc_Timeout = 60 * second,
                         cc_OnFail = [], cc_Text = [], cc_ButtonText = [111, 107, 32]\<rparr>)]\<rparr>"

definition demoConfig :: config where
  "demoConfig = \<lparr>cf_BotToken = ''t'', cf_AdminChatID = -1, cf_Action = ActionMute, cf_Chats = demoChats,
     cf_Detection = demoDetection,
     cf_Blocklist = \<lparr>bl_Enabled = None, bl_LolsFullURL = [], bl_LolsDeltaURL = [], bl_CasCheckEnabled = None,
       bl_CasCheckURL = [], bl_CasAPIKey = [], bl_CasPositiveTTL = 0, bl_CasNegativeTTL = -5, bl_CasTimeout = 0,
       bl_CasRatePerSec = 0, bl_CasBurst = 0, bl_FullRefresh = 0, bl_DeltaRefresh = 0, bl_HTTPTimeout = 0\<rparr>,
     cf_Ops = \<lparr>op_MetricsEnabled = Some False, op_MetricsAddr = [], op_DigestEnabled = None, op_DigestInterval = -1\<rparr>,
     cf_LLM = \<lparr>ll_Enabled = None, ll_Policy = [], ll_BorderlineBand = 0, ll_AlwaysForUntrusted = False,
       ll_HTTPTimeout = 0, ll_Providers = [], ll_PromptOverrides = [], ll_Prompt = [], ll_Temperature = None,
       ll_MaxTokens = 0, ll_ReasoningEffort = []\<rparr>,
     cf_Welcome = \<lparr>we_Enabled = None, we_Text = [], we_MaxPerMinute = None, we_Chats = []\<rparr>,
     cf_Captcha = demoCaptchaCfg\<rparr>"

definition demoParsed :: config where
  "demoParsed = applyEnv (\<lambda>name. []) (applyDefaults demoConfig)"

lemma demoParsed_captcha: "cf_Captcha demoParsed = applyCaptchaDefaults demoCaptchaCfg"
  by (simp add: demoParsed_def applyEnv_def applyDefaults_def demoConfig_def)

lemma demoParsed_welcome: "validateWelcome demoParsed = None"
  by (simp add: demoParsed_def applyEnv_def applyDefaults_def demoConfig_def validateWelcome_def Let_def
      firstErr_None applyWelcomeDefaults_def orDefault_def TrimSpace_def TrimLeft_def TrimRight_def)

lemma demoParsed_llm: "validateLLM (cf_LLM demoParsed) = None"
  by (simp add: demoParsed_def applyEnv_def applyDefaults_def demoConfig_def validateLLM_def applyLLMDefaults_def orDefault_def)

lemma demoParsed_captcha_ok: "validateCaptcha demoParsed = None"
proof -
  have chats: "cf_Chats demoParsed = demoChats" by (simp add: demoParsed_def applyEnv_def applyDefaults_def demoConfig_def)
  have fields: "captchaFields [] ''button'' ''kick'' [104, 105] defaultCaptchaButton (2 * minute) True True = None"
    "captchaFields [-200] ''join_request'' [] [] [111, 107, 32] (60 * second) False False = None"
    by code_simp+
  have g: "ca_Mode (applyCaptchaDefaults demoCaptchaCfg) = ''button''" "ca_OnFail (applyCaptchaDefaults demoCaptchaCfg) = ''kick''"
    "captchaString (ca_Text (applyCaptchaDefaults demoCaptchaCfg)) [] = [104, 105]"
    "captchaString (ca_ButtonText (applyCaptchaDefaults demoCaptchaCfg)) [] = defaultCaptchaButton"
    "ca_Timeout (applyCaptchaDefaults demoCaptchaCfg) = Some (2 * minute)"
    "ca_Chats (applyCaptchaDefaults demoCaptchaCfg) = ca_Chats demoCaptchaCfg"
    by code_simp+
  have f: "CaptchaFor (applyCaptchaDefaults demoCaptchaCfg) (-200) =
      (\<lparr>po_Mode = ''join_request'', po_Timeout = 60 * second, po_OnFail = ''kick'', po_Text = [104, 105],
        po_ButtonText = [111, 107]\<rparr>, True)"
    by code_simp
  show ?thesis
    by (simp add: validateCaptcha_def Let_def demoParsed_captcha firstErr_None g chats fields(1))
       (simp add: demoCaptchaCfg_def fields(2) f [unfolded demoCaptchaCfg_def] demoChats_def containsChat_def firstErr_None)
qed

lemma demoParsed_valid: "Parse (\<lambda>name. []) demoConfig = Inr demoParsed"
proof -
  have "Validate demoParsed = None"
    by (simp add: Validate_def Let_def firstErr_None demoParsed_welcome demoParsed_llm demoParsed_captcha_ok)
       (simp add: demoParsed_def applyEnv_def applyDefaults_def demoConfig_def fromEnv_def demoChats_def
         containsChat_def demoDetection_def orZero_def applyLLMDefaults_def)
  then show ?thesis by (simp add: Parse_def Let_def demoParsed_def)
qed

section \<open>Properties\<close>

text \<open>An accepted configuration is a fixed point: parsing it again, in the same
  environment, returns it unchanged, so the defaults never override a value
  that was set, explicit zeros and falses included.\<close>

theorem parsing_is_idempotent:
  assumes "Parse getenv c0 = Inr c"
  shows "Parse getenv c = Inr c"
  by (rule Parse_again [OF assms])

lemma parsing_is_idempotent_witness:
  "Parse (\<lambda>name. []) demoParsed = Inr demoParsed \<and> dt_TrustThreshold (cf_Detection demoParsed) = Some 0"
  using parsing_is_idempotent [OF demoParsed_valid]
  by (simp add: demoParsed_def applyEnv_def applyDefaults_def demoConfig_def demoDetection_def)

text \<open>C11. In an accepted configuration a captcha that is on for a chat has a mode
  and a failure action the bot implements, a timeout between the limits, a
  text that Telegram takes and a button label that fits; a greeting that is on
  has a trimmed text that Telegram takes.\<close>

theorem accepted_policies_are_usable:
  assumes "Parse getenv c0 = Inr c"
  shows "(\<forall>chat p. CaptchaFor (cf_Captcha c) chat = (p, True) \<longrightarrow> wellFormedPolicy p) \<and>
    (\<forall>chat t. WelcomeFor (cf_Welcome c) chat = (t, True) \<longrightarrow>
       t \<noteq> [] \<and> length t \<le> telegramMessageRunes \<and> TrimSpace t = t)"
  using Parse_captcha [OF assms] Parse_welcome [OF assms] by blast

lemma accepted_policies_are_usable_witness:
  "wellFormedPolicy \<lparr>po_Mode = ''join_request'', po_Timeout = 60 * second, po_OnFail = ''kick'',
     po_Text = [104, 105], po_ButtonText = [111, 107]\<rparr>"
proof -
  have "CaptchaFor (applyCaptchaDefaults demoCaptchaCfg) (-200) =
      (\<lparr>po_Mode = ''join_request'', po_Timeout = 60 * second, po_OnFail = ''kick'', po_Text = [104, 105],
        po_ButtonText = [111, 107]\<rparr>, True)"
    by code_simp
  then show ?thesis using accepted_policies_are_usable [OF demoParsed_valid] by (simp add: demoParsed_captcha)
qed

text \<open>C10. Reloading never leaves the bot on a configuration that was not accepted:
  whatever the file held at each reload, unreadable and invalid states
  included, the running configuration is one that parsing accepts.\<close>

theorem running_config_is_accepted:
  assumes "Parse getenv c0 = Inr c"
  shows "Parse getenv (reloads getenv files c) = Inr (reloads getenv files c) \<and>
    Validate (reloads getenv files c) = None"
  using reloads_parsed [OF Parse_again [OF assms]] Parse_valid by blast

lemma running_config_is_accepted_witness:
  "Validate (reloads (\<lambda>name. []) [None, Some (demoConfig\<lparr>cf_BotToken := []\<rparr>), Some demoConfig] demoParsed) = None"
  using running_config_is_accepted [OF demoParsed_valid] by blast

text \<open>A chat that an allowlisted deployment lists for enforcement is one whose
  updates are admitted, and enforcement there is real unless the brake is on:
  no enforce entry of an accepted configuration is dead.\<close>

theorem enforced_chats_are_live:
  assumes "Parse getenv c0 = Inr c" and "chat \<in> set (cp_Enforce (cf_Chats c))"
  shows "RegisteredChat c chat \<and>
    DryRunFor (cf_Chats c) chat stored = (chat \<in> set (cp_ForceDryRun (cf_Chats c)))"
  using Parse_enforce [OF assms(1)] assms(2)
  by (auto simp: RegisteredChat_def DryRunFor_def containsChat_def list_ex_iff)

lemma enforced_chats_are_live_witness:
  "RegisteredChat demoParsed (-100) \<and> \<not> DryRunFor (cf_Chats demoParsed) (-100) True"
  using enforced_chats_are_live [OF demoParsed_valid, of "-100" True]
  by (simp add: demoParsed_def applyEnv_def applyDefaults_def demoConfig_def demoChats_def)

end
