(* ===== verification/StoreCorpus.thy ===== *)
theory StoreCorpus
  imports StoreLemmas Bayes
begin

text \<open>
  The other tables of \<open>internal/store\<close> but the captcha's: trust
  (\<open>trust.go\<close>), labelled samples and the Bayes counts
  (\<open>samples.go\<close>, \<open>bayes.go\<close>), greetings, update ids, chats
  and member names; and what a history of their transactions adds up to.
\<close>

section \<open>Keyed counters\<close>

definition countAt :: "('k \<times> int) list \<Rightarrow> 'k \<Rightarrow> int" where
  "countAt al k = (case map_of al k of Some n \<Rightarrow> n | None \<Rightarrow> 0)"

text \<open>\<open>INSERT ... VALUES(1) ON CONFLICT DO UPDATE SET n = n + 1\<close>.\<close>

definition bumpAt :: "'k \<Rightarrow> ('k \<times> int) list \<Rightarrow> ('k \<times> int) list" where
  "bumpAt k al = AList.update k (countAt al k + 1) al"

text \<open>\<open>UPDATE ... SET n = MAX(0, n - 1)\<close>: no row, no change.\<close>

definition dropAt :: "'k \<Rightarrow> ('k \<times> int) list \<Rightarrow> ('k \<times> int) list" where
  "dropAt k al = (if map_of al k = None then al else AList.update k (max 0 (countAt al k - 1)) al)"

lemma countAt_update [simp]: "countAt (AList.update k n al) j = (if j = k then n else countAt al j)"
  by (simp add: countAt_def update_conv')

lemma countAt_bumpAt [simp]: "countAt (bumpAt k al) j = countAt al j + (if j = k then 1 else 0)"
  by (simp add: bumpAt_def)

lemma countAt_dropAt [simp]:
  "countAt (dropAt k al) j = (if j = k \<and> map_of al k \<noteq> None then max 0 (countAt al k - 1) else countAt al j)"
  by (auto simp: dropAt_def)

section \<open>Trust\<close>

definition TrustCount :: "chat_id \<Rightarrow> user_id \<Rightarrow> db \<Rightarrow> int" where
  "TrustCount chatID userID db = countAt (db_users db) (chatID, userID)"

definition BumpTrust :: "chat_id \<Rightarrow> user_id \<Rightarrow> int tx" where
  "BumpTrust chatID userID db =
     (let users = bumpAt (chatID, userID) (db_users db)
      in Some (db\<lparr>db_users := users\<rparr>, countAt users (chatID, userID)))"

definition BumpTrustDistinct :: "chat_id \<Rightarrow> user_id \<Rightarrow> str \<Rightarrow> int \<Rightarrow> (int \<times> bool) tx" where
  "BumpTrustDistinct chatID userID fingerprint limit db =
     (if fingerprint = [] then map_option (\<lambda>(db', n). (db', n, True)) (BumpTrust chatID userID db)
      else
        (let cnt = TrustCount chatID userID db; key = (chatID, userID, fingerprint) in
         if limit > 0 \<and> cnt \<ge> limit then Some (db, (cnt, False))
         else if key \<in> set (db_trustSeen db) then Some (db, (cnt, False))
         else map_option (\<lambda>(db', n). (db', n, True))
                (BumpTrust chatID userID (db\<lparr>db_trustSeen := db_trustSeen db @ [key]\<rparr>))))"

section \<open>Samples and the Bayes counts\<close>

definition bumpBayesTx :: "string \<Rightarrow> string \<Rightarrow> str list \<Rightarrow> db \<Rightarrow> db" where
  "bumpBayesTx scope label tokens db =
     (let toks = fold (\<lambda>tok al. bumpAt (scope, tok, label) al) tokens (db_bayesTokens db);
          (docs, n) = (case map_of (db_bayesTotals db) (scope, label) of Some t \<Rightarrow> t | None \<Rightarrow> (0, 0))
      in db\<lparr>db_bayesTokens := toks,
            db_bayesTotals := AList.update (scope, label) (docs + 1, n + int (length tokens)) (db_bayesTotals db)\<rparr>)"

definition dropBayesTx :: "string \<Rightarrow> string \<Rightarrow> str list \<Rightarrow> db \<Rightarrow> db" where
  "dropBayesTx scope label tokens db =
     (let toks = fold (\<lambda>tok al. dropAt (scope, tok, label) al) tokens (db_bayesTokens db)
      in db\<lparr>db_bayesTokens := toks,
            db_bayesTotals :=
              (case map_of (db_bayesTotals db) (scope, label) of
                 None \<Rightarrow> db_bayesTotals db
               | Some (docs, n) \<Rightarrow>
                   AList.update (scope, label) (max 0 (docs - 1), max 0 (n - int (length tokens))) (db_bayesTotals db))\<rparr>)"

definition BumpBayes :: "string \<Rightarrow> string \<Rightarrow> str list \<Rightarrow> unit tx" where
  "BumpBayes scope label tokens db = Some (bumpBayesTx scope label tokens db, ())"

definition sampleKey :: "sample_rec \<Rightarrow> string \<times> string \<times> str" where
  "sampleKey s = (sm_Scope s, sm_Label s, sm_Hash s)"

definition hasSample :: "string \<Rightarrow> string \<Rightarrow> str \<Rightarrow> db \<Rightarrow> bool" where
  "hasSample scope label h db = list_ex (\<lambda>s. sampleKey s = (scope, label, h)) (db_samples db)"

definition addSample :: "string \<Rightarrow> string \<Rightarrow> string \<Rightarrow> str \<Rightarrow> db \<Rightarrow> db" where
  "addSample scope label origin h db =
     db\<lparr>db_samples := db_samples db @ [\<lparr>sm_Scope = scope, sm_Label = label, sm_Origin = origin, sm_Hash = h\<rparr>]\<rparr>"

definition InsertSample :: "string \<Rightarrow> string \<Rightarrow> string \<Rightarrow> str \<Rightarrow> bool tx" where
  "InsertSample scope label origin normalizedHash db =
     (if hasSample scope label normalizedHash db then Some (db, False)
      else Some (addSample scope label origin normalizedHash db, True))"

definition RecordSample :: "string \<Rightarrow> string \<Rightarrow> string \<Rightarrow> str \<Rightarrow> str list \<Rightarrow> bool tx" where
  "RecordSample scope label origin h tokens db =
     (case InsertSample scope label origin h db of
        None \<Rightarrow> None
      | Some (db1, added) \<Rightarrow>
          if \<not> added then Some (db1, False) else Some (bumpBayesTx scope label tokens db1, True))"

definition RelabelSampleWithOrigin ::
  "string \<Rightarrow> string \<Rightarrow> string \<Rightarrow> string \<Rightarrow> str \<Rightarrow> str list \<Rightarrow> (bool \<times> bool) tx" where
  "RelabelSampleWithOrigin scope frm to origin h tokens db =
     (let gone = (\<lambda>s. sampleKey s = (scope, frm, h));
          relabeled = (length (filter gone (db_samples db)) = 1);
          db1 = db\<lparr>db_samples := filter (\<lambda>s. \<not> gone s) (db_samples db)\<rparr>;
          db2 = (if relabeled then dropBayesTx scope frm tokens db1 else db1)
      in case RecordSample scope to origin h tokens db2 of
           None \<Rightarrow> None
         | Some (db3, added) \<Rightarrow> Some (db3, (relabeled, added)))"

definition RelabelSample :: "string \<Rightarrow> string \<Rightarrow> string \<Rightarrow> str \<Rightarrow> str list \<Rightarrow> (bool \<times> bool) tx" where
  "RelabelSample scope frm to h tokens = RelabelSampleWithOrigin scope frm to ''user'' h tokens"

definition BayesTotals :: "string \<Rightarrow> db \<Rightarrow> bayes_counts" where
  "BayesTotals scope db =
     (let t = (\<lambda>label. case map_of (db_bayesTotals db) (scope, label) of Some x \<Rightarrow> x | None \<Rightarrow> (0, 0))
      in \<lparr>by_SpamDocs = fst (t ''spam''), by_HamDocs = fst (t ''ham''),
          by_SpamTokenTotal = snd (t ''spam''), by_HamTokenTotal = snd (t ''ham'')\<rparr>)"

definition TokenCounts :: "string \<Rightarrow> str list \<Rightarrow> db \<Rightarrow> (str \<rightharpoonup> int) \<times> (str \<rightharpoonup> int)" where
  "TokenCounts scope tokens db =
     (let col = (\<lambda>label tok. if tok \<in> set tokens then map_of (db_bayesTokens db) (scope, tok, label) else None)
      in (col ''spam'', col ''ham''))"

section \<open>Greetings, update ids, names\<close>

definition WasWelcomed :: "chat_id \<Rightarrow> user_id \<Rightarrow> db \<Rightarrow> bool" where
  "WasWelcomed chatID userID db \<longleftrightarrow> (chatID, userID) \<in> set (db_welcome db)"

definition MarkWelcomed :: "chat_id \<Rightarrow> user_id \<Rightarrow> unit tx" where
  "MarkWelcomed chatID userID db =
     (if WasWelcomed chatID userID db then Some (db, ())
      else Some (db\<lparr>db_welcome := db_welcome db @ [(chatID, userID)]\<rparr>, ()))"

definition MarkUpdateSeen :: "int \<Rightarrow> bool tx" where
  "MarkUpdateSeen updateID db =
     (if updateID \<in> set (db_updates db) then Some (db, False)
      else Some (db\<lparr>db_updates := db_updates db @ [updateID]\<rparr>, True))"

text \<open>\<open>MAX\<close> of no rows is NULL, and no comparison with NULL holds.\<close>

definition PruneUpdates :: "int \<Rightarrow> int tx" where
  "PruneUpdates keep db =
     (if keep \<le> 0 \<or> db_updates db = [] then Some (db, 0)
      else
        (let old = (\<lambda>u. u \<le> Max (set (db_updates db)) - keep) in
         Some (db\<lparr>db_updates := filter (\<lambda>u. \<not> old u) (db_updates db)\<rparr>,
               int (length (filter old (db_updates db))))))"

definition UpsertIdentity :: "chat_id \<Rightarrow> user_id \<Rightarrow> str \<Rightarrow> str \<Rightarrow> (str \<times> str \<times> bool) tx" where
  "UpsertIdentity chatID userID username displayName db =
     (let r = (case map_of (db_identity db) (chatID, userID) of
                 None \<Rightarrow> ([], [], False)
               | Some p \<Rightarrow> (id_Username p, id_DisplayName p,
                           id_Username p \<noteq> username \<or> id_DisplayName p \<noteq> displayName))
      in Some (db\<lparr>db_identity := AList.update (chatID, userID)
                   \<lparr>id_Username = username, id_DisplayName = displayName\<rparr> (db_identity db)\<rparr>, r))"

section \<open>Chats\<close>

definition UpsertChat :: "chat_rec \<Rightarrow> unit tx" where
  "UpsertChat row db = Some (db\<lparr>db_chats := AList.update (ch_ChatID row) row (db_chats db)\<rparr>, ())"

definition RegisterChat :: "chat_id \<Rightarrow> bool \<Rightarrow> unit tx" where
  "RegisterChat chatID dryRun db =
     (if map_of (db_chats db) chatID \<noteq> None then Some (db, ())
      else Some (db\<lparr>db_chats := AList.update chatID
                   \<lparr>ch_ChatID = chatID, ch_Enabled = True, ch_DryRun = dryRun, ch_LinkedChatID = 0\<rparr> (db_chats db)\<rparr>, ()))"

definition GetChat :: "chat_id \<Rightarrow> db \<Rightarrow> chat_rec option" where
  "GetChat chatID db = map_of (db_chats db) chatID"

definition ListEnabledChats :: "db \<Rightarrow> chat_id list" where
  "ListEnabledChats db = map fst (filter (\<lambda>(i, r). ch_Enabled r) (db_chats db))"

definition DisableChat :: "chat_id \<Rightarrow> unit tx" where
  "DisableChat chatID db =
     (case map_of (db_chats db) chatID of
        None \<Rightarrow> Some (db, ())
      | Some r \<Rightarrow> Some (db\<lparr>db_chats := AList.update chatID (r\<lparr>ch_Enabled := False\<rparr>) (db_chats db)\<rparr>, ()))"

definition AddAlias :: "chat_id \<Rightarrow> chat_id \<Rightarrow> unit tx" where
  "AddAlias oldID newID db = Some (db\<lparr>db_aliases := AList.update oldID newID (db_aliases db)\<rparr>, ())"

text \<open>A read error counts as no alias.\<close>

definition ResolveChat :: "chat_id \<Rightarrow> db \<Rightarrow> chat_id" where
  "ResolveChat i db = (case map_of (db_aliases db) i of Some newID \<Rightarrow> newID | None \<Rightarrow> i)"

end
