(* ===== verification/CorpusProps.thy ===== *)
theory CorpusProps
  imports StoreCorpus
begin

text \<open>
  What histories of corpus transactions add up to: exact counts, a
  correction that leaves no trace of the first label, trust that counts
  distinct messages, marks that are fresh once, and a database that is a
  source the Bayes score may read.
\<close>

section \<open>Tables that remember a key once\<close>

text \<open>\<open>INSERT OR IGNORE\<close> with its affected row count: the interface of
  every table that answers whether a key is new.\<close>

locale once_table =
  fixes seen :: "'s \<Rightarrow> 'k \<Rightarrow> bool" and mark :: "'k \<Rightarrow> 's \<Rightarrow> 's \<times> bool"
  assumes mark_fresh: "snd (mark k s) \<longleftrightarrow> \<not> seen s k"
    and mark_seen: "seen (fst (mark k s)) j \<longleftrightarrow> j = k \<or> seen s j"
begin

fun answers :: "'k list \<Rightarrow> 's \<Rightarrow> ('k \<times> bool) list" where
  "answers [] s = []"
| "answers (k # ks) s = (case mark k s of (s', fresh) \<Rightarrow> (k, fresh) # answers ks s')"

text \<open>However often and in whatever order keys are marked, a key is fresh
  once when it was not there, and never when it was.\<close>

lemma fresh_once:
  "length (filter (\<lambda>(j, fresh). j = k \<and> fresh) (answers ks s)) = (if k \<in> set ks \<and> \<not> seen s k then 1 else 0)"
proof (induction ks arbitrary: s)
  case Nil
  then show ?case by simp
next
  case (Cons j ks)
  obtain s' fresh where m: "mark j s = (s', fresh)" by (cases "mark j s")
  have "fresh \<longleftrightarrow> \<not> seen s j" and "seen s' k \<longleftrightarrow> k = j \<or> seen s k"
    using mark_fresh [of j s] mark_seen [of j s k] m by simp_all
  then show ?case using Cons.IH [of s'] m by auto
qed

end

definition markUpdate :: "int \<Rightarrow> db \<Rightarrow> db \<times> bool" where
  "markUpdate u db = the (MarkUpdateSeen u db)"

interpretation updates: once_table "\<lambda>db u. u \<in> set (db_updates db)" markUpdate
  by unfold_locales (auto simp: markUpdate_def MarkUpdateSeen_def)

definition markSample :: "string \<times> string \<times> str \<Rightarrow> db \<Rightarrow> db \<times> bool" where
  "markSample k db = (case k of (scope, label, h) \<Rightarrow> the (InsertSample scope label ''user'' h db))"

lemma hasSample_add [simp]:
  "hasSample sc l h (addSample sc' l' org' h' db) \<longleftrightarrow> (sc, l, h) = (sc', l', h') \<or> hasSample sc l h db"
  by (auto simp: hasSample_def addSample_def sampleKey_def)

interpretation samples: once_table "\<lambda>db k. case k of (scope, label, h) \<Rightarrow> hasSample scope label h db" markSample
  by unfold_locales (auto simp: markSample_def InsertSample_def split: prod.splits)

section \<open>Exact counts\<close>

definition tokenCount :: "db \<Rightarrow> string \<Rightarrow> str \<Rightarrow> string \<Rightarrow> int" where
  "tokenCount db scope tok label = countAt (db_bayesTokens db) (scope, tok, label)"

definition totalsOf :: "db \<Rightarrow> string \<Rightarrow> string \<Rightarrow> int \<times> int" where
  "totalsOf db scope label = (case map_of (db_bayesTotals db) (scope, label) of Some t \<Rightarrow> t | None \<Rightarrow> (0, 0))"

lemma countAt_fold_bump:
  "countAt (fold (\<lambda>tok al. bumpAt (scope, tok, label) al) tokens al) (sc, t, l) =
     countAt al (sc, t, l) + (if sc = scope \<and> l = label then int (count_list tokens t) else 0)"
  by (induction tokens arbitrary: al) auto

lemma tokenCount_bump:
  "tokenCount (bumpBayesTx scope label tokens db) sc t l =
     tokenCount db sc t l + (if sc = scope \<and> l = label then int (count_list tokens t) else 0)"
  by (simp add: tokenCount_def bumpBayesTx_def countAt_fold_bump Let_def split: prod.splits)

lemma totalsOf_bump:
  "totalsOf (bumpBayesTx scope label tokens db) sc l =
     (if sc = scope \<and> l = label
      then (fst (totalsOf db sc l) + 1, snd (totalsOf db sc l) + int (length tokens)) else totalsOf db sc l)"
  by (auto simp: totalsOf_def bumpBayesTx_def Let_def update_conv' split: prod.splits option.splits)

lemma map_of_bumpAt_None: "map_of (bumpAt k al) j = None \<longleftrightarrow> j \<noteq> k \<and> map_of al j = None"
  by (simp add: bumpAt_def update_conv')

lemma map_of_dropAt_None [simp]: "map_of (dropAt k al) j = None \<longleftrightarrow> map_of al j = None"
  by (auto simp: dropAt_def update_conv')

lemma countAt_fold_drop:
  assumes "\<And>t. t \<in> set tokens \<Longrightarrow> map_of al (scope, t, label) \<noteq> None"
    and "\<And>k. countAt al k \<ge> 0"
  shows "countAt (fold (\<lambda>tok al. dropAt (scope, tok, label) al) tokens al) (sc, t, l) =
     (if sc = scope \<and> l = label then max 0 (countAt al (sc, t, l) - int (count_list tokens t))
      else countAt al (sc, t, l))"
  using assms
proof (induction tokens arbitrary: al)
  case Nil
  then show ?case by simp
next
  case (Cons a tokens)
  let ?al = "dropAt (scope, a, label) al"
  have "countAt ?al k \<ge> 0" for k using Cons.prems(2) by simp
  moreover have "map_of ?al (scope, t, label) \<noteq> None" if "t \<in> set tokens" for t
    using Cons.prems(1) [of t] that by simp
  ultimately have "countAt (fold (\<lambda>tok al. dropAt (scope, tok, label) al) tokens ?al) (sc, t, l) =
     (if sc = scope \<and> l = label then max 0 (countAt ?al (sc, t, l) - int (count_list tokens t))
      else countAt ?al (sc, t, l))"
    by (intro Cons.IH)
  then show ?case using Cons.prems(1) [of a] by auto
qed

section \<open>The invariant of the corpus\<close>

definition corpusInv :: "db \<Rightarrow> bool" where
  "corpusInv db \<longleftrightarrow> distinct (map sampleKey (db_samples db)) \<and>
     (\<forall>k. countAt (db_bayesTokens db) k \<ge> 0) \<and>
     (\<forall>sc l. fst (totalsOf db sc l) \<ge> 0 \<and> snd (totalsOf db sc l) \<ge> 0)"

lemma corpusInv_emptyDB [simp]: "corpusInv emptyDB"
  by (simp add: corpusInv_def emptyDB_def countAt_def totalsOf_def)

lemma bump_samples [simp]: "db_samples (bumpBayesTx s l ts db) = db_samples db"
  by (simp add: bumpBayesTx_def Let_def split: prod.splits)

lemma drop_samples [simp]: "db_samples (dropBayesTx s l ts db) = db_samples db"
  by (simp add: dropBayesTx_def Let_def)

lemma corpusInv_bump: "corpusInv db \<Longrightarrow> corpusInv (bumpBayesTx scope label tokens db)"
proof -
  assume c: "corpusInv db"
  have "countAt (db_bayesTokens (bumpBayesTx scope label tokens db)) (sc, t, l) \<ge> 0" for sc t l
    using tokenCount_bump [of scope label tokens db sc t l] c by (simp add: corpusInv_def tokenCount_def)
  then show ?thesis using c by (auto simp: corpusInv_def totalsOf_bump)
qed

lemma dropAt_nonneg:
  "(\<And>k. countAt al k \<ge> 0) \<Longrightarrow> countAt (fold (\<lambda>tok al. dropAt (scope, tok, label) al) tokens al) k \<ge> 0"
  by (induction tokens arbitrary: al) auto

lemma corpusInv_drop: "corpusInv db \<Longrightarrow> corpusInv (dropBayesTx scope label tokens db)"
proof -
  assume c: "corpusInv db"
  have "countAt (db_bayesTokens (dropBayesTx scope label tokens db)) k \<ge> 0" for k
  proof -
    have "\<And>k. countAt (db_bayesTokens db) k \<ge> 0" using c unfolding corpusInv_def by blast
    then show ?thesis by (simp add: dropBayesTx_def Let_def dropAt_nonneg)
  qed
  moreover have "fst (totalsOf (dropBayesTx scope label tokens db) sc l) \<ge> 0 \<and>
      snd (totalsOf (dropBayesTx scope label tokens db) sc l) \<ge> 0" for sc l
    using c by (auto simp: totalsOf_def dropBayesTx_def Let_def update_conv' corpusInv_def split: option.splits prod.splits)
  ultimately show ?thesis using c by (simp add: corpusInv_def)
qed

lemma corpusInv_add:
  "corpusInv db \<Longrightarrow> \<not> hasSample sc l h db \<Longrightarrow> corpusInv (addSample sc l org h db)"
  by (auto simp: corpusInv_def addSample_def hasSample_def sampleKey_def totalsOf_def list_ex_iff)

lemma corpusInv_filter: "corpusInv db \<Longrightarrow> corpusInv (db\<lparr>db_samples := filter P (db_samples db)\<rparr>)"
  by (simp add: corpusInv_def totalsOf_def distinct_map_filter)

lemma corpusInv_RecordSample:
  "corpusInv db \<Longrightarrow> RecordSample sc l org h ts db = Some (db', b) \<Longrightarrow> corpusInv db'"
  by (auto simp: RecordSample_def InsertSample_def corpusInv_add corpusInv_bump split: if_splits)

lemma corpusInv_Relabel:
  "corpusInv db \<Longrightarrow> RelabelSampleWithOrigin sc f t org h ts db = Some (db', b) \<Longrightarrow> corpusInv db'"
  unfolding RelabelSampleWithOrigin_def Let_def
  by (auto simp: corpusInv_filter corpusInv_drop elim!: corpusInv_RecordSample [rotated] split: option.splits if_splits)

text \<open>The database as the source the score reads.\<close>

definition corpusSource :: "db \<Rightarrow> bayes_source" where
  "corpusSource db = \<lparr>bs_Totals = (\<lambda>sc. Some (BayesTotals sc db)),
     bs_TokenCounts = (\<lambda>sc toks. Some (TokenCounts sc toks db))\<rparr>"

lemma corpusSource_wf: "corpusInv db \<Longrightarrow> wfSource (corpusSource db)"
  by (auto simp: wfSource_def corpusSource_def corpusInv_def BayesTotals_def TokenCounts_def countOf_def
      totalsOf_def countAt_def Let_def split: option.splits)


section \<open>A correction leaves no trace\<close>

lemma map_of_fold_bump:
  "map_of (fold (\<lambda>tok al. bumpAt (scope, tok, label) al) tokens al) (scope, t, label) = None \<longleftrightarrow>
     t \<notin> set tokens \<and> map_of al (scope, t, label) = None"
  by (induction tokens arbitrary: al) (auto simp: map_of_bumpAt_None)

lemma count_list_nonneg [simp]: "0 \<le> a \<Longrightarrow> max 0 (a + int n - int n) = (a :: int)"
  by simp

lemma tokenCount_drop_bump:
  assumes "\<And>k. countAt (db_bayesTokens db) k \<ge> 0"
  shows "tokenCount (dropBayesTx scope label tokens (bumpBayesTx scope label tokens db)) sc t l = tokenCount db sc t l"
proof -
  let ?al = "db_bayesTokens (bumpBayesTx scope label tokens db)"
  have al: "?al = fold (\<lambda>tok al. bumpAt (scope, tok, label) al) tokens (db_bayesTokens db)"
    by (simp add: bumpBayesTx_def Let_def split: prod.splits)
  have "countAt ?al k \<ge> 0" for k
    using assms by (cases k) (simp add: al countAt_fold_bump)
  moreover have "map_of ?al (scope, t, label) \<noteq> None" if "t \<in> set tokens" for t
    using that by (simp add: al map_of_fold_bump)
  ultimately show ?thesis
    using countAt_fold_drop [of tokens ?al scope label sc t l] assms [of "(sc, t, l)"]
    by (auto simp: tokenCount_def dropBayesTx_def Let_def al countAt_fold_bump)
qed

lemma totalsOf_drop_bump:
  assumes "fst (totalsOf db sc l) \<ge> 0" and "snd (totalsOf db sc l) \<ge> 0"
  shows "totalsOf (dropBayesTx scope label tokens (bumpBayesTx scope label tokens db)) sc l = totalsOf db sc l"
  using assms
  by (cases "map_of (db_bayesTotals db) (scope, label)")
     (auto simp: totalsOf_def dropBayesTx_def bumpBayesTx_def Let_def update_conv' split: option.splits)

lemma counts_of_samples [simp]:
  "tokenCount (db\<lparr>db_samples := x\<rparr>) s t l = tokenCount db s t l" "totalsOf (db\<lparr>db_samples := x\<rparr>) s l = totalsOf db s l"
  "bumpBayesTx s l ts (db\<lparr>db_samples := x\<rparr>) = (bumpBayesTx s l ts db)\<lparr>db_samples := x\<rparr>"
  "dropBayesTx s l ts (db\<lparr>db_samples := x\<rparr>) = (dropBayesTx s l ts db)\<lparr>db_samples := x\<rparr>"
  by (simp_all add: tokenCount_def totalsOf_def bumpBayesTx_def dropBayesTx_def Let_def split: prod.splits option.splits)

lemma relabel_counts:
  assumes inv: "corpusInv db" and new: "\<not> hasSample sc frm h db" "\<not> hasSample sc to h db" "frm \<noteq> to"
    and first: "RecordSample sc frm org h tokens db = Some (db1, added1)"
    and again: "RelabelSampleWithOrigin sc frm to org' h tokens db1 = Some (db2, relabeled, added)"
    and direct: "RecordSample sc to org' h tokens db = Some (db3, added3)"
  shows "relabeled \<and> added \<and> db_samples db2 = db_samples db3 \<and>
    tokenCount db2 s t l = tokenCount db3 s t l \<and> totalsOf db2 s l = totalsOf db3 s l"
proof -
  let ?f = "addSample sc frm org h" and ?t = "addSample sc to org' h"
  have db1: "db1 = bumpBayesTx sc frm tokens (?f db)" and db3: "db3 = bumpBayesTx sc to tokens (?t db)"
    using first direct new by (auto simp: RecordSample_def InsertSample_def)
  have old: "filter (\<lambda>x. sampleKey x \<noteq> (sc, frm, h)) (db_samples db) = db_samples db"
    and none: "filter (\<lambda>x. sampleKey x = (sc, frm, h)) (db_samples db) = []"
    using new(1) by (auto simp: hasSample_def list_ex_iff filter_id_conv filter_empty_conv)
  have key: "sampleKey \<lparr>sm_Scope = sc, sm_Label = frm, sm_Origin = org, sm_Hash = h\<rparr> = (sc, frm, h)"
    by (simp add: sampleKey_def)
  have s1: "db_samples db1 = db_samples db @ [\<lparr>sm_Scope = sc, sm_Label = frm, sm_Origin = org, sm_Hash = h\<rparr>]"
    by (simp add: db1 addSample_def)
  let ?mid = "dropBayesTx sc frm tokens (db1\<lparr>db_samples := db_samples db\<rparr>)"
  have not: "\<not> hasSample sc to h ?mid" using new(2) by (simp add: hasSample_def)
  have db2: "relabeled \<and> added \<and> db2 = bumpBayesTx sc to tokens (?t ?mid)"
    using again not old none key s1
    by (auto simp: RelabelSampleWithOrigin_def Let_def RecordSample_def InsertSample_def split: if_splits)
  have nn: "\<And>k. countAt (db_bayesTokens db) k \<ge> 0" "fst (totalsOf db s l) \<ge> 0" "snd (totalsOf db s l) \<ge> 0"
    using inv unfolding corpusInv_def by blast+
  have "tokenCount ?mid s t l = tokenCount db s t l" and "totalsOf ?mid s l = totalsOf db s l"
    using tokenCount_drop_bump [OF nn(1), of sc frm tokens s t l] totalsOf_drop_bump [OF nn(2,3), of sc frm tokens]
    by (simp_all add: db1 addSample_def)
  then show ?thesis
    using db2 db3 by (auto simp: tokenCount_bump totalsOf_bump addSample_def)
qed

section \<open>Trust\<close>

definition trustRun :: "chat_id \<Rightarrow> user_id \<Rightarrow> int \<Rightarrow> str list \<Rightarrow> db \<Rightarrow> db" where
  "trustRun c u limit fps db = fold (\<lambda>fp db. fst (the (BumpTrustDistinct c u fp limit db))) fps db"

definition fingerprints :: "chat_id \<Rightarrow> user_id \<Rightarrow> db \<Rightarrow> str set" where
  "fingerprints c u db = {fp. (c, u, fp) \<in> set (db_trustSeen db)}"

lemma BumpTrust_count:
  "BumpTrust c u db = Some (db', n) \<Longrightarrow> TrustCount c u db' = TrustCount c u db + 1 \<and> db_trustSeen db' = db_trustSeen db"
  by (auto simp: BumpTrust_def TrustCount_def Let_def)

text \<open>Below the limit the remembered fingerprints are the distinct messages so
  far; at the limit nothing counts any more.\<close>

lemma trust_step:
  assumes lim: "0 < limit" and fp: "fp \<noteq> []" and fin: "finite S"
    and count: "TrustCount c u db = min limit (int (card S))"
    and seen: "int (card S) < limit \<Longrightarrow> fingerprints c u db = S"
  shows "TrustCount c u (fst (the (BumpTrustDistinct c u fp limit db))) = min limit (int (card (insert fp S))) \<and>
    (int (card (insert fp S)) < limit \<longrightarrow>
       fingerprints c u (fst (the (BumpTrustDistinct c u fp limit db))) = insert fp S)"
proof (cases "int (card S) < limit")
  case False
  then show ?thesis using lim fp fin count by (auto simp: BumpTrustDistinct_def Let_def card_insert_if)
next
  case True
  show ?thesis
  proof (cases "fp \<in> S")
    case True
    then show ?thesis using \<open>int (card S) < limit\<close> lim fp fin count seen
      by (auto simp: BumpTrustDistinct_def Let_def insert_absorb fingerprints_def)
  next
    case False
    let ?db = "db\<lparr>db_trustSeen := db_trustSeen db @ [(c, u, fp)]\<rparr>"
    obtain db' n where b: "BumpTrust c u ?db = Some (db', n)" by (simp add: BumpTrust_def Let_def)
    have "(c, u, fp) \<notin> set (db_trustSeen db)" using False seen [OF True] by (auto simp: fingerprints_def)
    then have "fst (the (BumpTrustDistinct c u fp limit db)) = db'"
      using True count lim fp b by (auto simp: BumpTrustDistinct_def Let_def)
    moreover have "TrustCount c u db' = TrustCount c u db + 1 \<and> db_trustSeen db' = db_trustSeen db @ [(c, u, fp)]"
      using BumpTrust_count [OF b] by (simp add: TrustCount_def)
    ultimately show ?thesis using True False count fin seen [OF True]
      by (auto simp: fingerprints_def)
  qed
qed

lemma trustRun_inv:
  assumes "0 < limit" and "[] \<notin> set fps" and "finite S"
    and "TrustCount c u db = min limit (int (card S))"
    and "int (card S) < limit \<Longrightarrow> fingerprints c u db = S"
  shows "TrustCount c u (trustRun c u limit fps db) = min limit (int (card (S \<union> set fps)))"
  using assms
proof (induction fps arbitrary: S db)
  case Nil
  then show ?case by (simp add: trustRun_def)
next
  case (Cons fp fps)
  have fp: "fp \<noteq> []" using Cons.prems(2) by auto
  note st = trust_step [OF Cons.prems(1) fp Cons.prems(3,4,5)]
  have "TrustCount c u (trustRun c u limit fps (fst (the (BumpTrustDistinct c u fp limit db)))) =
     min limit (int (card (insert fp S \<union> set fps)))"
    using Cons.prems(2) st by (intro Cons.IH [OF Cons.prems(1)]) (use Cons.prems(3) in auto)
  then show ?case by (simp add: trustRun_def)
qed

section \<open>Redelivered updates\<close>

datatype upd_op = OpMark int | OpPrune int

fun updRun :: "upd_op list \<Rightarrow> db \<Rightarrow> (int \<times> bool) list" where
  "updRun [] db = []"
| "updRun (OpMark u # ops) db = (u, snd (the (MarkUpdateSeen u db))) # updRun ops (fst (the (MarkUpdateSeen u db)))"
| "updRun (OpPrune keep # ops) db = updRun ops (fst (the (PruneUpdates keep db)))"

lemma set_MarkUpdateSeen [simp]: "set (db_updates (fst (the (MarkUpdateSeen i db)))) = insert i (set (db_updates db))"
  by (auto simp: MarkUpdateSeen_def)

text \<open>Update \<open>u\<close> stays inside the window: no id so far is \<open>K\<close> or more
  above it, and no prune keeps fewer than \<open>K\<close>.\<close>

definition inWindow :: "int \<Rightarrow> int \<Rightarrow> upd_op \<Rightarrow> bool" where
  "inWindow K u oper = (case oper of OpMark i \<Rightarrow> i < u + K | OpPrune keep \<Rightarrow> keep \<le> 0 \<or> K \<le> keep)"

lemma PruneUpdates_keeps:
  assumes "u \<in> set (db_updates db)" and "\<And>i. i \<in> set (db_updates db) \<Longrightarrow> i < u + K" and "keep \<le> 0 \<or> K \<le> keep"
  shows "u \<in> set (db_updates (fst (the (PruneUpdates keep db))))"
proof -
  have "Max (set (db_updates db)) < u + K" using assms(1,2) by (intro Max_less_iff [THEN iffD2]) auto
  then have "\<not> u \<le> Max (set (db_updates db)) - keep" if "\<not> keep \<le> 0" using that assms(3) by linarith
  then show ?thesis using assms(1) by (auto simp: PruneUpdates_def Let_def)
qed

lemma PruneUpdates_subset: "set (db_updates (fst (the (PruneUpdates keep db)))) \<subseteq> set (db_updates db)"
  by (auto simp: PruneUpdates_def Let_def)

lemma updRun_seen:
  assumes "u \<in> set (db_updates db)" and "\<And>i. i \<in> set (db_updates db) \<Longrightarrow> i < u + K"
    and "\<And>oper. oper \<in> set ops \<Longrightarrow> inWindow K u oper"
  shows "filter (\<lambda>(i, fresh). i = u \<and> fresh) (updRun ops db) = []"
  using assms
proof (induction ops db rule: updRun.induct)
  case (2 i ops db)
  have "i < u + K" using 2(4) [of "OpMark i"] by (simp add: inWindow_def)
  then have "filter (\<lambda>(i, fresh). i = u \<and> fresh) (updRun ops (fst (the (MarkUpdateSeen i db)))) = []"
    using 2(2-4) by (intro 2(1)) auto
  then show ?case using 2(2) by (auto simp: MarkUpdateSeen_def)
next
  case (3 keep ops db)
  have k: "keep \<le> 0 \<or> K \<le> keep" using 3(4) [of "OpPrune keep"] by (simp add: inWindow_def)
  show ?case using 3(1) [OF PruneUpdates_keeps [OF 3(2,3) k]] 3(3,4) PruneUpdates_subset [of keep db] by auto
qed simp

lemma updRun_once:
  assumes "\<And>i. i \<in> set (db_updates db) \<Longrightarrow> i < u + K" and "\<And>oper. oper \<in> set ops \<Longrightarrow> inWindow K u oper"
  shows "length (filter (\<lambda>(i, fresh). i = u \<and> fresh) (updRun ops db)) \<le> 1"
  using assms
proof (induction ops db rule: updRun.induct)
  case (2 i ops db)
  let ?db = "fst (the (MarkUpdateSeen i db))"
  have "i < u + K" using 2(3) [of "OpMark i"] by (simp add: inWindow_def)
  then have lt: "j < u + K" if "j \<in> set (db_updates ?db)" for j using that 2(2) by auto
  show ?case
  proof (cases "i = u")
    case True
    then have "filter (\<lambda>(i, fresh). i = u \<and> fresh) (updRun ops ?db) = []"
      using lt 2(3) by (intro updRun_seen) auto
    then show ?thesis using True by simp
  next
    case False
    then show ?thesis using 2(1) lt 2(3) by auto
  qed
next
  case (3 keep ops db)
  then show ?case using PruneUpdates_subset [of keep db] by auto
qed simp

section \<open>Properties\<close>

lemma RecordSample_total: "\<exists>db' b. RecordSample sc l org h ts db = Some (db', b)"
proof (cases "RecordSample sc l org h ts db")
  case None
  then show ?thesis by (auto simp: RecordSample_def InsertSample_def split: if_splits)
qed auto

lemma Relabel_total: "\<exists>db' b. RelabelSampleWithOrigin sc f t org h ts db = Some (db', b)"
proof -
  obtain db' b where "RecordSample sc t org h ts
      (if length (filter (\<lambda>s. sampleKey s = (sc, f, h)) (db_samples db)) = 1
       then dropBayesTx sc f ts (db\<lparr>db_samples := filter (\<lambda>s. \<not> sampleKey s = (sc, f, h)) (db_samples db)\<rparr>)
       else db\<lparr>db_samples := filter (\<lambda>s. \<not> sampleKey s = (sc, f, h)) (db_samples db)\<rparr>) = Some (db', b)"
    using RecordSample_total by metis
  then show ?thesis by (auto simp: RelabelSampleWithOrigin_def Let_def simp del: counts_of_samples)
qed

definition demoDoc :: "str list" where
  "demoDoc = [[98, 117, 121], [110, 111, 119], [98, 117, 121]]"

text \<open>C12. A moderator's correction leaves no trace of the first label: the
  samples, the count of every token under every label and the totals are those
  of a corpus in which the message was only ever labelled the corrected way.\<close>

theorem correction_leaves_no_trace:
  assumes "corpusInv db" and "\<not> hasSample sc frm h db" and "\<not> hasSample sc to h db" and "frm \<noteq> to"
    and "RecordSample sc frm org h tokens db = Some (db1, added1)"
    and "RelabelSampleWithOrigin sc frm to org' h tokens db1 = Some (db2, relabeled, added)"
    and "RecordSample sc to org' h tokens db = Some (db3, added3)"
  shows "relabeled \<and> added \<and> db_samples db2 = db_samples db3 \<and>
    tokenCount db2 s t l = tokenCount db3 s t l \<and> totalsOf db2 s l = totalsOf db3 s l"
  by (rule relabel_counts [OF assms])

lemma correction_leaves_no_trace_witness:
  "\<exists>db1 db2. RecordSample ''global'' ''spam'' ''user'' [7] demoDoc emptyDB = Some (db1, True) \<and>
     RelabelSample ''global'' ''spam'' ''ham'' [7] demoDoc db1 = Some (db2, True, True) \<and>
     tokenCount db2 ''global'' [98, 117, 121] ''ham'' = 2 \<and> tokenCount db2 ''global'' [98, 117, 121] ''spam'' = 0"
proof -
  obtain db1 a1 where r1: "RecordSample ''global'' ''spam'' ''user'' [7] demoDoc emptyDB = Some (db1, a1)"
    using RecordSample_total by blast
  obtain db2 r a where r2: "RelabelSampleWithOrigin ''global'' ''spam'' ''ham'' ''user'' [7] demoDoc db1 = Some (db2, r, a)"
    using Relabel_total by (metis surj_pair)
  obtain db3 a3 where r3: "RecordSample ''global'' ''ham'' ''user'' [7] demoDoc emptyDB = Some (db3, a3)"
    using RecordSample_total by blast
  have new: "\<not> hasSample sc l h emptyDB" for sc l h by (simp add: hasSample_def emptyDB_def)
  have db3: "db3 = bumpBayesTx ''global'' ''ham'' demoDoc (addSample ''global'' ''ham'' ''user'' [7] emptyDB)"
    using r3 new by (auto simp: RecordSample_def InsertSample_def)
  have c: "tokenCount db3 ''global'' [98, 117, 121] l = (if l = ''ham'' then 2 else 0)" for l
    by (simp add: db3 tokenCount_bump demoDoc_def) (simp add: tokenCount_def addSample_def emptyDB_def countAt_def)
  have "a1" using r1 new by (auto simp: RecordSample_def InsertSample_def)
  with correction_leaves_no_trace [OF corpusInv_emptyDB new new _ r1 r2 r3, of "''global''" "[98, 117, 121]"] c r1 r2
  show ?thesis by (auto simp: RelabelSample_def)
qed

text \<open>C13. Trust counts distinct messages: after any sequence of messages with a
  fingerprint, the member's count is the number of different ones, capped at
  the limit; repeating a message earns nothing.\<close>

theorem trust_counts_distinct_messages:
  assumes "0 < limit" and "[] \<notin> set fps"
    and "TrustCount c u db = 0" and "fingerprints c u db = {}"
  shows "TrustCount c u (trustRun c u limit fps db) = min limit (int (card (set fps)))"
  using trustRun_inv [of limit fps "{}" c u db] assms by simp

lemma trust_counts_distinct_messages_witness:
  "TrustCount 1 2 (trustRun 1 2 5 [[104], [104], [105], [104]] emptyDB) = 2"
proof -
  have "TrustCount 1 2 emptyDB = 0" and "fingerprints 1 2 emptyDB = {}"
    by (simp_all add: TrustCount_def countAt_def fingerprints_def emptyDB_def)
  from trust_counts_distinct_messages [OF _ _ this, of 5 "[[104], [104], [105], [104]]"]
  show ?thesis by (simp add: card_insert_if)
qed

text \<open>C14. A redelivered update is processed at most once, however marks and prunes
  interleave, as long as the ids seen so far stay inside the window the prunes
  keep.\<close>

theorem updates_processed_once:
  assumes "\<And>i. i \<in> set (db_updates db) \<Longrightarrow> i < u + K" and "\<And>oper. oper \<in> set ops \<Longrightarrow> inWindow K u oper"
  shows "length (filter (\<lambda>(i, fresh). i = u \<and> fresh) (updRun ops db)) \<le> 1"
  by (rule updRun_once [OF assms])

lemma updates_processed_once_witness:
  "length (filter (\<lambda>(i, fresh). i = 10 \<and> fresh)
     (updRun [OpMark 10, OpMark 12, OpPrune 5, OpMark 10, OpMark 14] emptyDB)) \<le> 1"
proof -
  have w: "inWindow 5 10 oper" if "oper \<in> set [OpMark 10, OpMark 12, OpPrune 5, OpMark 10, OpMark 14]" for oper
    using that by (auto simp: inWindow_def)
  show ?thesis by (rule updates_processed_once [OF _ w]) (simp_all add: emptyDB_def)
qed

text \<open>Training, as the moderators do it: new samples and corrections.\<close>

datatype corpus_op =
  OpRecord string string string str "str list" | OpRelabel string string string string str "str list"

fun trainStep :: "corpus_op \<Rightarrow> db \<Rightarrow> db" where
  "trainStep (OpRecord sc l org h ts) db = fst (the (RecordSample sc l org h ts db))"
| "trainStep (OpRelabel sc f t org h ts) db = fst (the (RelabelSampleWithOrigin sc f t org h ts db))"

lemma corpusInv_train: "corpusInv db \<Longrightarrow> corpusInv (fold trainStep ops db)"
proof (induction ops arbitrary: db)
  case (Cons oper ops)
  have "corpusInv (trainStep oper db)"
  proof (cases oper)
    case (OpRecord sc l org h ts)
    then show ?thesis
      using corpusInv_RecordSample [OF Cons.prems, of sc l org h ts] RecordSample_total [of sc l org h ts db] by auto
  next
    case (OpRelabel sc f t org h ts)
    then show ?thesis
      using corpusInv_Relabel [OF Cons.prems, of sc f t org h ts] Relabel_total [of sc f t org h ts db] by auto
  qed
  then show ?case using Cons.IH by simp
qed simp

text \<open>Whatever the moderators trained and corrected, the Bayes stage reads
  counts that are not negative from the database, so its score is the logarithm
  of positive odds: the smoothed prior odds times one likelihood ratio per
  token; with nothing trained there is no score.\<close>

theorem trained_corpus_scores:
  assumes "1 \<le> v" and "src = corpusSource (fold trainStep ops emptyDB)"
    and "t = BayesTotals sc (fold trainStep ops emptyDB)"
    and "(s, h) = TokenCounts sc tokens (fold trainStep ops emptyDB)"
  shows "bayesScore src sc tokens v =
    (if by_SpamDocs t + by_HamDocs t = 0 then Some (0, False)
     else Some (ln (priorOdds t * prod_list (map (tokenOdds t v s h) tokens)), tokens \<noteq> []))"
proof (cases "by_SpamDocs t + by_HamDocs t = 0")
  case True
  then show ?thesis using assms by (simp add: bayesScore_def corpusSource_def Let_def)
next
  case False
  have "wfSource src" unfolding assms(2) by (intro corpusSource_wf corpusInv_train) simp
  then show ?thesis using False assms
    by (auto intro!: bayesScore_odds simp: corpusSource_def)
qed

lemma trained_corpus_scores_witness:
  "\<exists>s h. bayesScore (corpusSource (fold trainStep [] emptyDB)) ''global'' [[98]] 10 = Some (0, False) \<and>
     (s, h) = TokenCounts ''global'' [[98]] emptyDB"
proof -
  obtain s h where sh: "(s, h) = TokenCounts ''global'' [[98]] emptyDB" by (metis surj_pair)
  then show ?thesis
    using trained_corpus_scores [of 10 _ "[]" _ "''global''" s h "[[98]]", OF _ refl refl]
    by (auto simp: BayesTotals_def emptyDB_def)
qed

end
