(* ===== verification/StoreCaptcha.thy ===== *)
theory StoreCaptcha
  imports StoreLemmas "HOL-Library.Transitive_Closure_Table"
begin

text \<open>
  \<open>internal/store/captcha.go\<close>: one row per member and chat, moved by
  conditional updates that name the attempt and the states they start from;
  and the machine those updates implement. \<open>updated_at\<close>, which nothing
  reads, is left out.
\<close>

section \<open>The transactions\<close>

definition captchaKey :: "captcha_rec \<Rightarrow> chat_id \<times> user_id" where
  "captchaKey r = (cr_ChatID r, cr_UserID r)"

definition GetCaptcha :: "chat_id \<Rightarrow> user_id \<Rightarrow> db \<Rightarrow> captcha_rec option" where
  "GetCaptcha chatID userID db = findBy captchaKey (chatID, userID) (db_captcha db)"

definition isCaptchaPassed :: "chat_id \<Rightarrow> user_id \<Rightarrow> db \<Rightarrow> bool" where
  "isCaptchaPassed chatID userID db =
     (case GetCaptcha chatID userID db of None \<Rightarrow> False | Some row \<Rightarrow> cr_State row = CaptchaPassed)"

definition newCaptcha :: "chat_id \<Rightarrow> user_id \<Rightarrow> int \<Rightarrow> unix_time \<Rightarrow> unix_time \<Rightarrow> string \<Rightarrow> captcha_rec" where
  "newCaptcha chatID userID attempt now deadline mode =
     \<lparr>cr_ChatID = chatID, cr_UserID = userID, cr_Attempt = attempt, cr_State = CaptchaNew, cr_Deadline = deadline,
      cr_FailAction = [], cr_Tries = 0, cr_EphemeralID = 0, cr_MessageID = 0, cr_CreatedAt = now,
      cr_Mode = mode, cr_PromptChatID = 0\<rparr>"

definition updCaptcha :: "(captcha_rec \<Rightarrow> bool) \<Rightarrow> (captcha_rec \<Rightarrow> captcha_rec) \<Rightarrow> db \<Rightarrow> db" where
  "updCaptcha P f db = db\<lparr>db_captcha := updateWhere P f (db_captcha db)\<rparr>"

definition BeginCaptcha ::
  "chat_id \<Rightarrow> user_id \<Rightarrow> unix_time \<Rightarrow> unix_time \<Rightarrow> string \<Rightarrow> (captcha_rec \<times> bool) tx" where
  "BeginCaptcha chatID userID now deadline mode db =
     (case GetCaptcha chatID userID db of
        None \<Rightarrow>
          (let row = newCaptcha chatID userID 1 now deadline mode
           in Some (db\<lparr>db_captcha := db_captcha db @ [row]\<rparr>, (row, True)))
      | Some existing \<Rightarrow>
          if cr_State existing \<noteq> CaptchaFailed \<and> cr_State existing \<noteq> CaptchaCancelled
          then Some (db, (existing, False))
          else
            (let row = newCaptcha chatID userID (cr_Attempt existing + 1) now deadline mode;
                 P = (\<lambda>r. captchaKey r = (chatID, userID) \<and> cr_State r \<in> {CaptchaFailed, CaptchaCancelled})
             in Some (updCaptcha P (\<lambda>r. row) db, (row, True))))"

text \<open>\<open>updateCaptcha\<close>: the update, whether it moved the row, and the row as
  it is then. No start state at all is an error.\<close>

definition updateCaptcha ::
  "chat_id \<Rightarrow> user_id \<Rightarrow> int \<Rightarrow> captcha_state list \<Rightarrow> (captcha_rec \<Rightarrow> captcha_rec) \<Rightarrow>
     (captcha_rec option \<times> bool) tx" where
  "updateCaptcha chatID userID attempt frm set' db =
     (if frm = [] then None
      else
        (let P = (\<lambda>r. captchaKey r = (chatID, userID) \<and> cr_Attempt r = attempt \<and> cr_State r \<in> set frm);
             moved = (affected P (db_captcha db) = 1);
             db1 = updCaptcha P set' db;
             row = GetCaptcha chatID userID db1
         in if row = None \<and> moved then None else Some (db1, (row, moved))))"

definition TransitionCaptcha ::
  "chat_id \<Rightarrow> user_id \<Rightarrow> int \<Rightarrow> captcha_state list \<Rightarrow> captcha_state \<Rightarrow> (captcha_rec option \<times> bool) tx" where
  "TransitionCaptcha chatID userID attempt frm to =
     updateCaptcha chatID userID attempt frm (cr_State_update (\<lambda>_. to))"

definition MarkCaptchaPassing ::
  "chat_id \<Rightarrow> user_id \<Rightarrow> int \<Rightarrow> unix_time \<Rightarrow> (captcha_rec option \<times> bool) tx" where
  "MarkCaptchaPassing chatID userID attempt deadline =
     updateCaptcha chatID userID attempt [CaptchaChallenged]
       (\<lambda>r. r\<lparr>cr_State := CaptchaPassing, cr_Deadline := deadline\<rparr>)"

definition FailCaptcha ::
  "chat_id \<Rightarrow> user_id \<Rightarrow> int \<Rightarrow> captcha_state list \<Rightarrow> string \<Rightarrow> (captcha_rec option \<times> bool) tx" where
  "FailCaptcha chatID userID attempt frm act =
     updateCaptcha chatID userID attempt frm (\<lambda>r. r\<lparr>cr_State := CaptchaFailing, cr_FailAction := act\<rparr>)"

definition RetryCaptcha :: "chat_id \<Rightarrow> user_id \<Rightarrow> int \<Rightarrow> unix_time \<Rightarrow> unit tx" where
  "RetryCaptcha chatID userID attempt nextDeadline db =
     (let P = (\<lambda>r. captchaKey r = (chatID, userID) \<and> cr_Attempt r = attempt
                     \<and> cr_State r \<in> {CaptchaFailing, CaptchaPassing})
      in if affected P (db_captcha db) \<noteq> 1 then None
         else Some (updCaptcha P (\<lambda>r. r\<lparr>cr_Tries := cr_Tries r + 1, cr_Deadline := nextDeadline\<rparr>) db, ()))"

definition SetCaptchaPrompt ::
  "chat_id \<Rightarrow> user_id \<Rightarrow> int \<Rightarrow> chat_id \<Rightarrow> message_id \<Rightarrow> message_id \<Rightarrow> unix_time \<Rightarrow> captcha_rec tx" where
  "SetCaptchaPrompt chatID userID attempt promptChatID ephemeralID messageID deadline db =
     (let P = (\<lambda>r. captchaKey r = (chatID, userID) \<and> cr_Attempt r = attempt);
          f = (\<lambda>r. r\<lparr>cr_EphemeralID := ephemeralID, cr_MessageID := messageID, cr_PromptChatID := promptChatID,
                      cr_Deadline := (if cr_State r = CaptchaChallenged then deadline else cr_Deadline r)\<rparr>);
          db1 = updCaptcha P f db
      in if affected P (db_captcha db) \<noteq> 1 then None
         else (case GetCaptcha chatID userID db1 of None \<Rightarrow> None | Some row \<Rightarrow> Some (db1, row)))"

text \<open>The rows due, by deadline, chat and member, at most \<open>limit\<close> of them.\<close>

definition dueKey :: "captcha_rec \<Rightarrow> unix_time list" where
  "dueKey r = [cr_Deadline r, cr_ChatID r, cr_UserID r]"

definition DueCaptchas :: "unix_time \<Rightarrow> int \<Rightarrow> db \<Rightarrow> captcha_rec list" where
  "DueCaptchas now limit db =
     (if limit \<le> 0 then []
      else take (nat limit) (sort_key dueKey
        (filter (\<lambda>r. cr_State r \<in> {CaptchaNew, CaptchaChallenged, CaptchaFailing, CaptchaPassing} \<and>
                     cr_Deadline r \<le> now) (db_captcha db))))"

section \<open>The machine of one row\<close>

text \<open>What may happen to the row of a member: from none to a first attempt, and
  then these moves and no others.\<close>

inductive captchaMove :: "captcha_rec \<Rightarrow> captcha_rec \<Rightarrow> bool" where
  restart: "cr_State r \<in> {CaptchaFailed, CaptchaCancelled} \<Longrightarrow>
     captchaMove r (newCaptcha (cr_ChatID r) (cr_UserID r) (cr_Attempt r + 1) now deadline mode)"
| challenge: "cr_State r = CaptchaNew \<Longrightarrow> captchaMove r (r\<lparr>cr_State := CaptchaChallenged\<rparr>)"
| cancel: "cr_State r \<in> {CaptchaNew, CaptchaChallenged, CaptchaPassing, CaptchaFailing} \<Longrightarrow>
     captchaMove r (r\<lparr>cr_State := CaptchaCancelled\<rparr>)"
| press: "cr_State r = CaptchaChallenged \<Longrightarrow>
     captchaMove r (r\<lparr>cr_State := CaptchaPassing, cr_Deadline := deadline\<rparr>)"
| pass: "cr_State r = CaptchaPassing \<Longrightarrow> captchaMove r (r\<lparr>cr_State := CaptchaPassed\<rparr>)"
| fail: "cr_State r \<in> {CaptchaNew, CaptchaChallenged} \<Longrightarrow>
     captchaMove r (r\<lparr>cr_State := CaptchaFailing, cr_FailAction := act\<rparr>)"
| finish: "cr_State r = CaptchaFailing \<Longrightarrow> captchaMove r (r\<lparr>cr_State := CaptchaFailed\<rparr>)"
| retry: "cr_State r \<in> {CaptchaFailing, CaptchaPassing} \<Longrightarrow>
     captchaMove r (r\<lparr>cr_Tries := cr_Tries r + 1, cr_Deadline := deadline\<rparr>)"
| prompt: "captchaMove r (r\<lparr>cr_EphemeralID := eph, cr_MessageID := msg, cr_PromptChatID := chat,
     cr_Deadline := (if cr_State r = CaptchaChallenged then deadline else cr_Deadline r)\<rparr>)"

inductive_cases captchaMoveE: "captchaMove r r'"

text \<open>How far an attempt has come; a passed row and the two other ends are last.\<close>

fun rank :: "captcha_state \<Rightarrow> nat" where
  "rank CaptchaNew = 0"
| "rank CaptchaChallenged = 1"
| "rank CaptchaPassing = 2"
| "rank CaptchaFailing = 2"
| "rank CaptchaPassed = 3"
| "rank CaptchaFailed = 3"
| "rank CaptchaCancelled = 3"

definition progressed :: "captcha_rec \<Rightarrow> captcha_rec \<Rightarrow> bool" where
  "progressed r r' \<longleftrightarrow> captchaKey r' = captchaKey r \<and>
     (cr_Attempt r' > cr_Attempt r \<or> cr_Attempt r' = cr_Attempt r \<and> rank (cr_State r') \<ge> rank (cr_State r)) \<and>
     (cr_State r = CaptchaPassed \<longrightarrow> cr_State r' = CaptchaPassed \<and> cr_Attempt r' = cr_Attempt r)"

lemma captchaMove_progressed: "captchaMove r r' \<Longrightarrow> progressed r r'"
  by (induction rule: captchaMove.induct) (auto simp: progressed_def captchaKey_def newCaptcha_def)

lemma progressed_refl [simp]: "progressed r r"
  by (simp add: progressed_def)

lemma progressed_trans:
  assumes "progressed a b" and "progressed b c"
  shows "progressed a c"
  using assms unfolding progressed_def by (intro conjI impI; elim conjE disjE; simp)

lemma captchaMoves_progressed: "captchaMove\<^sup>*\<^sup>* r r' \<Longrightarrow> progressed r r'"
proof (induction rule: rtranclp_induct)
  case base
  show ?case by simp
next
  case (step y z)
  show ?case by (rule progressed_trans [OF step.IH captchaMove_progressed [OF step.hyps(2)]])
qed

text \<open>The rows of a database evolve: every row stays, moved by the machine, and
  a new one is a first attempt.\<close>

definition evolves :: "db \<Rightarrow> db \<Rightarrow> bool" where
  "evolves db db' \<longleftrightarrow>
     (\<forall>c u. case GetCaptcha c u db of
        Some r \<Rightarrow> (\<exists>r'. GetCaptcha c u db' = Some r' \<and> captchaMove\<^sup>*\<^sup>* r r')
      | None \<Rightarrow> (\<forall>r'. GetCaptcha c u db' = Some r' \<longrightarrow>
                   (\<exists>now dl mode. captchaMove\<^sup>*\<^sup>* (newCaptcha c u 1 now dl mode) r')))"

lemma evolvesD:
  assumes "evolves db db'" and "GetCaptcha c u db = Some r"
  shows "\<exists>r'. GetCaptcha c u db' = Some r' \<and> captchaMove\<^sup>*\<^sup>* r r'"
  using spec [OF spec [OF assms(1)[unfolded evolves_def], of c], of u] unfolding assms(2) option.case .

lemma evolves_new:
  assumes "evolves db db'" and "GetCaptcha c u db = None" and "GetCaptcha c u db' = Some r'"
  shows "\<exists>now dl mode. captchaMove\<^sup>*\<^sup>* (newCaptcha c u 1 now dl mode) r'"
  using spec [OF spec [OF assms(1)[unfolded evolves_def], of c], of u] assms(3) unfolding assms(2) option.case by blast

lemma evolves_refl [simp]: "evolves db db"
  by (auto simp: evolves_def split: option.splits)

lemma evolves_trans: "evolves a b \<Longrightarrow> evolves b c \<Longrightarrow> evolves a c"
proof -
  assume ab: "evolves a b" and bc: "evolves b c"
  show "evolves a c" unfolding evolves_def
  proof (intro allI)
    fix ch u
    show "case GetCaptcha ch u a of
        None \<Rightarrow> \<forall>r'. GetCaptcha ch u c = Some r' \<longrightarrow> (\<exists>now dl mode. captchaMove\<^sup>*\<^sup>* (newCaptcha ch u 1 now dl mode) r')
      | Some r \<Rightarrow> \<exists>r'. GetCaptcha ch u c = Some r' \<and> captchaMove\<^sup>*\<^sup>* r r'"
    proof (cases "GetCaptcha ch u a")
      case None
      show ?thesis
      proof (cases "GetCaptcha ch u b")
        case None': None
        then show ?thesis using None evolves_new [OF bc None'] by simp
      next
        case (Some r)
        obtain now dl mode where m: "captchaMove\<^sup>*\<^sup>* (newCaptcha ch u 1 now dl mode) r"
          using evolves_new [OF ab None Some] by blast
        obtain r' where r': "GetCaptcha ch u c = Some r'" "captchaMove\<^sup>*\<^sup>* r r'"
          using evolvesD [OF bc Some] by blast
        have "captchaMove\<^sup>*\<^sup>* (newCaptcha ch u 1 now dl mode) r'" by (rule rtranclp_trans [OF m r'(2)])
        then show ?thesis unfolding None r'(1) option.case by (metis option.inject)
      qed
    next
      case (Some r)
      obtain r1 where r1: "GetCaptcha ch u b = Some r1" "captchaMove\<^sup>*\<^sup>* r r1" using evolvesD [OF ab Some] by blast
      obtain r2 where r2: "GetCaptcha ch u c = Some r2" "captchaMove\<^sup>*\<^sup>* r1 r2" using evolvesD [OF bc r1(1)] by blast
      have "captchaMove\<^sup>*\<^sup>* r r2" by (rule rtranclp_trans [OF r1(2) r2(2)])
      then show ?thesis unfolding Some option.case using r2(1) by blast
    qed
  qed
qed

lemma evolves_same: "db_captcha db' = db_captcha db \<Longrightarrow> evolves db db'"
  by (auto simp: evolves_def GetCaptcha_def split: option.splits)

section \<open>The transactions are moves\<close>

text \<open>The keys are unique, so an update that names one member moves at most one
  row.\<close>

definition captchaInv :: "db \<Rightarrow> bool" where
  "captchaInv db \<longleftrightarrow> distinct (map captchaKey (db_captcha db))"

lemma captchaInv_emptyDB [simp]: "captchaInv emptyDB"
  by (simp add: captchaInv_def emptyDB_def)

lemma GetCaptcha_updCaptcha:
  assumes "\<And>r. P r \<Longrightarrow> captchaKey (f r) = captchaKey r"
  shows "GetCaptcha c u (updCaptcha P f db) = map_option (\<lambda>r. if P r then f r else r) (GetCaptcha c u db)"
proof -
  have "updateWhere P f (db_captcha db) = updateWhere P (\<lambda>r. if P r then f r else r) (db_captcha db)"
    by (simp add: updateWhere_def)
  then show ?thesis
    using findBy_updateWhere [of captchaKey "\<lambda>r. if P r then f r else r" "(c, u)" P "db_captcha db"] assms
    by (simp add: GetCaptcha_def updCaptcha_def if_distrib cong: if_cong)
qed

lemma captchaInv_updCaptcha:
  assumes "captchaInv db" and "\<And>r. P r \<Longrightarrow> captchaKey (f r) = captchaKey r"
  shows "captchaInv (updCaptcha P f db)"
proof -
  have "map captchaKey (updateWhere P f rows) = map captchaKey rows" for rows
    using assms(2) by (induction rows) (auto simp: updateWhere_def)
  then show ?thesis using assms(1) by (simp add: captchaInv_def updCaptcha_def)
qed

lemma evolves_updCaptcha:
  assumes "\<And>r. P r \<Longrightarrow> captchaMove r (f r)"
  shows "evolves db (updCaptcha P f db)"
proof -
  have k: "\<And>r. P r \<Longrightarrow> captchaKey (f r) = captchaKey r"
    using captchaMove_progressed [OF assms] by (simp add: progressed_def)
  have mv: "captchaMove\<^sup>*\<^sup>* r (if P r then f r else r)" for r
    using assms by (auto intro: r_into_rtranclp)
  have upd: "GetCaptcha c u (updCaptcha P f db) = map_option (\<lambda>r. if P r then f r else r) (GetCaptcha c u db)" for c u
    by (rule GetCaptcha_updCaptcha) (rule k)
  show ?thesis unfolding evolves_def upd
  proof (intro allI)
    fix c u
    show "case GetCaptcha c u db of
        None \<Rightarrow> \<forall>r'. map_option (\<lambda>r. if P r then f r else r) (GetCaptcha c u db) = Some r' \<longrightarrow>
          (\<exists>now dl mode. captchaMove\<^sup>*\<^sup>* (newCaptcha c u 1 now dl mode) r')
      | Some r \<Rightarrow> \<exists>r'. map_option (\<lambda>r. if P r then f r else r) (GetCaptcha c u db) = Some r' \<and> captchaMove\<^sup>*\<^sup>* r r'"
      using mv by (cases "GetCaptcha c u db") (simp_all del: if_split)
  qed
qed


text \<open>The moves a transition may ask for: from which states, to which.\<close>

fun mayMove :: "captcha_state \<Rightarrow> captcha_state \<Rightarrow> bool" where
  "mayMove CaptchaNew to = (to \<in> {CaptchaChallenged, CaptchaCancelled})"
| "mayMove CaptchaChallenged to = (to = CaptchaCancelled)"
| "mayMove CaptchaPassing to = (to \<in> {CaptchaPassed, CaptchaCancelled})"
| "mayMove CaptchaFailing to = (to \<in> {CaptchaFailed, CaptchaCancelled})"
| "mayMove s to = False"

lemma mayMove_move: "mayMove (cr_State r) to \<Longrightarrow> captchaMove r (r\<lparr>cr_State := to\<rparr>)"
  by (cases "cr_State r") (auto intro: captchaMove.intros)

definition captchaStep :: "db \<Rightarrow> db \<Rightarrow> bool" where
  "captchaStep db db' \<longleftrightarrow> (captchaInv db \<longrightarrow> captchaInv db' \<and> evolves db db')"

lemma captchaStep_refl [simp]: "captchaStep db db"
  by (simp add: captchaStep_def)

lemma captchaStep_same: "db_captcha db' = db_captcha db \<Longrightarrow> captchaStep db db'"
  by (simp add: captchaStep_def captchaInv_def evolves_same)

lemma captchaStep_trans: "captchaStep a b \<Longrightarrow> captchaStep b c \<Longrightarrow> captchaStep a c"
  unfolding captchaStep_def using evolves_trans by blast

lemma captchaStep_updCaptcha:
  assumes "\<And>r. P r \<Longrightarrow> captchaMove r (f r)"
  shows "captchaStep db (updCaptcha P f db)"
proof -
  have "\<And>r. P r \<Longrightarrow> captchaKey (f r) = captchaKey r"
    using captchaMove_progressed [OF assms] by (simp add: progressed_def)
  then show ?thesis
    using evolves_updCaptcha [of P f db] captchaInv_updCaptcha [of db P f] assms by (simp add: captchaStep_def)
qed

lemma captchaStep_updateCaptcha:
  assumes "updateCaptcha c u a frm f db = Some (db', x)"
    and "\<And>r. cr_State r \<in> set frm \<Longrightarrow> captchaMove r (f r)"
  shows "captchaStep db db'"
proof -
  have db': "db' = updCaptcha (\<lambda>r. captchaKey r = (c, u) \<and> cr_Attempt r = a \<and> cr_State r \<in> set frm) f db"
    using assms(1) by (simp add: updateCaptcha_def Let_def split: if_splits)
  show ?thesis unfolding db' by (rule captchaStep_updCaptcha) (simp add: assms(2))
qed

lemma captchaStep_Transition:
  "TransitionCaptcha c u a frm to db = Some (db', x) \<Longrightarrow> \<forall>s \<in> set frm. mayMove s to \<Longrightarrow> captchaStep db db'"
  unfolding TransitionCaptcha_def by (rule captchaStep_updateCaptcha, assumption) (simp add: mayMove_move)

lemma captchaStep_Passing: "MarkCaptchaPassing c u a d db = Some (db', x) \<Longrightarrow> captchaStep db db'"
  unfolding MarkCaptchaPassing_def
  by (rule captchaStep_updateCaptcha, assumption) (simp add: captchaMove.press)

lemma captchaStep_Fail:
  "FailCaptcha c u a frm act db = Some (db', x) \<Longrightarrow> set frm \<subseteq> {CaptchaNew, CaptchaChallenged} \<Longrightarrow> captchaStep db db'"
  unfolding FailCaptcha_def
  by (rule captchaStep_updateCaptcha, assumption) (rule captchaMove.fail, blast)

lemma captchaStep_Retry: "RetryCaptcha c u a d db = Some (db', x) \<Longrightarrow> captchaStep db db'"
  by (auto simp: RetryCaptcha_def Let_def captchaMove.retry intro!: captchaStep_updCaptcha split: if_splits)

lemma captchaStep_Prompt: "SetCaptchaPrompt c u a p e m d db = Some (db', x) \<Longrightarrow> captchaStep db db'"
  by (auto simp: SetCaptchaPrompt_def Let_def captchaMove.prompt intro!: captchaStep_updCaptcha
      split: if_splits option.splits)

lemma GetCaptcha_key: "GetCaptcha c u db = Some r \<Longrightarrow> cr_ChatID r = c \<and> cr_UserID r = u"
  unfolding GetCaptcha_def by (drule findBy_Some) (simp add: captchaKey_def)

text \<open>Where a row restarts, the row updated is the one that was read.\<close>

lemma captchaStep_Begin:
  assumes "BeginCaptcha c u now d mode db = Some (db', x)"
  shows "captchaStep db db'"
proof (cases "GetCaptcha c u db")
  case None
  have db': "db' = db\<lparr>db_captcha := db_captcha db @ [newCaptcha c u 1 now d mode]\<rparr>"
    using assms None by (auto simp: BeginCaptcha_def Let_def)
  have key: "captchaKey (newCaptcha c u 1 now d mode) = (c, u)" by (simp add: captchaKey_def newCaptcha_def)
  have get: "GetCaptcha ch us db' = (if (ch, us) = (c, u) then Some (newCaptcha c u 1 now d mode) else GetCaptcha ch us db)"
    for ch us using None unfolding GetCaptcha_def db' by (simp add: findBy_append key split: option.split)
  have "evolves db db'" unfolding evolves_def get using None by (auto split: option.splits)
  moreover have "captchaInv db'" if "captchaInv db"
    using that None key by (auto simp: captchaInv_def db' GetCaptcha_def findBy_None)
  ultimately show ?thesis by (simp add: captchaStep_def)
next
  case (Some ex)
  show ?thesis
  proof (cases "cr_State ex \<in> {CaptchaFailed, CaptchaCancelled}")
    case False
    then show ?thesis using assms Some by (auto simp: BeginCaptcha_def)
  next
    case True
    let ?P = "\<lambda>r. captchaKey r = (c, u) \<and> cr_State r \<in> {CaptchaFailed, CaptchaCancelled}"
    let ?row = "newCaptcha c u (cr_Attempt ex + 1) now d mode"
    have db': "db' = updCaptcha ?P (\<lambda>r. ?row) db" using assms Some True by (auto simp: BeginCaptcha_def Let_def)
    have st: "captchaStep db (updCaptcha (\<lambda>r. r = ex \<and> ?P r) (\<lambda>r. ?row) db)"
      using captchaMove.restart [OF True] GetCaptcha_key [OF Some] by (intro captchaStep_updCaptcha) auto
    have eq: "updCaptcha (\<lambda>r. r = ex \<and> ?P r) (\<lambda>r. ?row) db = db'" if inv: "captchaInv db"
    proof -
      have uniq: "r = ex" if "r \<in> set (db_captcha db)" and "captchaKey r = (c, u)" for r
        using findBy_distinct [of captchaKey "db_captcha db" r] inv that Some
        by (simp add: captchaInv_def GetCaptcha_def)
      have "updateWhere (\<lambda>r. r = ex \<and> ?P r) (\<lambda>r. ?row) (db_captcha db) = updateWhere ?P (\<lambda>r. ?row) (db_captcha db)"
        unfolding updateWhere_def
      proof (rule map_cong [OF refl])
        fix r
        assume "r \<in> set (db_captcha db)"
        then have "(r = ex \<and> ?P r) = ?P r" using uniq by blast
        then show "(if r = ex \<and> ?P r then ?row else r) = (if ?P r then ?row else r)" by (simp only:)
      qed
      then show ?thesis by (simp add: db' updCaptcha_def)
    qed
    show ?thesis unfolding captchaStep_def
    proof
      assume inv: "captchaInv db"
      show "captchaInv db' \<and> evolves db db'"
        using st inv unfolding captchaStep_def eq [OF inv] by simp
    qed
  qed
qed

lemmas captchaSteps = captchaStep_Begin captchaStep_Transition captchaStep_Passing captchaStep_Fail
  captchaStep_Retry captchaStep_Prompt

text \<open>What a transaction returns: it moved the row exactly when the row was in
  the states it names, at the attempt it names.\<close>

lemma updateCaptcha_result:
  assumes "captchaInv db" and "frm \<noteq> []" and "\<And>r. captchaKey (f r) = captchaKey r"
  shows "updateCaptcha c u a frm f db =
     (let db' = updCaptcha (\<lambda>r. captchaKey r = (c, u) \<and> cr_Attempt r = a \<and> cr_State r \<in> set frm) f db
      in case GetCaptcha c u db of
        None \<Rightarrow> Some (db', (None, False))
      | Some r \<Rightarrow>
          if cr_Attempt r = a \<and> cr_State r \<in> set frm then Some (db', (Some (f r), True))
          else Some (db', (Some r, False)))"
proof -
  let ?P = "\<lambda>r. captchaKey r = (c, u) \<and> cr_Attempt r = a \<and> cr_State r \<in> set frm"
  have aff: "affected ?P (db_captcha db) =
      (case GetCaptcha c u db of None \<Rightarrow> 0 | Some r \<Rightarrow> if cr_Attempt r = a \<and> cr_State r \<in> set frm then 1 else 0)"
    unfolding GetCaptcha_def using assms(1)
    by (intro affected_key [where Q = "\<lambda>r. cr_Attempt r = a \<and> cr_State r \<in> set frm"]) (simp add: captchaInv_def)
  have get: "GetCaptcha c u (updCaptcha ?P f db) = map_option (\<lambda>r. if ?P r then f r else r) (GetCaptcha c u db)"
    by (rule GetCaptcha_updCaptcha) (rule assms(3))
  show ?thesis
  proof (cases "GetCaptcha c u db")
    case None
    then show ?thesis using assms(2) by (simp add: updateCaptcha_def Let_def aff get)
  next
    case (Some r)
    have "captchaKey r = (c, u)" using GetCaptcha_key [OF Some] by (simp add: captchaKey_def)
    then show ?thesis using assms(2) Some by (simp add: updateCaptcha_def Let_def aff get)
  qed
qed

end
