(* ===== verification/Captcha.thy ===== *)
theory Captcha
  imports StoreCaptcha StoreCorpus Effects Config
begin

text \<open>
  \<open>internal/watch/captcha.go\<close> and \<open>captcha_join_request.go\<close>: the
  challenge a newcomer answers, by a button in the chat or in private before a
  join request is approved. An outcome is the literal of the source's
  constant, the empty string for none. What the code starts with \<open>Go\<close> is
  a job that \<open>OnJoin\<close> and \<open>OnJoinRequest\<close> return and \<open>runJob\<close> runs.
\<close>

section \<open>The watcher\<close>

record captcha =
  cw_Config :: "config option"
  cw_Blocklist :: "(user_id \<Rightarrow> bool) option"
  cw_SelfID :: user_id
  cw_Counts :: bool

record join_event =
  je_ChatID :: chat_id
  je_UserID :: user_id
  je_ViaJoinRequest :: bool
  je_Restricted :: bool

record member_change =
  mg_ChatID :: chat_id
  mg_UserID :: user_id
  mg_ActorID :: user_id

record join_request =
  jr_ChatID :: chat_id
  jr_UserID :: user_id
  jr_UserChatID :: chat_id
  jr_DisplayName :: str

record captcha_press =
  pp_ID :: string
  pp_Data :: string
  pp_PresserID :: user_id

datatype captcha_job =
    JobChallenge join_event int captcha_policy str
  | JobChallengeJoin join_request int captcha_policy
  | JobApprove chat_id user_id

definition captchaGiveUpTries :: int where "captchaGiveUpTries = 5"
definition captchaRetryDelay :: duration where "captchaRetryDelay = 60 * second"

definition captchaRestoreSoon :: str where
  "captchaRestoreSoon = lit ''accepted, access will be restored shortly''"

section \<open>The button's data\<close>

definition IsCaptchaCallback :: "string \<Rightarrow> bool" where
  "IsCaptchaCallback data = HasPrefix data ''cap:''"

definition captchaData :: "chat_id \<Rightarrow> user_id \<Rightarrow> int \<Rightarrow> string" where
  "captchaData chatID userID attempt =
     ''cap:'' @ FormatInt chatID @ '':'' @ FormatInt userID @ '':'' @ FormatInt attempt"

definition parseCaptchaData :: "string \<Rightarrow> (chat_id \<times> user_id \<times> int) option" where
  "parseCaptchaData data =
     (if \<not> HasPrefix data ''cap:'' then None
      else (case Split (CHR '':'') (drop 4 data) of
        [p0, p1, p2] \<Rightarrow>
          (case (ParseInt p0, ParseInt p1, ParseInt p2) of
             (Some chatID, Some userID, Some attempt) \<Rightarrow>
               if attempt < 1 then None else Some (chatID, userID, attempt)
           | _ \<Rightarrow> None)
      | _ \<Rightarrow> None))"

section \<open>Counting, and the challenges in flight\<close>

definition captchaCount :: "captcha \<Rightarrow> string \<Rightarrow> unit act" where
  "captchaCount c out =
     (if cw_Counts c \<and> out \<noteq> [] \<and> out \<noteq> ''skip'' then countMetric out else State_Monad.return ())"

definition logErr :: "goerr \<Rightarrow> unit act" where
  "logErr e = logLine (lit ''captcha: '' @ ge_text e)"

definition clog :: "captcha \<Rightarrow> goerr \<Rightarrow> unit act" where
  "clog c e = do { _ \<leftarrow> logErr e; captchaCount c ''error'' }"

definition logWhen :: "(goerr + 'r) \<Rightarrow> unit act" where
  "logWhen r = (case r of Inl e \<Rightarrow> logErr e | Inr _ \<Rightarrow> State_Monad.return ())"

definition track :: "chat_id \<Rightarrow> user_id \<Rightarrow> unit act" where
  "track chatID userID = do { s \<leftarrow> getInflight; setInflight (List.insert (chatID, userID) s) }"

definition tracking :: "chat_id \<Rightarrow> user_id \<Rightarrow> bool act" where
  "tracking chatID userID = do { s \<leftarrow> getInflight; State_Monad.return (List.member s (chatID, userID)) }"

definition untrack :: "chat_id \<Rightarrow> user_id \<Rightarrow> unit act" where
  "untrack chatID userID = do { s \<leftarrow> getInflight; setInflight (removeAll (chatID, userID) s) }"

section \<open>Store operations, as the watcher calls them\<close>

definition transition ::
  "env \<Rightarrow> chat_id \<Rightarrow> user_id \<Rightarrow> int \<Rightarrow> captcha_state list \<Rightarrow> captcha_state \<Rightarrow>
     (goerr + captcha_rec option \<times> bool) act" where
  "transition E chatID userID attempt frm to =
     store E ''TransitionCaptcha'' userID (\<lambda>now. TransitionCaptcha chatID userID attempt frm to)"

definition failCaptcha ::
  "env \<Rightarrow> chat_id \<Rightarrow> user_id \<Rightarrow> int \<Rightarrow> captcha_state list \<Rightarrow> string \<Rightarrow>
     (goerr + captcha_rec option \<times> bool) act" where
  "failCaptcha E chatID userID attempt frm act =
     store E ''FailCaptcha'' userID (\<lambda>now. FailCaptcha chatID userID attempt frm act)"

text \<open>The same for the row the caller holds.\<close>

abbreviation moveRow :: "env \<Rightarrow> captcha_rec \<Rightarrow> captcha_state \<Rightarrow> captcha_state \<Rightarrow> (goerr + captcha_rec option \<times> bool) act" where
  "moveRow E row frm to \<equiv> transition E (cr_ChatID row) (cr_UserID row) (cr_Attempt row) [frm] to"

abbreviation failRow :: "env \<Rightarrow> captcha_rec \<Rightarrow> captcha_state \<Rightarrow> string \<Rightarrow> (goerr + captcha_rec option \<times> bool) act" where
  "failRow E row frm act \<equiv> failCaptcha E (cr_ChatID row) (cr_UserID row) (cr_Attempt row) [frm] act"

definition sanctionSince :: "env \<Rightarrow> captcha_rec \<Rightarrow> (goerr + bool) act" where
  "sanctionSince E row =
     query E (\<lambda>db. Some (SanctionSince (cr_ChatID row) (cr_UserID row) (cr_CreatedAt row) db))"

definition getCaptcha :: "env \<Rightarrow> chat_id \<Rightarrow> user_id \<Rightarrow> (goerr + captcha_rec option) act" where
  "getCaptcha E chatID userID = query E (\<lambda>db. Some (GetCaptcha chatID userID db))"

section \<open>Prompts\<close>

definition deletePrompt :: "env \<Rightarrow> chat_id \<Rightarrow> user_id \<Rightarrow> message_id \<Rightarrow> message_id \<Rightarrow> chat_id \<Rightarrow> unit act" where
  "deletePrompt E chatID userID eph msg promptChat = do {
     _ \<leftarrow> (if eph \<noteq> 0 then do {
              r \<leftarrow> call E (DeleteEphemeral chatID userID eph);
              case pr_err r of None \<Rightarrow> State_Monad.return () | Some e \<Rightarrow> logErr e
            } else State_Monad.return ());
     let dest = (if promptChat \<noteq> 0 then promptChat else chatID);
     if msg \<noteq> 0 then do {
       r \<leftarrow> call E (DeleteMessages dest [msg]);
       case pr_err r of None \<Rightarrow> State_Monad.return () | Some e \<Rightarrow> logErr e
     } else State_Monad.return ()
   }"

definition deleteIDs :: "env \<Rightarrow> captcha_rec \<Rightarrow> unit act" where
  "deleteIDs E row =
     deletePrompt E (cr_ChatID row) (cr_UserID row) (cr_EphemeralID row) (cr_MessageID row) (cr_PromptChatID row)"

text \<open>The row a store operation returned; the zero row has no prompt.\<close>

definition deleteOf :: "env \<Rightarrow> captcha_rec option \<Rightarrow> unit act" where
  "deleteOf E r = (case r of None \<Rightarrow> State_Monad.return () | Some row \<Rightarrow> deleteIDs E row)"

section \<open>The gate\<close>

definition zeroPolicy :: captcha_policy where
  "zeroPolicy = \<lparr>po_Mode = [], po_Timeout = 0, po_OnFail = [], po_Text = [], po_ButtonText = []\<rparr>"

definition gate :: "env \<Rightarrow> captcha \<Rightarrow> chat_id \<Rightarrow> (string \<times> captcha_policy \<times> goerr option) act" where
  "gate E c chatID =
     (case cw_Config c of
        None \<Rightarrow> State_Monad.return (''error'', zeroPolicy, Some (newErr (lit ''captcha: no config'')))
      | Some cfg \<Rightarrow>
          if \<not> RegisteredChat cfg chatID then State_Monad.return (''skip_not_admitted'', zeroPolicy, None)
          else (case CaptchaFor (cf_Captcha cfg) chatID of (pol, on) \<Rightarrow>
            if \<not> on then State_Monad.return (''skip_disabled'', pol, None)
            else do {
              got \<leftarrow> query E (\<lambda>db. Some (GetChat chatID db));
              case got of
                Inl e \<Rightarrow> State_Monad.return (''error'', pol, Some e)
              | Inr found \<Rightarrow>
                  (case found of
                     Some row \<Rightarrow>
                       if \<not> ch_Enabled row then State_Monad.return (''skip_chat_disabled'', pol, None)
                       else if DryRunFor (cf_Chats cfg) chatID (ch_DryRun row)
                         then State_Monad.return (''skip_dry_run'', pol, None)
                       else State_Monad.return ([], pol, None)
                   | None \<Rightarrow>
                       if DryRunFor (cf_Chats cfg) chatID (DryRunDefault (cf_Chats cfg))
                         then State_Monad.return (''skip_dry_run'', pol, None)
                       else State_Monad.return ([], pol, None))
            }))"

section \<open>A join\<close>

text \<open>What both entries do after the gate: a member who passed or is trusted
  is known, and anybody else starts an attempt.\<close>

definition captchaDeadline :: "captcha_policy \<Rightarrow> unix_time \<Rightarrow> unix_time" where
  "captchaDeadline pol now = now + po_Timeout pol div second"

definition listed :: "captcha \<Rightarrow> user_id \<Rightarrow> bool" where
  "listed c u = (case cw_Blocklist c of None \<Rightarrow> False | Some f \<Rightarrow> f u)"

definition beginCaptcha ::
  "env \<Rightarrow> chat_id \<Rightarrow> user_id \<Rightarrow> captcha_policy \<Rightarrow> string \<Rightarrow> (int \<Rightarrow> captcha_job) \<Rightarrow>
     (string \<times> goerr option \<times> captcha_job option) act" where
  "beginCaptcha E chatID userID pol mode job = do {
     now \<leftarrow> clock E;
     b \<leftarrow> store E ''BeginCaptcha'' userID
            (\<lambda>_. BeginCaptcha chatID userID now (captchaDeadline pol now) mode);
     case b of
       Inl e \<Rightarrow> State_Monad.return (''error'', Some e, None)
     | Inr (row, started) \<Rightarrow>
         if \<not> started then State_Monad.return (''skip_pending'', None, None)
         else do {
           _ \<leftarrow> track chatID userID;
           State_Monad.return (''challenged'', None, Some (job (cr_Attempt row)))
         }
   }"

definition OnJoin :: "env \<Rightarrow> captcha \<Rightarrow> join_event \<Rightarrow> str \<Rightarrow> (string \<times> goerr option \<times> captcha_job option) act" where
  "OnJoin E c ev displayName = do {
     g \<leftarrow> gate E c (je_ChatID ev);
     (case g of (out, pol, err) \<Rightarrow>
       if out \<noteq> [] \<or> err \<noteq> None then State_Monad.return (out, err, None)
       else if po_Mode pol = ''join_request'' then State_Monad.return (''skip_mode'', None, None)
       else if je_Restricted ev then State_Monad.return (''skip_restricted'', None, None)
       else if listed c (je_UserID ev) then State_Monad.return (''skip_blocklisted'', None, None)
       else do {
         passed \<leftarrow> query E (\<lambda>db. Some (isCaptchaPassed (je_ChatID ev) (je_UserID ev) db));
         case passed of
           Inl e \<Rightarrow> State_Monad.return (''error'', Some e, None)
         | Inr p \<Rightarrow>
             if p then State_Monad.return (''skip_known'', None, None)
             else do {
               trust \<leftarrow> query E (\<lambda>db. Some (TrustCount (je_ChatID ev) (je_UserID ev) db));
               case trust of
                 Inl e \<Rightarrow> State_Monad.return (''error'', Some e, None)
               | Inr t \<Rightarrow>
                   if t > 0 then State_Monad.return (''skip_known'', None, None)
                   else beginCaptcha E (je_ChatID ev) (je_UserID ev) pol ''button''
                          (\<lambda>attempt. JobChallenge ev attempt pol (TrimSpace displayName))
             }
       })
   }"

definition OnJoinRequest :: "env \<Rightarrow> captcha \<Rightarrow> join_request \<Rightarrow> (string \<times> goerr option \<times> captcha_job option) act" where
  "OnJoinRequest E c r = do {
     g \<leftarrow> gate E c (jr_ChatID r);
     (case g of (out, pol, err) \<Rightarrow>
       if out \<noteq> [] \<or> err \<noteq> None then State_Monad.return (out, err, None)
       else if po_Mode pol \<noteq> ''join_request'' then State_Monad.return (''skip_mode'', None, None)
       else if listed c (jr_UserID r) then State_Monad.return (''skip_blocklisted'', None, None)
       else do {
         passed \<leftarrow> query E (\<lambda>db. Some (isCaptchaPassed (jr_ChatID r) (jr_UserID r) db));
         case passed of
           Inl e \<Rightarrow> State_Monad.return (''error'', Some e, None)
         | Inr p \<Rightarrow> do {
             trust \<leftarrow> query E (\<lambda>db. Some (TrustCount (jr_ChatID r) (jr_UserID r) db));
             case trust of
               Inl e \<Rightarrow> State_Monad.return (''error'', Some e, None)
             | Inr t \<Rightarrow>
                 if p \<or> t > 0
                 then State_Monad.return (''approved_known'', None, Some (JobApprove (jr_ChatID r) (jr_UserID r)))
                 else beginCaptcha E (jr_ChatID r) (jr_UserID r) pol ''join_request''
                        (\<lambda>attempt. JobChallengeJoin r attempt pol)
           }
       })
   }"

section \<open>Failing, retrying and giving up\<close>

definition finishFail :: "env \<Rightarrow> captcha \<Rightarrow> captcha_rec \<Rightarrow> captcha_state \<Rightarrow> string \<Rightarrow> unit act" where
  "finishFail E c row to out = do {
     r \<leftarrow> moveRow E row CaptchaFailing to;
     _ \<leftarrow> (case r of
            Inl e \<Rightarrow> logErr e
          | Inr (_, ok) \<Rightarrow> if \<not> ok then logLine (lit ''captcha: <nil>'') else State_Monad.return ());
     captchaCount c out
   }"

definition giveUp :: "env \<Rightarrow> captcha \<Rightarrow> captcha_rec \<Rightarrow> unit act" where
  "giveUp E c row = do {
     let to = (if cr_FailAction row = ''unrestrict'' then CaptchaCancelled else CaptchaFailed);
     _ \<leftarrow> logLine (lit ''captcha: gave up chat='' @ lit (FormatInt (cr_ChatID row)) @ lit '' user='' @ lit (FormatInt (cr_UserID row))
            @ lit '' '' @ lit (cr_FailAction row));
     finishFail E c row to ''gave_up''
   }"

definition retry :: "env \<Rightarrow> captcha \<Rightarrow> captcha_rec \<Rightarrow> goerr \<Rightarrow> unit act" where
  "retry E c row cause = do {
     now \<leftarrow> clock E;
     r \<leftarrow> store E ''RetryCaptcha'' (cr_UserID row)
            (\<lambda>_. RetryCaptcha (cr_ChatID row) (cr_UserID row) (cr_Attempt row) (now + captchaRetryDelay div second));
     _ \<leftarrow> logWhen r;
     _ \<leftarrow> logErr cause;
     captchaCount c ''error''
   }"

definition failUnrestrict :: "env \<Rightarrow> captcha \<Rightarrow> captcha_rec \<Rightarrow> unit act" where
  "failUnrestrict E c row = do {
     s \<leftarrow> sanctionSince E row;
     case s of
       Inl e \<Rightarrow> clog c e
     | Inr sanctioned \<Rightarrow>
         if sanctioned then do {
           r \<leftarrow> moveRow E row CaptchaFailing CaptchaCancelled;
           case r of
             Inl e \<Rightarrow> clog c e
           | Inr (_, ok) \<Rightarrow> if ok then captchaCount c ''cancelled_sanctioned'' else State_Monad.return ()
         }
         else do {
           u \<leftarrow> call E (UnrestrictMember (cr_ChatID row) (cr_UserID row));
           case pr_err u of
             Some e \<Rightarrow> retry E c row e
           | None \<Rightarrow> finishFail E c row CaptchaCancelled ''released''
         }
   }"

definition failKick :: "env \<Rightarrow> captcha \<Rightarrow> captcha_rec \<Rightarrow> unit act" where
  "failKick E c row = do {
     b \<leftarrow> call E (BanMember (cr_ChatID row) (cr_UserID row));
     case pr_err b of
       Some e \<Rightarrow> retry E c row e
     | None \<Rightarrow> do {
         u \<leftarrow> call E (UnbanMember (cr_ChatID row) (cr_UserID row));
         case pr_err u of
           Some e \<Rightarrow> retry E c row e
         | None \<Rightarrow> finishFail E c row CaptchaFailed ''failed_kick''
       }
   }"

definition failDecline :: "env \<Rightarrow> captcha \<Rightarrow> captcha_rec \<Rightarrow> unit act" where
  "failDecline E c row = do {
     d \<leftarrow> call E (DeclineJoinRequest (cr_ChatID row) (cr_UserID row));
     case pr_err d of
       Some e \<Rightarrow> retry E c row e
     | None \<Rightarrow> finishFail E c row CaptchaFailed ''failed_decline''
   }"

definition fail :: "env \<Rightarrow> captcha \<Rightarrow> captcha_rec \<Rightarrow> unit act" where
  "fail E c row =
     (if cr_FailAction row \<noteq> ''keep_muted'' \<and> cr_Tries row \<ge> captchaGiveUpTries then giveUp E c row
      else if cr_FailAction row = ''unrestrict'' then failUnrestrict E c row
      else if cr_FailAction row = ''kick'' then failKick E c row
      else if cr_FailAction row = ''keep_muted'' then finishFail E c row CaptchaFailed ''failed_muted''
      else if cr_FailAction row = ''decline'' then failDecline E c row
      else do {
        _ \<leftarrow> logLine (lit ''captcha: bad action '' @ lit (cr_FailAction row));
        giveUp E c row
      })"

text \<open>The row \<open>FailCaptcha\<close> returned when it moved it.\<close>

definition failOf :: "env \<Rightarrow> captcha \<Rightarrow> captcha_rec option \<Rightarrow> unit act" where
  "failOf E c r = (case r of None \<Rightarrow> State_Monad.return () | Some row \<Rightarrow> fail E c row)"

section \<open>The challenge\<close>

definition noteRestrictAfterCancel :: "env \<Rightarrow> captcha \<Rightarrow> chat_id \<Rightarrow> user_id \<Rightarrow> unit act" where
  "noteRestrictAfterCancel E c chatID userID = do {
     g \<leftarrow> getCaptcha E chatID userID;
     case g of
       Inl e \<Rightarrow> clog c e
     | Inr None \<Rightarrow> State_Monad.return ()
     | Inr (Some row) \<Rightarrow>
         if cr_State row \<noteq> CaptchaCancelled then State_Monad.return ()
         else do {
           _ \<leftarrow> logLine (lit ''captcha: restrict after cancel chat='' @ lit (FormatInt chatID) @ lit '' user='' @ lit (FormatInt userID));
           captchaCount c ''restrict_after_cancel''
         }
   }"

definition promptButtons :: "captcha_policy \<Rightarrow> chat_id \<Rightarrow> user_id \<Rightarrow> int \<Rightarrow> buttons" where
  "promptButtons pol chatID userID attempt =
     [[\<lparr>bt_Text = po_ButtonText pol, bt_Data = captchaData chatID userID attempt\<rparr>]]"

text \<open>The ephemeral prompt, or else a message in the chat: the two ids, or the
  error of the second send.\<close>

definition sendPrompt ::
  "env \<Rightarrow> join_event \<Rightarrow> int \<Rightarrow> captcha_policy \<Rightarrow> str \<Rightarrow> (goerr + message_id \<times> message_id) act" where
  "sendPrompt E ev attempt pol displayName = do {
     let buttons = promptButtons pol (je_ChatID ev) (je_UserID ev) attempt;
     e \<leftarrow> call E (SendCaptchaEphemeral (je_ChatID ev) (je_UserID ev) (po_Text pol) buttons);
     case pr_err e of
       None \<Rightarrow> State_Monad.return (Inr (pr_id e, 0))
     | Some _ \<Rightarrow> do {
         let text = (if displayName \<noteq> [] then displayName @ lit '', '' @ po_Text pol else po_Text pol);
         m \<leftarrow> call E (SendCaptchaMessage (je_ChatID ev) text buttons);
         case pr_err m of
           None \<Rightarrow> State_Monad.return (Inr (0, pr_id m))
         | Some err \<Rightarrow> State_Monad.return (Inl err)
       }
   }"

definition deliver :: "env \<Rightarrow> captcha \<Rightarrow> join_event \<Rightarrow> int \<Rightarrow> captcha_policy \<Rightarrow> str \<Rightarrow> unit act" where
  "deliver E c ev attempt pol displayName = do {
     p \<leftarrow> sendPrompt E ev attempt pol displayName;
     case p of
       Inl err \<Rightarrow> do {
         _ \<leftarrow> logErr err;
         f \<leftarrow> failCaptcha E (je_ChatID ev) (je_UserID ev) attempt [CaptchaChallenged] ''unrestrict'';
         case f of
           Inl ferr \<Rightarrow> clog c ferr
         | Inr (failed, ok) \<Rightarrow> if ok then failOf E c failed else State_Monad.return ()
       }
     | Inr (ephID, msgID) \<Rightarrow> do {
         sentAt \<leftarrow> clock E;
         s \<leftarrow> store E ''SetCaptchaPrompt'' (je_UserID ev)
                (\<lambda>_. SetCaptchaPrompt (je_ChatID ev) (je_UserID ev) attempt 0 ephID msgID (captchaDeadline pol sentAt));
         case s of
           Inl err \<Rightarrow> do {
             _ \<leftarrow> logErr err;
             f \<leftarrow> failCaptcha E (je_ChatID ev) (je_UserID ev) attempt [CaptchaChallenged] ''unrestrict'';
             case f of
               Inl ferr \<Rightarrow> clog c ferr
             | Inr (failed, ok) \<Rightarrow> do {
                 _ \<leftarrow> deletePrompt E (je_ChatID ev) (je_UserID ev) ephID msgID 0;
                 if ok then failOf E c failed else State_Monad.return ()
               }
           }
         | Inr saved \<Rightarrow>
             if cr_Attempt saved \<noteq> attempt \<or> cr_State saved \<noteq> CaptchaChallenged then deleteIDs E saved
             else State_Monad.return ()
       }
   }"

definition challengeBody :: "env \<Rightarrow> captcha \<Rightarrow> join_event \<Rightarrow> int \<Rightarrow> captcha_policy \<Rightarrow> str \<Rightarrow> unit act" where
  "challengeBody E c ev attempt pol displayName = do {
     m \<leftarrow> call E (RestrictMember (je_ChatID ev) (je_UserID ev) False 0);
     case pr_err m of
       Some err \<Rightarrow> do {
         t \<leftarrow> transition E (je_ChatID ev) (je_UserID ev) attempt [CaptchaNew] CaptchaCancelled;
         _ \<leftarrow> logWhen t;
         clog c err
       }
     | None \<Rightarrow> do {
         t \<leftarrow> transition E (je_ChatID ev) (je_UserID ev) attempt [CaptchaNew] CaptchaChallenged;
         case t of
           Inl err \<Rightarrow> do { _ \<leftarrow> clog c err; noteRestrictAfterCancel E c (je_ChatID ev) (je_UserID ev) }
         | Inr (_, ok) \<Rightarrow>
             if \<not> ok then noteRestrictAfterCancel E c (je_ChatID ev) (je_UserID ev)
             else deliver E c ev attempt pol displayName
       }
   }"

definition challenge :: "env \<Rightarrow> captcha \<Rightarrow> join_event \<Rightarrow> int \<Rightarrow> captcha_policy \<Rightarrow> str \<Rightarrow> unit act" where
  "challenge E c ev attempt pol displayName = do {
     _ \<leftarrow> challengeBody E c ev attempt pol displayName;
     untrack (je_ChatID ev) (je_UserID ev)
   }"

definition challengeJoinBody :: "env \<Rightarrow> captcha \<Rightarrow> join_request \<Rightarrow> int \<Rightarrow> captcha_policy \<Rightarrow> unit act" where
  "challengeJoinBody E c r attempt pol = do {
     t \<leftarrow> transition E (jr_ChatID r) (jr_UserID r) attempt [CaptchaNew] CaptchaChallenged;
     case t of
       Inl err \<Rightarrow> clog c err
     | Inr (_, ok) \<Rightarrow>
         if \<not> ok then State_Monad.return ()
         else do {
           m \<leftarrow> call E (SendCaptchaMessage (jr_UserChatID r) (po_Text pol)
                     (promptButtons pol (jr_ChatID r) (jr_UserID r) attempt));
           case pr_err m of
             Some err \<Rightarrow> do {
               x \<leftarrow> transition E (jr_ChatID r) (jr_UserID r) attempt [CaptchaChallenged] CaptchaCancelled;
               _ \<leftarrow> (case x of Inl e \<Rightarrow> clog c e | Inr _ \<Rightarrow> State_Monad.return ());
               _ \<leftarrow> logErr err;
               captchaCount c ''prompt_failed''
             }
           | None \<Rightarrow> do {
               sentAt \<leftarrow> clock E;
               s \<leftarrow> store E ''SetCaptchaPrompt'' (jr_UserID r)
                      (\<lambda>_. SetCaptchaPrompt (jr_ChatID r) (jr_UserID r) attempt (jr_UserChatID r) 0 (pr_id m)
                             (captchaDeadline pol sentAt));
               case s of
                 Inl err \<Rightarrow> do {
                   _ \<leftarrow> logErr err;
                   x \<leftarrow> transition E (jr_ChatID r) (jr_UserID r) attempt [CaptchaChallenged] CaptchaCancelled;
                   _ \<leftarrow> (case x of Inl e \<Rightarrow> clog c e | Inr _ \<Rightarrow> State_Monad.return ());
                   _ \<leftarrow> deletePrompt E (jr_ChatID r) (jr_UserID r) 0 (pr_id m) (jr_UserChatID r);
                   captchaCount c ''prompt_failed''
                 }
               | Inr saved \<Rightarrow>
                   if cr_Attempt saved \<noteq> attempt \<or> cr_State saved \<noteq> CaptchaChallenged
                   then deletePrompt E (jr_ChatID r) (jr_UserID r) 0 (pr_id m) (jr_UserChatID r)
                   else State_Monad.return ()
             }
         }
   }"

definition challengeJoin :: "env \<Rightarrow> captcha \<Rightarrow> join_request \<Rightarrow> int \<Rightarrow> captcha_policy \<Rightarrow> unit act" where
  "challengeJoin E c r attempt pol = do {
     _ \<leftarrow> challengeJoinBody E c r attempt pol;
     untrack (jr_ChatID r) (jr_UserID r)
   }"

definition approveKnown :: "env \<Rightarrow> captcha \<Rightarrow> chat_id \<Rightarrow> user_id \<Rightarrow> unit act" where
  "approveKnown E c chatID userID = do {
     a \<leftarrow> call E (ApproveJoinRequest chatID userID);
     case pr_err a of None \<Rightarrow> State_Monad.return () | Some e \<Rightarrow> clog c e
   }"

definition runJob :: "env \<Rightarrow> captcha \<Rightarrow> captcha_job \<Rightarrow> unit act" where
  "runJob E c job =
     (case job of
        JobChallenge ev attempt pol name \<Rightarrow> challenge E c ev attempt pol name
      | JobChallengeJoin r attempt pol \<Rightarrow> challengeJoin E c r attempt pol
      | JobApprove chatID userID \<Rightarrow> approveKnown E c chatID userID)"


section \<open>A change by somebody else\<close>

definition OnMemberChange :: "env \<Rightarrow> captcha \<Rightarrow> member_change \<Rightarrow> (string \<times> goerr option) act" where
  "OnMemberChange E c ch = do {
     g \<leftarrow> getCaptcha E (mg_ChatID ch) (mg_UserID ch);
     case g of
       Inl e \<Rightarrow> State_Monad.return (''error'', Some e)
     | Inr None \<Rightarrow> State_Monad.return (''skip'', None)
     | Inr (Some row) \<Rightarrow>
         if cr_State row \<noteq> CaptchaNew \<and> cr_State row \<noteq> CaptchaChallenged then State_Monad.return (''skip'', None)
         else if mg_ActorID ch = cw_SelfID c \<or> mg_ActorID ch = mg_UserID ch then State_Monad.return (''skip'', None)
         else do {
           t \<leftarrow> transition E (mg_ChatID ch) (mg_UserID ch) (cr_Attempt row) [CaptchaNew, CaptchaChallenged] CaptchaCancelled;
           case t of
             Inl e \<Rightarrow> State_Monad.return (''error'', Some e)
           | Inr (updated, ok) \<Rightarrow>
               if \<not> ok then State_Monad.return (''skip'', None)
               else do {
                 _ \<leftarrow> deleteOf E updated;
                 State_Monad.return (''cancelled_by_admin'', None)
               }
         }
   }"

section \<open>A press\<close>

definition captchaAnswer :: "string \<Rightarrow> str" where
  "captchaAnswer out =
     (if out = ''wrong_user'' then lit ''not for you''
      else if out = ''cancelled_sanctioned'' then lit ''moderators will review''
      else if out = ''error'' then lit ''try again''
      else if out = ''invalid'' then lit ''invalid''
      else if out = ''expired'' then lit ''expired''
      else if out = ''passed'' \<or> out = ''approved'' then lit ''confirmed''
      else [])"

type_synonym press_result = "string \<times> str \<times> goerr option"

text \<open>The check for a sanction, before the press is recorded and after it: it
  settles the press, or lets it go on. A join request is not checked. \<open>soon\<close>
  is the answer an error gets.\<close>

definition pressSanction :: "env \<Rightarrow> captcha_rec \<Rightarrow> captcha_state \<Rightarrow> str \<Rightarrow> press_result option act" where
  "pressSanction E row frm soon =
     (if cr_Mode row = ''join_request'' then State_Monad.return None
      else do {
        s \<leftarrow> sanctionSince E row;
        case s of
          Inl e \<Rightarrow> State_Monad.return (Some (''error'', soon, Some e))
        | Inr sanctioned \<Rightarrow>
            if \<not> sanctioned then State_Monad.return None
            else do {
              t \<leftarrow> moveRow E row frm CaptchaCancelled;
              case t of
                Inl e \<Rightarrow> State_Monad.return (Some (''error'', soon, Some e))
              | Inr (updated, moved) \<Rightarrow>
                  if \<not> moved then State_Monad.return (Some (''expired'', [], None))
                  else do {
                    _ \<leftarrow> deleteOf E updated;
                    State_Monad.return (Some (''cancelled_sanctioned'', [], None))
                  }
            }
      })"

definition passedOutcome :: "captcha_rec \<Rightarrow> string" where
  "passedOutcome row = (if cr_Mode row = ''join_request'' then ''approved'' else ''passed'')"

definition liftMute :: "env \<Rightarrow> captcha_rec \<Rightarrow> goerr option act" where
  "liftMute E row = do {
     r \<leftarrow> call E (if cr_Mode row = ''join_request'' then ApproveJoinRequest (cr_ChatID row) (cr_UserID row)
                  else UnrestrictMember (cr_ChatID row) (cr_UserID row));
     State_Monad.return (pr_err r)
   }"

definition settlePress :: "env \<Rightarrow> captcha_rec \<Rightarrow> press_result act" where
  "settlePress E row = do {
     lift \<leftarrow> liftMute E row;
     case lift of
       Some e \<Rightarrow> State_Monad.return (''error'', captchaRestoreSoon, Some e)
     | None \<Rightarrow> do {
         t \<leftarrow> moveRow E row CaptchaPassing CaptchaPassed;
         case t of
           Inl e \<Rightarrow> State_Monad.return (''error'', captchaRestoreSoon, Some e)
         | Inr (passed, moved) \<Rightarrow>
             if \<not> moved then do {
               again \<leftarrow> getCaptcha E (cr_ChatID row) (cr_UserID row);
               case again of
                 Inl e \<Rightarrow> State_Monad.return (''error'', captchaRestoreSoon, Some e)
               | Inr None \<Rightarrow> State_Monad.return (''expired'', [], None)
               | Inr (Some r) \<Rightarrow>
                   State_Monad.return (if cr_State r = CaptchaPassed then (passedOutcome row, [], None)
                                       else (''expired'', [], None))
             }
             else do {
               _ \<leftarrow> deleteOf E passed;
               State_Monad.return (passedOutcome row, [], None)
             }
       }
   }"

definition pressRow :: "env \<Rightarrow> captcha_rec \<Rightarrow> press_result act" where
  "pressRow E row = do {
     before \<leftarrow> pressSanction E row CaptchaChallenged [];
     case before of
       Some res \<Rightarrow> State_Monad.return res
     | None \<Rightarrow> do {
         now \<leftarrow> clock E;
         m \<leftarrow> store E ''MarkCaptchaPassing'' (cr_UserID row)
                (\<lambda>_. MarkCaptchaPassing (cr_ChatID row) (cr_UserID row) (cr_Attempt row) now);
         case m of
           Inl e \<Rightarrow> State_Monad.return (''error'', [], Some e)
         | Inr (_, moved) \<Rightarrow>
             if \<not> moved then State_Monad.return (''expired'', [], None)
             else do {
               late \<leftarrow> pressSanction E row CaptchaPassing captchaRestoreSoon;
               case late of
                 Some res \<Rightarrow> State_Monad.return res
               | None \<Rightarrow> settlePress E row
             }
       }
   }"

definition decidePress :: "env \<Rightarrow> captcha_press \<Rightarrow> press_result act" where
  "decidePress E p =
     (case parseCaptchaData (pp_Data p) of
        None \<Rightarrow> State_Monad.return (''invalid'', [], None)
      | Some (chatID, userID, attempt) \<Rightarrow>
          if pp_PresserID p \<noteq> userID then State_Monad.return (''wrong_user'', [], None)
          else do {
            g \<leftarrow> getCaptcha E chatID userID;
            case g of
              Inl e \<Rightarrow> State_Monad.return (''error'', [], Some e)
            | Inr None \<Rightarrow> State_Monad.return (''expired'', [], None)
            | Inr (Some row) \<Rightarrow> do {
                now \<leftarrow> clock E;
                if cr_Attempt row \<noteq> attempt \<or> cr_State row \<noteq> CaptchaChallenged \<or> cr_Deadline row \<le> now
                then State_Monad.return (''expired'', [], None)
                else pressRow E row
              }
          })"

definition OnPress :: "env \<Rightarrow> captcha \<Rightarrow> captcha_press \<Rightarrow> (string \<times> goerr option) act" where
  "OnPress E c p = do {
     res \<leftarrow> decidePress E p;
     (case res of (out, answer0, err) \<Rightarrow> do {
       let answer = (if answer0 = [] then captchaAnswer out else answer0);
       a \<leftarrow> call E (AnswerCallback (pp_ID p) answer);
       _ \<leftarrow> (case pr_err a of None \<Rightarrow> State_Monad.return ()
                            | Some e \<Rightarrow> logLine (lit ''captcha: answer: '' @ ge_text e));
       _ \<leftarrow> captchaCount c out;
       State_Monad.return (out, err)
     })
   }"

section \<open>The sweep\<close>

text \<open>A transition that ends a row and takes its prompt away.\<close>

definition settle :: "env \<Rightarrow> captcha \<Rightarrow> captcha_rec \<Rightarrow> captcha_state \<Rightarrow> captcha_state \<Rightarrow> string \<Rightarrow> unit act" where
  "settle E c row frm to out = do {
     t \<leftarrow> moveRow E row frm to;
     case t of
       Inl e \<Rightarrow> clog c e
     | Inr (updated, ok) \<Rightarrow>
         if ok then do { _ \<leftarrow> deleteOf E updated; captchaCount c out } else State_Monad.return ()
   }"

definition failChallenged :: "env \<Rightarrow> captcha \<Rightarrow> captcha_rec \<Rightarrow> string \<Rightarrow> unit act" where
  "failChallenged E c row act = do {
     f \<leftarrow> failRow E row CaptchaChallenged act;
     case f of
       Inl e \<Rightarrow> clog c e
     | Inr (failed, ok) \<Rightarrow>
         if \<not> ok then State_Monad.return ()
         else do { _ \<leftarrow> deleteOf E failed; failOf E c failed }
   }"

definition sweepChallenged :: "env \<Rightarrow> captcha \<Rightarrow> captcha_rec \<Rightarrow> unit act" where
  "sweepChallenged E c row = do {
     g \<leftarrow> gate E c (cr_ChatID row);
     (case g of (out, pol, err) \<Rightarrow>
       case err of
         Some e \<Rightarrow> clog c e
       | None \<Rightarrow>
           if out \<noteq> [] \<or> (cr_EphemeralID row = 0 \<and> cr_MessageID row = 0)
           then failChallenged E c row ''unrestrict''
           else do {
             s \<leftarrow> sanctionSince E row;
             case s of
               Inl e \<Rightarrow> clog c e
             | Inr sanctioned \<Rightarrow>
                 if sanctioned then settle E c row CaptchaChallenged CaptchaCancelled ''cancelled_sanctioned''
                 else failChallenged E c row (po_OnFail pol)
           })
   }"

text \<open>The end of a row the bot cannot lift the mute of, which is given up with
  the prompt of the row as it was read.\<close>

definition giveUpPassing :: "env \<Rightarrow> captcha \<Rightarrow> captcha_rec \<Rightarrow> unit act" where
  "giveUpPassing E c row = do {
     _ \<leftarrow> logLine (lit ''captcha: gave up chat='' @ lit (FormatInt (cr_ChatID row)) @ lit '' user=''
            @ lit (FormatInt (cr_UserID row)) @ lit '' passing'');
     t \<leftarrow> moveRow E row CaptchaPassing CaptchaCancelled;
     case t of
       Inl e \<Rightarrow> clog c e
     | Inr (_, ok) \<Rightarrow> if ok then do { _ \<leftarrow> deleteIDs E row; captchaCount c ''gave_up'' } else State_Monad.return ()
   }"

definition sweepJoinPassing :: "env \<Rightarrow> captcha \<Rightarrow> captcha_rec \<Rightarrow> unit act" where
  "sweepJoinPassing E c row =
     (if cr_Tries row \<ge> captchaGiveUpTries then giveUpPassing E c row
      else do {
        a \<leftarrow> call E (ApproveJoinRequest (cr_ChatID row) (cr_UserID row));
        case pr_err a of
          Some e \<Rightarrow> retry E c row e
        | None \<Rightarrow> settle E c row CaptchaPassing CaptchaPassed ''approved''
      })"

definition sweepPassing :: "env \<Rightarrow> captcha \<Rightarrow> captcha_rec \<Rightarrow> unit act" where
  "sweepPassing E c row =
     (if cr_Mode row = ''join_request'' then sweepJoinPassing E c row
      else do {
        s \<leftarrow> sanctionSince E row;
        case s of
          Inl e \<Rightarrow> clog c e
        | Inr sanctioned \<Rightarrow>
            if sanctioned then settle E c row CaptchaPassing CaptchaCancelled ''cancelled_sanctioned''
            else if cr_Tries row \<ge> captchaGiveUpTries then giveUpPassing E c row
            else do {
              u \<leftarrow> call E (UnrestrictMember (cr_ChatID row) (cr_UserID row));
              case pr_err u of
                Some e \<Rightarrow> retry E c row e
              | None \<Rightarrow> settle E c row CaptchaPassing CaptchaPassed ''passed''
            }
      })"

definition cancelJoin :: "env \<Rightarrow> captcha \<Rightarrow> captcha_rec \<Rightarrow> captcha_state \<Rightarrow> bool \<Rightarrow> unit act" where
  "cancelJoin E c row frm dropPrompt = do {
     t \<leftarrow> moveRow E row frm CaptchaCancelled;
     case t of
       Inl e \<Rightarrow> clog c e
     | Inr (updated, ok) \<Rightarrow>
         if \<not> ok then State_Monad.return ()
         else do {
           _ \<leftarrow> (if dropPrompt then deleteOf E updated else State_Monad.return ());
           captchaCount c ''left_pending''
         }
   }"

definition sweepJoinChallenged :: "env \<Rightarrow> captcha \<Rightarrow> captcha_rec \<Rightarrow> unit act" where
  "sweepJoinChallenged E c row = do {
     g \<leftarrow> gate E c (cr_ChatID row);
     (case g of (out, pol, err) \<Rightarrow>
       case err of
         Some e \<Rightarrow> clog c e
       | None \<Rightarrow>
           if out \<noteq> [] \<or> po_OnFail pol \<noteq> ''kick'' \<or> cr_MessageID row = 0
           then cancelJoin E c row CaptchaChallenged (cr_MessageID row \<noteq> 0)
           else failChallenged E c row ''decline'')
   }"

definition sweepNew :: "env \<Rightarrow> captcha \<Rightarrow> captcha_rec \<Rightarrow> unit act" where
  "sweepNew E c row =
     (if cr_Mode row = ''join_request'' then cancelJoin E c row CaptchaNew False
      else do {
        f \<leftarrow> failRow E row CaptchaNew ''unrestrict'';
        case f of
          Inl e \<Rightarrow> clog c e
        | Inr (failed, ok) \<Rightarrow> if ok then failOf E c failed else State_Monad.return ()
      })"

text \<open>One due row: whether it counts as handled, and what is done. A challenge
  being sent is left alone.\<close>

definition sweepRow :: "env \<Rightarrow> captcha \<Rightarrow> captcha_rec \<Rightarrow> bool act" where
  "sweepRow E c row =
     (case cr_State row of
        CaptchaNew \<Rightarrow> do {
          busy \<leftarrow> tracking (cr_ChatID row) (cr_UserID row);
          if busy then State_Monad.return False
          else do { _ \<leftarrow> sweepNew E c row; State_Monad.return True }
        }
      | CaptchaChallenged \<Rightarrow> do {
          busy \<leftarrow> tracking (cr_ChatID row) (cr_UserID row);
          if cr_Mode row \<noteq> ''join_request'' \<and> busy then State_Monad.return False
          else if cr_Mode row = ''join_request'' then do { _ \<leftarrow> sweepJoinChallenged E c row; State_Monad.return True }
          else do { _ \<leftarrow> sweepChallenged E c row; State_Monad.return True }
        }
      | CaptchaFailing \<Rightarrow> do { _ \<leftarrow> fail E c row; State_Monad.return True }
      | CaptchaPassing \<Rightarrow> do { _ \<leftarrow> sweepPassing E c row; State_Monad.return True }
      | _ \<Rightarrow> State_Monad.return False)"

fun sweepRows :: "env \<Rightarrow> captcha \<Rightarrow> int \<Rightarrow> captcha_rec list \<Rightarrow> (int \<times> goerr option) act" where
  "sweepRows E c n [] = State_Monad.return (n, None)"
| "sweepRows E c n (row # rows) = do {
     e \<leftarrow> ctxErr E;
     case e of
       Some err \<Rightarrow> State_Monad.return (n, Some err)
     | None \<Rightarrow> do {
         handled \<leftarrow> sweepRow E c row;
         sweepRows E c (if handled then n + 1 else n) rows
       }
   }"

text \<open>\<open>Captcha.Sweep\<close>; the name is taken by the history's.\<close>

definition CaptchaSweep :: "env \<Rightarrow> captcha \<Rightarrow> (int \<times> goerr option) act" where
  "CaptchaSweep E c = do {
     now \<leftarrow> clock E;
     due \<leftarrow> query E (\<lambda>db. Some (DueCaptchas now 100 db));
     case due of
       Inl e \<Rightarrow> State_Monad.return (0, Some e)
     | Inr rows \<Rightarrow> sweepRows E c 0 rows
   }"


end
