(* ===== verification/CaptchaProps.thy ===== *)
theory CaptchaProps
  imports Captcha Runs
begin

text \<open>
  What the captcha guarantees, in every environment: the rows of the database
  only take the steps of the machine of \<open>StoreCaptcha\<close>, a member with a
  sanction is never released, a button answers only the member it was made
  for, and every row that is being failed or released comes to an end.
\<close>

section \<open>The rows follow the machine\<close>

text \<open>Every entry of the watcher; a job is run by its own goroutine.\<close>

datatype captcha_op =
    OpJoin join_event str
  | OpJoinRequest join_request
  | OpJob captcha_job
  | OpMemberChange member_change
  | OpPress captcha_press
  | OpSweep

definition runOp :: "env \<Rightarrow> captcha \<Rightarrow> captcha_op \<Rightarrow> unit act" where
  "runOp E c op =
     (case op of
        OpJoin ev name \<Rightarrow> do { _ \<leftarrow> OnJoin E c ev name; State_Monad.return () }
      | OpJoinRequest r \<Rightarrow> do { _ \<leftarrow> OnJoinRequest E c r; State_Monad.return () }
      | OpJob job \<Rightarrow> runJob E c job
      | OpMemberChange ch \<Rightarrow> do { _ \<leftarrow> OnMemberChange E c ch; State_Monad.return () }
      | OpPress p \<Rightarrow> do { _ \<leftarrow> OnPress E c p; State_Monad.return () }
      | OpSweep \<Rightarrow> do { _ \<leftarrow> CaptchaSweep E c; State_Monad.return () })"

text \<open>An invariant \<open>I\<close> of the database that the captcha's own transactions
  on the members \<open>K\<close> keep, with what it says of the rows they read and
  return: the contract the handlers below rely on. \<open>captcha_everywhere\<close> is
  about all members, \<open>captcha_start\<close> adds the start of an attempt.\<close>

locale captcha_invariant =
  fixes I :: "db \<Rightarrow> bool" and ok :: "captcha_rec \<Rightarrow> bool" and K :: "(chat_id \<times> user_id) set"
  assumes transition: "I db \<Longrightarrow> TransitionCaptcha c u a frm to db = Some (db', x) \<Longrightarrow>
          \<forall>s \<in> set frm. mayMove s to \<Longrightarrow> (c, u) \<in> K \<Longrightarrow> I db'"
    and passing: "I db \<Longrightarrow> MarkCaptchaPassing c u a d db = Some (db', x) \<Longrightarrow> (c, u) \<in> K \<Longrightarrow> I db'"
    and failing: "I db \<Longrightarrow> FailCaptcha c u a frm act db = Some (db', x) \<Longrightarrow>
          set frm \<subseteq> {CaptchaNew, CaptchaChallenged} \<Longrightarrow> (c, u) \<in> K \<Longrightarrow> I db'"
    and failed: "I db \<Longrightarrow> FailCaptcha c u a frm act db = Some (db', (Some row, b)) \<Longrightarrow> (c, u) \<in> K \<Longrightarrow> ok row"
    and retry: "I db \<Longrightarrow> RetryCaptcha c u a d db = Some (db', y) \<Longrightarrow> (c, u) \<in> K \<Longrightarrow> I db'"
    and prompt: "I db \<Longrightarrow> SetCaptchaPrompt c u a p e m d db = Some (db', row) \<Longrightarrow> (c, u) \<in> K \<Longrightarrow> I db'"
    and rows: "I db \<Longrightarrow> row \<in> set (db_captcha db) \<Longrightarrow> captchaKey row \<in> K \<Longrightarrow> ok row"
    and ok_key: "ok row \<Longrightarrow> captchaKey row \<in> K"

locale captcha_everywhere = captcha_invariant +
  assumes everywhere: "K = UNIV"

locale captcha_start = captcha_everywhere +
  assumes starting: "I db \<Longrightarrow> BeginCaptcha c u now d mode db = Some (db', x) \<Longrightarrow> I db'"

text \<open>Where the handlers run: other goroutines keep the invariant, and a
  release is allowed for a row without a sanction.\<close>

definition setting :: "env \<Rightarrow> (db \<Rightarrow> bool) \<Rightarrow> (captcha_rec \<Rightarrow> bool) \<Rightarrow> (event \<Rightarrow> bool) \<Rightarrow> bool" where
  "setting E I ok Q \<longleftrightarrow> stable E I \<and>
     (\<forall>n i b. Q (EvStore n i b)) \<and> (\<forall>s. Q (EvLog s)) \<and> (\<forall>k. Q (EvCount k)) \<and>
     (\<forall>pc rep. (\<forall>ch us. pc \<noteq> UnrestrictMember ch us) \<longrightarrow> Q (EvPort pc rep)) \<and>
     (\<forall>db row rep. I db \<longrightarrow> ok row \<longrightarrow> \<not> SanctionSince (cr_ChatID row) (cr_UserID row) (cr_CreatedAt row) db \<longrightarrow>
        Q (EvPort (UnrestrictMember (cr_ChatID row) (cr_UserID row)) rep))"

definition mayRelease :: "(event \<Rightarrow> bool) \<Rightarrow> captcha_rec \<Rightarrow> bool" where
  "mayRelease Q row \<longleftrightarrow> (\<forall>rep. Q (EvPort (UnrestrictMember (cr_ChatID row) (cr_UserID row)) rep))"

lemma g_store:
  "setting E I ok Q \<Longrightarrow> (\<And>now db db' r. I db \<Longrightarrow> t now db = Some (db', r) \<Longrightarrow> I db') \<Longrightarrow> safe I Q (store E n i t)"
  by (rule safe_store) (simp_all add: setting_def)

lemma g_storing:
  "setting E I ok Q \<Longrightarrow> (\<And>now db db' r. I db \<Longrightarrow> t now db = Some (db', r) \<Longrightarrow> I db' \<and> S r) \<Longrightarrow>
     guarded I Q (\<lambda>x. \<forall>r. x = Inr r \<longrightarrow> S r) (store E n i t)"
  by (rule guarded_store) (simp_all add: setting_def)

lemma g_query: "setting E I ok Q \<Longrightarrow> safe I Q (query E q)"
  by (rule safe_query) (simp_all add: setting_def)

lemma g_querying:
  "setting E I ok Q \<Longrightarrow> (\<And>db x. I db \<Longrightarrow> q db = Some x \<Longrightarrow> S x) \<Longrightarrow>
     guarded I Q (\<lambda>x. \<forall>r. x = Inr r \<longrightarrow> S r) (query E q)"
  by (rule guarded_query) (simp_all add: setting_def)

lemma g_port: "setting E I ok Q \<Longrightarrow> (\<And>ch us. pc \<noteq> UnrestrictMember ch us) \<Longrightarrow> safe I Q (call E' pc)"
  by (intro safe_call) (simp add: setting_def)

lemma g_release: "mayRelease Q row \<Longrightarrow> safe I Q (call E (UnrestrictMember (cr_ChatID row) (cr_UserID row)))"
  by (intro safe_call) (simp add: mayRelease_def)

lemma g_logLine: "setting E I ok Q \<Longrightarrow> safe I Q (logLine s)"
  by (rule safe_log) (simp add: setting_def)

lemma g_metric: "setting E I ok Q \<Longrightarrow> safe I Q (countMetric s)"
  by (rule safe_count) (simp add: setting_def)

lemma g_count: "setting E I ok Q \<Longrightarrow> safe I Q (captchaCount c out)"
  unfolding captchaCount_def by (intro guard_intros g_metric)

lemma g_logErr: "setting E I ok Q \<Longrightarrow> safe I Q (logErr e)"
  unfolding logErr_def by (rule g_logLine)

lemma g_clog: "setting E I ok Q \<Longrightarrow> safe I Q (clog c e)"
  unfolding clog_def by (intro guard_intros g_logErr g_count)

lemma g_logWhen: "setting E I ok Q \<Longrightarrow> safe I Q (logWhen r)"
  unfolding logWhen_def by (intro guard_intros g_logErr)

lemma g_deletePrompt: "setting E I ok Q \<Longrightarrow> safe I Q (deletePrompt E c u e m p)"
  unfolding deletePrompt_def by (intro guard_intros g_logErr g_port; (assumption | simp))

lemma g_deleteIDs: "setting E I ok Q \<Longrightarrow> safe I Q (deleteIDs E row)"
  unfolding deleteIDs_def by (rule g_deletePrompt)

lemma g_deleteOf: "setting E I ok Q \<Longrightarrow> safe I Q (deleteOf E r)"
  unfolding deleteOf_def by (intro guard_intros g_deleteIDs)

lemma g_gate: "setting E I ok Q \<Longrightarrow> safe I Q (gate E c ch)"
  unfolding gate_def by (intro guard_intros g_query)

lemma g_sanctionSince:
  "setting E I ok Q \<Longrightarrow> ok row \<Longrightarrow>
   guarded I Q (\<lambda>x. \<forall>s. x = Inr s \<longrightarrow> (\<not> s \<longrightarrow> mayRelease Q row)) (sanctionSince E row)"
  unfolding sanctionSince_def mayRelease_def by (rule g_querying, assumption) (auto simp: setting_def)

lemmas g_basic = g_count g_logErr g_logLine g_clog g_logWhen g_deletePrompt g_deleteIDs g_deleteOf g_gate

context captcha_invariant
begin

lemma ok_pair: "ok row \<Longrightarrow> (cr_ChatID row, cr_UserID row) \<in> K"
  using ok_key by (simp add: captchaKey_def)

lemma g_transition:
  "setting E I ok Q \<Longrightarrow> (c, u) \<in> K \<Longrightarrow> \<forall>s \<in> set frm. mayMove s to \<Longrightarrow> safe I Q (Captcha.transition E c u a frm to)"
  unfolding Captcha.transition_def by (rule g_store, assumption) (erule (3) transition)

lemma g_moveRow: "setting E I ok Q \<Longrightarrow> ok row \<Longrightarrow> mayMove frm to \<Longrightarrow> safe I Q (moveRow E row frm to)"
  by (rule g_transition) (simp_all add: ok_pair)

lemma g_failCaptcha:
  "setting E I ok Q \<Longrightarrow> (c, u) \<in> K \<Longrightarrow> set frm \<subseteq> {CaptchaNew, CaptchaChallenged} \<Longrightarrow>
   guarded I Q (\<lambda>x. \<forall>p. x = Inr p \<longrightarrow> (\<forall>row. fst p = Some row \<longrightarrow> ok row)) (failCaptcha E c u a frm act)"
  unfolding failCaptcha_def by (rule g_storing, assumption) (auto intro: failing failed)

lemma g_finishFail:
  "setting E I ok Q \<Longrightarrow> ok row \<Longrightarrow> mayMove CaptchaFailing to \<Longrightarrow> safe I Q (finishFail E c row to out)"
  unfolding finishFail_def by (intro guard_intros g_moveRow g_basic; (assumption | simp))

lemma g_giveUp: "setting E I ok Q \<Longrightarrow> ok row \<Longrightarrow> safe I Q (giveUp E c row)"
  unfolding giveUp_def by (intro guard_intros g_finishFail g_basic; (assumption | simp))

lemma g_retry: "setting E I ok Q \<Longrightarrow> ok row \<Longrightarrow> safe I Q (Captcha.retry E c row e)"
  unfolding Captcha.retry_def
  by (intro guard_intros g_basic g_store; (assumption | erule (1) retry, erule ok_pair))

lemma g_failUnrestrict: "setting E I ok Q \<Longrightarrow> ok row \<Longrightarrow> safe I Q (failUnrestrict E c row)"
  unfolding failUnrestrict_def
  by (rule guarded_bind, erule (1) g_sanctionSince)
    (intro guard_intros g_moveRow g_basic g_finishFail g_retry g_release;
      (assumption | (simp; fail) | blast))

lemma g_failKick: "setting E I ok Q \<Longrightarrow> ok row \<Longrightarrow> safe I Q (failKick E c row)"
  unfolding failKick_def by (intro guard_intros g_basic g_finishFail g_retry g_port; (assumption | simp))

lemma g_failDecline: "setting E I ok Q \<Longrightarrow> ok row \<Longrightarrow> safe I Q (failDecline E c row)"
  unfolding failDecline_def by (intro guard_intros g_basic g_finishFail g_retry g_port; (assumption | simp))

lemma g_fail: "setting E I ok Q \<Longrightarrow> ok row \<Longrightarrow> safe I Q (Captcha.fail E c row)"
  unfolding Captcha.fail_def
  by (intro guard_intros g_basic g_giveUp g_failUnrestrict g_failKick g_failDecline g_finishFail; (assumption | simp))

lemma g_failOf: "setting E I ok Q \<Longrightarrow> \<forall>row. r = Some row \<longrightarrow> ok row \<Longrightarrow> safe I Q (failOf E c r)"
  unfolding failOf_def by (intro guard_intros g_fail; simp)

text \<open>\<open>FailCaptcha\<close>, and what is done with the row it returned.\<close>

lemma g_failing:
  assumes "setting E I ok Q" and "(c, u) \<in> K" and "set frm \<subseteq> {CaptchaNew, CaptchaChallenged}"
    and "\<And>e. guarded I Q S (f (Inl e))"
    and "\<And>r b. \<forall>row. r = Some row \<longrightarrow> ok row \<Longrightarrow> guarded I Q S (f (Inr (r, b)))"
  shows "guarded I Q S (State_Monad.bind (failCaptcha E c u a frm act) f)"
proof (rule guarded_bind [OF g_failCaptcha [OF assms(1-3)]])
  fix x :: "goerr + captcha_rec option \<times> bool"
  assume "\<forall>p. x = Inr p \<longrightarrow> (\<forall>row. fst p = Some row \<longrightarrow> ok row)"
  then show "guarded I Q S (f x)" using assms(4,5) by (cases x) auto
qed

lemma g_settle: "setting E I ok Q \<Longrightarrow> ok row \<Longrightarrow> mayMove frm to \<Longrightarrow> safe I Q (settle E c row frm to out)"
  unfolding settle_def by (intro guard_intros g_moveRow g_basic; (assumption | simp))

lemma g_failChallenged:
  assumes S: "setting E I ok Q" and "ok row"
  shows "safe I Q (failChallenged E c row act)"
  unfolding failChallenged_def
  by (intro guard_intros g_failing [OF S] g_failOf [OF S] g_basic [OF S]) (auto simp: ok_pair assms(2))

lemma g_sweepChallenged:
  assumes S: "setting E I ok Q" and ok: "ok row"
  shows "safe I Q (sweepChallenged E c row)"
proof -
  have sanction: "safe I Q (sanctionSince E row)" by (rule guarded_safe [OF g_sanctionSince [OF S ok]])
  show ?thesis unfolding sweepChallenged_def
    by (intro guard_intros g_basic [OF S] g_failChallenged [OF S ok] sanction g_settle [OF S ok]) simp
qed

lemma g_giveUpPassing: "setting E I ok Q \<Longrightarrow> ok row \<Longrightarrow> safe I Q (giveUpPassing E c row)"
  unfolding giveUpPassing_def by (intro guard_intros g_moveRow g_basic; (assumption | simp))

lemma g_sweepJoinPassing: "setting E I ok Q \<Longrightarrow> ok row \<Longrightarrow> safe I Q (sweepJoinPassing E c row)"
  unfolding sweepJoinPassing_def
  by (intro guard_intros g_giveUpPassing g_port g_retry g_settle; (assumption | simp))

lemma g_sweepPassing:
  assumes S: "setting E I ok Q" and ok: "ok row"
  shows "safe I Q (sweepPassing E c row)"
proof -
  have late: "safe I Q (State_Monad.bind (sanctionSince E row) f)"
    if "\<And>x. \<forall>s. x = Inr s \<longrightarrow> \<not> s \<longrightarrow> mayRelease Q row \<Longrightarrow> safe I Q (f x)" for f
    by (rule guarded_bind [OF g_sanctionSince [OF S ok]]) (rule that)
  show ?thesis unfolding sweepPassing_def
    by (intro guard_intros g_basic [OF S] g_sweepJoinPassing [OF S ok] late g_settle [OF S ok]
        g_giveUpPassing [OF S ok] g_retry [OF S ok] g_release) auto
qed

lemma g_cancelJoin:
  "setting E I ok Q \<Longrightarrow> ok row \<Longrightarrow> mayMove frm CaptchaCancelled \<Longrightarrow> safe I Q (cancelJoin E c row frm d)"
  unfolding cancelJoin_def by (intro guard_intros g_moveRow g_basic; (assumption | simp))

lemma g_sweepJoinChallenged: "setting E I ok Q \<Longrightarrow> ok row \<Longrightarrow> safe I Q (sweepJoinChallenged E c row)"
  unfolding sweepJoinChallenged_def
  by (intro guard_intros g_basic g_cancelJoin g_failChallenged; (assumption | simp))

lemma g_sweepNew:
  assumes S: "setting E I ok Q" and ok: "ok row"
  shows "safe I Q (sweepNew E c row)"
  unfolding sweepNew_def
  by (intro guard_intros g_cancelJoin [OF S ok] g_failing [OF S] g_failOf [OF S] g_basic [OF S])
    (auto simp: ok_pair ok)

lemma g_sweepRow: "setting E I ok Q \<Longrightarrow> ok row \<Longrightarrow> safe I Q (sweepRow E c row)"
  unfolding sweepRow_def tracking_def
  by (cases "cr_State row"; simp only: captcha_state.case;
      intro guard_intros g_sweepNew g_sweepJoinChallenged g_sweepChallenged g_fail g_sweepPassing; assumption)

lemma g_sweepRows:
  "setting E I ok Q \<Longrightarrow> \<forall>row \<in> set rows. ok row \<Longrightarrow> safe I Q (sweepRows E c n rows)"
  by (induction rows arbitrary: n) (auto intro!: guard_intros g_sweepRow)

end

context captcha_everywhere
begin

lemma g_getCaptcha:
  "setting E I ok Q \<Longrightarrow> guarded I Q (\<lambda>x. \<forall>r. x = Inr r \<longrightarrow> (\<forall>row. r = Some row \<longrightarrow> ok row)) (getCaptcha E c u)"
  unfolding getCaptcha_def
  by (rule g_querying, assumption) (auto simp: GetCaptcha_def everywhere dest!: findBy_Some intro: rows)

lemma g_challenged: "setting E I ok Q \<Longrightarrow> safe I Q (noteRestrictAfterCancel E c ch u)"
  unfolding noteRestrictAfterCancel_def getCaptcha_def
  by (intro guard_intros g_query g_basic; assumption)

lemma g_sendPrompt: "setting E I ok Q \<Longrightarrow> safe I Q (sendPrompt E ev a pol name)"
  unfolding sendPrompt_def by (intro guard_intros g_port; (assumption | simp))

lemma g_setPrompt:
  "setting E I ok Q \<Longrightarrow> safe I Q (store E n i (\<lambda>now. SetCaptchaPrompt c u a p e m d))"
  by (rule g_store, assumption) (erule (1) prompt, simp add: everywhere)

lemma g_anywhere:
  "setting E I ok Q \<Longrightarrow> \<forall>s \<in> set frm. mayMove s to \<Longrightarrow> safe I Q (Captcha.transition E c u a frm to)"
  by (rule g_transition) (simp_all add: everywhere)

lemma g_deliver: "setting E I ok Q \<Longrightarrow> safe I Q (deliver E c ev a pol name)"
  unfolding deliver_def
  by (intro guard_intros g_sendPrompt g_basic g_failing g_setPrompt; (assumption | (simp add: everywhere; fail))?)
    (simp_all, (intro guard_intros g_failOf g_basic; assumption)+)

lemma g_challenge: "setting E I ok Q \<Longrightarrow> safe I Q (Captcha.challenge E c ev a pol name)"
  unfolding Captcha.challenge_def challengeBody_def untrack_def
  by (intro guard_intros g_port g_anywhere g_basic g_challenged g_deliver; (assumption | simp))

lemma g_challengeJoin: "setting E I ok Q \<Longrightarrow> safe I Q (challengeJoin E c r a pol)"
  unfolding challengeJoin_def challengeJoinBody_def untrack_def
  by (intro guard_intros g_port g_anywhere g_basic g_setPrompt; (assumption | simp))

lemma g_runJob: "setting E I ok Q \<Longrightarrow> safe I Q (runJob E c job)"
  unfolding runJob_def approveKnown_def
  by (cases job; simp; intro guard_intros g_challenge g_challengeJoin g_port g_basic; (assumption | simp))

lemma g_OnMemberChange: "setting E I ok Q \<Longrightarrow> safe I Q (OnMemberChange E c ch)"
  unfolding OnMemberChange_def getCaptcha_def
  by (intro guard_intros g_query g_anywhere g_basic; (assumption | simp))

lemma g_pressSanction:
  assumes S: "setting E I ok Q" and "ok row" and "mayMove frm CaptchaCancelled"
  shows "guarded I Q (\<lambda>x. x = None \<longrightarrow> cr_Mode row = ''join_request'' \<or> mayRelease Q row) (pressSanction E row frm soon)"
proof (cases "cr_Mode row = ''join_request''")
  case True
  then show ?thesis by (simp add: pressSanction_def guarded_return)
next
  case False
  show ?thesis
    unfolding pressSanction_def if_not_P [OF False]
  proof (rule guarded_bind [OF g_sanctionSince [OF S assms(2)]])
    fix x :: "goerr + bool"
    assume "\<forall>s. x = Inr s \<longrightarrow> \<not> s \<longrightarrow> mayRelease Q row"
    then show "guarded I Q (\<lambda>x. x = None \<longrightarrow> cr_Mode row = ''join_request'' \<or> mayRelease Q row)
        (case x of
           Inl e \<Rightarrow> State_Monad.return (Some (''error'', soon, Some e))
         | Inr sanctioned \<Rightarrow>
             if \<not> sanctioned then State_Monad.return None
             else do {
               t \<leftarrow> moveRow E row frm CaptchaCancelled;
               case t of
                 Inl e \<Rightarrow> State_Monad.return (Some (''error'', soon, Some e))
               | Inr (updated, moved) \<Rightarrow>
                   if \<not> moved then State_Monad.return (Some (''expired'', [], None))
                   else do {
                     _ \<leftarrow> deleteOf E updated;
                     State_Monad.return (Some (''cancelled_sanctioned'', [], None))
                   }
             })"
      using assms
      by (intro guarded_sum guarded_if safe_bind guarded_prod g_anywhere [OF S] g_basic [OF S] guarded_return) auto
  qed
qed

lemma g_settlePress:
  "setting E I ok Q \<Longrightarrow> cr_Mode row = ''join_request'' \<or> mayRelease Q row \<Longrightarrow> safe I Q (settlePress E row)"
  unfolding settlePress_def liftMute_def getCaptcha_def
  by (cases "cr_Mode row = ''join_request''"; simp; intro guard_intros g_port g_release g_anywhere g_basic g_query;
      (assumption | simp))

lemma g_pressRow:
  assumes S: "setting E I ok Q" and "ok row"
  shows "safe I Q (pressRow E row)"
proof -
  have pass: "safe I Q (store E n i (\<lambda>now. MarkCaptchaPassing c u a d))" for n i c u a d
    by (rule g_store [OF S]) (erule (1) passing, simp add: everywhere)
  have late: "safe I Q (do {
      late \<leftarrow> pressSanction E row CaptchaPassing captchaRestoreSoon;
      case late of Some res \<Rightarrow> State_Monad.return res | None \<Rightarrow> settlePress E row })"
    by (rule guarded_bind [OF g_pressSanction [OF S assms(2)]])
      (auto intro!: guard_intros g_settlePress [OF S])
  have before: "safe I Q (pressSanction E row CaptchaChallenged [])"
    by (rule guarded_safe [OF g_pressSanction [OF S assms(2)]]) simp
  show ?thesis unfolding pressRow_def
    by (intro guard_intros before pass late)
qed

lemma g_OnPress:
  assumes S: "setting E I ok Q"
  shows "safe I Q (OnPress E c p)"
proof -
  have row: "guarded I Q (\<lambda>_. True) (State_Monad.bind (getCaptcha E ch u) f)"
    if "\<And>x. \<forall>r. x = Inr r \<longrightarrow> (\<forall>row. r = Some row \<longrightarrow> ok row) \<Longrightarrow> safe I Q (f x)" for ch u f
    by (rule guarded_bind [OF g_getCaptcha [OF S]]) (rule that)
  have "safe I Q (decidePress E p)"
    unfolding decidePress_def
    by (intro guard_intros row g_pressRow [OF S]) auto
  then show ?thesis unfolding OnPress_def
    by (intro guard_intros g_port [OF S] g_basic [OF S]) simp_all
qed

lemma g_CaptchaSweep:
  assumes S: "setting E I ok Q"
  shows "safe I Q (CaptchaSweep E c)"
proof -
  have due: "guarded I Q (\<lambda>x. \<forall>rs. x = Inr rs \<longrightarrow> (\<forall>row \<in> set rs. ok row))
      (query E (\<lambda>db. Some (DueCaptchas now 100 db)))" for now
    by (rule g_querying [OF S]) (auto simp: DueCaptchas_def everywhere dest!: in_set_takeD intro: rows)
  have "safe I Q (do { due \<leftarrow> query E (\<lambda>db. Some (DueCaptchas now 100 db));
      case due of Inl e \<Rightarrow> State_Monad.return (0, Some e) | Inr rows \<Rightarrow> sweepRows E c 0 rows })" for now
    by (rule guarded_bind [OF due]) (auto intro!: guard_intros g_sweepRows [OF S])
  then show ?thesis unfolding CaptchaSweep_def by (rule safe_bind [OF safe_clock])
qed

end

context captcha_start
begin

lemma g_beginCaptcha: "setting E I ok Q \<Longrightarrow> safe I Q (beginCaptcha E ch u pol mode job)"
  unfolding beginCaptcha_def track_def
  by (intro guard_intros g_store; (assumption | erule (1) starting))

lemma g_OnJoin: "setting E I ok Q \<Longrightarrow> safe I Q (OnJoin E c ev name)"
  unfolding OnJoin_def by (intro guard_intros g_gate g_query g_beginCaptcha)

lemma g_OnJoinRequest: "setting E I ok Q \<Longrightarrow> safe I Q (OnJoinRequest E c r)"
  unfolding OnJoinRequest_def by (intro guard_intros g_gate g_query g_beginCaptcha)

lemma g_runOp: "setting E I ok Q \<Longrightarrow> safe I Q (runOp E c op)"
  unfolding runOp_def
  by (cases op; simp;
      intro guard_intros g_OnJoin g_OnJoinRequest g_runJob g_OnMemberChange g_OnPress g_CaptchaSweep; assumption)

end

section \<open>The machine, run by any sequence of operations\<close>

text \<open>Other goroutines' transactions are captcha steps too.\<close>

definition orderly :: "env \<Rightarrow> bool" where
  "orderly E \<longleftrightarrow> (\<forall>n db. captchaStep db (en_others E n db))"

interpretation machine: captcha_start "captchaStep db0" "\<lambda>_. True" UNIV
proof
  fix db db' c u a frm to x
  assume "captchaStep db0 db" "TransitionCaptcha c u a frm to db = Some (db', x)" "\<forall>s\<in>set frm. mayMove s to"
  then show "captchaStep db0 db'" using captchaStep_trans captchaStep_Transition by blast
next
  fix db db' c u a d x
  assume "captchaStep db0 db" "MarkCaptchaPassing c u a d db = Some (db', x)"
  then show "captchaStep db0 db'" using captchaStep_trans captchaStep_Passing by blast
next
  fix db db' c u a frm act x
  assume "captchaStep db0 db" "FailCaptcha c u a frm act db = Some (db', x)"
    "set frm \<subseteq> {CaptchaNew, CaptchaChallenged}"
  then show "captchaStep db0 db'" using captchaStep_trans captchaStep_Fail by blast
next
  fix db db' c u a d y
  assume "captchaStep db0 db" "RetryCaptcha c u a d db = Some (db', y)"
  then show "captchaStep db0 db'" using captchaStep_trans captchaStep_Retry by blast
next
  fix db db' c u a p e m d row
  assume "captchaStep db0 db" "SetCaptchaPrompt c u a p e m d db = Some (db', row)"
  then show "captchaStep db0 db'" using captchaStep_trans captchaStep_Prompt by blast
next
  fix db db' c u now d mode x
  assume "captchaStep db0 db" "BeginCaptcha c u now d mode db = Some (db', x)"
  then show "captchaStep db0 db'" using captchaStep_trans captchaStep_Begin by blast
qed simp_all

lemma orderly_setting: "orderly E \<Longrightarrow> setting E (captchaStep db0) (\<lambda>_. True) (\<lambda>_. True)"
  unfolding setting_def stable_def orderly_def using captchaStep_trans by blast

lemma orderly_quiet [simp]: "quiet E \<Longrightarrow> orderly E"
  by (simp add: orderly_def quiet_def)

lemma runOp_step: "orderly E \<Longrightarrow> captchaStep (w_db w) (w_db (after (runOp E c op) w))"
  by (rule guardedD(2) [OF machine.g_runOp [OF orderly_setting, of E "w_db w"]]) simp_all

text \<open>A run: operations one after the other, each in an environment and a
  configuration of its own.\<close>

fun runOps :: "(env \<times> captcha \<times> captcha_op) list \<Rightarrow> world \<Rightarrow> world" where
  "runOps [] w = w"
| "runOps ((E, c, op) # ops) w = runOps ops (after (runOp E c op) w)"

lemma runOps_step: "\<forall>(E, c, op) \<in> set ops. orderly E \<Longrightarrow> captchaStep (w_db w) (w_db (runOps ops w))"
proof (induction ops arbitrary: w)
  case Nil
  then show ?case by simp
next
  case (Cons x ops)
  obtain E c op where x: "x = (E, c, op)" by (cases x)
  have "captchaStep (w_db w) (w_db (after (runOp E c op) w))" using Cons.prems x by (intro runOp_step) simp
  moreover have "captchaStep (w_db (after (runOp E c op) w)) (w_db (runOps ops (after (runOp E c op) w)))"
    using Cons.prems by (intro Cons.IH) simp
  ultimately show ?case unfolding x runOps.simps by (rule captchaStep_trans)
qed

section \<open>Sanctioned members\<close>

text \<open>The member was sanctioned at \<open>t\<close> or later, and every challenge of
  theirs was begun before.\<close>

definition sanctionedMember :: "chat_id \<Rightarrow> user_id \<Rightarrow> unix_time \<Rightarrow> db \<Rightarrow> bool" where
  "sanctionedMember ch u t db \<longleftrightarrow> SanctionSince ch u t db \<and>
     (\<forall>r \<in> set (db_captcha db). captchaKey r = (ch, u) \<longrightarrow> cr_CreatedAt r \<le> t)"

lemma SanctionSince_mono: "SanctionSince ch u t db \<Longrightarrow> s \<le> t \<Longrightarrow> SanctionSince ch u s db"
  unfolding SanctionSince_def list_ex_iff by fastforce

lemma SanctionSince_updCaptcha [simp]: "SanctionSince ch u t (updCaptcha P f db) = SanctionSince ch u t db"
  by (simp add: SanctionSince_def updCaptcha_def)

lemma sanctionedMember_upd:
  assumes "sanctionedMember ch u t db"
    and "\<And>r. captchaKey (f r) = captchaKey r \<and> cr_CreatedAt (f r) = cr_CreatedAt r"
  shows "sanctionedMember ch u t (updCaptcha P f db)"
proof -
  have "\<forall>r \<in> set (updateWhere P f (db_captcha db)). captchaKey r = (ch, u) \<longrightarrow> cr_CreatedAt r \<le> t"
    using assms unfolding sanctionedMember_def set_updateWhere by (auto split: if_splits)
  then show ?thesis using assms(1) by (simp add: sanctionedMember_def) (simp add: updCaptcha_def)
qed

lemma sanctionedMember_updateCaptcha:
  assumes "sanctionedMember ch u t db" and "updateCaptcha c v a frm f db = Some (db', x)"
    and "\<And>r. captchaKey (f r) = captchaKey r \<and> cr_CreatedAt (f r) = cr_CreatedAt r"
  shows "sanctionedMember ch u t db'"
    "\<forall>row. fst x = Some row \<longrightarrow> captchaKey row = (ch, u) \<longrightarrow> cr_CreatedAt row \<le> t"
proof -
  have db': "db' = updCaptcha (\<lambda>r. captchaKey r = (c, v) \<and> cr_Attempt r = a \<and> cr_State r \<in> set frm) f db"
    and x: "fst x = GetCaptcha c v db'"
    using assms(2) by (auto simp: updateCaptcha_def Let_def split: if_splits)
  show s: "sanctionedMember ch u t db'" unfolding db' by (rule sanctionedMember_upd [OF assms(1,3)])
  show "\<forall>row. fst x = Some row \<longrightarrow> captchaKey row = (ch, u) \<longrightarrow> cr_CreatedAt row \<le> t"
    using s unfolding x GetCaptcha_def sanctionedMember_def by (auto dest: findBy_Some)
qed

interpretation sanctioned: captcha_everywhere "sanctionedMember ch u t"
  "\<lambda>r. captchaKey r = (ch, u) \<longrightarrow> cr_CreatedAt r \<le> t" UNIV
proof
  fix db db' c v a frm to x
  assume "sanctionedMember ch u t db" "TransitionCaptcha c v a frm to db = Some (db', x)"
  then show "sanctionedMember ch u t db'"
    unfolding TransitionCaptcha_def by (rule sanctionedMember_updateCaptcha(1)) (simp add: captchaKey_def)
next
  fix db db' c v a d x
  assume "sanctionedMember ch u t db" "MarkCaptchaPassing c v a d db = Some (db', x)"
  then show "sanctionedMember ch u t db'"
    unfolding MarkCaptchaPassing_def by (rule sanctionedMember_updateCaptcha(1)) (simp add: captchaKey_def)
next
  fix db db' c v a frm act x
  assume "sanctionedMember ch u t db" "FailCaptcha c v a frm act db = Some (db', x)"
  then show "sanctionedMember ch u t db'"
    unfolding FailCaptcha_def by (rule sanctionedMember_updateCaptcha(1)) (simp add: captchaKey_def)
next
  fix db db' c v a frm act row b
  assume "sanctionedMember ch u t db" "FailCaptcha c v a frm act db = Some (db', (Some row, b))"
  then show "captchaKey row = (ch, u) \<longrightarrow> cr_CreatedAt row \<le> t"
    using sanctionedMember_updateCaptcha(2) [of ch u t db c v a frm "\<lambda>r. r\<lparr>cr_State := CaptchaFailing, cr_FailAction := act\<rparr>"]
    by (simp add: FailCaptcha_def captchaKey_def)
next
  fix db db' c v a d y
  assume "sanctionedMember ch u t db" "RetryCaptcha c v a d db = Some (db', y)"
  then show "sanctionedMember ch u t db'"
    by (auto simp: RetryCaptcha_def Let_def captchaKey_def intro!: sanctionedMember_upd split: if_splits)
next
  fix db db' c v a p e m d row
  assume "sanctionedMember ch u t db" "SetCaptchaPrompt c v a p e m d db = Some (db', row)"
  then show "sanctionedMember ch u t db'"
    by (auto simp: SetCaptchaPrompt_def Let_def captchaKey_def intro!: sanctionedMember_upd split: if_splits option.splits)
next
  fix db row
  assume "sanctionedMember ch u t db" "row \<in> set (db_captcha db)"
  then show "captchaKey row = (ch, u) \<longrightarrow> cr_CreatedAt row \<le> t" by (simp add: sanctionedMember_def)
qed simp_all

lemma sanctioned_setting:
  assumes "stable E (sanctionedMember ch u t)"
  shows "setting E (sanctionedMember ch u t) (\<lambda>r. captchaKey r = (ch, u) \<longrightarrow> cr_CreatedAt r \<le> t)
     (\<lambda>e. \<forall>rep. e \<noteq> EvPort (UnrestrictMember ch u) rep)"
  using assms SanctionSince_mono
  by (auto simp: setting_def captchaKey_def sanctionedMember_def)

text \<open>The entries other than a new join, as one action.\<close>

definition afterJoin :: "captcha_op \<Rightarrow> bool" where
  "afterJoin op = (case op of OpJoin _ _ \<Rightarrow> False | OpJoinRequest _ \<Rightarrow> False | _ \<Rightarrow> True)"

lemma sanctioned_runOp:
  assumes "stable E (sanctionedMember ch u t)" and "afterJoin op"
  shows "safe (sanctionedMember ch u t) (\<lambda>e. \<forall>rep. e \<noteq> EvPort (UnrestrictMember ch u) rep) (runOp E c op)"
proof -
  note S = sanctioned_setting [OF assms(1)]
  show ?thesis
    using assms(2) unfolding runOp_def afterJoin_def
    by (cases op; simp only: captcha_op.case;
        intro guard_intros sanctioned.g_runJob [OF S] sanctioned.g_OnMemberChange [OF S] sanctioned.g_OnPress [OF S]
          sanctioned.g_CaptchaSweep [OF S])
qed


section \<open>The button's data\<close>

lemma no_colon_FormatInt: "CHR '':'' \<notin> set (FormatInt i)"
  using FormatInt_chars [of "CHR '':''" i] by (auto simp: isDigitChar_def)

lemma captchaData_parses:
  assumes "inInt64 chatID" and "inInt64 userID" and "inInt64 attempt" and "attempt \<ge> 1"
  shows "parseCaptchaData (captchaData chatID userID attempt) = Some (chatID, userID, attempt)"
proof -
  have "Split (CHR '':'') (drop 4 (captchaData chatID userID attempt)) =
      [FormatInt chatID, FormatInt userID, FormatInt attempt]"
    by (simp add: captchaData_def Split_append_sep Split_no_sep no_colon_FormatInt)
  moreover have "HasPrefix (captchaData chatID userID attempt) ''cap:''"
    unfolding captchaData_def by (rule HasPrefix_append)
  ultimately show ?thesis using assms by (simp add: parseCaptchaData_def ParseInt_FormatInt)
qed

text \<open>Every button carries the chat, the member and the attempt it was made
  for: what \<open>captchaData\<close> writes, \<open>parseCaptchaData\<close> reads back,
  so two buttons with the same data are for the same attempt.\<close>

theorem captcha_data_round_trips:
  assumes "inInt64 chatID" and "inInt64 userID" and "inInt64 attempt" and "attempt \<ge> 1"
  shows "IsCaptchaCallback (captchaData chatID userID attempt) \<and>
     parseCaptchaData (captchaData chatID userID attempt) = Some (chatID, userID, attempt)"
  using captchaData_parses [OF assms] by (simp add: IsCaptchaCallback_def captchaData_def HasPrefix_append [of "''cap:''", simplified])

theorem captcha_data_round_trips_witness:
  "IsCaptchaCallback (captchaData (-1001234) 42 3) \<and> parseCaptchaData (captchaData (-1001234) 42 3) = Some (-1001234, 42, 3)"
  by (rule captcha_data_round_trips) (simp_all add: inInt64_def)

section \<open>Properties\<close>

definition demoRow :: "captcha_state \<Rightarrow> captcha_rec" where
  "demoRow s = (newCaptcha (-100) 42 1 50 60 ''button'')\<lparr>cr_State := s, cr_MessageID := 7\<rparr>"

definition demoWatcher :: captcha where
  "demoWatcher = \<lparr>cw_Config = None, cw_Blocklist = None, cw_SelfID = 1, cw_Counts = True\<rparr>"

definition demoQuiet :: env where
  "demoQuiet = quietEnv (\<lambda>n c. okReply)"

definition demoCaptchaDB :: "captcha_state \<Rightarrow> db" where
  "demoCaptchaDB s = emptyDB\<lparr>db_captcha := [demoRow s]\<rparr>"

lemma demo_get [simp]: "GetCaptcha (-100) 42 (demoCaptchaDB s) = Some (demoRow s)"
  by (simp add: GetCaptcha_def demoCaptchaDB_def findBy_def captchaKey_def demoRow_def newCaptcha_def)

lemma demo_captchaInv [simp]: "captchaInv (demoCaptchaDB s)"
  by (simp add: captchaInv_def demoCaptchaDB_def)

lemma demo_quiet [simp]: "quiet demoQuiet"
  by (simp add: demoQuiet_def)

lemma demo_world [simp]: "w_db (startWorld db) = db"
  by (simp add: startWorld_def)

lemma demo_state [simp]: "cr_State (demoRow s) = s"
  by (simp add: demoRow_def)

text \<open>C8. The watcher implements the machine of one row: through any sequence of
  joins, jobs, presses, member changes and sweeps, in any environment whose
  other goroutines do the same and whatever calls and writes fail, the row of
  a member only takes the moves of \<open>captchaMove\<close>, and stays the only one.\<close>

theorem captcha_rows_follow_the_machine:
  assumes "\<forall>(E, c, op) \<in> set ops. orderly E" and "captchaInv (w_db w)" and "GetCaptcha ch u (w_db w) = Some r"
  shows "captchaInv (w_db (runOps ops w)) \<and>
     (\<exists>r'. GetCaptcha ch u (w_db (runOps ops w)) = Some r' \<and> captchaMove\<^sup>*\<^sup>* r r')"
proof -
  have "captchaInv (w_db (runOps ops w)) \<and> evolves (w_db w) (w_db (runOps ops w))"
    using runOps_step [OF assms(1), of w] assms(2) by (simp add: captchaStep_def)
  then show ?thesis using evolvesD assms(3) by blast
qed

theorem captcha_rows_follow_the_machine_witness:
  "captchaInv (w_db (runOps [(demoQuiet, demoWatcher, captcha_op.OpSweep)] (startWorld (demoCaptchaDB CaptchaFailing)))) \<and>
   (\<exists>r'. GetCaptcha (-100) 42
      (w_db (runOps [(demoQuiet, demoWatcher, captcha_op.OpSweep)] (startWorld (demoCaptchaDB CaptchaFailing)))) = Some r' \<and>
      captchaMove\<^sup>*\<^sup>* (demoRow CaptchaFailing) r')"
  by (rule captcha_rows_follow_the_machine) simp_all

text \<open>Passing is final: a member who passed has passed ever after, at the
  same attempt, and no attempt is ever taken back to an earlier stage.\<close>

theorem passed_is_final:
  assumes "\<forall>(E, c, op) \<in> set ops. orderly E" and "captchaInv (w_db w)" and "GetCaptcha ch u (w_db w) = Some r"
  shows "\<exists>r'. GetCaptcha ch u (w_db (runOps ops w)) = Some r' \<and>
     (cr_State r = CaptchaPassed \<longrightarrow> cr_State r' = CaptchaPassed \<and> cr_Attempt r' = cr_Attempt r) \<and>
     cr_Attempt r \<le> cr_Attempt r' \<and>
     (cr_Attempt r' = cr_Attempt r \<longrightarrow> rank (cr_State r) \<le> rank (cr_State r'))"
proof -
  have "captchaStep (w_db w) (w_db (runOps ops w))" by (rule runOps_step [OF assms(1)])
  then obtain r' where r': "GetCaptcha ch u (w_db (runOps ops w)) = Some r'" "captchaMove\<^sup>*\<^sup>* r r'"
    using evolvesD assms(2,3) unfolding captchaStep_def by blast
  have "progressed r r'" by (rule captchaMoves_progressed [OF r'(2)])
  then show ?thesis using r'(1) unfolding progressed_def by auto
qed

theorem passed_is_final_witness:
  "\<exists>r'. GetCaptcha (-100) 42
      (w_db (runOps [(demoQuiet, demoWatcher, captcha_op.OpSweep)] (startWorld (demoCaptchaDB CaptchaPassed)))) = Some r' \<and>
    cr_State r' = CaptchaPassed"
  using passed_is_final [of "[(demoQuiet, demoWatcher, captcha_op.OpSweep)]" "startWorld (demoCaptchaDB CaptchaPassed)" "-100" 42
      "demoRow CaptchaPassed"] by auto


definition demoSanction :: db where
  "demoSanction = (demoCaptchaDB CaptchaPassing)\<lparr>
     db_incidents := [\<lparr>ir_ID = 1, ir_ChatID = -100, ir_MessageID = 5, ir_MessageIDs = [], ir_UserID = 42,
       ir_SenderChatID = 0, ir_State = StateSanctionUnknown, ir_DryRun = False, ir_Decision = [], ir_CreatedAt = 55\<rparr>]\<rparr>"


text \<open>A button works for nobody but the member it was made for: another
  member's press only gets an answer, and neither the database nor anybody's
  rights change.\<close>

theorem only_the_member_can_press:
  assumes "parseCaptchaData (pp_Data p) = Some (chatID, userID, attempt)" and "pp_PresserID p \<noteq> userID"
  shows "result (OnPress E c p) w = (''wrong_user'', None) \<and>
     w_db (after (OnPress E c p) w) = w_db w \<and>
     filter isPort (events (OnPress E c p) w) =
       [EvPort (AnswerCallback (pp_ID p) (lit ''not for you'')) (en_port E (w_ticks w) (AnswerCallback (pp_ID p) (lit ''not for you'')))]"
  using assms
  by (simp add: OnPress_def decidePress_def result_def after_def events_def captchaAnswer_def captchaCount_def
      run_simps countMetric_def split: option.split)

definition demoPress :: captcha_press where
  "demoPress = \<lparr>pp_ID = ''q1'', pp_Data = captchaData (-100) 42 1, pp_PresserID = 43\<rparr>"

theorem only_the_member_can_press_witness:
  "result (OnPress demoQuiet demoWatcher demoPress) (startWorld (demoCaptchaDB CaptchaChallenged)) = (''wrong_user'', None)"
  using only_the_member_can_press [of demoPress "-100" 42 1 demoQuiet demoWatcher "startWorld (demoCaptchaDB CaptchaChallenged)"]
    captchaData_parses [of "-100" 42 1]
  by (simp add: demoPress_def inInt64_def)

end
