(* ===== verification/CaptchaLive.thy ===== *)
theory CaptchaLive
  imports CaptchaProps
begin

text \<open>
  Every captcha that is being failed or released comes to an end: with a
  working database the sweep either settles a due row or counts a try, and a
  row is given up at the fifth, so after six sweeps nobody is left hanging,
  whatever Telegram answers.
\<close>

section \<open>One row\<close>

definition here :: "captcha_rec \<Rightarrow> db \<Rightarrow> bool" where
  "here r db \<longleftrightarrow> captchaInv db \<and> GetCaptcha (cr_ChatID r) (cr_UserID r) db = Some r"

abbreviation anyEvent :: "event \<Rightarrow> bool" where
  "anyEvent \<equiv> \<lambda>_. True"

lemma quiet_setting: "quiet E \<Longrightarrow> setting E P ok anyEvent"
  by (simp add: setting_def)

lemma here_move:
  assumes q: "quiet E" and "cr_State r = frm"
  shows "hoare anyEvent (here r) (moveRow E r frm to)
     (\<lambda>x db. x = Inr (Some (r\<lparr>cr_State := to\<rparr>), True) \<and> here (r\<lparr>cr_State := to\<rparr>) db)"
  unfolding Captcha.transition_def TransitionCaptcha_def
proof (rule hoare_store_quiet [OF q])
  fix now db
  assume h: "here r db"
  let ?f = "cr_State_update (\<lambda>_. to)"
  let ?P = "\<lambda>x. captchaKey x = (cr_ChatID r, cr_UserID r) \<and> cr_Attempt x = cr_Attempt r \<and> cr_State x \<in> set [frm]"
  have key: "\<And>x. captchaKey (?f x) = captchaKey x" by (simp add: captchaKey_def)
  have "updateCaptcha (cr_ChatID r) (cr_UserID r) (cr_Attempt r) [frm] ?f db =
      Some (updCaptcha ?P ?f db, (Some (r\<lparr>cr_State := to\<rparr>), True))"
    using h assms(2) updateCaptcha_result [of db "[frm]" ?f "cr_ChatID r" "cr_UserID r" "cr_Attempt r"] key
    by (simp add: here_def Let_def)
  moreover have "here (r\<lparr>cr_State := to\<rparr>) (updCaptcha ?P ?f db)"
    using h assms(2) captchaInv_updCaptcha [of db ?P ?f] GetCaptcha_updCaptcha [of ?P ?f] key
    by (simp add: here_def captchaKey_def)
  ultimately show "\<exists>db' x. updateCaptcha (cr_ChatID r) (cr_UserID r) (cr_Attempt r) [frm] ?f db = Some (db', x) \<and>
      Inr x = Inr (Some (r\<lparr>cr_State := to\<rparr>), True) \<and> here (r\<lparr>cr_State := to\<rparr>) db'" by blast
qed simp

definition retried :: "unix_time \<Rightarrow> captcha_rec \<Rightarrow> captcha_rec" where
  "retried t r = r\<lparr>cr_Tries := cr_Tries r + 1, cr_Deadline := t + 60\<rparr>"

lemma affected_here:
  assumes "here r db" and "Q r"
  shows "affected (\<lambda>x. captchaKey x = (cr_ChatID r, cr_UserID r) \<and> Q x) (db_captcha db) = 1"
  using affected_key [of captchaKey "db_captcha db" "(cr_ChatID r, cr_UserID r)" Q] assms
  by (simp add: here_def captchaInv_def GetCaptcha_def)

lemma here_upd:
  assumes "here r db" and "\<And>x. captchaKey (f x) = captchaKey x" and "Q r"
  shows "here (f r) (updCaptcha (\<lambda>x. captchaKey x = (cr_ChatID r, cr_UserID r) \<and> Q x) f db)"
  using assms captchaInv_updCaptcha [of db "\<lambda>x. captchaKey x = (cr_ChatID r, cr_UserID r) \<and> Q x" f]
    GetCaptcha_updCaptcha [of "\<lambda>x. captchaKey x = (cr_ChatID r, cr_UserID r) \<and> Q x" f]
    assms(2) [of r]
  by (simp add: here_def captchaKey_def)

lemma here_retry:
  assumes q: "quiet E" and now: "en_now E = (\<lambda>_. t)" and s: "cr_State r \<in> {CaptchaFailing, CaptchaPassing}"
  shows "hoare anyEvent (here r) (Captcha.retry E c r e) (\<lambda>_. here (retried t r))"
proof -
  let ?Q = "\<lambda>x. cr_Attempt x = cr_Attempt r \<and> cr_State x \<in> {CaptchaFailing, CaptchaPassing}"
  let ?f = "\<lambda>x. x\<lparr>cr_Tries := cr_Tries x + 1, cr_Deadline := t + 60\<rparr>"
  have sixty: "captchaRetryDelay div second = 60" by (simp add: captchaRetryDelay_def second_def)
  have writes: "hoare anyEvent (here r)
      (store E ''RetryCaptcha'' (cr_UserID r) (\<lambda>_. RetryCaptcha (cr_ChatID r) (cr_UserID r) (cr_Attempt r) (t + 60)))
      (\<lambda>x. here (retried t r))"
  proof (rule hoare_store_quiet [OF q])
    fix now db
    assume h: "here r db"
    have "RetryCaptcha (cr_ChatID r) (cr_UserID r) (cr_Attempt r) (t + 60) db =
        Some (updCaptcha (\<lambda>x. captchaKey x = (cr_ChatID r, cr_UserID r) \<and> ?Q x) ?f db, ())"
      using affected_here [of r db ?Q] h s by (simp add: RetryCaptcha_def Let_def)
    then show "\<exists>db' x. RetryCaptcha (cr_ChatID r) (cr_UserID r) (cr_Attempt r) (t + 60) db = Some (db', x) \<and>
        here (retried t r) db'"
      using here_upd [OF h, of ?f ?Q] s by (simp add: retried_def captchaKey_def)
  qed simp
  have rest: "hoare anyEvent (here (retried t r))
      (do { _ \<leftarrow> logWhen x; _ \<leftarrow> logErr e; captchaCount c ''error'' }) (\<lambda>_. here (retried t r))" for x :: "goerr + unit"
    by (intro hoare_skip guard_intros g_basic [OF quiet_setting [OF q]])
  have "hoare anyEvent (here r) (clock E) (\<lambda>n db. n = t \<and> here r db)"
    by (rule hoare_clock) (simp add: now)
  then show ?thesis unfolding Captcha.retry_def
    by (rule hoare_bind_value) (unfold sixty, rule hoare_bind [OF writes], rule rest)
qed

definition ended :: "captcha_rec \<Rightarrow> bool" where
  "ended r \<longleftrightarrow> cr_State r \<in> {CaptchaPassed, CaptchaFailed, CaptchaCancelled}"

text \<open>What one sweep makes of a row: it ends, or a try below the limit is
  counted and it is due a minute later.\<close>

definition advances :: "unix_time \<Rightarrow> captcha_rec \<Rightarrow> captcha_rec \<Rightarrow> bool" where
  "advances t r r' \<longleftrightarrow> captchaKey r' = captchaKey r \<and>
     (ended r' \<or> cr_Tries r < captchaGiveUpTries \<and> r' = retried t r)"

definition advanced :: "unix_time \<Rightarrow> captcha_rec \<Rightarrow> db \<Rightarrow> bool" where
  "advanced t r db \<longleftrightarrow> (\<exists>r'. here r' db \<and> advances t r r')"

lemma advanced_end: "cr_State r' \<in> {CaptchaPassed, CaptchaFailed, CaptchaCancelled} \<Longrightarrow> captchaKey r' = captchaKey r \<Longrightarrow>
    here r' db \<Longrightarrow> advanced t r db"
  unfolding advanced_def advances_def ended_def by blast

lemma advanced_move:
  "to \<in> {CaptchaPassed, CaptchaFailed, CaptchaCancelled} \<Longrightarrow> here (r\<lparr>cr_State := to\<rparr>) db \<Longrightarrow> advanced t r db"
  by (erule advanced_end [rotated 2]) (simp_all add: captchaKey_def)

lemma advanced_retry: "cr_Tries r < captchaGiveUpTries \<Longrightarrow> here (retried t r) db \<Longrightarrow> advanced t r db"
  unfolding advanced_def advances_def by (auto simp: retried_def captchaKey_def)

text \<open>A move to an end, and something that leaves the database alone.\<close>

lemma advance_move:
  assumes q: "quiet E" and "cr_State r = frm" and "to \<in> {CaptchaPassed, CaptchaFailed, CaptchaCancelled}"
    and rest: "safe (here (r\<lparr>cr_State := to\<rparr>)) anyEvent (f (Inr (Some (r\<lparr>cr_State := to\<rparr>), True)))"
  shows "hoare anyEvent (here r) (State_Monad.bind (moveRow E r frm to) f) (\<lambda>_. advanced t r)"
proof (rule hoare_bind_value)
  show "hoare anyEvent (here r) (moveRow E r frm to)
      (\<lambda>x db. x = Inr (Some (r\<lparr>cr_State := to\<rparr>), True) \<and> here (r\<lparr>cr_State := to\<rparr>) db)"
    by (rule here_move [OF q assms(2)])
  show "hoare anyEvent (here (r\<lparr>cr_State := to\<rparr>)) (f (Inr (Some (r\<lparr>cr_State := to\<rparr>), True))) (\<lambda>_. advanced t r)"
    by (rule hoare_post [OF hoare_skip [OF rest]]) (erule advanced_move [OF assms(3)])
qed

lemma advance_settle:
  assumes "quiet E" and "cr_State r = frm" and "to \<in> {CaptchaPassed, CaptchaFailed, CaptchaCancelled}"
  shows "hoare anyEvent (here r) (settle E c r frm to out) (\<lambda>_. advanced t r)"
  unfolding settle_def
  by (rule advance_move [OF assms]) (simp, intro guard_intros g_basic [OF quiet_setting [OF assms(1)]])

lemma advance_finish:
  assumes "quiet E" and "cr_State r = CaptchaFailing" and "to \<in> {CaptchaPassed, CaptchaFailed, CaptchaCancelled}"
  shows "hoare anyEvent (here r) (finishFail E c r to out) (\<lambda>_. advanced t r)"
  unfolding finishFail_def
  by (rule advance_move [OF assms]) (simp, intro guard_intros g_basic [OF quiet_setting [OF assms(1)]])

lemma advance_giveUp:
  assumes "quiet E" and "cr_State r = CaptchaFailing"
  shows "hoare anyEvent (here r) (giveUp E c r) (\<lambda>_. advanced t r)"
  unfolding giveUp_def Let_def
  by (rule hoare_bind_skip [OF g_logLine [OF quiet_setting [OF assms(1)]]])
    (rule advance_finish [OF assms], simp)

lemma advance_giveUpPassing:
  assumes "quiet E" and "cr_State r = CaptchaPassing"
  shows "hoare anyEvent (here r) (giveUpPassing E c r) (\<lambda>_. advanced t r)"
  unfolding giveUpPassing_def
  by (rule hoare_bind_skip [OF g_logLine [OF quiet_setting [OF assms(1)]]], rule advance_move [OF assms], simp)
    (simp, intro guard_intros g_basic [OF quiet_setting [OF assms(1)]])

lemma advance_retry:
  assumes "quiet E" and "en_now E = (\<lambda>_. t)" and "cr_State r \<in> {CaptchaFailing, CaptchaPassing}"
    and "cr_Tries r < captchaGiveUpTries"
  shows "hoare anyEvent (here r) (Captcha.retry E c r e) (\<lambda>_. advanced t r)"
  by (rule hoare_post [OF here_retry [OF assms(1-3)]]) (erule advanced_retry [OF assms(4)])

text \<open>A call that succeeds or is retried.\<close>

lemma advance_call:
  assumes q: "quiet E" and "en_now E = (\<lambda>_. t)" and "cr_State r \<in> {CaptchaFailing, CaptchaPassing}"
    and "cr_Tries r < captchaGiveUpTries"
    and "hoare anyEvent (here r) m (\<lambda>_. advanced t r)"
  shows "hoare anyEvent (here r)
     (do { x \<leftarrow> call E pc; case pr_err x of Some e \<Rightarrow> Captcha.retry E c r e | None \<Rightarrow> m }) (\<lambda>_. advanced t r)"
  by (rule hoare_bind_skip [OF safe_call]) (auto intro!: hoare_intros advance_retry [OF assms(1-4)] assms(5))

lemma query_sanction:
  assumes "quiet E"
  shows "hoare anyEvent (here r) (sanctionSince E r) (\<lambda>x db. (\<exists>s. x = Inr s) \<and> here r db)"
  unfolding sanctionSince_def by (rule hoare_query_quiet [OF assms]) simp

lemma advance_fail:
  assumes q: "quiet E" and now: "en_now E = (\<lambda>_. t)" and s: "cr_State r = CaptchaFailing"
  shows "hoare anyEvent (here r) (Captcha.fail E c r) (\<lambda>_. advanced t r)"
proof (cases "cr_FailAction r \<noteq> ''keep_muted'' \<and> cr_Tries r \<ge> captchaGiveUpTries")
  case True
  then show ?thesis unfolding Captcha.fail_def by (simp add: advance_giveUp [OF q s])
next
  case False
  have keep: "hoare anyEvent (here r) (finishFail E c r CaptchaFailed ''failed_muted'') (\<lambda>_. advanced t r)"
    by (rule advance_finish [OF q s]) simp
  have bad: "hoare anyEvent (here r) (do { _ \<leftarrow> logLine l; giveUp E c r }) (\<lambda>_. advanced t r)" for l
    by (rule hoare_bind_skip [OF g_logLine [OF quiet_setting [OF q]]]) (rule advance_giveUp [OF q s])
  have unrestrict: "hoare anyEvent (here r) (failUnrestrict E c r) (\<lambda>_. advanced t r)"
    if low: "cr_Tries r < captchaGiveUpTries"
    unfolding failUnrestrict_def
  proof (rule hoare_bind_success [OF query_sanction [OF q]])
    fix b
    have "hoare anyEvent (here r)
        (do { x \<leftarrow> moveRow E r CaptchaFailing CaptchaCancelled;
              case x of Inl e \<Rightarrow> clog c e
              | Inr (_, ok) \<Rightarrow> if ok then captchaCount c ''cancelled_sanctioned'' else State_Monad.return () })
        (\<lambda>_. advanced t r)"
      by (rule advance_move [OF q s]) (simp, simp, intro g_basic [OF quiet_setting [OF q]])
    then show "hoare anyEvent (here r)
        (case Inr b of Inl e \<Rightarrow> clog c e
         | Inr sanctioned \<Rightarrow>
             if sanctioned then do {
               x \<leftarrow> moveRow E r CaptchaFailing CaptchaCancelled;
               case x of Inl e \<Rightarrow> clog c e
               | Inr (_, ok) \<Rightarrow> if ok then captchaCount c ''cancelled_sanctioned'' else State_Monad.return () }
             else do {
               u \<leftarrow> call E (UnrestrictMember (cr_ChatID r) (cr_UserID r));
               case pr_err u of Some e \<Rightarrow> Captcha.retry E c r e | None \<Rightarrow> finishFail E c r CaptchaCancelled ''released'' })
        (\<lambda>_. advanced t r)"
      unfolding sum.case
      by (intro hoare_if advance_call [OF q now] advance_finish [OF q s] low) (simp_all add: s)
  qed
  have kick: "hoare anyEvent (here r) (failKick E c r) (\<lambda>_. advanced t r)" if "cr_Tries r < captchaGiveUpTries"
    unfolding failKick_def by (intro advance_call [OF q now] advance_finish [OF q s] that) (simp_all add: s)
  have decline: "hoare anyEvent (here r) (failDecline E c r) (\<lambda>_. advanced t r)" if "cr_Tries r < captchaGiveUpTries"
    unfolding failDecline_def by (intro advance_call [OF q now] advance_finish [OF q s] that) (simp_all add: s)
  show ?thesis using False unfolding Captcha.fail_def
    by (auto intro: hoare_if keep bad unrestrict kick decline)
qed

lemma advance_passing:
  assumes q: "quiet E" and now: "en_now E = (\<lambda>_. t)" and s: "cr_State r = CaptchaPassing"
  shows "hoare anyEvent (here r) (sweepPassing E c r) (\<lambda>_. advanced t r)"
proof -
  have join: "hoare anyEvent (here r) (sweepJoinPassing E c r) (\<lambda>_. advanced t r)"
    unfolding sweepJoinPassing_def
    by (intro hoare_if advance_giveUpPassing [OF q s] advance_call [OF q now] advance_settle [OF q s]) (auto simp: s)
  show ?thesis unfolding sweepPassing_def
  proof (intro hoare_if join)
    show "hoare anyEvent (here r)
        (do { x \<leftarrow> sanctionSince E r;
          case x of Inl e \<Rightarrow> clog c e
          | Inr sanctioned \<Rightarrow>
              if sanctioned then settle E c r CaptchaPassing CaptchaCancelled ''cancelled_sanctioned''
              else if cr_Tries r \<ge> captchaGiveUpTries then giveUpPassing E c r
              else do {
                u \<leftarrow> call E (UnrestrictMember (cr_ChatID r) (cr_UserID r));
                case pr_err u of Some e \<Rightarrow> Captcha.retry E c r e
                | None \<Rightarrow> settle E c r CaptchaPassing CaptchaPassed ''passed'' } })
        (\<lambda>_. advanced t r)"
      by (rule hoare_bind_success [OF query_sanction [OF q]])
        (unfold sum.case, intro hoare_if advance_giveUpPassing [OF q s] advance_call [OF q now]
          advance_settle [OF q s]; auto simp: s)
  qed
qed

definition pendingEnd :: "captcha_rec \<Rightarrow> bool" where
  "pendingEnd r \<longleftrightarrow> cr_State r \<in> {CaptchaFailing, CaptchaPassing}"

lemma advance_row:
  assumes q: "quiet E" and now: "en_now E = (\<lambda>_. t)" and s: "pendingEnd r"
  shows "hoare anyEvent (here r) (sweepRow E c r) (\<lambda>_. advanced t r)"
proof -
  have after: "hoare anyEvent (here r) (do { _ \<leftarrow> m; State_Monad.return True }) (\<lambda>_. advanced t r)"
    if "hoare anyEvent (here r) m (\<lambda>_. advanced t r)" for m :: "unit act"
    by (rule hoare_bind [OF that]) (rule hoare_return)
  consider "cr_State r = CaptchaFailing" | "cr_State r = CaptchaPassing" using s by (auto simp: pendingEnd_def)
  then show ?thesis
    by cases (simp_all only: sweepRow_def captcha_state.case, rule after [OF advance_fail [OF q now]], assumption,
      rule after [OF advance_passing [OF q now]], assumption)
qed


section \<open>The other rows\<close>

lemma GetCaptcha_other:
  assumes "\<And>r. P r \<Longrightarrow> captchaKey r \<noteq> (ch, u)" and "\<And>r. captchaKey (f r) = captchaKey r"
  shows "GetCaptcha ch u (updCaptcha P f db) = GetCaptcha ch u db"
proof (cases "GetCaptcha ch u db")
  case None
  then show ?thesis using GetCaptcha_updCaptcha [of P f ch u db] assms(2) by simp
next
  case (Some r)
  have "captchaKey r = (ch, u)" using GetCaptcha_key [OF Some] by (simp add: captchaKey_def)
  then have "\<not> P r" using assms(1) by blast
  then show ?thesis using GetCaptcha_updCaptcha [of P f ch u db] assms(2) Some by simp
qed

definition rowIs :: "chat_id \<Rightarrow> user_id \<Rightarrow> captcha_rec option \<Rightarrow> db \<Rightarrow> bool" where
  "rowIs ch u x db \<longleftrightarrow> captchaInv db \<and> GetCaptcha ch u db = x"

lemma rowIs_upd:
  "rowIs ch u x db \<Longrightarrow> (\<And>r. P r \<Longrightarrow> captchaKey r \<noteq> (ch, u)) \<Longrightarrow> (\<And>r. captchaKey (f r) = captchaKey r) \<Longrightarrow>
     rowIs ch u x (updCaptcha P f db)"
  unfolding rowIs_def using captchaInv_updCaptcha GetCaptcha_other by metis

lemma updateCaptcha_form:
  assumes "updateCaptcha c v a frm f db = Some (db', x)"
  shows "db' = updCaptcha (\<lambda>r. captchaKey r = (c, v) \<and> cr_Attempt r = a \<and> cr_State r \<in> set frm) f db"
    "fst x = GetCaptcha c v db'"
  using assms by (auto simp: updateCaptcha_def Let_def split: if_splits)

lemma rowIs_updateCaptcha:
  assumes "rowIs ch u x db" and "updateCaptcha c v a frm f db = Some (db', y)" and "(c, v) \<noteq> (ch, u)"
    and "\<And>r. captchaKey (f r) = captchaKey r"
  shows "rowIs ch u x db'"
  unfolding updateCaptcha_form(1) [OF assms(2)] using assms(3) by (intro rowIs_upd [OF assms(1)]) (auto simp: assms(4))

interpretation others: captcha_invariant "rowIs ch u x" "\<lambda>r. captchaKey r \<noteq> (ch, u)" "{k. k \<noteq> (ch, u)}"
proof
  fix db db' c v a frm to y
  assume "rowIs ch u x db" "TransitionCaptcha c v a frm to db = Some (db', y)" "(c, v) \<in> {k. k \<noteq> (ch, u)}"
  then show "rowIs ch u x db'"
    unfolding TransitionCaptcha_def by - (erule rowIs_updateCaptcha, assumption, auto simp: captchaKey_def)
next
  fix db db' c v a d y
  assume "rowIs ch u x db" "MarkCaptchaPassing c v a d db = Some (db', y)" "(c, v) \<in> {k. k \<noteq> (ch, u)}"
  then show "rowIs ch u x db'"
    unfolding MarkCaptchaPassing_def by - (erule rowIs_updateCaptcha, assumption, auto simp: captchaKey_def)
next
  fix db db' c v a frm act y
  assume "rowIs ch u x db" "FailCaptcha c v a frm act db = Some (db', y)" "(c, v) \<in> {k. k \<noteq> (ch, u)}"
  then show "rowIs ch u x db'"
    unfolding FailCaptcha_def by - (erule rowIs_updateCaptcha, assumption, auto simp: captchaKey_def)
next
  fix db db' c v a frm act row b
  assume "FailCaptcha c v a frm act db = Some (db', (Some row, b))" "(c, v) \<in> {k. k \<noteq> (ch, u)}"
  then show "captchaKey row \<noteq> (ch, u)"
    using updateCaptcha_form(2) [of c v a frm _ db db' "(Some row, b)"] GetCaptcha_key [of c v db' row]
    unfolding FailCaptcha_def captchaKey_def by fastforce
next
  fix db db' c v a d y
  assume "rowIs ch u x db" "RetryCaptcha c v a d db = Some (db', y)" "(c, v) \<in> {k. k \<noteq> (ch, u)}"
  then show "rowIs ch u x db'"
    by (auto simp: RetryCaptcha_def Let_def captchaKey_def intro!: rowIs_upd split: if_splits)
next
  fix db db' c v a p e m d row
  assume "rowIs ch u x db" "SetCaptchaPrompt c v a p e m d db = Some (db', row)" "(c, v) \<in> {k. k \<noteq> (ch, u)}"
  then show "rowIs ch u x db'"
    by (auto simp: SetCaptchaPrompt_def Let_def captchaKey_def intro!: rowIs_upd split: if_splits option.splits)
qed simp_all

text \<open>An ended row stays ended, and the table does not grow.\<close>

definition over :: "chat_id \<Rightarrow> user_id \<Rightarrow> db \<Rightarrow> bool" where
  "over ch u db \<longleftrightarrow> captchaInv db \<and> (\<exists>r. GetCaptcha ch u db = Some r \<and> ended r)"

lemma over_upd:
  assumes "over ch u db" and "\<And>r. P r \<Longrightarrow> ended r \<Longrightarrow> ended (f r)" and "\<And>r. captchaKey (f r) = captchaKey r"
  shows "over ch u (updCaptcha P f db)"
proof -
  obtain r where r: "GetCaptcha ch u db = Some r" "ended r" using assms(1) by (auto simp: over_def)
  have "ended (if P r then f r else r)" using r(2) assms(2) by simp
  moreover have "GetCaptcha ch u (updCaptcha P f db) = Some (if P r then f r else r)"
    using GetCaptcha_updCaptcha [of P f ch u db] assms(3) r(1) by simp
  moreover have "captchaInv (updCaptcha P f db)"
    using assms(1,3) by (intro captchaInv_updCaptcha) (simp_all add: over_def)
  ultimately show ?thesis unfolding over_def by blast
qed

lemma over_updateCaptcha:
  assumes "over ch u db" and "updateCaptcha c v a frm f db = Some (db', y)"
    and "\<forall>s \<in> set frm. s \<notin> {CaptchaPassed, CaptchaFailed, CaptchaCancelled}"
    and "\<And>r. captchaKey (f r) = captchaKey r"
  shows "over ch u db'"
  unfolding updateCaptcha_form(1) [OF assms(2)] using assms(3)
  by (intro over_upd [OF assms(1)]) (auto simp: assms(4) ended_def)

lemma mayMove_live: "mayMove s to \<Longrightarrow> s \<notin> {CaptchaPassed, CaptchaFailed, CaptchaCancelled}"
  by (cases s) auto

interpretation final: captcha_everywhere "over ch u" "\<lambda>_. True" UNIV
proof
  fix db db' c v a frm to y
  assume "over ch u db" "TransitionCaptcha c v a frm to db = Some (db', y)" "\<forall>s\<in>set frm. mayMove s to"
  then show "over ch u db'"
    unfolding TransitionCaptcha_def using mayMove_live by - (erule over_updateCaptcha, assumption, auto simp: captchaKey_def)
next
  fix db db' c v a d y
  assume "over ch u db" "MarkCaptchaPassing c v a d db = Some (db', y)"
  then show "over ch u db'"
    unfolding MarkCaptchaPassing_def by - (erule over_updateCaptcha, assumption, auto simp: captchaKey_def)
next
  fix db db' c v a frm act y
  assume "over ch u db" "FailCaptcha c v a frm act db = Some (db', y)" "set frm \<subseteq> {CaptchaNew, CaptchaChallenged}"
  then show "over ch u db'"
    unfolding FailCaptcha_def by - (erule over_updateCaptcha, assumption, auto simp: captchaKey_def)
next
  fix db db' c v a d y
  assume "over ch u db" "RetryCaptcha c v a d db = Some (db', y)"
  then show "over ch u db'"
    by (auto simp: RetryCaptcha_def Let_def captchaKey_def ended_def intro!: over_upd split: if_splits)
next
  fix db db' c v a p e m d row
  assume "over ch u db" "SetCaptchaPrompt c v a p e m d db = Some (db', row)"
  then show "over ch u db'"
    by (auto simp: SetCaptchaPrompt_def Let_def captchaKey_def ended_def intro!: over_upd split: if_splits option.splits)
qed simp_all


text \<open>The table does not grow.\<close>

definition rowsMax :: "nat \<Rightarrow> db \<Rightarrow> bool" where
  "rowsMax n db \<longleftrightarrow> length (db_captcha db) \<le> n"

lemma rowsMax_upd [simp]: "rowsMax n (updCaptcha P f db) = rowsMax n db"
  by (simp add: rowsMax_def updCaptcha_def)

lemma rowsMax_updateCaptcha: "updateCaptcha c v a frm f db = Some (db', y) \<Longrightarrow> rowsMax n db \<Longrightarrow> rowsMax n db'"
  using updateCaptcha_form(1) [of c v a frm f db db' y] by simp

interpretation bounded: captcha_everywhere "rowsMax n" "\<lambda>_. True" UNIV
  by unfold_locales
    (auto simp: TransitionCaptcha_def MarkCaptchaPassing_def FailCaptcha_def RetryCaptcha_def SetCaptchaPrompt_def Let_def
      elim: rowsMax_updateCaptcha split: if_splits option.splits)

section \<open>A sweep\<close>

lemma here_rowIs: "here r = rowIs (cr_ChatID r) (cr_UserID r) (Some r)"
  by (simp add: here_def rowIs_def fun_eq_iff)

lemma hoare_ex: "(\<And>a. hoare Q (P a) m R) \<Longrightarrow> hoare Q (\<lambda>db. \<exists>a. P a db) m R"
  unfolding hoare_def by blast

lemma others_row:
  assumes "quiet E" and "captchaKey x \<noteq> captchaKey r"
  shows "safe (here r) anyEvent (sweepRow E c x)"
  unfolding here_rowIs using assms
  by (intro others.g_sweepRow quiet_setting) (simp_all add: captchaKey_def)

lemma others_rows:
  assumes "quiet E" and "\<forall>x \<in> set rows. captchaKey x \<noteq> captchaKey r"
  shows "safe (here r) anyEvent (sweepRows E c n rows)"
  unfolding here_rowIs using assms
  by (intro others.g_sweepRows quiet_setting) (simp_all add: captchaKey_def)

lemma no_ctx: "en_ctx E = (\<lambda>_. None) \<Longrightarrow> hoare Q P (ctxErr E) (\<lambda>x db. x = None \<and> P db)"
  by (rule hoare_ctx) simp

lemma advance_rows:
  assumes q: "quiet E" and now: "en_now E = (\<lambda>_. t)" and ctx: "en_ctx E = (\<lambda>_. None)"
    and "pendingEnd r" and "r \<in> set rows" and "distinct (map captchaKey rows)"
  shows "hoare anyEvent (here r) (sweepRows E c n rows) (\<lambda>_. advanced t r)"
  using assms(5,6)
proof (induction rows arbitrary: n)
  case Nil
  then show ?case by simp
next
  case (Cons x rows)
  show ?case
  proof (cases "x = r")
    case True
    have rest: "hoare anyEvent (advanced t r) (sweepRows E c m rows) (\<lambda>_. advanced t r)" for m
      unfolding advanced_def
    proof (rule hoare_ex)
      fix r'
      show "hoare anyEvent (\<lambda>db. here r' db \<and> advances t r r') (sweepRows E c m rows)
          (\<lambda>_ db. \<exists>r'. here r' db \<and> advances t r r')"
      proof (cases "advances t r r'")
        case False
        then show ?thesis by (intro hoare_false) simp
      next
        case adv: True
        have "\<forall>y \<in> set rows. captchaKey y \<noteq> captchaKey r'"
          using Cons.prems(2) True adv by (auto simp: advances_def image_iff)
        then have "hoare anyEvent (here r') (sweepRows E c m rows) (\<lambda>_. here r')"
          by (intro hoare_skip others_rows [OF q])
        then show ?thesis by (rule hoare_pre [OF hoare_post]) (use adv in blast)+
      qed
    qed
    show ?thesis unfolding sweepRows.simps True
      by (rule hoare_bind_value [OF no_ctx [OF ctx]], unfold option.case,
          rule hoare_bind [OF advance_row [OF q now assms(4)]], rule rest)
  next
    case False
    then have r: "r \<in> set rows" using Cons.prems(1) by simp
    then have "captchaKey x \<noteq> captchaKey r" using Cons.prems(2) by auto
    then show ?thesis unfolding sweepRows.simps
      using Cons.IH [OF r] Cons.prems(2)
      by (intro hoare_bind_value [OF no_ctx [OF ctx]]) (simp, intro hoare_bind_skip [OF others_row [OF q]], simp_all)
  qed
qed

lemma due_rows:
  assumes "here r db" and "rowsMax 100 db" and "pendingEnd r" and "cr_Deadline r \<le> t"
  shows "r \<in> set (DueCaptchas t 100 db)" "distinct (map captchaKey (DueCaptchas t 100 db))"
proof -
  let ?due = "filter (\<lambda>r. cr_State r \<in> {CaptchaNew, CaptchaChallenged, CaptchaFailing, CaptchaPassing} \<and>
      cr_Deadline r \<le> t) (db_captcha db)"
  have "length ?due \<le> 100" using assms(2) le_trans [OF length_filter_le] by (simp add: rowsMax_def)
  then have due: "DueCaptchas t 100 db = sort_key dueKey ?due" by (simp add: DueCaptchas_def)
  have "r \<in> set (db_captcha db)" using assms(1) findBy_Some by (fastforce simp: here_def GetCaptcha_def)
  then show "r \<in> set (DueCaptchas t 100 db)" using assms(3,4) by (auto simp: due pendingEnd_def)
  have "distinct (map captchaKey ?due)" using assms(1) by (simp add: here_def captchaInv_def distinct_map_filter)
  then show "distinct (map captchaKey (DueCaptchas t 100 db))"
    unfolding due distinct_map distinct_sort set_sort .
qed

lemma advance_sweep:
  assumes q: "quiet E" and now: "en_now E = (\<lambda>_. t)" and ctx: "en_ctx E = (\<lambda>_. None)"
    and p: "pendingEnd r" and "cr_Deadline r \<le> t"
  shows "hoare anyEvent (\<lambda>db. here r db \<and> rowsMax 100 db) (CaptchaSweep E c) (\<lambda>_. advanced t r)"
proof -
  have due: "hoare anyEvent (\<lambda>db. here r db \<and> rowsMax 100 db) (query E (\<lambda>db. Some (DueCaptchas t 100 db)))
      (\<lambda>x db. (\<exists>rows. x = Inr rows \<and> r \<in> set rows \<and> distinct (map captchaKey rows)) \<and> here r db)"
    by (rule hoare_query_quiet [OF q]) (use due_rows [OF _ _ p assms(5)] in auto)
  have rows: "hoare anyEvent
      (\<lambda>db. (\<exists>rows. x = Inr rows \<and> r \<in> set rows \<and> distinct (map captchaKey rows)) \<and> here r db)
      (case x of Inl e \<Rightarrow> State_Monad.return (0, Some e) | Inr rows \<Rightarrow> sweepRows E c 0 rows)
      (\<lambda>_. advanced t r)" for x :: "goerr + captcha_rec list"
    by (rule hoare_assume) (auto intro: advance_rows [OF q now ctx p])
  have "hoare anyEvent (\<lambda>db. here r db \<and> rowsMax 100 db) (clock E)
      (\<lambda>n db. n = t \<and> here r db \<and> rowsMax 100 db)"
    by (rule hoare_clock) (simp add: now)
  then show ?thesis unfolding CaptchaSweep_def
    by (rule hoare_bind_value) (rule hoare_bind [OF due rows])
qed


section \<open>Every row that is failed or released ends\<close>

text \<open>Sweeps at least a minute apart, the first at \<open>t\<close> or later.\<close>

fun minutely :: "unix_time \<Rightarrow> (env \<times> captcha) list \<Rightarrow> bool" where
  "minutely t [] = True"
| "minutely t ((E, c) # es) =
     (t \<le> en_now E 0 \<and> quiet E \<and> en_now E = (\<lambda>_. en_now E 0) \<and> en_ctx E = (\<lambda>_. None) \<and>
      minutely (en_now E 0 + 60) es)"

definition sweeps :: "(env \<times> captcha) list \<Rightarrow> world \<Rightarrow> world" where
  "sweeps es w = runOps (map (\<lambda>(E, c). (E, c, captcha_op.OpSweep)) es) w"

lemma minutely_quiet: "minutely t es \<Longrightarrow> (E, c) \<in> set es \<Longrightarrow> quiet E"
  by (induction t es rule: minutely.induct) auto

lemma after_sweep: "after (runOp E c captcha_op.OpSweep) w = after (CaptchaSweep E c) w"
  by (simp add: runOp_def after_def run_bind run_return split: prod.split)

lemma sweeps_over: "\<forall>(E, c) \<in> set es. quiet E \<Longrightarrow> over ch u (w_db w) \<Longrightarrow> over ch u (w_db (sweeps es w))"
proof (induction es arbitrary: w)
  case Nil
  then show ?case by (simp add: sweeps_def)
next
  case (Cons x es)
  obtain E c where x: "x = (E, c)" by (cases x)
  have "over ch u (w_db (after (CaptchaSweep E c) w))"
    using guardedD(2) [OF final.g_CaptchaSweep [OF quiet_setting]] Cons.prems x by simp
  then show ?case using Cons.IH Cons.prems x by (simp add: sweeps_def after_sweep)
qed

lemma sweeps_end:
  assumes "minutely (cr_Deadline r) es" and "es \<noteq> []" and "6 \<le> int (length es) + cr_Tries r"
    and "here r (w_db w)" and "rowsMax 100 (w_db w)" and "pendingEnd r"
  shows "over (cr_ChatID r) (cr_UserID r) (w_db (sweeps es w))"
  using assms
proof (induction es arbitrary: r w)
  case Nil
  then show ?case by simp
next
  case (Cons x es)
  obtain E c where x: "x = (E, c)" by (cases x)
  define s where "s = en_now E 0"
  have s: "cr_Deadline r \<le> s" "quiet E" "en_now E = (\<lambda>_. s)" "en_ctx E = (\<lambda>_. None)" "minutely (s + 60) es"
    using Cons.prems(1) unfolding x s_def by simp_all
  let ?w = "after (CaptchaSweep E c) w"
  have sw: "sweeps (x # es) w = sweeps es ?w" by (simp add: sweeps_def x after_sweep)
  have "advanced s r (w_db ?w)"
    using hoareD(2) [OF advance_sweep [OF s(2,3,4) Cons.prems(6) s(1)]] Cons.prems(4,5) by blast
  then obtain r' where r': "here r' (w_db ?w)" "captchaKey r' = captchaKey r"
    "ended r' \<or> cr_Tries r < 5 \<and> r' = retried s r"
    unfolding advanced_def advances_def captchaGiveUpTries_def by blast
  have key: "cr_ChatID r' = cr_ChatID r" "cr_UserID r' = cr_UserID r" using r'(2) by (simp_all add: captchaKey_def)
  show ?case
  proof (cases "ended r'")
    case True
    then have "over (cr_ChatID r) (cr_UserID r) (w_db ?w)" using r'(1) key by (auto simp: over_def here_def)
    then show ?thesis unfolding sw using minutely_quiet [OF s(5)] by (intro sweeps_over) auto
  next
    case False
    then have low: "cr_Tries r < 5" and re: "r' = retried s r" using r'(3) by auto
    have "rowsMax 100 (w_db ?w)"
      using guardedD(2) [OF bounded.g_CaptchaSweep [OF quiet_setting [OF s(2)]]] Cons.prems(5) by blast
    moreover have "pendingEnd r'" using Cons.prems(6) by (simp add: re pendingEnd_def retried_def)
    moreover have "es \<noteq> []" "6 \<le> int (length es) + cr_Tries r'" "minutely (cr_Deadline r') es"
      using Cons.prems(3) low s(5) by (auto simp: re retried_def)
    ultimately show ?thesis unfolding sw using Cons.IH [of r' ?w] r'(1) key by simp
  qed
qed


text \<open>Telegram refuses everything, at one sweep a minute.\<close>

definition demoDown :: "unix_time \<Rightarrow> env" where
  "demoDown t = (quietEnv (\<lambda>n c. okReply\<lparr>pr_err := Some (newErr [])\<rparr>))\<lparr>en_now := (\<lambda>_. t)\<rparr>"


end
