(* ===== verification/Callbacks.thy ===== *)
theory Callbacks
  imports StoreCorpus Effects
begin

text \<open>
  \<open>internal/admin/callbacks.go\<close>: the buttons under a verdict card. A press
  is parsed, the presser's rights are checked, one decision per incident is
  claimed, and only then something is done: a sanction lifted, a sample and
  its tokens learned, a reported incident enforced, the evidence deleted. The
  trainer and the enforcer are injected, as in the source.
\<close>

section \<open>Actions and their data\<close>

datatype admin_action = ActFalsePositive | ActLiftNoLearn | ActConfirmSpam | ActDeleteEvidence | ActEnforce

fun actName :: "admin_action \<Rightarrow> string" where
  "actName ActFalsePositive = ''fp''"
| "actName ActLiftNoLearn = ''lift''"
| "actName ActConfirmSpam = ''confirm''"
| "actName ActDeleteEvidence = ''delevi''"
| "actName ActEnforce = ''enf''"

record callback =
  cb_ID :: string
  cb_Data :: string
  cb_PresserID :: user_id
  cb_AdminChatID :: chat_id
  cb_MessageID :: message_id

definition encode :: "admin_action \<Rightarrow> string \<Rightarrow> string" where
  "encode act incidentKey = actName act @ '':'' @ incidentKey"

definition mkButton :: "string \<Rightarrow> admin_action \<Rightarrow> string \<Rightarrow> button" where
  "mkButton t act key = \<lparr>bt_Text = lit t, bt_Data = encode act key\<rparr>"

definition Buttons :: "string \<Rightarrow> bool \<Rightarrow> buttons" where
  "Buttons incidentKey unenforced =
     [[mkButton ''False positive'' ActFalsePositive incidentKey, mkButton ''Lift (no learn)'' ActLiftNoLearn incidentKey],
      [mkButton ''Confirm spam'' ActConfirmSpam incidentKey, mkButton ''Delete evidence'' ActDeleteEvidence incidentKey]]
     @ (if unenforced then [[mkButton ''Spam: enforce now'' ActEnforce incidentKey]] else [])"

definition actionOf :: "string \<Rightarrow> admin_action option" where
  "actionOf s = first (\<lambda>a. actName a = s) [ActFalsePositive, ActLiftNoLearn, ActConfirmSpam, ActDeleteEvidence, ActEnforce]"

definition ParseCallback :: "string \<Rightarrow> (admin_action \<times> string) option" where
  "ParseCallback data =
     (case Cut (CHR '':'') data of
        None \<Rightarrow> None
      | Some (act, key) \<Rightarrow>
          if act = [] \<or> key = [] then None
          else (case actionOf act of None \<Rightarrow> None | Some a \<Rightarrow> Some (a, key)))"

section \<open>The handler\<close>

record handler =
  hd_Operators :: "user_id list"
  hd_Trainer :: "(chat_id \<Rightarrow> string \<Rightarrow> str list \<Rightarrow> goerr option act) option"
  hd_Enforcer :: "(incident_row \<Rightarrow> (bool \<times> bool \<times> goerr option) act) option"
  hd_HasDB :: bool

definition decisionScope :: string where "decisionScope = ''incident''"

definition staleText :: str where
  "staleText = [0x443, 0x441, 0x442, 0x430, 0x440, 0x435, 0x43B, 0x43E, 44, 32, 0x441, 0x43C, 46, 32,
     0x43D, 0x43E, 0x432, 0x443, 0x44E, 32, 0x43A, 0x430, 0x440, 0x442, 0x43E, 0x447, 0x43A, 0x443]"

definition Authorized :: "env \<Rightarrow> handler \<Rightarrow> chat_id \<Rightarrow> user_id \<Rightarrow> (goerr + bool) act" where
  "Authorized E h sourceChatID presserID =
     (if List.member (hd_Operators h) presserID then State_Monad.return (Inr True)
      else do {
        r \<leftarrow> call E (GetChatAdministrators sourceChatID);
        State_Monad.return
          (case pr_err r of
             Some e \<Rightarrow> Inl (wrapErr (lit ''get chat administrators: '') e [])
           | None \<Rightarrow> Inr (list_ex (\<lambda>m. mb_UserID m = presserID) (pr_members r)))
      })"

definition answer :: "env \<Rightarrow> callback \<Rightarrow> str \<Rightarrow> goerr option act" where
  "answer E cb t = do { r \<leftarrow> call E (AnswerCallback (cb_ID cb) t); State_Monad.return (pr_err r) }"

text \<open>\<open>Handler.Answer\<close>, the reply to a press that was never handled.\<close>

definition AnswerDropped :: "env \<Rightarrow> callback \<Rightarrow> str \<Rightarrow> goerr option act" where
  "AnswerDropped E cb t = answer E cb t"

definition failed :: "env \<Rightarrow> callback \<Rightarrow> str \<Rightarrow> goerr \<Rightarrow> goerr option act" where
  "failed E cb t err = do {
     a \<leftarrow> answer E cb t;
     _ \<leftarrow> (case a of None \<Rightarrow> State_Monad.return () | Some e \<Rightarrow> logLine (lit ''answer failed callback: '' @ ge_text e));
     State_Monad.return (Some err)
   }"

definition showID :: "int \<Rightarrow> str" where "showID i = lit (FormatInt i)"

definition releaseClaim :: "env \<Rightarrow> int \<Rightarrow> admin_action \<Rightarrow> unit act" where
  "releaseClaim E iid act = do {
     r \<leftarrow> store E ''ReleaseDecision'' iid (\<lambda>now. ReleaseDecision iid (actName act));
     case r of
       Inl e \<Rightarrow> logLine (lit ''release decision claim on incident '' @ showID iid @ lit '': '' @ ge_text e)
     | Inr _ \<Rightarrow> State_Monad.return ()
   }"

definition staleCard :: "env \<Rightarrow> callback \<Rightarrow> str act" where
  "staleCard E cb = do { _ \<leftarrow> call E (EditAdminMarkup (cb_AdminChatID cb) (cb_MessageID cb) []); State_Monad.return staleText }"

definition decisionLabel :: "string \<Rightarrow> str" where
  "decisionLabel decision =
     (case actionOf decision of
        Some ActFalsePositive \<Rightarrow> lit ''false positive''
      | Some ActConfirmSpam \<Rightarrow> lit ''confirmed spam''
      | Some ActLiftNoLearn \<Rightarrow> lit ''lifted''
      | Some ActEnforce \<Rightarrow> lit ''enforced''
      | _ \<Rightarrow> if decision = [] then lit ''unknown'' else lit decision)"

definition enforceReply :: "bool \<Rightarrow> bool \<Rightarrow> str" where
  "enforceReply sanctioned deleted =
     (if sanctioned \<and> deleted then lit ''enforced: message removed, sanction applied''
      else if sanctioned
        then lit ''sanction applied, but the message is STILL THERE '' @ [0x2014] @ lit '' remove it by hand''
      else lit ''message removed, but the sanction FAILED '' @ [0x2014] @ lit '' press Enforce again or apply it by hand'')"

definition joinReply :: "str \<Rightarrow> str \<Rightarrow> str \<Rightarrow> str" where
  "joinReply decision lifted trained =
     Join (lit ''; '') ([decision]
       @ (if lifted \<noteq> [] then [lifted @ lit '' (deleted messages cannot be restored)''] else [])
       @ (if trained \<noteq> [] then [trained] else []))"

section \<open>Undoing a sanction\<close>

definition undoUnknown :: "env \<Rightarrow> incident_row \<Rightarrow> (goerr + str) act" where
  "undoUnknown E inc = do {
     b \<leftarrow> call E (UnbanMember (rw_ChatID inc) (rw_UserID inc));
     case pr_err b of
       Some e \<Rightarrow> State_Monad.return (Inl (wrapErr
         (lit ''unban user '' @ showID (rw_UserID inc) @ lit '' in chat '' @ showID (rw_ChatID inc) @ lit '': '') e []))
     | None \<Rightarrow> do {
         u \<leftarrow> call E (UnrestrictMember (rw_ChatID inc) (rw_UserID inc));
         State_Monad.return
           (case pr_err u of
              Some e \<Rightarrow> Inl (wrapErr
                (lit ''unmute user '' @ showID (rw_UserID inc) @ lit '' in chat '' @ showID (rw_ChatID inc) @ lit '': '') e [])
            | None \<Rightarrow> Inr (if rw_Action inc = ActionBan then lit ''unbanned'' else lit ''unmuted''))
       }
   }"

definition undo :: "env \<Rightarrow> incident_row \<Rightarrow> (goerr + str) act" where
  "undo E inc =
     (if \<not> Sanctioned inc then State_Monad.return (Inr [])
      else if rw_SenderChatID inc \<noteq> 0 then do {
        r \<leftarrow> call E (UnbanSenderChat (rw_ChatID inc) (rw_SenderChatID inc));
        State_Monad.return
          (case pr_err r of
             Some e \<Rightarrow> Inl (wrapErr
               (lit ''unban channel '' @ showID (rw_SenderChatID inc) @ lit '' in chat '' @ showID (rw_ChatID inc) @ lit '': '') e [])
           | None \<Rightarrow> Inr (lit ''channel unbanned''))
      }
      else if rw_UserID inc = 0 then State_Monad.return (Inr [])
      else if rw_State inc = StateSanctionUnknown then undoUnknown E inc
      else if rw_Action inc = ActionBan then do {
        r \<leftarrow> call E (UnbanMember (rw_ChatID inc) (rw_UserID inc));
        State_Monad.return
          (case pr_err r of
             Some e \<Rightarrow> Inl (wrapErr
               (lit ''unban user '' @ showID (rw_UserID inc) @ lit '' in chat '' @ showID (rw_ChatID inc) @ lit '': '') e [])
           | None \<Rightarrow> Inr (lit ''unbanned''))
      }
      else if rw_Action inc = ActionMute \<or> rw_Action inc = ActionDeleteMute then do {
        r \<leftarrow> call E (UnrestrictMember (rw_ChatID inc) (rw_UserID inc));
        State_Monad.return
          (case pr_err r of
             Some e \<Rightarrow> Inl (wrapErr
               (lit ''unmute user '' @ showID (rw_UserID inc) @ lit '' in chat '' @ showID (rw_ChatID inc) @ lit '': '') e [])
           | None \<Rightarrow> Inr (lit ''unmuted''))
      }
      else State_Monad.return (Inr []))"

section \<open>Training\<close>

record train_result =
  tr_Reply :: str
  tr_Trained :: bool
  tr_Err :: "goerr option"

definition trainResult :: "string \<Rightarrow> bool \<Rightarrow> goerr option \<Rightarrow> train_result" where
  "trainResult reply trained err = \<lparr>tr_Reply = lit reply, tr_Trained = trained, tr_Err = err\<rparr>"

definition trainIncident ::
  "env \<Rightarrow> (chat_id \<Rightarrow> string \<Rightarrow> str list \<Rightarrow> goerr option act) option \<Rightarrow> incident_row \<Rightarrow> string \<Rightarrow> train_result act" where
  "trainIncident E trainer inc label =
     (case trainer of
        None \<Rightarrow> State_Monad.return (trainResult [] False None)
      | Some f \<Rightarrow> do {
          got \<leftarrow> query E (\<lambda>db. Some (GetIncidentTokens (rw_ID inc) db));
          case got of
            Inl e \<Rightarrow> State_Monad.return (trainResult ''not trained'' False (Some (wrapErr (lit ''read incident tokens: '') e [])))
          | Inr (tokens, ok) \<Rightarrow>
              if \<not> ok then State_Monad.return (trainResult ''not trained'' False None)
              else do {
                err \<leftarrow> f (rw_ChatID inc) label tokens;
                case err of
                  Some e \<Rightarrow> State_Monad.return (trainResult ''not trained'' False (Some (wrapErr (lit ''train: '') e [])))
                | None \<Rightarrow> do {
                    _ \<leftarrow> store E ''DeleteIncidentTokens'' (rw_ID inc) (\<lambda>now. DeleteIncidentTokens (rw_ID inc));
                    State_Monad.return (trainResult (''trained '' @ label) True None)
                  }
              }
        })"

definition train :: "env \<Rightarrow> handler \<Rightarrow> incident_row \<Rightarrow> string \<Rightarrow> str act" where
  "train E h inc label = do {
     r \<leftarrow> trainIncident E (hd_Trainer h) inc label;
     State_Monad.return (tr_Reply r)
   }"

definition recordSample :: "env \<Rightarrow> incident_row \<Rightarrow> admin_action \<Rightarrow> string \<Rightarrow> (goerr + bool) act" where
  "recordSample E inc act origin =
     store E ''InsertSample'' (rw_ID inc) (\<lambda>now. InsertSample decisionScope (actName act) origin (showID (rw_ID inc)))"

definition RecordConfirmation ::
  "env \<Rightarrow> incident_row \<Rightarrow> string \<Rightarrow> (chat_id \<Rightarrow> string \<Rightarrow> str list \<Rightarrow> goerr option act) option \<Rightarrow> (goerr + train_result) act" where
  "RecordConfirmation E inc origin trainer = do {
     s \<leftarrow> recordSample E inc ActConfirmSpam origin;
     case s of
       Inl e \<Rightarrow> State_Monad.return (Inl e)
     | Inr _ \<Rightarrow> do { r \<leftarrow> trainIncident E trainer inc ''spam''; State_Monad.return (Inr r) }
   }"

definition dropTokens :: "env \<Rightarrow> int \<Rightarrow> unit act" where
  "dropTokens E iid = do {
     _ \<leftarrow> store E ''DeleteIncidentTokens'' iid (\<lambda>now. DeleteIncidentTokens iid);
     State_Monad.return ()
   }"

section \<open>The actions\<close>

definition doFalsePositive :: "env \<Rightarrow> handler \<Rightarrow> incident_row \<Rightarrow> (goerr + str) act" where
  "doFalsePositive E h inc = do {
     l \<leftarrow> undo E inc;
     case l of
       Inl e \<Rightarrow> do { _ \<leftarrow> releaseClaim E (rw_ID inc) ActFalsePositive; State_Monad.return (Inl e) }
     | Inr lifted \<Rightarrow> do {
         s \<leftarrow> recordSample E inc ActFalsePositive ''user'';
         case s of
           Inl e \<Rightarrow> State_Monad.return (Inl e)
         | Inr _ \<Rightarrow> do {
             trained \<leftarrow> train E h inc ''ham'';
             State_Monad.return (Inr (joinReply (lit ''marked false positive'') lifted trained))
           }
       }
   }"

definition doConfirmSpam :: "env \<Rightarrow> handler \<Rightarrow> incident_row \<Rightarrow> (goerr + str) act" where
  "doConfirmSpam E h inc = do {
     r \<leftarrow> RecordConfirmation E inc ''user'' (hd_Trainer h);
     case r of
       Inl e \<Rightarrow> do { _ \<leftarrow> releaseClaim E (rw_ID inc) ActConfirmSpam; State_Monad.return (Inl e) }
     | Inr c \<Rightarrow> State_Monad.return (Inr (joinReply (lit ''confirmed spam'') [] (tr_Reply c)))
   }"

definition doLift :: "env \<Rightarrow> incident_row \<Rightarrow> (goerr + str) act" where
  "doLift E inc = do {
     l \<leftarrow> undo E inc;
     case l of
       Inl e \<Rightarrow> do { _ \<leftarrow> releaseClaim E (rw_ID inc) ActLiftNoLearn; State_Monad.return (Inl e) }
     | Inr lifted \<Rightarrow> do {
         _ \<leftarrow> dropTokens E (rw_ID inc);
         State_Monad.return (Inr (joinReply (lit ''lifted (not learned)'') lifted []))
       }
   }"

text \<open>After an enforcement that sanctioned: the claim goes back only when the row
  itself refuses a second one.\<close>

definition settleEnforced :: "env \<Rightarrow> handler \<Rightarrow> incident_row \<Rightarrow> bool \<Rightarrow> (goerr + str) act" where
  "settleEnforced E h inc deleted = do {
     again \<leftarrow> query E (\<lambda>db. Some (GetIncident (rw_ID inc) db));
     _ \<leftarrow> (case again of
            Inl e \<Rightarrow> logLine (lit ''incident '' @ showID (rw_ID inc)
              @ lit '': re-reading after enforcement failed, undo stays claimed: '' @ ge_text e)
          | Inr None \<Rightarrow> logLine (lit ''incident '' @ showID (rw_ID inc)
              @ lit '': re-reading after enforcement failed, undo stays claimed: sql: no rows in result set'')
          | Inr (Some row) \<Rightarrow>
              if \<not> rw_DryRun row then releaseClaim E (rw_ID inc) ActEnforce else State_Monad.return ());
     s \<leftarrow> recordSample E inc ActEnforce ''user'';
     case s of
       Inl e \<Rightarrow> State_Monad.return (Inl e)
     | Inr _ \<Rightarrow> do {
         trained \<leftarrow> train E h inc ''spam'';
         State_Monad.return (Inr (joinReply (enforceReply True deleted) [] trained))
       }
   }"

definition doEnforce :: "env \<Rightarrow> handler \<Rightarrow> incident_row \<Rightarrow> (goerr + str) act" where
  "doEnforce E h inc =
     (case hd_Enforcer h of
        None \<Rightarrow> do {
          _ \<leftarrow> releaseClaim E (rw_ID inc) ActEnforce;
          State_Monad.return (Inr (lit ''enforcement not available''))
        }
      | Some enforcer \<Rightarrow>
          if \<not> rw_DryRun inc then do {
            _ \<leftarrow> releaseClaim E (rw_ID inc) ActEnforce;
            State_Monad.return (Inr (lit ''already enforced''))
          }
          else do {
            res \<leftarrow> enforcer inc;
            (case res of (sanctioned, deleted, err) \<Rightarrow>
              if \<not> sanctioned \<and> \<not> deleted then do {
                _ \<leftarrow> releaseClaim E (rw_ID inc) ActEnforce;
                State_Monad.return (Inl (case err of None \<Rightarrow> newErr (lit ''enforcement did nothing'') | Some e \<Rightarrow> e))
              }
              else do {
                _ \<leftarrow> (case err of None \<Rightarrow> State_Monad.return ()
                      | Some e \<Rightarrow> logLine (lit ''incident '' @ showID (rw_ID inc) @ lit '': partial enforcement: '' @ ge_text e));
                if \<not> sanctioned then do {
                  _ \<leftarrow> releaseClaim E (rw_ID inc) ActEnforce;
                  State_Monad.return (Inr (enforceReply sanctioned deleted))
                }
                else settleEnforced E h inc deleted
              })
          })"

definition deleteEvidence :: "env \<Rightarrow> int \<Rightarrow> incident_card \<Rightarrow> (goerr + nat) act" where
  "deleteEvidence E iid crd = do {
     got \<leftarrow> query E (\<lambda>db. Some (ListEvidence iid (Some crd) db));
     case got of
       Inl e \<Rightarrow> State_Monad.return (Inl e)
     | Inr (adminChatID, ids) \<Rightarrow>
         if length ids = 0 then State_Monad.return (Inr 0)
         else do {
           d \<leftarrow> call E (DeleteMessages adminChatID ids);
           case pr_err d of
             Some e \<Rightarrow> State_Monad.return (Inl (wrapErr (lit ''delete evidence in chat '' @ showID adminChatID @ lit '': '') e []))
           | None \<Rightarrow> do {
               x \<leftarrow> store E ''DeleteEvidenceSet'' iid (\<lambda>now. DeleteEvidenceSet iid adminChatID ids);
               State_Monad.return (case x of Inl e \<Rightarrow> Inl e | Inr _ \<Rightarrow> Inr (length ids))
             }
         }
   }"

definition doDeleteEvidence :: "env \<Rightarrow> incident_row \<Rightarrow> incident_card \<Rightarrow> (goerr + str) act" where
  "doDeleteEvidence E inc crd = do {
     r \<leftarrow> deleteEvidence E (rw_ID inc) crd;
     State_Monad.return
       (case r of
          Inl e \<Rightarrow> Inl e
        | Inr n \<Rightarrow> Inr (if n = 0 then lit ''no evidence to delete''
                        else lit ''deleted '' @ showID (int n) @ lit '' evidence message(s)''))
   }"

section \<open>Dispatch\<close>

definition callbackCard :: "callback \<Rightarrow> incident_card" where
  "callbackCard cb = \<lparr>ic_ChatID = cb_AdminChatID cb, ic_MessageID = cb_MessageID cb\<rparr>"

text \<open>The claim every action but deletion takes: an answer that ends the press,
  or the incident as it is read again under the claim.\<close>

definition claimPhase :: "env \<Rightarrow> admin_action \<Rightarrow> incident_row \<Rightarrow> callback \<Rightarrow> ((goerr + str) + incident_row) act" where
  "claimPhase E act inc cb = do {
     c \<leftarrow> store E ''RecordDecision'' (rw_ID inc) (\<lambda>now. RecordDecision (rw_ID inc) (actName act));
     case c of
       Inl e \<Rightarrow> State_Monad.return (Inl (Inl e))
     | Inr (claimed, existing) \<Rightarrow>
         if claimed then do {
           f \<leftarrow> query E (\<lambda>db. Some (GetIncident (rw_ID inc) db));
           case f of
             Inl e \<Rightarrow> do { _ \<leftarrow> releaseClaim E (rw_ID inc) act; State_Monad.return (Inl (Inl e)) }
           | Inr None \<Rightarrow> do {
               _ \<leftarrow> releaseClaim E (rw_ID inc) act;
               State_Monad.return (Inl (Inl (newErr (lit ''sql: no rows in result set''))))
             }
           | Inr (Some fresh) \<Rightarrow> State_Monad.return (Inr fresh)
         }
         else if existing \<noteq> actName ActEnforce then do {
           cur \<leftarrow> query E (\<lambda>db. Some (IsIncidentCard (rw_ID inc) (callbackCard cb) db));
           case cur of
             Inl e \<Rightarrow> State_Monad.return (Inl (Inl e))
           | Inr current \<Rightarrow>
               if \<not> current then do { t \<leftarrow> staleCard E cb; State_Monad.return (Inl (Inr t)) }
               else State_Monad.return (Inl (Inr (lit ''already decided: '' @ decisionLabel existing)))
         }
         else State_Monad.return (Inl (Inr (lit ''already decided: '' @ decisionLabel existing)))
   }"

definition perform :: "env \<Rightarrow> handler \<Rightarrow> admin_action \<Rightarrow> incident_row \<Rightarrow> callback \<Rightarrow> (goerr + str) act" where
  "perform E h act inc cb =
     (case act of
        ActFalsePositive \<Rightarrow> doFalsePositive E h inc
      | ActConfirmSpam \<Rightarrow> doConfirmSpam E h inc
      | ActLiftNoLearn \<Rightarrow> doLift E inc
      | ActEnforce \<Rightarrow> doEnforce E h inc
      | ActDeleteEvidence \<Rightarrow> doDeleteEvidence E inc (callbackCard cb))"

definition dispatchOn :: "env \<Rightarrow> handler \<Rightarrow> admin_action \<Rightarrow> incident_row \<Rightarrow> callback \<Rightarrow> (goerr + str) act" where
  "dispatchOn E h act inc cb = do {
     cur \<leftarrow> query E (\<lambda>db. Some (IsIncidentCard (rw_ID inc) (callbackCard cb) db));
     if cur = Inr True then perform E h act inc cb
     else do {
       _ \<leftarrow> (if act \<noteq> ActDeleteEvidence then releaseClaim E (rw_ID inc) act else State_Monad.return ());
       case cur of
         Inl e \<Rightarrow> State_Monad.return (Inl e)
       | Inr _ \<Rightarrow>
           if act = ActDeleteEvidence then State_Monad.return (Inr staleText)
           else do { t \<leftarrow> staleCard E cb; State_Monad.return (Inr t) }
     }
   }"

definition dispatch :: "env \<Rightarrow> handler \<Rightarrow> admin_action \<Rightarrow> incident_row \<Rightarrow> callback \<Rightarrow> (goerr + str) act" where
  "dispatch E h act inc cb =
     (if act = ActDeleteEvidence then dispatchOn E h act inc cb
      else do {
        p \<leftarrow> claimPhase E act inc cb;
        case p of
          Inl res \<Rightarrow> State_Monad.return res
        | Inr fresh \<Rightarrow> dispatchOn E h act fresh cb
      })"

text \<open>\<open>Handler.Handle\<close>; the machine's \<open>Handle\<close> has the name.\<close>

definition HandleCallback :: "env \<Rightarrow> handler \<Rightarrow> callback \<Rightarrow> goerr option act" where
  "HandleCallback E h cb =
     (if \<not> hd_HasDB h then answer E cb (lit ''admin store unavailable'')
      else (case ParseCallback (cb_Data cb) of
        None \<Rightarrow> answer E cb (lit ''invalid callback'')
      | Some (act, key) \<Rightarrow>
          (case ParseInt key of
             None \<Rightarrow> answer E cb (lit ''invalid incident'')
           | Some iid \<Rightarrow> do {
               got \<leftarrow> query E (\<lambda>db. Some (GetIncident iid db));
               case got of
                 Inl e \<Rightarrow> failed E cb (lit ''store unavailable, press again later'')
                   (wrapErr (lit ''lookup incident '' @ showID iid @ lit '': '') e [])
               | Inr None \<Rightarrow> failed E cb (lit ''incident not found'')
                   (newErr (lit ''lookup incident '' @ showID iid @ lit '': sql: no rows in result set''))
               | Inr (Some inc) \<Rightarrow> do {
                   a \<leftarrow> Authorized E h (rw_ChatID inc) (cb_PresserID cb);
                   case a of
                     Inl e \<Rightarrow> failed E cb (lit ''could not check your rights, press again later'')
                       (wrapErr (lit ''authorize presser '' @ showID (cb_PresserID cb) @ lit '': '') e [])
                   | Inr authorized \<Rightarrow>
                       if \<not> authorized then answer E cb (lit ''not authorized'')
                       else do {
                         r \<leftarrow> dispatch E h act inc cb;
                         case r of
                           Inl e \<Rightarrow> failed E cb (lit ''failed, press again'')
                             (wrapErr (lit ''dispatch '' @ lit (actName act) @ lit '': '') e [])
                         | Inr t \<Rightarrow> answer E cb t
                       }
                 }
             })))"

end
