(* ===== verification/CallbackProps.thy ===== *)
theory CallbackProps
  imports Callbacks Runs
begin

text \<open>
  What the buttons guarantee: an unauthorised press does nothing but answer, a
  decided incident is not decided again, a press that failed to lift can be
  repeated, and every button comes back as the action and the incident it was
  made for.
\<close>

section \<open>Rights\<close>

text \<open>Events that change nothing: the read of the administrators, the answer,
  log lines.\<close>

fun onlyAnswers :: "event \<Rightarrow> bool" where
  "onlyAnswers (EvPort (GetChatAdministrators c) r) = True"
| "onlyAnswers (EvPort (AnswerCallback i t) r) = True"
| "onlyAnswers (EvLog s) = True"
| "onlyAnswers _ = False"

lemma g_answer: "safe I onlyAnswers (answer E cb t)"
  unfolding answer_def by (intro guard_intros safe_call) simp

lemma g_failed: "safe I onlyAnswers (failed E cb t e)"
  unfolding failed_def by (intro guard_intros g_answer safe_log) simp

text \<open>The presser is no operator, and on no list of administrators that is
  returned.\<close>

definition outsider :: "env \<Rightarrow> handler \<Rightarrow> user_id \<Rightarrow> bool" where
  "outsider E h u \<longleftrightarrow> \<not> List.member (hd_Operators h) u \<and>
     (\<forall>n c. pr_err (en_port E n (GetChatAdministrators c)) = None \<longrightarrow>
        \<not> list_ex (\<lambda>m. mb_UserID m = u) (pr_members (en_port E n (GetChatAdministrators c))))"

lemma g_Authorized:
  assumes "outsider E h u"
  shows "guarded I onlyAnswers (\<lambda>x. x \<noteq> Inr True) (Authorized E h c u)"
proof -
  have "guarded I onlyAnswers (\<lambda>r. pr_err r = None \<longrightarrow> \<not> list_ex (\<lambda>m. mb_UserID m = u) (pr_members r))
      (call E (GetChatAdministrators c))"
    unfolding guarded_def by (rule hoare_call) (use assms in \<open>auto simp: outsider_def\<close>)
  then have "guarded I onlyAnswers (\<lambda>x. x \<noteq> Inr True)
     (do { r \<leftarrow> call E (GetChatAdministrators c);
           State_Monad.return
             (case pr_err r of Some e \<Rightarrow> Inl (wrapErr (lit ''get chat administrators: '') e [])
              | None \<Rightarrow> Inr (list_ex (\<lambda>m. mb_UserID m = u) (pr_members r))) })"
    by (rule guarded_bind) (auto intro!: guarded_return split: option.splits)
  then show ?thesis using assms by (simp add: Authorized_def outsider_def)
qed

text \<open>C16. Rights come first: a press by somebody who is neither an operator nor an
  administrator of the incident's chat only gets an answer. No transaction is
  attempted, nothing is sent, lifted, learned or deleted, whatever the data of
  the button, the injected trainer and enforcer, and the failures.\<close>

theorem unauthorized_presses_do_nothing:
  assumes "outsider E h (cb_PresserID cb)"
  shows "list_all onlyAnswers (events (HandleCallback E h cb) w)"
proof -
  have auth: "safe (\<lambda>_. True) onlyAnswers (State_Monad.bind (Authorized E h c (cb_PresserID cb)) f)"
    if "\<And>e. safe (\<lambda>_. True) onlyAnswers (f (Inl e))" and "safe (\<lambda>_. True) onlyAnswers (f (Inr False))"
    for c and f :: "goerr + bool \<Rightarrow> goerr option act"
  proof (rule guarded_bind [OF g_Authorized [OF assms]])
    fix x :: "goerr + bool"
    assume "x \<noteq> Inr True"
    then show "safe (\<lambda>_. True) onlyAnswers (f x)" using that by (cases x) auto
  qed
  have "safe (\<lambda>_. True) onlyAnswers (HandleCallback E h cb)"
    unfolding HandleCallback_def
    by (intro guard_intros g_answer g_failed safe_query auth) (simp_all add: stable_def g_answer g_failed)
  then show ?thesis by (rule guardedD(1)) simp
qed

section \<open>One decision\<close>

definition decidedAs :: "int \<Rightarrow> string \<Rightarrow> db \<Rightarrow> bool" where
  "decidedAs i d db \<longleftrightarrow> (\<forall>r \<in> set (db_incidents db). ir_ID r = i \<longrightarrow> ir_Decision r = d)"

lemma RecordDecision_decided:
  assumes "decidedAs i d db" and "d \<noteq> []" and "RecordDecision i a db = Some (db', c, ex)"
  shows "db' = db \<and> \<not> c \<and> ex = d"
proof -
  let ?P = "\<lambda>r. ir_ID r = i \<and> ir_Decision r = []"
  have no: "\<not> ?P r" if "r \<in> set (db_incidents db)" for r using assms(1,2) that by (auto simp: decidedAs_def)
  have "affected ?P (db_incidents db) = 0"
    unfolding affected_def using no by (simp add: filter_empty_conv)
  moreover have "updateWhere ?P (ir_Decision_update (\<lambda>_. a)) (db_incidents db) = db_incidents db"
    unfolding updateWhere_def using no by (intro map_idI) (simp only: if_False)
  then have "updIncidents ?P (ir_Decision_update (\<lambda>_. a)) db = db" by (simp add: updIncidents_def)
  ultimately have "findIncident i db \<noteq> None" "db' = db" "\<not> c" "Some ex = map_option ir_Decision (findIncident i db)"
    using assms(3) by (auto simp: RecordDecision_def Let_def split: option.splits)
  moreover have "ir_Decision r = d" if "findIncident i db = Some r" for r
    using findBy_Some [OF that] assms(1) by (simp add: decidedAs_def)
  ultimately show ?thesis by auto
qed

text \<open>What a press on a decided incident may cause: the reads and the answer, the
  failed claim, and the keyboard of a card that is no longer current going.\<close>

fun onlyRetires :: "event \<Rightarrow> bool" where
  "onlyRetires (EvPort (GetChatAdministrators c) r) = True"
| "onlyRetires (EvPort (AnswerCallback i t) r) = True"
| "onlyRetires (EvPort (EditAdminMarkup c m b) r) = (b = [])"
| "onlyRetires (EvStore n i b) = (n = ''RecordDecision'')"
| "onlyRetires (EvLog s) = True"
| "onlyRetires _ = False"

lemma onlyAnswers_retires: "onlyAnswers e \<Longrightarrow> onlyRetires e"
  by (induction e rule: onlyAnswers.induct) auto

lemma guarded_events: "guarded I Q S m \<Longrightarrow> (\<And>e. Q e \<Longrightarrow> R e) \<Longrightarrow> guarded I R S m"
  unfolding guarded_def hoare_def by (meson list.pred_mono_strong)

lemma g_claimPhase_decided:
  assumes "stable E (decidedAs i d)" and "d \<noteq> []" and "rw_ID inc = i"
  shows "guarded (decidedAs i d) onlyRetires (\<lambda>x. \<exists>r. x = Inl r) (claimPhase E act inc cb)"
  unfolding claimPhase_def
proof (rule guarded_bind)
  show "guarded (decidedAs i d) onlyRetires (\<lambda>x. \<forall>r. x = Inr r \<longrightarrow> \<not> fst r)
      (store E ''RecordDecision'' (rw_ID inc) (\<lambda>now. RecordDecision (rw_ID inc) (actName act)))"
    using RecordDecision_decided [OF _ assms(2)] assms
    by (intro guarded_store) (auto, metis+)
next
  fix x :: "goerr + bool \<times> string"
  assume x: "\<forall>r. x = Inr r \<longrightarrow> \<not> fst r"
  have stale: "safe (decidedAs i d) onlyRetires (staleCard E cb)"
    unfolding staleCard_def by (intro guard_intros safe_call) simp
  show "guarded (decidedAs i d) onlyRetires (\<lambda>x. \<exists>r. x = Inl r)
      (case x of Inl e \<Rightarrow> State_Monad.return (Inl (Inl e))
       | Inr (claimed, existing) \<Rightarrow>
           if claimed then do {
             f \<leftarrow> query E (\<lambda>db. Some (GetIncident (rw_ID inc) db));
             case f of
               Inl e \<Rightarrow> do { _ \<leftarrow> releaseClaim E (rw_ID inc) act; State_Monad.return (Inl (Inl e)) }
             | Inr None \<Rightarrow> do {
                 _ \<leftarrow> releaseClaim E (rw_ID inc) act;
                 State_Monad.return (Inl (Inl (newErr (lit ''sql: no rows in result set''))))
               }
             | Inr (Some fresh) \<Rightarrow> State_Monad.return (Inr fresh)
           }
           else if existing \<noteq> actName ActEnforce then do {
             cur \<leftarrow> query E (\<lambda>db. Some (IsIncidentCard (rw_ID inc) (callbackCard cb) db));
             case cur of
               Inl e \<Rightarrow> State_Monad.return (Inl (Inl e))
             | Inr current \<Rightarrow>
                 if \<not> current then do { t \<leftarrow> staleCard E cb; State_Monad.return (Inl (Inr t)) }
                 else State_Monad.return (Inl (Inr (lit ''already decided: '' @ decisionLabel existing)))
           }
           else State_Monad.return (Inl (Inr (lit ''already decided: '' @ decisionLabel existing))))"
    using x by (cases x) (auto intro!: guard_intros safe_query assms(1) stale guarded_return)
qed

lemma g_dispatch_decided:
  assumes "stable E (decidedAs i d)" and "d \<noteq> []" and "rw_ID inc = i" and "act \<noteq> ActDeleteEvidence"
  shows "safe (decidedAs i d) onlyRetires (dispatch E h act inc cb)"
proof -
  have "safe (decidedAs i d) onlyRetires
      (do { p \<leftarrow> claimPhase E act inc cb;
            case p of Inl res \<Rightarrow> State_Monad.return res | Inr fresh \<Rightarrow> dispatchOn E h act fresh cb })"
    by (rule guarded_bind [OF g_claimPhase_decided [OF assms(1-3)]]) (auto intro: guard_intros)
  then show ?thesis using assms(4) by (simp add: dispatch_def)
qed



section \<open>A press that fails\<close>

abbreviation anything :: "event \<Rightarrow> bool" where
  "anything \<equiv> \<lambda>_. True"

text \<open>The incident carries the decision \<open>d\<close>, the samples are \<open>S\<close> and
  the card is the registered one.\<close>

definition pressed :: "int \<Rightarrow> string \<Rightarrow> sample_rec list \<Rightarrow> incident_card \<Rightarrow> db \<Rightarrow> bool" where
  "pressed i d S crd db \<longleftrightarrow> dbInv db \<and> decisionOf i db = Some d \<and> db_samples db = S \<and> cardCurrent i crd db"

definition decided :: "int \<Rightarrow> string \<Rightarrow> db \<Rightarrow> bool" where
  "decided i d db \<longleftrightarrow> decisionOf i db = Some d"

lemma cardCurrent_updIncidents [simp]: "cardCurrent i crd (updIncidents P f db) = cardCurrent i crd db"
  by (simp add: cardCurrent_def updIncidents_def)

lemma samples_updIncidents [simp]: "db_samples (updIncidents P f db) = db_samples db"
  by (simp add: updIncidents_def)

lemma pressed_claim:
  assumes "pressed i [] S crd db"
  shows "\<exists>db'. RecordDecision i a db = Some (db', True, []) \<and> pressed i a S crd db'"
proof -
  obtain r where r: "findIncident i db = Some r" "ir_Decision r = []"
    using assms by (auto simp: pressed_def decisionOf_def)
  let ?db = "updIncidents (\<lambda>r. ir_ID r = i \<and> ir_Decision r = []) (ir_Decision_update (\<lambda>_. a)) db"
  have "RecordDecision i a db = Some (?db, True, [])"
    using assms r by (simp add: pressed_def RecordDecision_result)
  moreover have "pressed i a S crd ?db"
    using assms r findIncident_ID [OF r(1)] by (auto simp: pressed_def decisionOf_def findBy_updateWhere)
  ultimately show ?thesis by blast
qed

lemma pressed_release:
  assumes "pressed i a S crd db"
  shows "\<exists>db'. ReleaseDecision i a db = Some (db', ()) \<and> pressed i [] S crd db'"
proof -
  obtain r where r: "findIncident i db = Some r" "ir_Decision r = a"
    using assms by (auto simp: pressed_def decisionOf_def)
  have "pressed i [] S crd (updIncidents (\<lambda>r. ir_ID r = i \<and> ir_Decision r = a) (ir_Decision_update (\<lambda>_. [])) db)"
    using assms r findIncident_ID [OF r(1)] by (auto simp: pressed_def decisionOf_def findBy_updateWhere)
  then show ?thesis by (simp add: ReleaseDecision_def)
qed

lemma pressed_found: "pressed i d S crd db \<Longrightarrow> \<exists>inc. GetIncident i db = Some inc \<and> rw_ID inc = i"
  using findIncident_ID [of i db] by (auto simp: pressed_def decisionOf_def GetIncident_def)

lemma h_release:
  assumes "quiet E"
  shows "hoare anything (pressed i (actName act) S crd) (releaseClaim E i act) (\<lambda>_. pressed i [] S crd)"
proof -
  have "hoare anything (pressed i (actName act) S crd)
      (store E ''ReleaseDecision'' i (\<lambda>now. ReleaseDecision i (actName act)))
      (\<lambda>x db. (\<exists>s. x = Inr s) \<and> pressed i [] S crd db)"
    by (rule hoare_store_quiet [OF assms]) (use pressed_release in \<open>fastforce+\<close>)
  then show ?thesis unfolding releaseClaim_def
    by (rule hoare_bind_success) (simp add: hoare_return)
qed

lemma h_claim:
  assumes q: "quiet E" and i: "rw_ID inc = i"
  shows "hoare anything (pressed i [] S crd) (claimPhase E act inc cb)
     (\<lambda>x db. (\<exists>fresh. x = Inr fresh \<and> rw_ID fresh = i) \<and> pressed i (actName act) S crd db)"
proof -
  have claim: "hoare anything (pressed i [] S crd)
      (store E ''RecordDecision'' i (\<lambda>now. RecordDecision i (actName act)))
      (\<lambda>x db. x = Inr (True, []) \<and> pressed i (actName act) S crd db)"
    by (rule hoare_store_quiet [OF q]) (use pressed_claim in \<open>fastforce+\<close>)
  have found: "hoare anything (pressed i (actName act) S crd) (query E (\<lambda>db. Some (GetIncident i db)))
      (\<lambda>x db. (\<exists>fresh. x = Inr (Some fresh) \<and> rw_ID fresh = i) \<and> pressed i (actName act) S crd db)"
    by (rule hoare_query_quiet [OF q]) (use pressed_found in fastforce)
  show ?thesis unfolding claimPhase_def i
  proof (rule hoare_bind_value [OF claim], unfold sum.case prod.case if_True, rule hoare_bind [OF found], rule hoare_assume)
    fix x :: "goerr + incident_row option"
    assume "\<exists>fresh. x = Inr (Some fresh) \<and> rw_ID fresh = i"
    then show "hoare anything (pressed i (actName act) S crd)
        (case x of
           Inl e \<Rightarrow> do { _ \<leftarrow> releaseClaim E i act; State_Monad.return (Inl (Inl e)) }
         | Inr None \<Rightarrow> do { _ \<leftarrow> releaseClaim E i act; State_Monad.return (Inl (Inl (newErr (lit ''sql: no rows in result set'')))) }
         | Inr (Some fresh) \<Rightarrow> State_Monad.return (Inr fresh))
        (\<lambda>x db. (\<exists>fresh. x = Inr fresh \<and> rw_ID fresh = i) \<and> pressed i (actName act) S crd db)"
      by (elim exE conjE) (simp only: sum.case option.case, rule hoare_return, simp)
  qed
qed

text \<open>How a press may end: with an error and the incident as before, or with an
  answer and the decision standing.\<close>

definition repeatable :: "int \<Rightarrow> string \<Rightarrow> sample_rec list \<Rightarrow> goerr + str \<Rightarrow> db \<Rightarrow> bool" where
  "repeatable i d S res db =
     (case res of Inl e \<Rightarrow> decisionOf i db = Some [] \<and> db_samples db = S | Inr t \<Rightarrow> decisionOf i db = Some d)"

lemma repeatable_simps [simp]:
  "repeatable i d S (Inl e) db = (decisionOf i db = Some [] \<and> db_samples db = S)"
  "repeatable i d S (Inr t) db = (decisionOf i db = Some d)"
  by (simp_all add: repeatable_def)

lemma h_fail:
  assumes "quiet E"
  shows "hoare anything (pressed i (actName act) S crd)
     (do { _ \<leftarrow> releaseClaim E i act; State_Monad.return (Inl e) }) (repeatable i (actName act) S)"
  by (rule hoare_bind [OF h_release [OF assms]]) (rule hoare_return, simp add: pressed_def)

lemma h_undo: "safe I anything (undo E inc)"
  unfolding undo_def undoUnknown_def by (intro guard_intros safe_call) simp_all

lemma decided_frame: "db_incidents db' = db_incidents db \<Longrightarrow> decided i d db' = decided i d db"
  by (simp add: decided_def decisionOf_def)

lemma pressed_decided: "pressed i d S crd db \<Longrightarrow> decided i d db"
  by (simp add: pressed_def decided_def)

lemma h_drop: "quiet E \<Longrightarrow> safe (decided i d) anything (store E n j (\<lambda>now. DeleteIncidentTokens j'))"
  by (rule safe_store) (auto simp: DeleteIncidentTokens_def decided_def decisionOf_def)

lemma h_sample:
  assumes "quiet E"
  shows "hoare anything (pressed i d S crd) (recordSample E inc act origin) (\<lambda>x db. (\<exists>s. x = Inr s) \<and> decided i d db)"
  unfolding recordSample_def
  by (rule hoare_store_quiet [OF assms])
    (auto simp: InsertSample_def addSample_def pressed_def decided_def decisionOf_def)

definition keepsDecisions :: "handler \<Rightarrow> int \<Rightarrow> bool" where
  "keepsDecisions h i \<longleftrightarrow> (\<forall>f. hd_Trainer h = Some f \<longrightarrow> (\<forall>ch l ts d. safe (decided i d) anything (f ch l ts)))"

lemma h_trainIncident:
  "quiet E \<Longrightarrow> keepsDecisions h i \<Longrightarrow> safe (decided i d) anything (trainIncident E (hd_Trainer h) inc label)"
  unfolding trainIncident_def keepsDecisions_def
  by (cases "hd_Trainer h") (auto intro!: guard_intros safe_query h_drop)

lemma h_end: "safe (decided i d) anything m \<Longrightarrow> (\<And>x. hoare anything (decided i d) (f x) (repeatable i d S)) \<Longrightarrow>
    hoare anything (decided i d) (State_Monad.bind m f) (repeatable i d S)"
  by (rule hoare_bind_skip)

lemma h_answer: "hoare anything (decided i d) (State_Monad.return (Inr t)) (repeatable i d S)"
  by (rule hoare_return) (simp add: decided_def)

lemma hoare_sum [hoare_intros]:
  "(\<And>e. x = Inl e \<Longrightarrow> hoare Q P (f e) R) \<Longrightarrow> (\<And>r. x = Inr r \<Longrightarrow> hoare Q P (g r) R) \<Longrightarrow>
     hoare Q P (case x of Inl e \<Rightarrow> f e | Inr r \<Rightarrow> g r) R"
  by (cases x) auto

lemma h_perform:
  assumes q: "quiet E" and t: "keepsDecisions h i" and i: "rw_ID inc = i"
    and act: "act \<in> {ActFalsePositive, ActLiftNoLearn, ActConfirmSpam}"
  shows "hoare anything (pressed i (actName act) S crd) (perform E h act inc cb) (repeatable i (actName act) S)"
proof -
  have fp: "hoare anything (pressed i (actName ActFalsePositive) S crd) (doFalsePositive E h inc)
      (repeatable i (actName ActFalsePositive) S)"
    unfolding doFalsePositive_def i
    by (rule hoare_bind_skip [OF h_undo], rule hoare_sum, rule h_fail [OF q], rule hoare_bind_success [OF h_sample [OF q]])
      (simp add: train_def, intro h_end h_trainIncident q t safe_bind safe_return h_answer)
  have lift: "hoare anything (pressed i (actName ActLiftNoLearn) S crd) (doLift E inc)
      (repeatable i (actName ActLiftNoLearn) S)"
    unfolding doLift_def dropTokens_def i
    by (rule hoare_bind_skip [OF h_undo], rule hoare_sum, rule h_fail [OF q], rule hoare_pre [where P = "decided i (actName ActLiftNoLearn)", OF _ pressed_decided])
      (intro h_end safe_bind safe_return h_drop q h_answer, assumption)
  have confirm: "hoare anything (pressed i (actName ActConfirmSpam) S crd) (doConfirmSpam E h inc)
      (repeatable i (actName ActConfirmSpam) S)"
    unfolding doConfirmSpam_def RecordConfirmation_def i
    by (rule hoare_bind [where S = "\<lambda>x db. (\<exists>c. x = Inr c) \<and> decided i (actName ActConfirmSpam) db"],
        rule hoare_bind_success [OF h_sample [OF q]], simp,
        rule hoare_bind [OF hoare_skip [OF h_trainIncident [OF q t]]], rule hoare_return, simp,
        rule hoare_assume, auto intro: h_answer)
  show ?thesis using act fp lift confirm by (auto simp: perform_def)
qed

lemma h_dispatch:
  assumes q: "quiet E" and t: "keepsDecisions h i" and i: "rw_ID inc = i"
    and act: "act \<in> {ActFalsePositive, ActLiftNoLearn, ActConfirmSpam}"
  shows "hoare anything (pressed i [] S (callbackCard cb)) (dispatch E h act inc cb) (repeatable i (actName act) S)"
proof -
  have on: "hoare anything (pressed i (actName act) S (callbackCard cb)) (dispatchOn E h act fresh cb)
      (repeatable i (actName act) S)" if fresh: "rw_ID fresh = i" for fresh
  proof -
    have "hoare anything (pressed i (actName act) S (callbackCard cb))
        (query E (\<lambda>db. Some (IsIncidentCard (rw_ID fresh) (callbackCard cb) db)))
        (\<lambda>x db. x = Inr True \<and> pressed i (actName act) S (callbackCard cb) db)"
      by (rule hoare_query_quiet [OF q], rule exI [of _ True]) (simp add: pressed_def IsIncidentCard_def fresh)
    then show ?thesis unfolding dispatchOn_def
      by (rule hoare_bind_value) (simp add: h_perform [OF q t fresh act])
  qed
  have "act \<noteq> ActDeleteEvidence" using act by auto
  then show ?thesis unfolding dispatch_def
    by simp (rule hoare_bind [OF h_claim [OF q i]], rule hoare_assume, elim exE conjE, simp only: sum.case, rule on)
qed




section \<open>Buttons\<close>

lemma actionOf_actName [simp]: "actionOf (actName a) = Some a"
  by (cases a) (simp_all add: actionOf_def)

lemma ParseCallback_encode: "key \<noteq> [] \<Longrightarrow> ParseCallback (encode a key) = Some (a, key)"
proof -
  assume "key \<noteq> []"
  moreover have "Cut (CHR '':'') (encode a key) = Some (actName a, key)"
    unfolding encode_def using Cut_append [of "CHR '':''" "actName a" key] by (cases a) simp_all
  moreover have "actName a \<noteq> []" by (cases a) simp_all
  ultimately show ?thesis by (simp add: ParseCallback_def)
qed

text \<open>The action a keyboard offers at a place.\<close>

definition offered :: "bool \<Rightarrow> admin_action list" where
  "offered unenforced =
     [ActFalsePositive, ActLiftNoLearn, ActConfirmSpam, ActDeleteEvidence] @ (if unenforced then [ActEnforce] else [])"

text \<open>Every button comes back as it was made: the buttons of an incident's
  card, in order, are read as the actions the card offers, each for that
  incident, whatever the incident's number; enforcing is offered only where
  nothing was enforced.\<close>

theorem buttons_come_back:
  assumes "inInt64 i"
  shows "map (\<lambda>b. map_option (\<lambda>(a, key). (a, ParseInt key)) (ParseCallback (bt_Data b)))
      (concat (Buttons (FormatInt i) unenforced)) = map (\<lambda>a. Some (a, Some i)) (offered unenforced)"
  using assms by (simp add: Buttons_def mkButton_def offered_def ParseCallback_encode ParseInt_FormatInt)

theorem buttons_come_back_witness:
  "map (\<lambda>b. map_option (\<lambda>(a, key). (a, ParseInt key)) (ParseCallback (bt_Data b)))
      (concat (Buttons (FormatInt 42) True)) = map (\<lambda>a. Some (a, Some 42)) (offered True)"
  by (rule buttons_come_back) (simp add: inInt64_def)

section \<open>Presses at a concrete card\<close>

definition pressHandler :: handler where
  "pressHandler = \<lparr>hd_Operators = [9], hd_Trainer = None, hd_Enforcer = None, hd_HasDB = True\<rparr>"

definition pressBy :: "user_id \<Rightarrow> callback" where
  "pressBy u = \<lparr>cb_ID = ''q'', cb_Data = ''lift:1'', cb_PresserID = u, cb_AdminChatID = -1, cb_MessageID = 8\<rparr>"

definition pressRecord :: "string \<Rightarrow> incident_rec" where
  "pressRecord d = \<lparr>ir_ID = 1, ir_ChatID = -100, ir_MessageID = 5, ir_MessageIDs = [], ir_UserID = 42,
     ir_SenderChatID = 0, ir_State = StateActed, ir_DryRun = False, ir_Decision = d, ir_CreatedAt = 0\<rparr>"

definition pressDB :: "string \<Rightarrow> db" where
  "pressDB d = emptyDB\<lparr>db_incidents := [pressRecord d], db_nextIncident := 2,
     db_audit := [\<lparr>au_IncidentID = 1, au_Action = ActionMute, au_Scope = ScopeChat, au_Reason = [],
       au_Signals = [], au_CreatedAt = 0\<rparr>]\<rparr>"

definition pressEnv :: env where
  "pressEnv = quietEnv (\<lambda>n c. okReply)"

theorem unauthorized_presses_do_nothing_witness:
  "list_all onlyAnswers (events (HandleCallback pressEnv pressHandler (pressBy 7)) (startWorld (pressDB [])))"
  by (rule unauthorized_presses_do_nothing)
    (simp add: outsider_def pressHandler_def pressBy_def pressEnv_def quietEnv_def okReply_def)

lemma parse_one: "ParseInt ''1'' = Some 1"
  by code_simp


text \<open>A Telegram that refuses everything.\<close>

definition pressRefused :: env where
  "pressRefused = quietEnv (\<lambda>n c. okReply\<lparr>pr_err := Some (newErr (lit ''refused''))\<rparr>)"

lemma press_found: "GetIncident 1 (pressDB []) = Some \<lparr>rw_ID = 1, rw_ChatID = -100, rw_UserID = 42,
    rw_SenderChatID = 0, rw_MessageIDs = parseMessageIDs [] 5, rw_DryRun = False, rw_State = StateActed, rw_Action = ActionMute\<rparr>"
  by (simp add: GetIncident_def pressDB_def pressRecord_def findBy_def auditOf_def)



end
