(* ===== verification/Commands.thy ===== *)
theory Commands
  imports Callbacks Bayes
begin

text \<open>
  \<open>internal/admin/commands.go\<close>: the commands a moderator types in a
  moderated chat, as a reply to a message. A command is recognised by its
  first word, its sender's rights and its target's protection are checked,
  and then \<open>/spam\<close> and \<open>/ban\<close> hand an incident to the
  injected incident machine while \<open>/ham\<close> lifts what was imposed. The
  texts shown to moderators are the source's, as code points.
\<close>

section \<open>Texts\<close>

definition msgDenied :: str where
  "msgDenied =
    [1050, 1086, 1084, 1072, 1085, 1076, 1072, 32, 1076, 1086, 1089, 1090, 1091, 1087, 1085, 1072, 32,
     1090, 1086, 1083, 1100, 1082, 1086, 32, 1072, 1076, 1084, 1080, 1085, 1080, 1089, 1090, 1088,
     1072, 1090, 1086, 1088, 1072, 1084, 32, 1101, 1090, 1086, 1075, 1086, 32, 1095, 1072, 1090,
     1072, 46]"

definition msgNoReply :: str where
  "msgNoReply =
    [1054, 1090, 1074, 1077, 1090, 1100, 32, 1101, 1090, 1086, 1081, 32, 1082, 1086, 1084, 1072, 1085,
     1076, 1086, 1081, 32, 1085, 1072, 32, 1089, 1086, 1086, 1073, 1097, 1077, 1085, 1080, 1077, 44,
     32, 1082, 1086, 1090, 1086, 1088, 1086, 1077, 32, 1085, 1091, 1078, 1085, 1086, 32, 1086, 1073,
     1088, 1072, 1073, 1086, 1090, 1072, 1090, 1100, 46]"

definition msgProtected :: str where
  "msgProtected =
    [1057, 1086, 1086, 1073, 1097, 1077, 1085, 1080, 1077, 32, 1086, 1090, 32, 1079, 1072, 1097, 1080,
     1097, 1105, 1085, 1085, 1086, 1075, 1086, 32, 1086, 1090, 1087, 1088, 1072, 1074, 1080, 1090,
     1077, 1083, 1103, 32, 40, 1072, 1076, 1084, 1080, 1085, 1080, 1089, 1090, 1088, 1072, 1090,
     1086, 1088, 32, 1080, 1083, 1080, 32, 1089, 1074, 1103, 1079, 1072, 1085, 1085, 1099, 1081, 32,
     1082, 1072, 1085, 1072, 1083, 41, 32, 8212, 32, 1082, 1086, 1084, 1072, 1085, 1076, 1072, 32,
     1085, 1077, 1087, 1088, 1080, 1084, 1077, 1085, 1080, 1084, 1072, 46]"

definition msgLinkedUnknown :: str where
  "msgLinkedUnknown =
    [1053, 1077, 32, 1091, 1076, 1072, 1083, 1086, 1089, 1100, 32, 1087, 1088, 1086, 1074, 1077, 1088,
     1080, 1090, 1100, 32, 1089, 1074, 1103, 1079, 1072, 1085, 1085, 1099, 1081, 32, 1082, 1072,
     1085, 1072, 1083, 32, 1095, 1072, 1090, 1072, 44, 32, 1082, 1086, 1084, 1072, 1085, 1076, 1072,
     32, 1086, 1090, 1084, 1077, 1085, 1077, 1085, 1072, 46]"

definition msgLinked :: str where
  "msgLinked =
    [1057, 1086, 1086, 1073, 1097, 1077, 1085, 1080, 1077, 32, 1086, 1090, 32, 1089, 1074, 1103, 1079,
     1072, 1085, 1085, 1086, 1075, 1086, 32, 1082, 1072, 1085, 1072, 1083, 1072, 32, 1101, 1090,
     1086, 1075, 1086, 32, 1095, 1072, 1090, 1072, 32, 8212, 32, 1082, 1086, 1084, 1072, 1085, 1076,
     1072, 32, 1085, 1077, 1087, 1088, 1080, 1084, 1077, 1085, 1080, 1084, 1072, 46]"

definition msgOwn :: str where
  "msgOwn =
    [1069, 1090, 1086, 32, 1089, 1086, 1086, 1073, 1097, 1077, 1085, 1080, 1077, 32, 1073, 1086, 1090,
     1072, 32, 8212, 32, 1086, 1073, 1088, 1072, 1073, 1072, 1090, 1099, 1074, 1072, 1090, 1100, 32,
     1077, 1075, 1086, 32, 1085, 1077, 1095, 1077, 1075, 1086, 46]"

definition msgNoAuthor :: str where
  "msgNoAuthor =
    [1059, 32, 1101, 1090, 1086, 1075, 1086, 32, 1089, 1086, 1086, 1073, 1097, 1077, 1085, 1080, 1103,
     32, 1085, 1077, 1090, 32, 1072, 1074, 1090, 1086, 1088, 1072, 32, 40, 1089, 1083, 1091, 1078,
     1077, 1073, 1085, 1086, 1077, 41, 32, 8212, 32, 1082, 1086, 1084, 1072, 1085, 1076, 1072, 32,
     1085, 1077, 1087, 1088, 1080, 1084, 1077, 1085, 1080, 1084, 1072, 46]"

definition msgRightsUnknown :: str where
  "msgRightsUnknown =
    [1053, 1077, 32, 1091, 1076, 1072, 1083, 1086, 1089, 1100, 32, 1087, 1088, 1086, 1074, 1077, 1088,
     1080, 1090, 1100, 32, 1087, 1088, 1072, 1074, 1072, 32, 1072, 1074, 1090, 1086, 1088, 1072, 32,
     1089, 1086, 1086, 1073, 1097, 1077, 1085, 1080, 1103, 44, 32, 1082, 1086, 1084, 1072, 1085,
     1076, 1072, 32, 1086, 1090, 1084, 1077, 1085, 1077, 1085, 1072, 46]"

definition msgAdmin :: str where
  "msgAdmin =
    [1040, 1074, 1090, 1086, 1088, 32, 1089, 1086, 1086, 1073, 1097, 1077, 1085, 1080, 1103, 32, 8212,
     32, 1072, 1076, 1084, 1080, 1085, 1080, 1089, 1090, 1088, 1072, 1090, 1086, 1088, 32, 1095,
     1072, 1090, 1072, 44, 32, 1089, 1072, 1085, 1082, 1094, 1080, 1080, 32, 1082, 32, 1085, 1077,
     1084, 1091, 32, 1073, 1086, 1090, 32, 1085, 1077, 32, 1087, 1088, 1080, 1084, 1077, 1085, 1103,
     1077, 1090, 46]"

definition msgNoMachine :: str where
  "msgNoMachine =
    [1054, 1073, 1088, 1072, 1073, 1086, 1090, 1095, 1080, 1082, 32, 1080, 1085, 1094, 1080, 1076, 1077,
     1085, 1090, 1086, 1074, 32, 1085, 1077, 32, 1087, 1086, 1076, 1082, 1083, 1102, 1095, 1105,
     1085, 32, 8212, 32, 1086, 1073, 1088, 1072, 1090, 1080, 1089, 1100, 32, 1082, 32, 1086, 1087,
     1077, 1088, 1072, 1090, 1086, 1088, 1091, 46]"

definition msgFailed :: str where
  "msgFailed =
    [1053, 1077, 32, 1089, 1084, 1086, 1075, 32, 1086, 1073, 1088, 1072, 1073, 1086, 1090, 1072, 1090,
     1100, 32, 1089, 1086, 1086, 1073, 1097, 1077, 1085, 1080, 1077, 58, 32]"

definition msgDuplicate :: str where
  "msgDuplicate =
    [1069, 1090, 1086, 32, 1089, 1086, 1086, 1073, 1097, 1077, 1085, 1080, 1077, 32, 1091, 1078, 1077,
     32, 1086, 1073, 1088, 1072, 1073, 1086, 1090, 1072, 1085, 1086, 32, 1073, 1086, 1090, 1086,
     1084, 32, 8212, 32, 1082, 1072, 1088, 1090, 1086, 1095, 1082, 1072, 32, 1077, 1089, 1090, 1100,
     32, 1074, 32, 1072, 1076, 1084, 1080, 1085, 45, 1095, 1072, 1090, 1077, 46]"

definition msgBanned :: str where
  "msgBanned =
    [1040, 1074, 1090, 1086, 1088, 32, 1079, 1072, 1073, 1072, 1085, 1077, 1085, 44, 32, 1089, 1086,
     1086, 1073, 1097, 1077, 1085, 1080, 1077, 32, 1091, 1076, 1072, 1083, 1077, 1085, 1086, 46, 32,
     1050, 1086, 1088, 1087, 1091, 1089, 32, 1085, 1077, 32, 1086, 1073, 1091, 1095, 1072, 1083,
     1089, 1103, 46]"

definition msgUnmute :: str where
  "msgUnmute =
    [1089, 1085, 1103, 1090, 1100, 32, 1084, 1091, 1090, 58, 32]"

definition msgUnban :: str where
  "msgUnban =
    [1089, 1085, 1103, 1090, 1100, 32, 1073, 1072, 1085, 58, 32]"

definition msgUnblock :: str where
  "msgUnblock =
    [1088, 1072, 1079, 1073, 1083, 1086, 1082, 1080, 1088, 1086, 1074, 1072, 1090, 1100, 32, 1082, 1072,
     1085, 1072, 1083, 58, 32]"

definition msgPartly :: str where
  "msgPartly =
    [1063, 1072, 1089, 1090, 1080, 1095, 1085, 1086, 58, 32]"

definition msgLifted :: str where
  "msgLifted =
    [1057, 1072, 1085, 1082, 1094, 1080, 1080, 32, 1089, 1085, 1103, 1090, 1099, 44, 32, 1089, 1086,
     1086, 1073, 1097, 1077, 1085, 1080, 1077, 32, 1091, 1095, 1090, 1077, 1085, 1086, 32, 1082,
     1072, 1082, 32, 1085, 1077, 45, 1089, 1087, 1072, 1084, 46]"

definition msgAlbum :: str where
  "msgAlbum =
    [1057, 1086, 1086, 1073, 1097, 1077, 1085, 1080, 1077, 32, 1091, 1076, 1072, 1083, 1077, 1085, 1086,
     44, 32, 1072, 1074, 1090, 1086, 1088, 32, 1079, 1072, 1075, 1083, 1091, 1096, 1105, 1085, 46,
     32, 9888, 65039, 32, 1069, 1090, 1086, 32, 1095, 1072, 1089, 1090, 1100, 32, 1072, 1083, 1100,
     1073, 1086, 1084, 1072, 32, 8212, 32, 1086, 1089, 1090, 1072, 1083, 1100, 1085, 1099, 1077, 32,
     1095, 1072, 1089, 1090, 1080, 32, 1091, 1076, 1072, 1083, 1080, 32, 1074, 1088, 1091, 1095,
     1085, 1091, 1102, 46]"

definition msgSpam :: str where
  "msgSpam =
    [1057, 1086, 1086, 1073, 1097, 1077, 1085, 1080, 1077, 32, 1091, 1076, 1072, 1083, 1077, 1085, 1086,
     44, 32, 1072, 1074, 1090, 1086, 1088, 32, 1079, 1072, 1075, 1083, 1091, 1096, 1105, 1085, 46,
     32, 1054, 1090, 1082, 1072, 1090, 32, 8212, 32, 1082, 1085, 1086, 1087, 1082, 1072, 1084, 1080,
     32, 1074, 32, 1072, 1076, 1084, 1080, 1085, 45, 1095, 1072, 1090, 1077, 46]"

section \<open>Recognising a command\<close>

datatype admin_command = CmdSpam | CmdHam | CmdBan

fun cmdName :: "admin_command \<Rightarrow> string" where
  "cmdName CmdSpam = ''spam''"
| "cmdName CmdHam = ''ham''"
| "cmdName CmdBan = ''ban''"

definition commandOf :: "str \<Rightarrow> admin_command option" where
  "commandOf s = first (\<lambda>c. lit (cmdName c) = s) [CmdSpam, CmdHam, CmdBan]"

definition ParseCommand :: "golib \<Rightarrow> str \<Rightarrow> str \<Rightarrow> admin_command option" where
  "ParseCommand U t botUsername =
     (case Fields t of
        [] \<Rightarrow> None
      | tok # rest \<Rightarrow>
          if \<not> HasPrefix tok (lit ''/'') then None
          else
            (let name = drop 1 tok in
             case Cut 64 name of
               None \<Rightarrow> commandOf (ToLower U name)
             | Some (before, addressee) \<Rightarrow>
                 if botUsername = [] \<or> \<not> EqualFold U addressee botUsername then None
                 else commandOf (ToLower U before)))"

section \<open>The commands of a bot\<close>

record commands =
  cm_Handler :: handler
  cm_BotUsername :: str
  cm_BotID :: user_id
  cm_Report :: "(incident \<Rightarrow> (bool \<times> goerr option) act) option"
  cm_Relabel :: "(chat_id \<Rightarrow> string \<Rightarrow> string \<Rightarrow> str list \<Rightarrow> goerr option act) option"
  cm_Counts :: bool

definition NewCommands :: "handler \<Rightarrow> str \<Rightarrow> user_id \<Rightarrow> commands" where
  "NewCommands h botUsername botID =
     \<lparr>cm_Handler = h, cm_BotUsername = TrimPrefix botUsername (lit ''@''), cm_BotID = botID,
      cm_Report = None, cm_Relabel = None, cm_Counts = False\<rparr>"

definition counted :: "commands \<Rightarrow> admin_command \<Rightarrow> string \<Rightarrow> unit act" where
  "counted c cmd res =
     (if cm_Counts c then countMetric (cmdName cmd @ ''/'' @ res) else State_Monad.return ())"

definition Match :: "golib \<Rightarrow> commands \<Rightarrow> message \<Rightarrow> bool" where
  "Match U c m \<longleftrightarrow> ParseCommand U (msg_Text m) (cm_BotUsername c) \<noteq> None"

text \<open>\<open>telegram.ImmuneSender\<close>.\<close>

definition ImmuneSender :: "sender \<Rightarrow> bool" where
  "ImmuneSender s \<longleftrightarrow> sn_Kind s = SenderAnonAdmin \<or> sn_Kind s = SenderLinkedChannel"

definition notify :: "env \<Rightarrow> message \<Rightarrow> str \<Rightarrow> unit act" where
  "notify E cmdMsg t =
     (if sn_UserID (msg_Sender cmdMsg) = 0 then State_Monad.return ()
      else do {
        r \<leftarrow> call E (SendEphemeral (msg_ChatID cmdMsg) (sn_UserID (msg_Sender cmdMsg)) t);
        case pr_err r of
          None \<Rightarrow> State_Monad.return ()
        | Some e \<Rightarrow> logLine (lit ''command reply chat='' @ showID (msg_ChatID cmdMsg) @ lit '' user=''
            @ showID (sn_UserID (msg_Sender cmdMsg)) @ lit '': '' @ ge_text e)
      })"

definition authorize :: "env \<Rightarrow> commands \<Rightarrow> message \<Rightarrow> (goerr + bool) act" where
  "authorize E c m =
     (let s = msg_Sender m in
      if sn_SenderChatID s \<noteq> 0 \<and> sn_SenderChatID s = msg_ChatID m then State_Monad.return (Inr True)
      else if sn_UserID s = 0 then State_Monad.return (Inr False)
      else Authorized E (cm_Handler c) (msg_ChatID m) (sn_UserID s))"

text \<open>The part of \<open>targetRefusal\<close> after the linked channel: the bot itself,
  messages without an author, administrators.\<close>

definition authorRefusal :: "env \<Rightarrow> commands \<Rightarrow> chat_id \<Rightarrow> sender \<Rightarrow> str option act" where
  "authorRefusal E c chatID s =
     (if sn_UserID s = cm_BotID c \<and> cm_BotID c \<noteq> 0 then State_Monad.return (Some msgOwn)
      else if sn_UserID s = 0 \<and> sn_SenderChatID s = 0 then State_Monad.return (Some msgNoAuthor)
      else if sn_UserID s \<noteq> 0 then do {
        a \<leftarrow> Authorized E (cm_Handler c) chatID (sn_UserID s);
        State_Monad.return
          (case a of
             Inl e \<Rightarrow> Some msgRightsUnknown
           | Inr isAdmin \<Rightarrow> if isAdmin then Some msgAdmin else None)
      }
      else State_Monad.return None)"

definition targetRefusal :: "env \<Rightarrow> commands \<Rightarrow> chat_id \<Rightarrow> envelope \<Rightarrow> str option act" where
  "targetRefusal E c chatID target =
     (let s = msg_Sender target in
      if ImmuneSender s \<or> (sn_SenderChatID s \<noteq> 0 \<and> sn_SenderChatID s = chatID)
      then State_Monad.return (Some msgProtected)
      else if sn_Kind s = SenderExternalChannel \<and> sn_SenderChatID s \<noteq> 0 then do {
        l \<leftarrow> call E (LinkedChatID chatID);
        if pr_err l \<noteq> None then State_Monad.return (Some msgLinkedUnknown)
        else if pr_id l \<noteq> 0 \<and> pr_id l = sn_SenderChatID s then State_Monad.return (Some msgLinked)
        else authorRefusal E c chatID s
      }
      else authorRefusal E c chatID s)"

definition deleteCommand :: "env \<Rightarrow> message \<Rightarrow> unit act" where
  "deleteCommand E cmdMsg = do {
     r \<leftarrow> call E (DeleteMessages (msg_ChatID cmdMsg) [msg_MessageID cmdMsg]);
     case pr_err r of
       None \<Rightarrow> State_Monad.return ()
     | Some e \<Rightarrow> logLine (lit ''command cleanup chat='' @ showID (msg_ChatID cmdMsg) @ lit '' msg=''
         @ showID (msg_MessageID cmdMsg) @ lit '': '' @ ge_text e)
   }"

definition trainCommand :: "commands \<Rightarrow> chat_id \<Rightarrow> string \<Rightarrow> string \<Rightarrow> str list \<Rightarrow> unit act" where
  "trainCommand c chatID frm to tokens =
     (case cm_Relabel c of
        None \<Rightarrow> State_Monad.return ()
      | Some relabel \<Rightarrow>
          if length tokens = 0 then State_Monad.return ()
          else do {
            err \<leftarrow> relabel chatID frm to tokens;
            case err of
              None \<Rightarrow> State_Monad.return ()
            | Some e \<Rightarrow> logLine (lit ''command training chat='' @ showID chatID @ 32 # lit frm @ lit ''->''
                @ lit to @ lit '': '' @ ge_text e)
          })"

definition ackSpam :: "envelope \<Rightarrow> str" where
  "ackSpam target = (if msg_MediaGroupID target \<noteq> [] then msgAlbum else msgSpam)"

section \<open>The three commands\<close>

definition manualVerdict :: "action \<Rightarrow> string \<Rightarrow> message \<Rightarrow> verdict" where
  "manualVerdict act reason cmdMsg =
     \<lparr>vd_Action = act, vd_Scope = ScopeGlobal, vd_Confidence = 0,
      vd_Signals = [\<lparr>sg_Name = reason,
        sg_Detail = lit ''by='' @ showID (sn_UserID (msg_Sender cmdMsg)) @ lit '' cmd_msg='' @ showID (msg_MessageID cmdMsg)\<rparr>],
      vd_Reason = lit reason, vd_ReviewOnly = False\<rparr>"

text \<open>The zero state of a \<open>domain.Incident\<close> is never read: recording sets it.\<close>

definition manualIncident :: "envelope \<Rightarrow> verdict \<Rightarrow> str list \<Rightarrow> incident" where
  "manualIncident target v tokens =
     \<lparr>inc_ChatID = msg_ChatID target, inc_MessageIDs = [msg_MessageID target], inc_ThreadID = msg_ThreadID target,
      inc_Sender = msg_Sender target, inc_Verdict = v, inc_State = StatePending, inc_DryRun = False,
      inc_AdminMessageIDs = [], inc_Tokens = tokens\<rparr>"

definition handleSpam :: "golib \<Rightarrow> env \<Rightarrow> commands \<Rightarrow> message \<Rightarrow> envelope \<Rightarrow> unit act" where
  "handleSpam U E c cmdMsg target =
     (case cm_Report c of
        None \<Rightarrow> do { _ \<leftarrow> counted c CmdSpam ''error''; notify E cmdMsg msgNoMachine }
      | Some report \<Rightarrow>
          (let tokens = Tokenize U (NormalizeMessage U target);
               inc = manualIncident target (manualVerdict ActionDeleteMute ''manual_spam'' cmdMsg) tokens
           in do {
             r \<leftarrow> report inc;
             (case r of
                (fresh, Some e) \<Rightarrow> do {
                  _ \<leftarrow> logLine (lit ''command spam chat='' @ showID (msg_ChatID target) @ lit '' msg=''
                         @ showID (msg_MessageID target) @ lit '': '' @ ge_text e);
                  _ \<leftarrow> counted c CmdSpam ''error'';
                  notify E cmdMsg (msgFailed @ ge_text e)
                }
              | (fresh, None) \<Rightarrow> do {
                  _ \<leftarrow> (if \<not> fresh then do { _ \<leftarrow> counted c CmdSpam ''duplicate''; notify E cmdMsg msgDuplicate }
                        else do { _ \<leftarrow> counted c CmdSpam ''ok''; notify E cmdMsg (ackSpam target) });
                  _ \<leftarrow> trainCommand c (msg_ChatID target) ''ham'' ''spam'' tokens;
                  deleteCommand E cmdMsg
                })
           }))"

definition handleBan :: "env \<Rightarrow> commands \<Rightarrow> message \<Rightarrow> envelope \<Rightarrow> unit act" where
  "handleBan E c cmdMsg target =
     (case cm_Report c of
        None \<Rightarrow> do { _ \<leftarrow> counted c CmdBan ''error''; notify E cmdMsg msgNoMachine }
      | Some report \<Rightarrow> do {
          r \<leftarrow> report (manualIncident target (manualVerdict ActionBan ''manual_ban'' cmdMsg) []);
          _ \<leftarrow> (case r of
             (fresh, Some e) \<Rightarrow> do {
               _ \<leftarrow> logLine (lit ''command ban chat='' @ showID (msg_ChatID target) @ lit '' msg=''
                      @ showID (msg_MessageID target) @ lit '': '' @ ge_text e);
               _ \<leftarrow> counted c CmdBan ''error'';
               notify E cmdMsg (msgFailed @ ge_text e)
             }
           | (fresh, None) \<Rightarrow>
               if \<not> fresh then do { _ \<leftarrow> counted c CmdBan ''duplicate''; notify E cmdMsg msgDuplicate }
               else do { _ \<leftarrow> counted c CmdBan ''ok''; notify E cmdMsg msgBanned });
          deleteCommand E cmdMsg
        })"

text \<open>One lifting call of \<open>/ham\<close>, with what it failed at.\<close>

definition liftStep :: "env \<Rightarrow> bool \<Rightarrow> pcall \<Rightarrow> str \<Rightarrow> str list act" where
  "liftStep E wanted p what =
     (if \<not> wanted then State_Monad.return []
      else do {
        r \<leftarrow> call E p;
        State_Monad.return (case pr_err r of None \<Rightarrow> [] | Some e \<Rightarrow> [what @ ge_text e])
      })"

definition handleHam :: "golib \<Rightarrow> env \<Rightarrow> commands \<Rightarrow> message \<Rightarrow> envelope \<Rightarrow> unit act" where
  "handleHam U E c cmdMsg target =
     (let s = msg_Sender target; tokens = Tokenize U (NormalizeMessage U target) in do {
        f1 \<leftarrow> liftStep E (sn_UserID s \<noteq> 0) (UnrestrictMember (msg_ChatID target) (sn_UserID s)) msgUnmute;
        f2 \<leftarrow> liftStep E (sn_UserID s \<noteq> 0) (UnbanMember (msg_ChatID target) (sn_UserID s)) msgUnban;
        f3 \<leftarrow> liftStep E (sn_SenderChatID s \<noteq> 0) (UnbanSenderChat (msg_ChatID target) (sn_SenderChatID s)) msgUnblock;
        let failures = f1 @ f2 @ f3;
        _ \<leftarrow> trainCommand c (msg_ChatID target) ''spam'' ''ham'' tokens;
        _ \<leftarrow> (if length failures > 0 then do {
                 _ \<leftarrow> logLine (lit ''command ham chat='' @ showID (msg_ChatID target) @ lit '' user='' @ showID (sn_UserID s)
                        @ lit '': '' @ Join (lit ''; '') failures);
                 _ \<leftarrow> counted c CmdHam ''error'';
                 notify E cmdMsg (msgPartly @ Join (lit ''; '') failures)
               }
               else do { _ \<leftarrow> counted c CmdHam ''ok''; notify E cmdMsg msgLifted });
        deleteCommand E cmdMsg
      })"

definition runCommand :: "golib \<Rightarrow> env \<Rightarrow> commands \<Rightarrow> admin_command \<Rightarrow> message \<Rightarrow> envelope \<Rightarrow> unit act" where
  "runCommand U E c cmd m target =
     (case cmd of
        CmdSpam \<Rightarrow> handleSpam U E c m target
      | CmdHam \<Rightarrow> handleHam U E c m target
      | CmdBan \<Rightarrow> handleBan E c m target)"

text \<open>\<open>Commands.Handle\<close>.\<close>

definition HandleCommand :: "golib \<Rightarrow> env \<Rightarrow> commands \<Rightarrow> message \<Rightarrow> unit act" where
  "HandleCommand U E c m =
     (case ParseCommand U (msg_Text m) (cm_BotUsername c) of
        None \<Rightarrow> State_Monad.return ()
      | Some cmd \<Rightarrow> do {
          a \<leftarrow> authorize E c m;
          case a of
            Inl e \<Rightarrow> do {
              _ \<leftarrow> logLine (lit ''command '' @ lit (cmdName cmd) @ lit '' chat='' @ showID (msg_ChatID m)
                     @ lit '': authorization unavailable: '' @ ge_text e);
              counted c cmd ''auth_error''
            }
          | Inr allowed \<Rightarrow>
              if \<not> allowed then do { _ \<leftarrow> counted c cmd ''denied''; notify E m msgDenied }
              else
                (case msg_ReplyTo m of
                   None \<Rightarrow> do { _ \<leftarrow> counted c cmd ''no_reply''; notify E m msgNoReply }
                 | Some target \<Rightarrow> do {
                     refusal \<leftarrow> targetRefusal E c (msg_ChatID m) target;
                     case refusal of
                       Some reason \<Rightarrow> do { _ \<leftarrow> counted c cmd ''immune_target''; notify E m reason }
                     | None \<Rightarrow> runCommand U E c cmd m target
                   })
        })"

end
