(* ===== verification/CommandProps.thy ===== *)
theory CommandProps
  imports Commands CallbackProps MachineKeeps
begin

text \<open>
  What moderator commands guarantee: who may give one and at whom, that
  banning teaches the filter nothing, and, together with the incident
  machine, that a moderator is told it is done only when it was done.
\<close>

section \<open>Sanctions carried out\<close>

text \<open>The call that sanctions a sender, and an order carried out in full: the
  sanction and a deletion in the chat, both without an error.\<close>

definition sanctionOn :: "chat_id \<Rightarrow> sender \<Rightarrow> action \<Rightarrow> pcall" where
  "sanctionOn ch s act =
     (if sn_Kind s = SenderExternalChannel \<and> sn_SenderChatID s \<noteq> 0 then BanSenderChat ch (sn_SenderChatID s)
      else if act = ActionBan then BanMember ch (sn_UserID s)
      else RestrictMember ch (sn_UserID s) False 0)"

definition succeeded :: "pcall \<Rightarrow> event list \<Rightarrow> bool" where
  "succeeded c evs \<longleftrightarrow> (\<exists>r. EvPort c r \<in> set evs \<and> pr_err r = None)"

lemma succeeded_append [simp]: "succeeded c (xs @ ys) \<longleftrightarrow> succeeded c xs \<or> succeeded c ys"
  by (auto simp: succeeded_def)

lemma succeeded_one [simp]: "succeeded c [EvPort c r] \<longleftrightarrow> pr_err r = None"
  by (auto simp: succeeded_def)

definition carriedOut :: "chat_id \<Rightarrow> sender \<Rightarrow> action \<Rightarrow> event list \<Rightarrow> bool" where
  "carriedOut ch s act evs \<longleftrightarrow> succeeded (sanctionOn ch s act) evs \<and> (\<exists>ids. succeeded (DeleteMessages ch ids) evs)"

lemma carriedOut_append [intro]:
  "carriedOut ch s act xs \<Longrightarrow> carriedOut ch s act (xs @ ys)"
  "carriedOut ch s act ys \<Longrightarrow> carriedOut ch s act (xs @ ys)"
  by (auto simp: carriedOut_def)

abbreviation punishes :: "incident \<Rightarrow> bool" where
  "punishes inc \<equiv> vd_Action (inc_Verdict inc) \<in> {ActionBan, ActionMute, ActionDeleteMute}"

abbreviation carried :: "incident \<Rightarrow> event list \<Rightarrow> bool" where
  "carried inc \<equiv> carriedOut (inc_ChatID inc) (inc_Sender inc) (vd_Action (inc_Verdict inc))"

text \<open>A part whose own events matter for nothing.\<close>

lemma sat_skip:
  assumes "emits Q m" and "\<And>x. sat R (f x)" and "\<And>x e1 e2. R x e2 \<Longrightarrow> R x (e1 @ e2)"
  shows "sat R (State_Monad.bind m f)"
  by (rule sat_bind [OF sat_any [OF assms(1)] assms(2)]) (rule assms(3))

text \<open>Nothing but the result of the first part matters afterwards.\<close>

lemma sat_keep:
  assumes "sat S m" and "\<And>x. emits (\<lambda>_. True) (f x)" and "\<And>x. yields (T x) (f x)"
    and "\<And>x y e1 e2. S x e1 \<Longrightarrow> T x y \<Longrightarrow> R y (e1 @ e2)"
  shows "sat R (State_Monad.bind m f)"
  by (rule sat_bind [OF assms(1) sat_emits_yields [OF assms(2,3)]]) (use assms(4) in blast)

lemma sat_applyAction:
  "punishes inc \<Longrightarrow>
     sat (\<lambda>e evs. e = None \<longrightarrow> succeeded (sanctionOn (inc_ChatID inc) (inc_Sender inc) (vd_Action (inc_Verdict inc))) evs)
       (applyAction E inc)"
  by (auto simp: applyAction_def Let_def sanctionOn_def sat_def run_simps succeeded_def)

lemma sat_Enforce:
  assumes "punishes inc"
  shows "sat (\<lambda>out evs. oc_Err out = None \<longrightarrow> carried inc evs) (Enforce E i inc)"
  unfolding Enforce_def Let_def
proof (rule sat_bind [OF sat_applyAction [OF assms], where
      T = "\<lambda>a out evs. oc_Err out = None \<longrightarrow> a = None \<and> (\<exists>ids. succeeded (DeleteMessages (inc_ChatID inc) ids) evs)"],
    goal_cases)
  case (1 a)
  show ?case
  proof (rule sat_skip [where Q = "\<lambda>_. True"], goal_cases)
    case 1
    show ?case by (cases a) (auto intro!: emit_intros)
  next
    case (2 x)
    show ?case
      by (rule sat_keep [OF sat_call [where R = "\<lambda>r evs. pr_err r = None \<longrightarrow> succeeded (DeleteMessages (inc_ChatID inc) (inc_MessageIDs inc)) evs"],
            where T = "\<lambda>d out. oc_Err out = enforceErr a (pr_err d)"])
         (auto intro!: emit_intros yield_intros simp: enforceErr_None)
  qed auto
qed (auto simp: carriedOut_def)

lemma emits_free:
  "emits (\<lambda>_. True) (recordParts E i inc)" "emits (\<lambda>_. True) (withoutEvidence E mc i inc ce t)"
  "emits (\<lambda>_. True) (withEvidence E mc i inc ids t)" "emits (\<lambda>_. True) (notice E mc inc)"
  "emits (\<lambda>_. True) (sendCard E mc i msg)"
  by (rule emits_any [OF emits_recordParts] emits_any [OF emits_withoutEvidence] emits_any [OF emits_withEvidence]
      emits_any [OF emits_sendCard] | (unfold notice_def, intro emit_intros; simp))+

lemma sat_finish:
  assumes "punishes inc" and "\<not> inc_DryRun inc" and "\<not> vd_ReviewOnly (inc_Verdict inc)"
  shows "sat (\<lambda>x evs. snd x = None \<longrightarrow> carried inc evs) (finish E mc i inc)"
  unfolding finish_def using assms(2,3)
  by (simp, intro sat_keep [OF sat_Enforce [OF assms(1)], where T = "\<lambda>out x. snd x = None \<longrightarrow> oc_Err out = None"])
     (auto intro!: emit_intros yield_intros emits_free)

lemma sat_process_carried:
  assumes "punishes inc" and "\<not> inc_DryRun inc" and "\<not> vd_ReviewOnly (inc_Verdict inc)"
  shows "sat (\<lambda>x evs. snd x = None \<longrightarrow> carried inc evs) (process E mc i inc)"
proof -
  have last: "sat (\<lambda>x evs. snd x = None \<longrightarrow> carried inc evs)
      (case early of Some e \<Rightarrow> State_Monad.return (False, Some e) | None \<Rightarrow> finish E mc i inc)" for early
    by (cases early) (auto intro!: sat_return sat_finish assms)
  show ?thesis unfolding process_def Let_def
    by (intro sat_skip [where Q = "\<lambda>_. True"] last) (auto intro!: emit_intros emits_free)
qed

lemma sat_manualOverride:
  assumes "punishes inc"
  shows "sat (\<lambda>out evs. oc_Err out = None \<longrightarrow> carried inc evs) (manualOverride E mc i inc ids)"
  unfolding manualOverride_def
  by (rule sat_keep [OF sat_Enforce [OF assms], where T = "\<lambda>out x. x = out"])
     (auto intro!: emit_intros yield_intros emits_free)

lemma sat_override_manual:
  assumes "punishes inc" and "isManual (inc_Verdict inc)"
  shows "sat (\<lambda>x evs. fst x \<and> snd x = None \<longrightarrow> carried inc evs) (override E mc i inc)"
  unfolding override_def
proof (rule sat_skip [where Q = "\<lambda>_. True"], goal_cases)
  case 1
  show ?case by (intro emit_intros) simp
next
  case (2 cl)
  show ?case
  proof (cases cl)
    case (Inl e)
    then show ?thesis by (auto intro: sat_return)
  next
    case (Inr r)
    obtain claimed ids ev where r: "r = (claimed, ids, ev)" by (cases r)
    let ?inc = "if length ids > 0 then inc\<lparr>inc_MessageIDs := ids\<rparr> else inc"
    have p: "punishes ?inc" using assms(1) by simp
    have same: "carried ?inc = carried inc" by simp
    have man: "sat (\<lambda>x evs. snd x = None \<longrightarrow> carried inc evs)
        (do { out \<leftarrow> manualOverride E mc i ?inc ev; State_Monad.return (oc_Sanctioned out, oc_Err out) })"
      by (rule sat_keep [OF sat_manualOverride [OF p], where T = "\<lambda>out x. snd x = oc_Err out"])
         (auto intro!: emit_intros yield_intros split: if_splits)
    have fin: "sat (\<lambda>x evs. fst x \<and> snd x = None \<longrightarrow> carried inc evs)
        (do { res \<leftarrow> do { out \<leftarrow> manualOverride E mc i ?inc ev; State_Monad.return (oc_Sanctioned out, oc_Err out) };
              _ \<leftarrow> store E ''FinishManualOverride'' i (\<lambda>now. FinishManualOverride i (inc_Verdict ?inc) (fst res));
              _ \<leftarrow> (if snd res = None then notice E mc ?inc else State_Monad.return ());
              State_Monad.return (True, snd res) })"
      by (rule sat_keep [OF man, where T = "\<lambda>res x. snd x = snd res"])
         (auto intro!: emit_intros yield_intros emits_free)
    have none: "sat (\<lambda>x evs. fst x \<and> snd x = None \<longrightarrow> carried inc evs) (State_Monad.return (False, e))" for e
      by (rule sat_return) simp
    show ?thesis
      unfolding Inr r sum.case prod.case Let_def
      using none fin assms(2) by (cases claimed) (simp_all add: Let_def)
  qed
qed auto

lemma sat_handle_manual:
  assumes "punishes inc" and "isManual (inc_Verdict inc)" and "\<not> inc_DryRun inc" and "\<not> vd_ReviewOnly (inc_Verdict inc)"
  shows "sat (\<lambda>x evs. fst x \<and> snd x = None \<longrightarrow> carried inc evs) (handle E mc inc)"
proof -
  have fresh: "sat (\<lambda>x evs. fst x \<and> snd x = None \<longrightarrow> carried inc evs)
      (do { r \<leftarrow> process E mc i inc; State_Monad.return (True, snd r) })" for i
    by (rule sat_keep [OF sat_process_carried [OF assms(1,3,4)], where T = "\<lambda>r x. snd x = snd r"])
       (auto intro!: emit_intros yield_intros)
  have rest: "sat (\<lambda>x evs. fst x \<and> snd x = None \<longrightarrow> carried inc evs)
     (case ins of
        Inl e \<Rightarrow> State_Monad.return (False, Some (wrapErr (lit ''insert pending: '') e []))
      | Inr (i, fr) \<Rightarrow>
          if \<not> fr then
            (if isManual (inc_Verdict inc) then override E mc i inc
             else if \<not> inc_DryRun inc \<and> \<not> vd_ReviewOnly (inc_Verdict inc) \<and> IsActionable (inc_Verdict inc)
                      \<and> vd_Action (inc_Verdict inc) \<noteq> ActionQuarantine
               then override E mc i inc
             else State_Monad.return (False, None))
          else do { r \<leftarrow> process E mc i inc; State_Monad.return (True, snd r) })" for ins
    using assms(2) by (auto intro!: sat_return sat_override_manual assms fresh split: sum.split)
  show ?thesis unfolding handle_def
    by (intro sat_if sat_return sat_skip [where Q = "\<lambda>_. True"] rest) (auto intro!: emit_intros)
qed


section \<open>What the moderator is told\<close>

text \<open>The texts that report a carried out order.\<close>

definition doneTexts :: "str set" where
  "doneTexts = {msgSpam, msgAlbum, msgBanned}"

fun noAck :: "event \<Rightarrow> bool" where
  "noAck (EvPort (SendEphemeral ch u t) r) = (t \<notin> doneTexts)"
| "noAck _ = True"

lemma other_texts [simp]:
  "msgDenied \<notin> doneTexts" "msgNoReply \<notin> doneTexts" "msgProtected \<notin> doneTexts" "msgLinkedUnknown \<notin> doneTexts"
  "msgLinked \<notin> doneTexts" "msgOwn \<notin> doneTexts" "msgNoAuthor \<notin> doneTexts" "msgRightsUnknown \<notin> doneTexts"
  "msgAdmin \<notin> doneTexts" "msgNoMachine \<notin> doneTexts" "msgFailed @ t \<notin> doneTexts" "msgDuplicate \<notin> doneTexts"
  "msgPartly @ t \<notin> doneTexts" "msgLifted \<notin> doneTexts"
  by (simp_all add: doneTexts_def msgDenied_def msgNoReply_def msgProtected_def msgLinkedUnknown_def msgLinked_def
      msgOwn_def msgNoAuthor_def msgRightsUnknown_def msgAdmin_def msgNoMachine_def msgFailed_def msgDuplicate_def
      msgPartly_def msgLifted_def msgSpam_def msgAlbum_def msgBanned_def)

lemma a_counted: "emits noAck (counted c cmd r)"
  unfolding counted_def by (intro emit_intros) simp

lemma a_notify: "t \<notin> doneTexts \<Longrightarrow> emits noAck (notify E m t)"
  unfolding notify_def by (intro emit_intros) simp_all

lemma a_Authorized: "emits noAck (Authorized E h ch u)"
  unfolding Authorized_def by (intro emit_intros) simp

lemma a_authorize: "emits noAck (authorize E c m)"
  unfolding authorize_def Let_def by (intro emit_intros a_Authorized)

lemma a_deleteCommand: "emits noAck (deleteCommand E m)"
  unfolding deleteCommand_def by (intro emit_intros) simp_all

definition quietRelabel :: "commands \<Rightarrow> bool" where
  "quietRelabel c \<longleftrightarrow> (\<forall>f. cm_Relabel c = Some f \<longrightarrow> (\<forall>ch a b ts. emits noAck (f ch a b ts)))"

lemma a_train: "quietRelabel c \<Longrightarrow> emits noAck (trainCommand c ch a b ts)"
  unfolding trainCommand_def quietRelabel_def by (cases "cm_Relabel c") (auto intro!: emit_intros)

lemma a_authorRefusal: "sat (\<lambda>x evs. (\<forall>t. x = Some t \<longrightarrow> t \<notin> doneTexts) \<and> list_all noAck evs) (authorRefusal E c ch s)"
proof -
  have "emits noAck (authorRefusal E c ch s)"
    unfolding authorRefusal_def by (intro emit_intros a_Authorized)
  moreover have "yields (\<lambda>x. \<forall>t. x = Some t \<longrightarrow> t \<notin> doneTexts) (authorRefusal E c ch s)"
    unfolding authorRefusal_def by (intro yield_intros) (auto split: sum.splits if_splits)
  ultimately show ?thesis by (intro sat_emits_yields)
qed

lemma a_targetRefusal:
  "sat (\<lambda>x evs. (\<forall>t. x = Some t \<longrightarrow> t \<notin> doneTexts) \<and> list_all noAck evs) (targetRefusal E c ch target)"
proof -
  have ret: "sat (\<lambda>x evs. (\<forall>t. x = Some t \<longrightarrow> t \<notin> doneTexts) \<and> list_all noAck evs) (State_Monad.return (Some t))"
    if "t \<notin> doneTexts" for t by (rule sat_return) (use that in simp)
  have call: "sat (\<lambda>_ evs. list_all noAck evs) (call E (LinkedChatID ch))" by (rule sat_call) simp
  show ?thesis unfolding targetRefusal_def Let_def
    by (intro sat_if ret a_authorRefusal sat_bind [OF call]) (auto intro!: ret a_authorRefusal)
qed

lemma reports_noAck: "reports mc e \<Longrightarrow> noAck e"
  by (induction e rule: noAck.induct) (simp_all)

lemma a_handle:
  assumes "mc_EphemeralText mc \<notin> doneTexts"
  shows "emits noAck (handle E mc inc)"
proof -
  have reports: "emits noAck m" if "emits (reports mc) m" for m :: "'a act"
    by (rule emits_mono [OF that]) (erule reports_noAck)
  have act: "emits noAck (applyAction E i)" for i
    unfolding applyAction_def Let_def by (cases "vd_Action (inc_Verdict i)") (auto intro!: emit_intros)
  have ntc: "emits noAck (notice E mc i)" for i
    unfolding notice_def by (intro emit_intros) (simp add: assms)
  have enf: "emits noAck (Enforce E i j)" for i j
    unfolding Enforce_def Let_def by (intro emit_intros act; simp)
  have proc: "emits noAck (process E mc i j)" for i j
    unfolding process_def finish_def Let_def
    by (intro emit_intros enf ntc reports emits_recordParts emits_withoutEvidence emits_withEvidence; simp)
  have over: "emits noAck (override E mc i j)" for i j
    unfolding override_def manualOverride_def Let_def
    by (intro emit_intros enf ntc proc reports emits_sendCard; simp)
  show ?thesis unfolding handle_def by (intro emit_intros proc over; simp)
qed

text \<open>Told only when done: what a part of a command shows of it.\<close>

definition tellsTruth :: "(event list \<Rightarrow> bool) \<Rightarrow> event list \<Rightarrow> bool" where
  "tellsTruth C evs \<longleftrightarrow> list_all noAck evs \<or> C evs"

lemma tellsTruth_quiet: "emits noAck m \<Longrightarrow> sat (\<lambda>_ evs. tellsTruth C evs) m"
  by (rule sat_mono [OF sat_emits]) (auto simp: tellsTruth_def)

text \<open>A report whose success is a carried out order, then an acknowledgement only
  on that success.\<close>

lemma tellsTruth_report:
  assumes "sat (\<lambda>x evs. fst x \<and> snd x = None \<longrightarrow> C evs) m" and "emits noAck m"
    and "\<And>x. emits (\<lambda>_. True) (f x)" and "\<And>fr e. \<not> (fr \<and> e = None) \<Longrightarrow> emits noAck (f (fr, e))"
    and "\<And>xs ys. C xs \<Longrightarrow> C (xs @ ys)"
  shows "sat (\<lambda>_ evs. tellsTruth C evs) (State_Monad.bind m f)"
proof (rule sat_bind [OF sat_conj [OF assms(1) sat_emits [OF assms(2)]],
      where T = "\<lambda>x _ evs. \<not> (fst x \<and> snd x = None) \<longrightarrow> list_all noAck evs"], goal_cases)
  case (1 x)
  show ?case
  proof (cases "fst x \<and> snd x = None")
    case True
    then show ?thesis using sat_any [OF assms(3) [of x]] by simp
  next
    case False
    then show ?thesis using sat_emits [OF assms(4) [of "fst x" "snd x"]] by simp
  qed
qed (use assms(5) in \<open>auto simp: tellsTruth_def\<close>)

abbreviation orderOf :: "admin_command \<Rightarrow> action" where
  "orderOf cmd \<equiv> (if cmd = CmdBan then ActionBan else ActionDeleteMute)"

lemma isManual_manual [simp]:
  "isManual (manualVerdict act ''manual_spam'' m)" "isManual (manualVerdict act ''manual_ban'' m)"
  by (simp_all add: isManual_def manualVerdict_def)

lemma manual_simps [simp]:
  "inc_ChatID (manualIncident t v ts) = msg_ChatID t" "inc_Sender (manualIncident t v ts) = msg_Sender t"
  "inc_Verdict (manualIncident t v ts) = v" "\<not> inc_DryRun (manualIncident t v ts)"
  "inc_Tokens (manualIncident t v ts) = ts" "inc_MessageIDs (manualIncident t v ts) = [msg_MessageID t]"
  "vd_Action (manualVerdict act r m) = act" "\<not> vd_ReviewOnly (manualVerdict act r m)"
  by (simp_all add: manualIncident_def manualVerdict_def)

lemmas told_parts = a_counted a_notify a_train a_deleteCommand

lemma emits_free_commands:
  "emits (\<lambda>_. True) (counted c cmd r)" "emits (\<lambda>_. True) (notify E m t)" "emits (\<lambda>_. True) (deleteCommand E m)"
  "quietRelabel c \<Longrightarrow> emits (\<lambda>_. True) (trainCommand c ch a b ts)"
  by (rule emits_any [OF a_counted] emits_any [OF a_deleteCommand] emits_any [OF a_train]
      | assumption | (unfold notify_def, intro emit_intros; simp))+

lemma told_handleSpam:
  assumes "cm_Report c = Some (HandleReport E mc)" and "mc_EphemeralText mc \<notin> doneTexts" and "quietRelabel c"
  shows "sat (\<lambda>_ evs. tellsTruth (carriedOut (msg_ChatID t) (msg_Sender t) ActionDeleteMute) evs) (handleSpam U E c m t)"
proof -
  let ?inc = "manualIncident t (manualVerdict ActionDeleteMute ''manual_spam'' m) (Tokenize U (NormalizeMessage U t))"
  have rep: "sat (\<lambda>x evs. fst x \<and> snd x = None \<longrightarrow> carriedOut (msg_ChatID t) (msg_Sender t) ActionDeleteMute evs)
      (HandleReport E mc ?inc)"
    using sat_handle_manual [of ?inc E mc] by (simp add: HandleReport_def)
  have quiet: "emits noAck (HandleReport E mc ?inc)" unfolding HandleReport_def by (rule a_handle [OF assms(2)])
  show ?thesis unfolding handleSpam_def assms(1) option.case Let_def
    by (rule tellsTruth_report [OF rep quiet])
       (auto intro!: emit_intros told_parts emits_free_commands assms(3) split: prod.split option.split)
qed

lemma told_handleBan:
  assumes "cm_Report c = Some (HandleReport E mc)" and "mc_EphemeralText mc \<notin> doneTexts"
  shows "sat (\<lambda>_ evs. tellsTruth (carriedOut (msg_ChatID t) (msg_Sender t) ActionBan) evs) (handleBan E c m t)"
proof -
  let ?inc = "manualIncident t (manualVerdict ActionBan ''manual_ban'' m) []"
  have rep: "sat (\<lambda>x evs. fst x \<and> snd x = None \<longrightarrow> carriedOut (msg_ChatID t) (msg_Sender t) ActionBan evs)
      (HandleReport E mc ?inc)"
    using sat_handle_manual [of ?inc E mc] by (simp add: HandleReport_def)
  have quiet: "emits noAck (HandleReport E mc ?inc)" unfolding HandleReport_def by (rule a_handle [OF assms(2)])
  show ?thesis unfolding handleBan_def assms(1) option.case
    by (rule tellsTruth_report [OF rep quiet])
       (auto intro!: emit_intros told_parts emits_free_commands split: prod.split option.split)
qed

lemma told_handleHam:
  assumes "quietRelabel c"
  shows "emits noAck (handleHam U E c m t)"
  unfolding handleHam_def liftStep_def Let_def
  by (intro emit_intros told_parts assms) simp_all


lemma told_HandleCommand:
  assumes "ParseCommand U (msg_Text m) (cm_BotUsername c) = Some cmd" and "cm_Report c = Some (HandleReport E mc)"
    and "mc_EphemeralText mc \<notin> doneTexts" and "quietRelabel c"
  shows "sat (\<lambda>_ evs. tellsTruth (\<lambda>es. \<exists>t. msg_ReplyTo m = Some t \<and>
      carriedOut (msg_ChatID t) (msg_Sender t) (orderOf cmd) es) evs) (HandleCommand U E c m)"
    (is "sat (\<lambda>_ evs. tellsTruth ?C evs) _")
proof -
  have run: "sat (\<lambda>_ evs. tellsTruth ?C evs) (runCommand U E c cmd m t)" if "msg_ReplyTo m = Some t" for t
    using sat_mono [OF told_handleSpam [OF assms(2-4)]] sat_mono [OF told_handleBan [OF assms(2,3)]]
      tellsTruth_quiet [OF told_handleHam [OF assms(4)]] that
    by (cases cmd) (auto simp: runCommand_def tellsTruth_def)
  have quiet: "sat (\<lambda>_ evs. tellsTruth ?C evs) (do { _ \<leftarrow> counted c cmd r; notify E m t })" if "t \<notin> doneTexts" for r t
    by (rule tellsTruth_quiet) (intro emit_intros told_parts that)
  have logged: "sat (\<lambda>_ evs. tellsTruth ?C evs) (do { _ \<leftarrow> logLine l; counted c cmd r })" for l r
    by (rule tellsTruth_quiet) (intro emit_intros told_parts, simp)
  have cat: "tellsTruth ?C (e1 @ e2)" if "list_all noAck e1" and "tellsTruth ?C e2" for e1 e2
    using that carriedOut_append(2) by (auto simp: tellsTruth_def)
  have target: "sat (\<lambda>_ evs. tellsTruth ?C evs)
     (do { refusal \<leftarrow> targetRefusal E c (msg_ChatID m) t;
           case refusal of
             Some reason \<Rightarrow> do { _ \<leftarrow> counted c cmd ''immune_target''; notify E m reason }
           | None \<Rightarrow> runCommand U E c cmd m t })" if "msg_ReplyTo m = Some t" for t
  proof (rule sat_bind [OF a_targetRefusal, where
        T = "\<lambda>x _ evs. (\<forall>t. x = Some t \<longrightarrow> t \<notin> doneTexts) \<longrightarrow> tellsTruth ?C evs"], goal_cases)
    case (1 x)
    show ?case
    proof (cases x)
      case None
      then show ?thesis using run [OF that] by simp
    next
      case (Some reason)
      then show ?thesis using quiet [of reason] sat_any [of "\<lambda>_. True"]
        by (cases "reason \<in> doneTexts") (auto intro!: sat_any [of "\<lambda>_. True"] emit_intros emits_free_commands)
    qed
  qed (use cat in auto)
  show ?thesis unfolding HandleCommand_def assms(1) option.case
  proof (rule sat_bind [OF sat_emits [OF a_authorize], where T = "\<lambda>_ _ evs. tellsTruth ?C evs"], goal_cases)
    case (1 x)
    show ?case
      by (rule sat_sum, rule logged, rule sat_if, rule quiet, simp, rule sat_option, rule quiet, simp, rule target)
  qed (use cat in auto)
qed

text \<open>C20. A moderator is told the truth: when \<open>/spam\<close> or \<open>/ban\<close>
  answers that the author was muted or banned and the message removed, the
  sanctioning call on that author and a deletion in that chat were both made
  for this command and both came back without an error, whatever failed or
  interleaved otherwise, and also when the order took over a recorded
  incident.\<close>

theorem acknowledged_orders_were_carried_out:
  assumes "ParseCommand U (msg_Text m) (cm_BotUsername c) = Some cmd" and "cm_Report c = Some (HandleReport E mc)"
    and "mc_EphemeralText mc \<notin> doneTexts" and "quietRelabel c"
    and "EvPort (SendEphemeral ch u told) r \<in> set (events (HandleCommand U E c m) w)" and "told \<in> doneTexts"
  shows "\<exists>t. msg_ReplyTo m = Some t \<and>
     carriedOut (msg_ChatID t) (msg_Sender t) (if cmd = CmdBan then ActionBan else ActionDeleteMute)
       (events (HandleCommand U E c m) w)"
  using sat_events [OF told_HandleCommand [OF assms(1-4)], of w] assms(5,6)
  by (fastforce simp: tellsTruth_def list_all_iff)

section \<open>Banning teaches nothing\<close>

text \<open>A ban is not a statement about the text: a \<open>/ban\<close>, carried out or
  not, leaves the samples and the corpus as they were and keeps no tokens of
  the message for later training, whoever gives it and whatever relabeller is
  installed.\<close>

theorem bans_teach_nothing:
  assumes "ParseCommand U (msg_Text m) (cm_BotUsername c) = Some CmdBan" and "cm_Report c = Some (HandleReport E mc)"
    and "stable E (learnedAs old)" and "learnedAs old (w_db w)"
  shows "learnedAs old (w_db (after (HandleCommand U E c m) w))"
proof -
  have rep: "keepsDB E (learnedAs old) (HandleReport E mc (manualIncident t v []))" for t v
    unfolding HandleReport_def by (rule learning.keeps_handle [OF assms(3)]) simp
  have parts: "keepsDB E (learnedAs old) (counted c CmdBan s)" "keepsDB E (learnedAs old) (notify E m t)"
    "keepsDB E (learnedAs old) (deleteCommand E m)" for s t
    unfolding counted_def notify_def deleteCommand_def by (intro keeps_intros)+
  have rights: "keepsDB E (learnedAs old) (authorize E c m)" "keepsDB E (learnedAs old) (targetRefusal E c ch t)" for ch t
    unfolding authorize_def targetRefusal_def authorRefusal_def Authorized_def Let_def by (intro keeps_intros)+
  have "keepsDB E (learnedAs old) (HandleCommand U E c m)"
    unfolding HandleCommand_def runCommand_def handleBan_def assms(1,2) option.case admin_command.case
    by (intro keeps_intros rep parts rights)
  then show ?thesis using assms(4) by (simp add: keepsDB_def after_def)
qed


section \<open>Who and at whom\<close>

text \<open>Events that only refuse: reads of the administrators and of the linked
  channel, private answers, log lines, counters.\<close>

fun onlyRefuses :: "event \<Rightarrow> bool" where
  "onlyRefuses (EvPort (GetChatAdministrators ch) r) = True"
| "onlyRefuses (EvPort (LinkedChatID ch) r) = True"
| "onlyRefuses (EvPort (SendEphemeral ch u t) r) = True"
| "onlyRefuses (EvPort (AnswerCallback q t) r) = True"
| "onlyRefuses (EvLog s) = True"
| "onlyRefuses (EvCount s) = True"
| "onlyRefuses _ = False"

text \<open>Neither posting as the chat itself, nor an operator, nor on a list of
  administrators.\<close>

definition noModerator :: "env \<Rightarrow> commands \<Rightarrow> message \<Rightarrow> bool" where
  "noModerator E c m \<longleftrightarrow>
     \<not> (sn_SenderChatID (msg_Sender m) \<noteq> 0 \<and> sn_SenderChatID (msg_Sender m) = msg_ChatID m) \<and>
     (sn_UserID (msg_Sender m) = 0 \<or> outsider E (cm_Handler c) (sn_UserID (msg_Sender m)))"

text \<open>The protected senders of a chat: the bot, its administrators and
  operators, anonymous administrators, the linked channel, messages without
  an author; and whoever cannot be checked.\<close>

definition refusedAuthor :: "env \<Rightarrow> commands \<Rightarrow> chat_id \<Rightarrow> sender \<Rightarrow> bool" where
  "refusedAuthor E c ch s \<longleftrightarrow>
     (sn_UserID s = cm_BotID c \<and> cm_BotID c \<noteq> 0) \<or> (sn_UserID s = 0 \<and> sn_SenderChatID s = 0) \<or>
     (sn_UserID s \<noteq> 0 \<and>
       (List.member (hd_Operators (cm_Handler c)) (sn_UserID s) \<or>
        (\<forall>n. pr_err (en_port E n (GetChatAdministrators ch)) \<noteq> None \<or>
             list_ex (\<lambda>mb. mb_UserID mb = sn_UserID s) (pr_members (en_port E n (GetChatAdministrators ch))))))"

definition protectedSender :: "env \<Rightarrow> commands \<Rightarrow> chat_id \<Rightarrow> sender \<Rightarrow> bool" where
  "protectedSender E c ch s \<longleftrightarrow>
     ImmuneSender s \<or> (sn_SenderChatID s \<noteq> 0 \<and> sn_SenderChatID s = ch) \<or>
     (sn_Kind s = SenderExternalChannel \<and> sn_SenderChatID s \<noteq> 0 \<and>
       (\<forall>n. pr_err (en_port E n (LinkedChatID ch)) \<noteq> None \<or> pr_id (en_port E n (LinkedChatID ch)) = sn_SenderChatID s)) \<or>
     refusedAuthor E c ch s"

abbreviation allDB :: "db \<Rightarrow> bool" where
  "allDB \<equiv> \<lambda>_. True"

lemma r_counted: "safe allDB onlyRefuses (counted c cmd s)"
  unfolding counted_def by (intro guard_intros safe_count) simp

lemma r_notify: "safe allDB onlyRefuses (notify E m t)"
  unfolding notify_def by (intro guard_intros safe_call safe_log) simp_all

lemma r_authorize:
  assumes "noModerator E c m"
  shows "guarded allDB onlyRefuses (\<lambda>x. x \<noteq> Inr True) (authorize E c m)"
proof -
  have "guarded allDB onlyRefuses (\<lambda>x. x \<noteq> Inr True) (Authorized E (cm_Handler c) ch u)"
    if "outsider E (cm_Handler c) u" for ch u
    by (rule guarded_events [OF g_Authorized [OF that]]) (erule onlyAnswers.elims(2), simp_all)
  then show ?thesis using assms by (auto simp: authorize_def noModerator_def Let_def intro!: guarded_return)
qed

lemma r_Authorized_known:
  assumes "List.member (hd_Operators h) u \<or> (\<forall>n. pr_err (en_port E n (GetChatAdministrators ch)) \<noteq> None \<or>
      list_ex (\<lambda>mb. mb_UserID mb = u) (pr_members (en_port E n (GetChatAdministrators ch))))"
  shows "guarded allDB onlyRefuses (\<lambda>x. x \<noteq> Inr False) (Authorized E h ch u)"
proof (cases "List.member (hd_Operators h) u")
  case True
  then show ?thesis by (auto simp: Authorized_def intro!: guarded_return)
next
  case False
  have "guarded allDB onlyRefuses (\<lambda>r. pr_err r \<noteq> None \<or> list_ex (\<lambda>mb. mb_UserID mb = u) (pr_members r))
      (call E (GetChatAdministrators ch))"
    unfolding guarded_def by (rule hoare_call) (use assms False in auto)
  then have "guarded allDB onlyRefuses (\<lambda>x. x \<noteq> Inr False)
     (do { r \<leftarrow> call E (GetChatAdministrators ch);
           State_Monad.return
             (case pr_err r of Some e \<Rightarrow> Inl (wrapErr (lit ''get chat administrators: '') e [])
              | None \<Rightarrow> Inr (list_ex (\<lambda>m. mb_UserID m = u) (pr_members r))) })"
    by (rule guarded_bind) (auto intro!: guarded_return split: option.splits)
  then show ?thesis using False by (simp add: Authorized_def)
qed

lemma r_Authorized: "safe allDB onlyRefuses (Authorized E h ch u)"
  unfolding Authorized_def by (intro guard_intros safe_call) simp

lemma r_authorRefusal:
  assumes "refusedAuthor E c ch s"
  shows "guarded allDB onlyRefuses (\<lambda>x. x \<noteq> None) (authorRefusal E c ch s)"
proof (cases "(sn_UserID s = cm_BotID c \<and> cm_BotID c \<noteq> 0) \<or> (sn_UserID s = 0 \<and> sn_SenderChatID s = 0)")
  case True
  then show ?thesis by (auto simp: authorRefusal_def intro!: guarded_return)
next
  case False
  then have "guarded allDB onlyRefuses (\<lambda>x. x \<noteq> Inr False) (Authorized E (cm_Handler c) ch (sn_UserID s))"
    using assms unfolding refusedAuthor_def by (intro r_Authorized_known) auto
  then have "guarded allDB onlyRefuses (\<lambda>x. x \<noteq> None)
      (do { a \<leftarrow> Authorized E (cm_Handler c) ch (sn_UserID s);
            State_Monad.return (case a of Inl e \<Rightarrow> Some msgRightsUnknown | Inr isAdmin \<Rightarrow> if isAdmin then Some msgAdmin else None) })"
    by (rule guarded_bind) (auto intro!: guarded_return split: sum.splits)
  then show ?thesis using False assms by (auto simp: authorRefusal_def refusedAuthor_def)
qed

lemma r_targetRefusal:
  assumes "protectedSender E c ch (msg_Sender t)"
  shows "guarded allDB onlyRefuses (\<lambda>x. x \<noteq> None) (targetRefusal E c ch t)"
proof (cases "refusedAuthor E c ch (msg_Sender t)")
  case True
  show ?thesis unfolding targetRefusal_def Let_def
    by (intro guarded_if guarded_return safe_bind [OF safe_call] r_authorRefusal [OF True]) simp_all
next
  case False
  have link: "guarded allDB onlyRefuses (\<lambda>l. pr_err l \<noteq> None \<or> pr_id l = sn_SenderChatID (msg_Sender t)) (call E (LinkedChatID ch))"
    if "\<forall>n. pr_err (en_port E n (LinkedChatID ch)) \<noteq> None \<or> pr_id (en_port E n (LinkedChatID ch)) = sn_SenderChatID (msg_Sender t)"
    unfolding guarded_def by (rule hoare_call) (use that in auto)
  have linked: "guarded allDB onlyRefuses (\<lambda>x. x \<noteq> None)
      (do { l \<leftarrow> call E (LinkedChatID ch);
            if pr_err l \<noteq> None then State_Monad.return (Some msgLinkedUnknown)
            else if pr_id l \<noteq> 0 \<and> pr_id l = sn_SenderChatID (msg_Sender t) then State_Monad.return (Some msgLinked)
            else authorRefusal E c ch (msg_Sender t) })"
    if "\<forall>n. pr_err (en_port E n (LinkedChatID ch)) \<noteq> None \<or> pr_id (en_port E n (LinkedChatID ch)) = sn_SenderChatID (msg_Sender t)"
      and "sn_SenderChatID (msg_Sender t) \<noteq> 0"
    by (rule guarded_bind [OF link [OF that(1)]]) (use that(2) in \<open>auto intro!: guarded_return\<close>)
  have ret: "guarded allDB onlyRefuses (\<lambda>x. x \<noteq> None) (State_Monad.return (Some x))" for x :: str
    by (rule guarded_return) simp
  show ?thesis using assms False ret linked unfolding targetRefusal_def protectedSender_def Let_def
    by (elim disjE conjE) simp_all
qed

text \<open>C21. Commands keep to their limits: from somebody who is no moderator of
  the chat, or at a message of a protected sender, a command only refuses.
  Nobody is sanctioned or released, nothing is deleted, recorded or learned,
  whatever the installed reporter and relabeller are, also when the rights
  cannot be checked.\<close>

theorem commands_keep_their_limits:
  assumes "noModerator E c m \<or> (\<forall>t. msg_ReplyTo m = Some t \<longrightarrow> protectedSender E c (msg_ChatID m) (msg_Sender t))"
  shows "list_all onlyRefuses (events (HandleCommand U E c m) w)"
proof -
  have target: "safe allDB onlyRefuses
      (case msg_ReplyTo m of
         None \<Rightarrow> do { _ \<leftarrow> counted c cmd ''no_reply''; notify E m msgNoReply }
       | Some t \<Rightarrow> do {
           refusal \<leftarrow> targetRefusal E c (msg_ChatID m) t;
           case refusal of
             Some reason \<Rightarrow> do { _ \<leftarrow> counted c cmd ''immune_target''; notify E m reason }
           | None \<Rightarrow> runCommand U E c cmd m t
         })" if "\<not> noModerator E c m" for cmd
  proof (rule guarded_option)
    fix t assume "msg_ReplyTo m = Some t"
    then have "protectedSender E c (msg_ChatID m) (msg_Sender t)" using assms that by simp
    then show "safe allDB onlyRefuses
       (do { refusal \<leftarrow> targetRefusal E c (msg_ChatID m) t;
             case refusal of
               Some reason \<Rightarrow> do { _ \<leftarrow> counted c cmd ''immune_target''; notify E m reason }
             | None \<Rightarrow> runCommand U E c cmd m t })"
      by (rule guarded_bind [OF r_targetRefusal]) (auto intro!: guard_intros r_counted r_notify)
  qed (intro guard_intros r_counted r_notify)
  have auth: "guarded allDB onlyRefuses (\<lambda>x. noModerator E c m \<longrightarrow> x \<noteq> Inr True) (authorize E c m)"
  proof (cases "noModerator E c m")
    case True
    then show ?thesis using r_authorize by simp
  next
    case False
    have "safe allDB onlyRefuses (authorize E c m)"
      unfolding authorize_def Let_def by (intro guard_intros r_Authorized)
    then show ?thesis using False by simp
  qed
  have "safe allDB onlyRefuses (HandleCommand U E c m)"
    unfolding HandleCommand_def
  proof (rule guarded_option, rule safe_return, rule guarded_bind [OF auth], goal_cases)
    case (1 cmd x)
    show ?case
    proof (rule guarded_sum)
      fix e :: goerr
      show "safe allDB onlyRefuses
          (do { _ \<leftarrow> logLine (lit ''command '' @ lit (cmdName cmd) @ lit '' chat='' @ showID (msg_ChatID m)
                  @ lit '': authorization unavailable: '' @ ge_text e); counted c cmd ''auth_error'' })"
        by (intro guard_intros safe_log r_counted) simp
    next
      fix allowed assume x: "x = Inr allowed"
      show "safe allDB onlyRefuses
          (if \<not> allowed then do { _ \<leftarrow> counted c cmd ''denied''; notify E m msgDenied }
           else (case msg_ReplyTo m of
                   None \<Rightarrow> do { _ \<leftarrow> counted c cmd ''no_reply''; notify E m msgNoReply }
                 | Some t \<Rightarrow> do {
                     refusal \<leftarrow> targetRefusal E c (msg_ChatID m) t;
                     case refusal of
                       Some reason \<Rightarrow> do { _ \<leftarrow> counted c cmd ''immune_target''; notify E m reason }
                     | None \<Rightarrow> runCommand U E c cmd m t }))"
        using 1(2) x by (intro guarded_if target) (auto intro!: guard_intros r_counted r_notify)
    qed
  qed
  then show ?thesis by (rule guardedD(1)) simp
qed


section \<open>A concrete command\<close>

definition plainLib :: golib where
  "plainLib = \<lparr>u_nfkc = (\<lambda>s. s), u_lower = (\<lambda>r. r), u_fold = (\<lambda>r. r), u_letter = (\<lambda>r. False), u_number = (\<lambda>r. False),
     lib_sha256hex = (\<lambda>s. s), lib_fmt2 = (\<lambda>x. []), lib_parseURL = (\<lambda>s. None)\<rparr>"

definition plainSender :: "user_id \<Rightarrow> sender" where
  "plainSender u = \<lparr>sn_Kind = SenderUser, sn_UserID = u, sn_SenderChatID = 0, sn_Username = [], sn_DisplayName = []\<rparr>"

definition plainText :: "user_id \<Rightarrow> message_id \<Rightarrow> str \<Rightarrow> envelope" where
  "plainText u i t = \<lparr>msg_ChatID = -100, msg_MessageID = i, msg_ThreadID = 0, msg_MediaGroupID = [],
     msg_Sender = plainSender u, msg_Text = t, msg_Date = 0, msg_IsAutomaticForward = False, msg_LinkedChatID = 0,
     msg_Entities = [], msg_SenderTag = [], msg_ExternalReplyText = [], msg_ExternalReplyMediaKinds = [],
     msg_ExternalReplyDocumentExtensions = [], msg_ExternalReplyDocumentMIMETypes = [], msg_StructuredTexts = [],
     msg_EditDate = 0, msg_MediaKinds = [], msg_DocumentExtensions = [], msg_DocumentMIMETypes = [],
     msg_Forwarded = False, msg_ForwardedFromChat = False, msg_HasKeyboard = False, msg_ViaBot = False,
     msg_ServiceKind = []\<rparr>"

definition plainCommand :: "user_id \<Rightarrow> string \<Rightarrow> message" where
  "plainCommand u t = envelope.extend (plainText u 6 (lit t)) \<lparr>msg_ReplyTo = Some (plainText 42 5 (lit ''hi''))\<rparr>"

definition plainMachine :: machine where
  "plainMachine = \<lparr>mc_AdminChatID = -1, mc_ButtonsFor = None, mc_EphemeralNotice = False, mc_EphemeralText = []\<rparr>"

definition plainCommands :: commands where
  "plainCommands = \<lparr>cm_Handler = pressHandler, cm_BotUsername = lit ''bot'', cm_BotID = 1,
     cm_Report = Some (HandleReport pressEnv plainMachine), cm_Relabel = None, cm_Counts = True\<rparr>"

lemma plain_simps [simp]:
  "msg_Text (plainCommand u t) = lit t" "msg_ChatID (plainCommand u t) = -100" "msg_MessageID (plainCommand u t) = 6"
  "msg_Sender (plainCommand u t) = plainSender u" "msg_ReplyTo (plainCommand u t) = Some (plainText 42 5 (lit ''hi''))"
  "msg_ChatID (plainText u i s) = -100" "msg_MessageID (plainText u i s) = i" "msg_Sender (plainText u i s) = plainSender u"
  "sn_Kind (plainSender u) = SenderUser" "sn_UserID (plainSender u) = u" "sn_SenderChatID (plainSender u) = 0"
  by (simp_all add: plainCommand_def plainText_def plainSender_def envelope.defs)

lemma plain_parse: "ParseCommand plainLib [47, 98, 97, 110] [98, 111, 116] = Some CmdBan"
  by code_simp

lemma plain_env [simp]:
  "en_port pressEnv n cl = okReply" "en_dbfail pressEnv n = None" "en_others pressEnv n db = db" "en_now pressEnv n = 0"
  by (simp_all add: pressEnv_def quietEnv_def)

lemma plain_ban_acknowledged:
  "EvPort (SendEphemeral (-100) 9 msgBanned) okReply \<in>
     set (events (HandleCommand plainLib pressEnv plainCommands (plainCommand 9 ''/ban'')) (startWorld emptyDB))"
  by (simp add: HandleCommand_def plainCommands_def plain_parse authorize_def Authorized_def pressHandler_def
      targetRefusal_def authorRefusal_def ImmuneSender_def runCommand_def handleBan_def Let_def events_def run_simps
      okReply_def HandleReport_def handle_def process_def recordParts_def withEvidence_def sendCard_def plainMachine_def
      finish_def Enforce_def applyAction_def setState_def logOutcome_def notice_def enforceErr_def counted_def notify_def
      deleteCommand_def countMetric_def startWorld_def manualIncident_def manualVerdict_def InsertPending_def emptyDB_def
      SetIncidentState_def SaveIncidentCard_def AddEvidence_def refersTo_def findBy_def updIncidents_def updateWhere_def sumErr_def)


lemma plain_command [simp]:
  "ParseCommand plainLib (msg_Text (plainCommand 9 ''/ban'')) (cm_BotUsername plainCommands) = Some CmdBan"
  by (simp add: plainCommands_def plain_parse)

lemma plain_report [simp]: "cm_Report plainCommands = Some (HandleReport pressEnv plainMachine)"
  by (simp add: plainCommands_def)

theorem acknowledged_orders_were_carried_out_witness:
  "\<exists>t. msg_ReplyTo (plainCommand 9 ''/ban'') = Some t \<and>
     carriedOut (msg_ChatID t) (msg_Sender t) ActionBan
       (events (HandleCommand plainLib pressEnv plainCommands (plainCommand 9 ''/ban'')) (startWorld emptyDB))"
proof -
  have "mc_EphemeralText plainMachine \<notin> doneTexts"
    by (simp add: plainMachine_def doneTexts_def msgSpam_def msgAlbum_def msgBanned_def)
  moreover have "quietRelabel plainCommands" by (simp add: quietRelabel_def plainCommands_def)
  moreover have "msgBanned \<in> doneTexts" by (simp add: doneTexts_def)
  ultimately show ?thesis
    using acknowledged_orders_were_carried_out [OF plain_command plain_report _ _ plain_ban_acknowledged] by simp
qed

theorem bans_teach_nothing_witness:
  "learnedAs emptyDB (w_db (after (HandleCommand plainLib pressEnv plainCommands (plainCommand 9 ''/ban'')) (startWorld emptyDB)))"
  by (rule bans_teach_nothing [OF plain_command plain_report])
    (simp_all add: stable_def learnedAs_def startWorld_def)

theorem commands_keep_their_limits_witness:
  "list_all onlyRefuses (events (HandleCommand plainLib pressEnv plainCommands (plainCommand 7 ''/ban'')) (startWorld emptyDB))"
  by (rule commands_keep_their_limits)
    (simp add: noModerator_def outsider_def plainCommands_def pressHandler_def okReply_def)


end
