(* ===== verification/Sequencing.thy ===== *)
theory Sequencing
  imports Domain Prelude "HOL-Library.Multiset"
begin

text \<open>
  \<open>internal/telegram/sequencer.go\<close> and \<open>internal/telegram/album.go\<close>:
  the order in which accepted updates are worked on, and the grouping of
  album parts. Both are used by several goroutines at once, so each is a
  state with labelled steps, one per stretch of code between two points at
  which another goroutine can run; a history is any sequence of them.
\<close>

section \<open>The sequencer\<close>

definition queueCap :: nat where "queueCap = 1024"

text \<open>A chat's channel and its worker. The histories of what was accepted and
  what was run are kept beside the program's own state.\<close>

record 'j chat_queue =
  cq_Chan :: "'j list"
  cq_Exited :: bool
  cq_Accepted :: "'j list"
  cq_Ran :: "'j list"

definition newQueue :: "'j chat_queue" where
  "newQueue = \<lparr>cq_Chan = [], cq_Exited = False, cq_Accepted = [], cq_Ran = []\<rparr>"

record 'j sequencer =
  sq_Queues :: "(chat_id \<times> 'j chat_queue) list"
  sq_Sending :: "(chat_id \<times> 'j) list"
  sq_Closed :: bool
  sq_Dropped :: nat

definition NewSequencer :: "'j sequencer" where
  "NewSequencer = \<lparr>sq_Queues = [], sq_Sending = [], sq_Closed = False, sq_Dropped = 0\<rparr>"

text \<open>\<open>TrySubmit\<close> up to the unlock: the closed check and the chat's channel
  and worker. \<open>None\<close>: refused, otherwise the send is pending.\<close>

definition submitEnter :: "chat_id \<Rightarrow> 'j \<Rightarrow> 'j sequencer \<Rightarrow> 'j sequencer option" where
  "submitEnter c j s =
     (if sq_Closed s then None
      else Some (s\<lparr>sq_Queues := (case map_of (sq_Queues s) c of
                                   Some q \<Rightarrow> sq_Queues s
                                 | None \<Rightarrow> (c, newQueue) # sq_Queues s),
                   sq_Sending := (c, j) # sq_Sending s\<rparr>))"

definition updQueue :: "chat_id \<Rightarrow> ('j chat_queue \<Rightarrow> 'j chat_queue) \<Rightarrow> 'j sequencer \<Rightarrow> 'j sequencer" where
  "updQueue c f s = s\<lparr>sq_Queues := map (\<lambda>(k, q). (k, if k = c then f q else q)) (sq_Queues s)\<rparr>"

text \<open>The arms of the send's \<open>select\<close>: the channel has room, the sequencer is
  shutting down, or neither. Where both of the first are ready, either may be
  taken.\<close>

definition sendArm :: "chat_id \<Rightarrow> 'j \<Rightarrow> 'j sequencer \<Rightarrow> 'j sequencer option" where
  "sendArm c j s =
     (case map_of (sq_Queues s) c of
        None \<Rightarrow> None
      | Some q \<Rightarrow>
          if (c, j) \<in> set (sq_Sending s) \<and> length (cq_Chan q) < queueCap
          then Some (updQueue c (\<lambda>q. q\<lparr>cq_Chan := cq_Chan q @ [j], cq_Accepted := cq_Accepted q @ [j]\<rparr>)
                       (s\<lparr>sq_Sending := remove1 (c, j) (sq_Sending s)\<rparr>))
          else None)"

definition quitArm :: "chat_id \<Rightarrow> 'j \<Rightarrow> 'j sequencer \<Rightarrow> 'j sequencer option" where
  "quitArm c j s =
     (if (c, j) \<in> set (sq_Sending s) \<and> sq_Closed s
      then Some (s\<lparr>sq_Sending := remove1 (c, j) (sq_Sending s)\<rparr>) else None)"

definition dropArm :: "chat_id \<Rightarrow> 'j \<Rightarrow> 'j sequencer \<Rightarrow> 'j sequencer option" where
  "dropArm c j s =
     (case map_of (sq_Queues s) c of
        None \<Rightarrow> None
      | Some q \<Rightarrow>
          if (c, j) \<in> set (sq_Sending s) \<and> queueCap \<le> length (cq_Chan q) \<and> \<not> sq_Closed s
          then Some (s\<lparr>sq_Sending := remove1 (c, j) (sq_Sending s), sq_Dropped := Suc (sq_Dropped s)\<rparr>)
          else None)"

text \<open>One turn of a chat's worker: it runs the next job (a panicking one ends
  like any other), or, on shutdown and with nothing left, exits.\<close>

definition workerRun :: "chat_id \<Rightarrow> 'j sequencer \<Rightarrow> 'j sequencer option" where
  "workerRun c s =
     (case map_of (sq_Queues s) c of
        None \<Rightarrow> None
      | Some q \<Rightarrow>
          if cq_Exited q then None
          else (case cq_Chan q of
                  [] \<Rightarrow> None
                | j # js \<Rightarrow> Some (updQueue c (\<lambda>q. q\<lparr>cq_Chan := js, cq_Ran := cq_Ran q @ [j]\<rparr>) s)))"

definition workerExit :: "chat_id \<Rightarrow> 'j sequencer \<Rightarrow> 'j sequencer option" where
  "workerExit c s =
     (case map_of (sq_Queues s) c of
        None \<Rightarrow> None
      | Some q \<Rightarrow>
          if \<not> cq_Exited q \<and> sq_Closed s \<and> cq_Chan q = []
          then Some (updQueue c (\<lambda>q. q\<lparr>cq_Exited := True\<rparr>) s) else None)"

text \<open>\<open>Wait\<close>, which returns when every worker has exited.\<close>

definition closeSequencer :: "'j sequencer \<Rightarrow> 'j sequencer option" where
  "closeSequencer s = Some (s\<lparr>sq_Closed := True\<rparr>)"

definition waitReturns :: "'j sequencer \<Rightarrow> bool" where
  "waitReturns s \<longleftrightarrow> sq_Closed s \<and> list_all (\<lambda>(c, q). cq_Exited q) (sq_Queues s)"

datatype 'j seq_step =
  SubmitEnter chat_id 'j | SendArm chat_id 'j | QuitArm chat_id 'j | DropArm chat_id 'j
  | WorkerRun chat_id | WorkerExit chat_id | CloseSequencer

fun seqStep :: "'j seq_step \<Rightarrow> 'j sequencer \<Rightarrow> 'j sequencer option" where
  "seqStep (SubmitEnter c j) s = submitEnter c j s"
| "seqStep (SendArm c j) s = sendArm c j s"
| "seqStep (QuitArm c j) s = quitArm c j s"
| "seqStep (DropArm c j) s = dropArm c j s"
| "seqStep (WorkerRun c) s = workerRun c s"
| "seqStep (WorkerExit c) s = workerExit c s"
| "seqStep CloseSequencer s = closeSequencer s"

fun seqRun :: "'j seq_step list \<Rightarrow> 'j sequencer \<Rightarrow> 'j sequencer option" where
  "seqRun [] s = Some s"
| "seqRun (e # es) s = (case seqStep e s of None \<Rightarrow> None | Some s' \<Rightarrow> seqRun es s')"

section \<open>The album buffer\<close>

type_synonym album_key = "chat_id \<times> str"

text \<open>The parts of each group in arrival order, and the groups whose timer runs.
  Parts are any messages; only their chat and group are read.\<close>

record 'm album_buffer =
  ab_Pending :: "(album_key \<times> 'm list) list"
  ab_Timers :: "album_key list"

definition NewAlbumBuffer :: "'m album_buffer" where
  "NewAlbumBuffer = \<lparr>ab_Pending = [], ab_Timers = []\<rparr>"

definition pendingOf :: "'m album_buffer \<Rightarrow> album_key \<Rightarrow> 'm list" where
  "pendingOf a k = (case map_of (ab_Pending a) k of None \<Rightarrow> [] | Some ps \<Rightarrow> ps)"

definition albumKey :: "'a envelope_scheme \<Rightarrow> album_key" where
  "albumKey m = (msg_ChatID m, msg_MediaGroupID m)"

text \<open>\<open>True\<close>: a message of its own, for the caller to handle.\<close>

definition albumAdd :: "'a envelope_scheme \<Rightarrow> 'a envelope_scheme album_buffer \<Rightarrow> 'a envelope_scheme album_buffer \<times> bool" where
  "albumAdd m a =
     (if msg_MediaGroupID m = [] then (a, True)
      else
        (let k = albumKey m; isFirst = (length (pendingOf a k) = 0)
         in (a\<lparr>ab_Pending := AList.update k (pendingOf a k @ [m]) (ab_Pending a),
               ab_Timers := (if isFirst then k # ab_Timers a else ab_Timers a)\<rparr>, False)))"

text \<open>What the callback is handed: nothing, or all parts of the group.\<close>

definition albumFire :: "album_key \<Rightarrow> 'm album_buffer \<Rightarrow> 'm album_buffer \<times> 'm list list" where
  "albumFire k a =
     (a\<lparr>ab_Pending := AList.delete k (ab_Pending a), ab_Timers := filter (\<lambda>t. t \<noteq> k) (ab_Timers a)\<rparr>,
      if length (pendingOf a k) > 0 then [pendingOf a k] else [])"

definition albumStop :: "'m album_buffer \<Rightarrow> 'm album_buffer \<times> 'm list list" where
  "albumStop a =
     (a\<lparr>ab_Pending := [], ab_Timers := []\<rparr>, filter (\<lambda>ps. length ps > 0) (map snd (ab_Pending a)))"

datatype 'm album_step = AlbumAdd 'm | AlbumFire album_key | AlbumStop

text \<open>A history: what was given to the callback, and which messages went on on
  their own, in order.\<close>

fun albumStep :: "'a envelope_scheme album_step \<Rightarrow>
    'a envelope_scheme album_buffer \<Rightarrow> 'a envelope_scheme album_buffer \<times> 'a envelope_scheme list list" where
  "albumStep (AlbumAdd m) a = (case albumAdd m a of (a', alone) \<Rightarrow> (a', if alone then [[m]] else []))"
| "albumStep (AlbumFire k) a = albumFire k a"
| "albumStep AlbumStop a = albumStop a"

fun albumRun :: "'a envelope_scheme album_step list \<Rightarrow>
    'a envelope_scheme album_buffer \<Rightarrow> 'a envelope_scheme album_buffer \<times> 'a envelope_scheme list list" where
  "albumRun [] a = (a, [])"
| "albumRun (e # es) a =
     (case albumStep e a of (a1, out1) \<Rightarrow> (case albumRun es a1 of (a2, out2) \<Rightarrow> (a2, out1 @ out2)))"

end
