(* ===== verification/SequencingProps.thy ===== *)
theory SequencingProps
  imports Sequencing
begin

text \<open>
  Order and completeness of sequencing: a chat's jobs run in the order they
  were accepted, a shutdown that no submission races drains everything, and
  no album part is lost, repeated or reordered.
\<close>

section \<open>The sequencer\<close>

definition queueInv :: "bool \<Rightarrow> 'j chat_queue \<Rightarrow> bool" where
  "queueInv shut q \<longleftrightarrow> cq_Accepted q = cq_Ran q @ cq_Chan q \<and> length (cq_Chan q) \<le> queueCap \<and>
     (cq_Exited q \<longrightarrow> shut)"

definition seqInv :: "'j sequencer \<Rightarrow> bool" where
  "seqInv s \<longleftrightarrow> distinct (map fst (sq_Queues s)) \<and> (\<forall>kq \<in> set (sq_Queues s). queueInv (sq_Closed s) (snd kq))"

lemma seqInv_New [simp]: "seqInv NewSequencer"
  by (simp add: seqInv_def NewSequencer_def)

lemma map_fst_upd: "map fst (map (\<lambda>(k, q). (k, if k = c then f q else q)) xs) = map fst xs"
  by (induction xs) auto

lemma updQueue_simps [simp]:
  "sq_Sending (updQueue c f s) = sq_Sending s" "sq_Closed (updQueue c f s) = sq_Closed s"
  "map fst (sq_Queues (updQueue c f s)) = map fst (sq_Queues s)"
  by (simp_all add: updQueue_def map_fst_upd del: map_map)

lemma set_updQueue:
  "distinct (map fst (sq_Queues s)) \<Longrightarrow> kq \<in> set (sq_Queues (updQueue c f s)) \<Longrightarrow>
     kq \<in> set (sq_Queues s) \<or> (\<exists>q. map_of (sq_Queues s) c = Some q \<and> kq = (c, f q))"
  by (auto simp: updQueue_def split: if_splits)

lemma seqInv_updQueue:
  assumes "seqInv s" and "\<And>q. map_of (sq_Queues s) c = Some q \<Longrightarrow> queueInv (sq_Closed s) q \<Longrightarrow> queueInv (sq_Closed s) (f q)"
  shows "seqInv (updQueue c f s)"
  using assms set_updQueue [of s _ c f] unfolding seqInv_def updQueue_simps
  by (metis map_of_SomeD snd_conv)

lemma seqInv_queue: "seqInv s \<Longrightarrow> map_of (sq_Queues s) c = Some q \<Longrightarrow> queueInv (sq_Closed s) q"
  unfolding seqInv_def by (fastforce dest: map_of_SomeD)

lemma seqInv_frame:
  "sq_Queues s' = sq_Queues s \<Longrightarrow> sq_Closed s' = sq_Closed s \<Longrightarrow> seqInv s' = seqInv s"
  by (simp add: seqInv_def)

lemma seqStep_inv:
  assumes "seqInv s" and "seqStep e s = Some s'"
  shows "seqInv s'"
proof (cases e)
  case (SubmitEnter c j)
  then show ?thesis using assms
    by (auto simp: submitEnter_def seqInv_def queueInv_def newQueue_def map_of_eq_None_iff split: if_splits option.splits)
next
  case (SendArm c j)
  then obtain q where q: "map_of (sq_Queues s) c = Some q" "length (cq_Chan q) < queueCap"
      "s' = updQueue c (\<lambda>q. q\<lparr>cq_Chan := cq_Chan q @ [j], cq_Accepted := cq_Accepted q @ [j]\<rparr>)
        (s\<lparr>sq_Sending := remove1 (c, j) (sq_Sending s)\<rparr>)"
    using assms(2) by (auto simp: sendArm_def split: option.splits if_splits)
  show ?thesis unfolding q(3)
    by (rule seqInv_updQueue) (use assms(1) q in \<open>auto simp: seqInv_def queueInv_def\<close>)
next
  case (WorkerRun c)
  then obtain q j js where q: "map_of (sq_Queues s) c = Some q" "cq_Chan q = j # js"
      "s' = updQueue c (\<lambda>q. q\<lparr>cq_Chan := js, cq_Ran := cq_Ran q @ [j]\<rparr>) s"
    using assms(2) by (auto simp: workerRun_def split: option.splits if_splits list.splits)
  show ?thesis unfolding q(3)
    by (rule seqInv_updQueue) (use assms(1) q in \<open>auto simp: queueInv_def\<close>)
next
  case (WorkerExit c)
  then obtain q where q: "map_of (sq_Queues s) c = Some q" "sq_Closed s" "s' = updQueue c (\<lambda>q. q\<lparr>cq_Exited := True\<rparr>) s"
    using assms(2) by (auto simp: workerExit_def split: option.splits if_splits)
  show ?thesis unfolding q(3)
    by (rule seqInv_updQueue) (use assms(1) q in \<open>auto simp: queueInv_def\<close>)
next
  case (DropArm c j)
  then have "sq_Queues s' = sq_Queues s" "sq_Closed s' = sq_Closed s"
    using assms(2) by (auto simp: dropArm_def split: option.splits if_splits)
  then show ?thesis using seqInv_frame assms(1) by metis
next
  case (QuitArm c j)
  then have "sq_Queues s' = sq_Queues s" "sq_Closed s' = sq_Closed s"
    using assms(2) by (auto simp: quitArm_def split: if_splits)
  then show ?thesis using seqInv_frame assms(1) by metis
next
  case CloseSequencer
  then show ?thesis using assms by (auto simp: closeSequencer_def seqInv_def queueInv_def)
qed

lemma seqRun_inv: "seqInv s \<Longrightarrow> seqRun es s = Some s' \<Longrightarrow> seqInv s'"
  by (induction es arbitrary: s) (auto split: option.splits dest: seqStep_inv)

text \<open>C22. One chat, one order: whatever the goroutines submitting, working and
  shutting down do, the jobs a chat has run are the first of those accepted
  for it, in the order of their acceptance, the rest is waiting, and no more
  than the channel's capacity waits.\<close>

theorem jobs_run_in_order:
  assumes "seqRun es NewSequencer = Some s" and "map_of (sq_Queues s) c = Some q"
  shows "cq_Accepted q = cq_Ran q @ cq_Chan q \<and> length (cq_Chan q) \<le> queueCap"
  using seqInv_queue [OF seqRun_inv [OF seqInv_New assms(1)] assms(2)] by (simp add: queueInv_def)

theorem jobs_run_in_order_witness:
  "\<exists>q :: nat chat_queue. cq_Accepted q = cq_Ran q @ cq_Chan q \<and> length (cq_Chan q) \<le> queueCap \<and> cq_Accepted q = [1, 2] \<and> cq_Ran q = [1 :: nat]"
proof -
  let ?es = "[SubmitEnter 5 1, SendArm 5 1, SubmitEnter 5 2, SendArm 5 2, WorkerRun 5] :: nat seq_step list"
  have "\<exists>s q. seqRun ?es NewSequencer = Some s \<and> map_of (sq_Queues s) 5 = Some q \<and> cq_Accepted q = [1, 2] \<and> cq_Ran q = [1]"
    by (simp add: submitEnter_def sendArm_def workerRun_def NewSequencer_def newQueue_def updQueue_def queueCap_def)
  then obtain s q where sq: "seqRun ?es NewSequencer = Some s" "map_of (sq_Queues s) 5 = Some q"
      "cq_Accepted q = [1, 2]" "cq_Ran q = [1]" by blast
  show ?thesis using jobs_run_in_order [OF sq(1,2)] sq(3,4) by blast
qed

section \<open>Shutdown\<close>

text \<open>With nothing being sent any more, a closed sequencer accepts nothing, so a
  worker that has exited leaves nothing behind.\<close>

definition drained :: "'j sequencer \<Rightarrow> bool" where
  "drained s \<longleftrightarrow> sq_Closed s \<and> sq_Sending s = [] \<and> (\<forall>kq \<in> set (sq_Queues s). cq_Exited (snd kq) \<longrightarrow> cq_Chan (snd kq) = [])"

lemma drained_updQueue:
  "drained s \<Longrightarrow> (\<And>q. map_of (sq_Queues s) c = Some q \<Longrightarrow> cq_Exited (f q) \<longrightarrow> cq_Chan (f q) = []) \<Longrightarrow>
     distinct (map fst (sq_Queues s)) \<Longrightarrow> drained (updQueue c f s)"
  using set_updQueue [of s _ c f] unfolding drained_def updQueue_simps
  by (metis snd_conv)

lemma drained_step:
  assumes "drained s" and "seqInv s" and "seqStep e s = Some s'"
  shows "drained s'"
proof (cases e)
  case (WorkerRun c)
  then obtain q j js where q: "map_of (sq_Queues s) c = Some q" "\<not> cq_Exited q"
      "s' = updQueue c (\<lambda>q. q\<lparr>cq_Chan := js, cq_Ran := cq_Ran q @ [j]\<rparr>) s"
    using assms(3) by (auto simp: workerRun_def split: option.splits if_splits list.splits)
  show ?thesis unfolding q(3)
    by (rule drained_updQueue) (use assms q in \<open>auto simp: seqInv_def\<close>)
next
  case (WorkerExit c)
  then obtain q where q: "map_of (sq_Queues s) c = Some q" "cq_Chan q = []" "s' = updQueue c (\<lambda>q. q\<lparr>cq_Exited := True\<rparr>) s"
    using assms(3) by (auto simp: workerExit_def split: option.splits if_splits)
  show ?thesis unfolding q(3)
    by (rule drained_updQueue) (use assms q in \<open>auto simp: seqInv_def\<close>)
qed (use assms in \<open>auto simp: drained_def submitEnter_def sendArm_def quitArm_def dropArm_def closeSequencer_def
    split: option.splits if_splits\<close>)

lemma drained_run: "drained s \<Longrightarrow> seqInv s \<Longrightarrow> seqRun es s = Some s' \<Longrightarrow> drained s'"
  by (induction es arbitrary: s) (auto split: option.splits dest: seqStep_inv drained_step)


text \<open>The condition is needed: a job whose send is between the check and the
  channel when the worker exits is accepted and never runs.\<close>

lemma late_acceptance_is_lost:
  "\<exists>s q. seqRun [SubmitEnter 5 (1 :: nat), CloseSequencer, WorkerExit 5, SendArm 5 1] NewSequencer = Some s \<and>
     waitReturns s \<and> map_of (sq_Queues s) 5 = Some q \<and> cq_Accepted q = [1] \<and> cq_Ran q = []"
  by (simp add: submitEnter_def sendArm_def workerExit_def closeSequencer_def waitReturns_def NewSequencer_def newQueue_def
      updQueue_def queueCap_def)


section \<open>Albums\<close>

text \<open>The messages a history was given, and what it was asked to add under a
  key.\<close>

fun added :: "'a envelope_scheme album_step list \<Rightarrow> 'a envelope_scheme list" where
  "added [] = []"
| "added (AlbumAdd m # es) = m # added es"
| "added (AlbumFire k # es) = added es"
| "added (AlbumStop # es) = added es"

abbreviation ofKey :: "album_key \<Rightarrow> 'a envelope_scheme list \<Rightarrow> 'a envelope_scheme list" where
  "ofKey k ms \<equiv> filter (\<lambda>m. albumKey m = k) ms"

definition grouped :: "'a envelope_scheme list \<Rightarrow> bool" where
  "grouped ps \<longleftrightarrow> ps \<noteq> [] \<and> (\<exists>k. \<forall>m \<in> set ps. albumKey m = k)"

text \<open>Every group in the buffer holds only its own parts, of a real group.\<close>

definition albumInv :: "'a envelope_scheme album_buffer \<Rightarrow> bool" where
  "albumInv a \<longleftrightarrow> distinct (map fst (ab_Pending a)) \<and>
     (\<forall>kp \<in> set (ab_Pending a). snd (fst kp) \<noteq> [] \<and> (\<forall>m \<in> set (snd kp). albumKey m = fst kp))"

lemma pendingOf_own: "albumInv a \<Longrightarrow> m \<in> set (pendingOf a k) \<Longrightarrow> albumKey m = k \<and> snd k \<noteq> []"
  unfolding pendingOf_def albumInv_def by (auto split: option.splits dest: map_of_SomeD)

lemma pendingOf_group: "albumInv a \<Longrightarrow> snd k = [] \<Longrightarrow> pendingOf a k = []"
  using pendingOf_own [of a _ k] by (metis last_in_set)

lemma ofKey_own: "(\<And>m. m \<in> set ps \<Longrightarrow> albumKey m = k') \<Longrightarrow> ofKey k ps = (if k = k' then ps else [])"
  by (induction ps) auto

lemma albumInv_pending: "albumInv a \<Longrightarrow> ofKey k (pendingOf a k') = (if k = k' then pendingOf a k' else [])"
  by (rule ofKey_own) (simp add: pendingOf_own)

lemma stop_ofKey:
  "distinct (map fst ps) \<Longrightarrow> (\<forall>kp \<in> set ps. \<forall>m \<in> set (snd kp). albumKey m = fst kp) \<Longrightarrow>
     ofKey k (concat (filter (\<lambda>p. length p > 0) (map snd ps))) = (case map_of ps k of None \<Rightarrow> [] | Some p \<Rightarrow> p)"
proof (induction ps)
  case (Cons x ps)
  obtain k' p where x: "x = (k', p)" by (cases x)
  have own: "ofKey k p = (if k = k' then p else [])" using Cons.prems(2) x by (intro ofKey_own) auto
  have "map_of ps k' = None" using Cons.prems(1) x by (simp add: map_of_eq_None_iff)
  then show ?case using Cons x own by auto
qed simp

text \<open>One step keeps the buffer in order and moves parts only from its end of the
  line to the callback.\<close>

lemma albumStep_ok:
  assumes "albumInv a" and "albumStep e a = (a', out)"
  shows "albumInv a' \<and> (\<forall>ps \<in> set out. grouped ps) \<and>
     pendingOf a k @ ofKey k (added [e]) = ofKey k (concat out) @ pendingOf a' k"
proof (cases e)
  case (AlbumAdd m)
  show ?thesis
  proof (cases "msg_MediaGroupID m = []")
    case True
    then have "a' = a" "out = [[m]]" using assms(2) AlbumAdd by (simp_all add: albumAdd_def)
    moreover have "pendingOf a k = []" if "albumKey m = k"
      using pendingOf_group [OF assms(1), of k] that True by (auto simp: albumKey_def)
    ultimately show ?thesis using assms(1) AlbumAdd by (auto simp: grouped_def)
  next
    case False
    then have a': "ab_Pending a' = AList.update (albumKey m) (pendingOf a (albumKey m) @ [m]) (ab_Pending a)" "out = []"
      using assms(2) AlbumAdd by (auto simp: albumAdd_def Let_def)
    have "set (ab_Pending a') \<subseteq> insert (albumKey m, pendingOf a (albumKey m) @ [m]) (set (ab_Pending a))"
      unfolding a' by (rule set_update_subset)
    moreover have "distinct (map fst (ab_Pending a'))" unfolding a' using assms(1) by (simp add: albumInv_def AList.distinct_update)
    ultimately have "albumInv a'"
      using assms(1) pendingOf_own [OF assms(1)] False unfolding albumInv_def by (fastforce simp: albumKey_def)
    then show ?thesis using AlbumAdd a' by (simp add: pendingOf_def AList.update_conv' split: option.split)
  qed
next
  case (AlbumFire k')
  then have a': "ab_Pending a' = AList.delete k' (ab_Pending a)"
      "out = (if length (pendingOf a k') > 0 then [pendingOf a k'] else [])"
    using assms(2) by (auto simp: albumFire_def)
  have "albumInv a'"
    unfolding albumInv_def a' using assms(1) by (auto simp: albumInv_def AList.distinct_delete AList.delete_eq filter_map distinct_map_filter)
  moreover have "\<forall>ps \<in> set out. grouped ps"
    unfolding a' using pendingOf_own [OF assms(1)] by (auto simp: grouped_def)
  moreover have "pendingOf a' k = (if k = k' then [] else pendingOf a k)"
    by (simp add: pendingOf_def a' AList.delete_conv')
  ultimately show ?thesis using AlbumFire albumInv_pending [OF assms(1), of k k'] by (cases "k = k'") (simp_all add: a')
next
  case AlbumStop
  then have a': "ab_Pending a' = []" "out = filter (\<lambda>ps. length ps > 0) (map snd (ab_Pending a))"
    using assms(2) by (auto simp: albumStop_def)
  have "\<forall>ps \<in> set out. grouped ps"
    unfolding a' using assms(1) by (fastforce simp: grouped_def albumInv_def)
  moreover have "ofKey k (concat out) = pendingOf a k"
    unfolding a' pendingOf_def by (rule stop_ofKey) (use assms(1) in \<open>auto simp: albumInv_def\<close>)
  ultimately show ?thesis using AlbumStop by (simp add: albumInv_def a' pendingOf_def)
qed

lemma added_Cons: "added (e # es) = added [e] @ added es"
  by (cases e) simp_all

lemma albumRun_ok:
  assumes "albumInv a" and "albumRun es a = (a', out)"
  shows "albumInv a' \<and> (\<forall>ps \<in> set out. grouped ps) \<and>
     pendingOf a k @ ofKey k (added es) = ofKey k (concat out) @ pendingOf a' k"
  using assms
proof (induction es arbitrary: a out)
  case (Cons e es)
  obtain a1 o1 where s: "albumStep e a = (a1, o1)" by (cases "albumStep e a")
  obtain o2 where r: "albumRun es a1 = (a', o2)" "out = o1 @ o2" using Cons.prems(2) s by (auto split: prod.splits)
  have st: "albumInv a1" "\<forall>ps \<in> set o1. grouped ps"
      "pendingOf a k @ ofKey k (added [e]) = ofKey k (concat o1) @ pendingOf a1 k"
    using albumStep_ok [OF Cons.prems(1) s] by auto
  have "pendingOf a k @ ofKey k (added (e # es)) = (pendingOf a k @ ofKey k (added [e])) @ ofKey k (added es)"
    by (simp add: added_Cons [of e es])
  also have "\<dots> = ofKey k (concat o1) @ (pendingOf a1 k @ ofKey k (added es))" using st(3) by simp
  finally show ?case using Cons.IH [OF st(1) r(1)] st(2) r(2) by auto
qed simp

text \<open>C24. No part of an album is lost, repeated, reordered or mixed with another:
  for every chat and group, what was handed on, in order, followed by what
  the buffer still holds is what arrived, in order; every hand-over is a
  non-empty run of parts of one group (or one message without a group); and
  stopping leaves nothing in the buffer. Timers may fire at any time.\<close>

theorem album_parts_are_kept:
  assumes "albumRun es NewAlbumBuffer = (a, out)"
  shows "ofKey k (added es) = ofKey k (concat out) @ pendingOf a k \<and> (\<forall>ps \<in> set out. grouped ps) \<and>
     pendingOf (fst (albumStop a)) k = []"
proof -
  have "albumInv NewAlbumBuffer" by (simp add: albumInv_def NewAlbumBuffer_def)
  from albumRun_ok [OF this assms, of k] show ?thesis
    by (simp add: pendingOf_def NewAlbumBuffer_def albumStop_def)
qed


definition albumPart :: "message_id \<Rightarrow> envelope" where
  "albumPart i = \<lparr>msg_ChatID = -100, msg_MessageID = i, msg_ThreadID = 0, msg_MediaGroupID = lit ''g'',
     msg_Sender = \<lparr>sn_Kind = SenderUser, sn_UserID = 42, sn_SenderChatID = 0, sn_Username = [], sn_DisplayName = []\<rparr>,
     msg_Text = [], msg_Date = 0, msg_IsAutomaticForward = False, msg_LinkedChatID = 0,
     msg_Entities = [], msg_SenderTag = [], msg_ExternalReplyText = [], msg_ExternalReplyMediaKinds = [],
     msg_ExternalReplyDocumentExtensions = [], msg_ExternalReplyDocumentMIMETypes = [], msg_StructuredTexts = [],
     msg_EditDate = 0, msg_MediaKinds = [], msg_DocumentExtensions = [], msg_DocumentMIMETypes = [],
     msg_Forwarded = False, msg_ForwardedFromChat = False, msg_HasKeyboard = False, msg_ViaBot = False,
     msg_ServiceKind = []\<rparr>"

theorem album_parts_are_kept_witness:
  "\<exists>a out. albumRun [AlbumAdd (albumPart 1), AlbumAdd (albumPart 2), AlbumFire (-100, lit ''g''), AlbumAdd (albumPart 3)]
       NewAlbumBuffer = (a, out) \<and>
     [albumPart 1, albumPart 2, albumPart 3] = ofKey (-100, lit ''g'') (concat out) @ pendingOf a (-100, lit ''g'')"
proof -
  let ?es = "[AlbumAdd (albumPart 1), AlbumAdd (albumPart 2), AlbumFire (-100, lit ''g''), AlbumAdd (albumPart 3)]"
  obtain a out where r: "albumRun ?es NewAlbumBuffer = (a, out)" by (cases "albumRun ?es NewAlbumBuffer")
  have "albumKey (albumPart i) = (-100, lit ''g'')" for i by (simp add: albumKey_def albumPart_def)
  then have "ofKey (-100, lit ''g'') (added ?es) = [albumPart 1, albumPart 2, albumPart 3]" by simp
  then show ?thesis using album_parts_are_kept [OF r, of "(-100, lit ''g'')"] r by metis
qed


end
