(* ===== verification/Queue.thy ===== *)
theory Queue
  imports Domain Prelude "HOL-Library.Multiset" "HOL-Library.Word" "HOL-Library.AList"
begin

text \<open>
  \<open>internal/queue/queue.go\<close> and \<open>internal/queue/dispatcher.go\<close>:
  the outbound queue. Jobs leave it by priority and then in the order of
  their sequence numbers, which are 64-bit; one dispatcher goroutine pops,
  waits for the rate limiters, runs and, on Telegram's \<open>retry after\<close>,
  resubmits. Submitting takes three locks one after the other, so it is three
  steps between which the dispatcher and other submitters run. The heap of
  the standard library is used through its contract: it pops a least element.
\<close>

section \<open>Jobs and the heap\<close>

definition PrioHigh :: int where "PrioHigh = 0"
definition PrioNormal :: int where "PrioNormal = 1"
definition PrioLow :: int where "PrioLow = 2"

record 'r job =
  jb_Priority :: int
  jb_Run :: 'r
  jb_seq :: "64 word"

definition Less :: "'r job \<Rightarrow> 'r job \<Rightarrow> bool" where
  "Less a b = (if jb_Priority a \<noteq> jb_Priority b then jb_Priority a < jb_Priority b else jb_seq a < jb_seq b)"

text \<open>A least job of a queue that is not empty.\<close>

fun least :: "'r job \<Rightarrow> 'r job list \<Rightarrow> 'r job" where
  "least j [] = j"
| "least j (k # ks) = least (if Less k j then k else j) ks"

section \<open>The queue\<close>

record 'r queue =
  qu_pq :: "'r job list"
  qu_next :: "64 word"

definition NewQueue :: "'r queue" where
  "NewQueue = \<lparr>qu_pq = [], qu_next = 0\<rparr>"

definition reserveSeq :: "'r queue \<Rightarrow> 'r queue \<times> 64 word" where
  "reserveSeq q = (q\<lparr>qu_next := qu_next q + 1\<rparr>, qu_next q)"

definition pushSeq :: "'r job \<Rightarrow> 'r queue \<Rightarrow> 'r queue" where
  "pushSeq j q = q\<lparr>qu_pq := j # qu_pq q\<rparr>"

definition PushJob :: "'r job \<Rightarrow> 'r queue \<Rightarrow> 'r queue" where
  "PushJob j q = pushSeq (j\<lparr>jb_seq := qu_next q\<rparr>) (q\<lparr>qu_next := qu_next q + 1\<rparr>)"

definition popJob :: "'r queue \<Rightarrow> ('r queue \<times> 'r job) option" where
  "popJob q =
     (case qu_pq q of
        [] \<Rightarrow> None
      | j # js \<Rightarrow> (let m = least j js in Some (q\<lparr>qu_pq := remove1 m (qu_pq q)\<rparr>, m)))"

definition LenQueue :: "'r queue \<Rightarrow> nat" where
  "LenQueue q = length (qu_pq q)"

section \<open>The dispatcher\<close>

text \<open>Where the dispatching goroutine is.\<close>

datatype 'r run_state =
    RunIdle
  | RunPopped "'r job"
  | RunReady chat_id "'r job"
  | RunSleeping chat_id "'r job"
  | RunResubmitting "64 word"
  | RunStopped

datatype run_outcome = RunOK | RunRetryAfter | RunFailed

text \<open>The program's state, the submissions between their locks, and the history
  of the jobs that came to an end.\<close>

record 'r dispatcher =
  dp_q :: "'r queue"
  dp_jobs :: "(64 word \<times> chat_id) list"
  dp_reserved :: "(chat_id \<times> 'r job) list"
  dp_mapped :: "(chat_id \<times> 'r job) list"
  dp_run :: "'r run_state"
  dp_done :: "(chat_id \<times> 'r \<times> run_outcome) list"

definition NewDispatcher :: "'r dispatcher" where
  "NewDispatcher = \<lparr>dp_q = NewQueue, dp_jobs = [], dp_reserved = [], dp_mapped = [], dp_run = RunIdle, dp_done = []\<rparr>"

definition submitReserve :: "chat_id \<Rightarrow> int \<Rightarrow> 'r \<Rightarrow> 'r dispatcher \<Rightarrow> 'r dispatcher \<times> 64 word" where
  "submitReserve c prio f d =
     (case reserveSeq (dp_q d) of
        (q, s) \<Rightarrow> (d\<lparr>dp_q := q, dp_reserved := (c, \<lparr>jb_Priority = prio, jb_Run = f, jb_seq = s\<rparr>) # dp_reserved d\<rparr>, s))"

definition submitMap :: "64 word \<Rightarrow> 'r dispatcher \<Rightarrow> 'r dispatcher option" where
  "submitMap s d =
     (case first (\<lambda>cj. jb_seq (snd cj) = s) (dp_reserved d) of
        None \<Rightarrow> None
      | Some cj \<Rightarrow>
          Some (d\<lparr>dp_jobs := AList.update s (fst cj) (dp_jobs d), dp_reserved := remove1 cj (dp_reserved d),
                  dp_mapped := cj # dp_mapped d\<rparr>))"

definition submitPush :: "64 word \<Rightarrow> 'r dispatcher \<Rightarrow> 'r dispatcher option" where
  "submitPush s d =
     (case first (\<lambda>cj. jb_seq (snd cj) = s) (dp_mapped d) of
        None \<Rightarrow> None
      | Some cj \<Rightarrow>
          Some (d\<lparr>dp_q := pushSeq (snd cj) (dp_q d), dp_mapped := remove1 cj (dp_mapped d),
                  dp_run := (if dp_run d = RunResubmitting s then RunIdle else dp_run d)\<rparr>))"

definition runPop :: "'r dispatcher \<Rightarrow> 'r dispatcher option" where
  "runPop d =
     (if dp_run d \<noteq> RunIdle then None
      else (case popJob (dp_q d) of None \<Rightarrow> None | Some (q, j) \<Rightarrow> Some (d\<lparr>dp_q := q, dp_run := RunPopped j\<rparr>)))"

text \<open>A missing entry of a Go map reads as zero.\<close>

definition runLookup :: "'r dispatcher \<Rightarrow> 'r dispatcher option" where
  "runLookup d =
     (case dp_run d of
        RunPopped j \<Rightarrow>
          Some (d\<lparr>dp_jobs := AList.delete (jb_seq j) (dp_jobs d),
                  dp_run := RunReady (case map_of (dp_jobs d) (jb_seq j) of None \<Rightarrow> 0 | Some c \<Rightarrow> c) j\<rparr>)
      | _ \<Rightarrow> None)"

definition runJobStep :: "run_outcome \<Rightarrow> 'r dispatcher \<Rightarrow> 'r dispatcher option" where
  "runJobStep out d =
     (case dp_run d of
        RunReady c j \<Rightarrow>
          Some (if out = RunRetryAfter then d\<lparr>dp_run := RunSleeping c j\<rparr>
                else d\<lparr>dp_run := RunIdle, dp_done := dp_done d @ [(c, jb_Run j, out)]\<rparr>)
      | _ \<Rightarrow> None)"

definition runResubmit :: "'r dispatcher \<Rightarrow> 'r dispatcher option" where
  "runResubmit d =
     (case dp_run d of
        RunSleeping c j \<Rightarrow>
          (case submitReserve c (jb_Priority j) (jb_Run j) d of (d', s) \<Rightarrow> Some (d'\<lparr>dp_run := RunResubmitting s\<rparr>))
      | _ \<Rightarrow> None)"

text \<open>The context ends while the dispatcher is idle, waits for a limiter or
  sleeps: it returns, and the job it holds is gone with it.\<close>

definition runStop :: "'r dispatcher \<Rightarrow> 'r dispatcher option" where
  "runStop d =
     (case dp_run d of
        RunIdle \<Rightarrow> (if qu_pq (dp_q d) = [] then Some (d\<lparr>dp_run := RunStopped\<rparr>) else None)
      | RunReady c j \<Rightarrow> Some (d\<lparr>dp_run := RunStopped\<rparr>)
      | RunSleeping c j \<Rightarrow> Some (d\<lparr>dp_run := RunStopped\<rparr>)
      | _ \<Rightarrow> None)"

datatype 'r disp_step =
  SubmitReserve chat_id int 'r | SubmitMap "64 word" | SubmitPush "64 word"
  | RunPop | RunLookup | RunJobStep run_outcome | RunResubmit | RunStop

fun dispStep :: "'r disp_step \<Rightarrow> 'r dispatcher \<Rightarrow> 'r dispatcher option" where
  "dispStep (SubmitReserve c prio f) d = Some (fst (submitReserve c prio f d))"
| "dispStep (SubmitMap s) d = submitMap s d"
| "dispStep (SubmitPush s) d = submitPush s d"
| "dispStep RunPop d = runPop d"
| "dispStep RunLookup d = runLookup d"
| "dispStep (RunJobStep out) d = runJobStep out d"
| "dispStep RunResubmit d = runResubmit d"
| "dispStep RunStop d = runStop d"

fun dispRun :: "'r disp_step list \<Rightarrow> 'r dispatcher \<Rightarrow> 'r dispatcher option" where
  "dispRun [] d = Some d"
| "dispRun (e # es) d = (case dispStep e d of None \<Rightarrow> None | Some d' \<Rightarrow> dispRun es d')"

end
