(* ===== verification/QueueProps.thy ===== *)
theory QueueProps
  imports Queue
begin

text \<open>
  The outbound queue keeps its contract: jobs come out by priority and then
  first in, first out; and the dispatcher, its submitters interleaving with
  it in any way, neither loses nor duplicates a job nor runs it under another
  chat's rate limit.
\<close>

section \<open>The contract of a priority queue\<close>

text \<open>Popping until the queue is empty.\<close>

fun drain :: "('q \<Rightarrow> ('q \<times> 'j) option) \<Rightarrow> nat \<Rightarrow> 'q \<Rightarrow> 'j list" where
  "drain pop 0 q = []"
| "drain pop (Suc n) q = (case pop q of None \<Rightarrow> [] | Some (q', j) \<Rightarrow> j # drain pop n q')"

locale priority_queue =
  fixes push :: "'j \<Rightarrow> 'q \<Rightarrow> 'q" and pop :: "'q \<Rightarrow> ('q \<times> 'j) option"
    and queued :: "'q \<Rightarrow> 'j multiset" and less :: "'j \<Rightarrow> 'j \<Rightarrow> bool"
  assumes queued_push: "queued (push j q) = add_mset j (queued q)"
    and pop_None: "pop q = None \<longleftrightarrow> queued q = {#}"
    and pop_Some: "pop q = Some (q', j) \<Longrightarrow> queued q = add_mset j (queued q')"
    and pop_least: "pop q = Some (q', j) \<Longrightarrow> k \<in># queued q' \<Longrightarrow> \<not> less k j"
begin

lemma mset_drain: "size (queued q) \<le> n \<Longrightarrow> mset (drain pop n q) = queued q"
proof (induction n arbitrary: q)
  case (Suc n)
  then show ?case using pop_None pop_Some by (fastforce split: option.splits)
qed simp

lemma sorted_drain: "size (queued q) \<le> n \<Longrightarrow> sorted_wrt (\<lambda>a b. \<not> less b a) (drain pop n q)"
proof (induction n arbitrary: q)
  case (Suc n)
  show ?case
  proof (cases "pop q")
    case (Some r)
    obtain q' j where r: "r = (q', j)" by (cases r)
    have q': "queued q = add_mset j (queued q')" using pop_Some Some r by simp
    then have size: "size (queued q') \<le> n" using Suc.prems by simp
    have "set (drain pop n q') = set_mset (queued q')" using mset_drain [OF size] by (metis set_mset_mset)
    then show ?thesis using Suc.IH [OF size] pop_least [of q q' j] Some r by simp
  qed simp
qed simp

end

lemma least_in: "least j js \<in> set (j # js)"
proof (induction js arbitrary: j)
  case (Cons k ks)
  show ?case using Cons.IH [of "if Less k j then k else j"] by (auto split: if_splits)
qed simp

lemma Less_trans: "\<not> Less b a \<Longrightarrow> \<not> Less c b \<Longrightarrow> \<not> Less c a"
  by (auto simp: Less_def split: if_splits)

lemma Less_irrefl [simp]: "\<not> Less a a"
  by (simp add: Less_def)

lemma Less_asym: "Less a b \<Longrightarrow> \<not> Less b a"
  by (auto simp: Less_def split: if_splits)

lemma least_least: "k \<in> set (j # js) \<Longrightarrow> \<not> Less k (least j js)"
proof (induction js arbitrary: j k)
  case (Cons x js)
  let ?m = "if Less x j then x else j"
  have m: "\<not> Less ?m (least ?m js)" by (rule Cons.IH) simp
  show ?case
  proof (cases "k \<in> set js")
    case True
    then have "\<not> Less k (least ?m js)" by (intro Cons.IH) simp
    then show ?thesis by simp
  next
    case False
    then have "\<not> Less k ?m" using Cons.prems Less_asym [of x j] by (auto split: if_splits)
    then have "\<not> Less k (least ?m js)" by (rule Less_trans [OF m])
    then show ?thesis by simp
  qed
qed simp

interpretation jobs: priority_queue pushSeq popJob "\<lambda>q. mset (qu_pq q)" Less
proof
  fix q q' :: "'a queue" and j k :: "'a job"
  show "mset (qu_pq (pushSeq j q)) = add_mset j (mset (qu_pq q))" by (simp add: pushSeq_def)
  show "popJob q = None \<longleftrightarrow> mset (qu_pq q) = {#}" by (simp add: popJob_def Let_def split: list.split)
  assume pop: "popJob q = Some (q', j)"
  then obtain x xs where x: "qu_pq q = x # xs" by (auto simp: popJob_def split: list.splits)
  then have j: "j = least x xs" "qu_pq q' = remove1 j (qu_pq q)" using pop by (auto simp: popJob_def Let_def)
  have "j \<in> set (qu_pq q)" using least_in [of x xs] by (simp add: x j(1))
  then show "mset (qu_pq q) = add_mset j (mset (qu_pq q'))" by (simp add: j(2))
  assume "k \<in># mset (qu_pq q')"
  then have "k \<in> set (x # xs)" using j(2) x by (metis notin_set_remove1 set_mset_mset)
  then show "\<not> Less k j" unfolding j(1) by (rule least_least)
qed

text \<open>C25. Priority, then first in, first out: emptying the queue yields every
  queued job exactly once, a job never after one of a lower priority, and jobs
  of one priority in the order of their sequence numbers.\<close>

theorem queue_drains_in_order:
  "mset (drain popJob (LenQueue q) q) = mset (qu_pq q) \<and>
   sorted_wrt (\<lambda>a b. jb_Priority a < jb_Priority b \<or> (jb_Priority a = jb_Priority b \<and> jb_seq a \<le> jb_seq b))
     (drain popJob (LenQueue q) q)"
proof -
  have n: "size (mset (qu_pq q)) \<le> LenQueue q" by (simp add: LenQueue_def)
  have "sorted_wrt (\<lambda>a b. \<not> Less b a) (drain popJob (LenQueue q) q)" by (rule jobs.sorted_drain [OF n])
  then have "sorted_wrt (\<lambda>a b. jb_Priority a < jb_Priority b \<or> (jb_Priority a = jb_Priority b \<and> jb_seq a \<le> jb_seq b))
      (drain popJob (LenQueue q) q)"
    by (rule sorted_wrt_mono_rel [rotated]) (auto simp: Less_def split: if_splits)
  then show ?thesis using jobs.mset_drain [OF n] by simp
qed

section \<open>The dispatcher\<close>

text \<open>The chat a sequence number was recorded for, and the jobs in hand with the
  chat each is for.\<close>

abbreviation chatOf :: "'r dispatcher \<Rightarrow> 64 word \<Rightarrow> chat_id" where
  "chatOf d s \<equiv> the (map_of (dp_jobs d) s)"

fun inRun :: "(64 word \<Rightarrow> chat_id) \<Rightarrow> 'r run_state \<Rightarrow> (chat_id \<times> 'r) multiset" where
  "inRun f (RunPopped j) = {#(f (jb_seq j), jb_Run j)#}"
| "inRun f (RunReady c j) = {#(c, jb_Run j)#}"
| "inRun f (RunSleeping c j) = {#(c, jb_Run j)#}"
| "inRun f _ = {#}"

definition held :: "'r dispatcher \<Rightarrow> (chat_id \<times> 'r) multiset" where
  "held d = image_mset (\<lambda>cj. (fst cj, jb_Run (snd cj))) (mset (dp_reserved d) + mset (dp_mapped d)) +
     image_mset (\<lambda>j. (chatOf d (jb_seq j), jb_Run j)) (mset (qu_pq (dp_q d))) + inRun (chatOf d) (dp_run d)"

definition finished :: "'r dispatcher \<Rightarrow> (chat_id \<times> 'r) multiset" where
  "finished d = mset (map (\<lambda>(c, f, out). (c, f)) (dp_done d))"

fun submitted :: "'r disp_step list \<Rightarrow> (chat_id \<times> 'r) multiset" where
  "submitted [] = {#}"
| "submitted (SubmitReserve c p f # es) = add_mset (c, f) (submitted es)"
| "submitted (_ # es) = submitted es"

text \<open>The sequence numbers in use, each once.\<close>

definition popped :: "'r run_state \<Rightarrow> 64 word multiset" where
  "popped r = (case r of RunPopped j \<Rightarrow> {#jb_seq j#} | _ \<Rightarrow> {#})"

definition recorded :: "'r dispatcher \<Rightarrow> 64 word multiset" where
  "recorded d = image_mset jb_seq (mset (qu_pq (dp_q d))) + popped (dp_run d)"

definition inUse :: "'r dispatcher \<Rightarrow> 64 word multiset" where
  "inUse d = image_mset (\<lambda>cj. jb_seq (snd cj)) (mset (dp_reserved d)) +
     image_mset (\<lambda>cj. jb_seq (snd cj)) (mset (dp_mapped d)) + recorded d"

definition dispInv :: "nat \<Rightarrow> 'r dispatcher \<Rightarrow> bool" where
  "dispInv n d \<longleftrightarrow> unat (qu_next (dp_q d)) \<le> n \<and> (\<forall>s. count (inUse d) s \<le> 1) \<and>
     (\<forall>s \<in># inUse d. s < qu_next (dp_q d)) \<and>
     (\<forall>cj \<in> set (dp_mapped d). map_of (dp_jobs d) (jb_seq (snd cj)) = Some (fst cj)) \<and>
     (\<forall>s \<in># recorded d. map_of (dp_jobs d) s \<noteq> None)"

lemma popped_simps [simp]:
  "popped (RunPopped j) = {#jb_seq j#}" "popped RunIdle = {#}" "popped (RunReady c j) = {#}"
  "popped (RunSleeping c j) = {#}" "popped (RunResubmitting s) = {#}" "popped RunStopped = {#}"
  by (simp_all add: popped_def)

lemma image_mset_chat: "(\<And>j. j \<in># M \<Longrightarrow> f j = g j) \<Longrightarrow> image_mset f M = image_mset g M"
  by (rule image_mset_cong)

lemma next_word: "unat (w :: 64 word) < 2 ^ 64 - 1 \<Longrightarrow> unat (w + 1) = Suc (unat w) \<and> w < w + 1"
  by (simp add: unat_word_ariths word_less_nat_alt)

lemma submitReserve_ok:
  assumes "dispInv n d" and "n < 2 ^ 64 - 1" and "submitReserve c p f d = (d', s)"
  shows "dispInv (Suc n) d' \<and> held d' = add_mset (c, f) (held d) \<and> finished d' = finished d \<and> dp_run d' = dp_run d"
proof -
  have d': "d' = d\<lparr>dp_q := (dp_q d)\<lparr>qu_next := qu_next (dp_q d) + 1\<rparr>,
      dp_reserved := (c, \<lparr>jb_Priority = p, jb_Run = f, jb_seq = qu_next (dp_q d)\<rparr>) # dp_reserved d\<rparr>"
    using assms(3) by (auto simp: submitReserve_def reserveSeq_def)
  have n: "unat (qu_next (dp_q d)) < 2 ^ 64 - 1" using assms(1,2) by (simp add: dispInv_def)
  have fresh: "count (inUse d) (qu_next (dp_q d)) = 0"
    using assms(1) by (auto simp: dispInv_def not_in_iff [symmetric])
  have "inUse d' = add_mset (qu_next (dp_q d)) (inUse d)" by (simp add: d' inUse_def recorded_def)
  moreover have "recorded d' = recorded d" by (simp add: d' recorded_def)
  ultimately have "dispInv (Suc n) d'"
    using assms(1) fresh next_word [OF n] by (auto simp: dispInv_def d' dest: less_trans)
  then show ?thesis by (simp add: d' held_def finished_def)
qed

lemma once: "count (add_mset s A) s \<le> 1 \<Longrightarrow> s \<notin># A"
  by (simp add: not_in_iff)

lemma mset_remove: "x \<in> set xs \<Longrightarrow> mset xs = add_mset x (mset (remove1 x xs))"
  by simp

lemma moved: "x \<in> set xs \<Longrightarrow> mset (remove1 x xs) + mset (x # ys) = mset xs + mset ys"
  by (induction xs) auto

lemma held_jobs:
  assumes "\<And>s. s \<in># recorded d \<Longrightarrow> map_of (dp_jobs d') s = map_of (dp_jobs d) s"
  shows "image_mset (\<lambda>j. (chatOf d' (jb_seq j), jb_Run j)) (mset (qu_pq (dp_q d))) + inRun (chatOf d') (dp_run d) =
     image_mset (\<lambda>j. (chatOf d (jb_seq j), jb_Run j)) (mset (qu_pq (dp_q d))) + inRun (chatOf d) (dp_run d)"
proof -
  have "image_mset (\<lambda>j. (chatOf d' (jb_seq j), jb_Run j)) (mset (qu_pq (dp_q d))) =
      image_mset (\<lambda>j. (chatOf d (jb_seq j), jb_Run j)) (mset (qu_pq (dp_q d)))"
    by (rule image_mset_chat) (simp add: assms recorded_def)
  moreover have "inRun (chatOf d') (dp_run d) = inRun (chatOf d) (dp_run d)"
    using assms by (cases "dp_run d") (simp_all add: recorded_def)
  ultimately show ?thesis by simp
qed

lemma submitMap_ok:
  assumes "dispInv n d" and "submitMap s d = Some d'"
  shows "dispInv n d' \<and> held d' = held d \<and> finished d' = finished d \<and> dp_run d' = dp_run d"
proof -
  obtain cj where cj: "cj \<in> set (dp_reserved d)" "jb_seq (snd cj) = s"
      "d' = d\<lparr>dp_jobs := AList.update s (fst cj) (dp_jobs d), dp_reserved := remove1 cj (dp_reserved d),
              dp_mapped := cj # dp_mapped d\<rparr>"
    using assms(2) by (auto simp: submitMap_def split: option.splits dest: first_Some)
  have m: "mset (dp_reserved d) = add_mset cj (mset (remove1 cj (dp_reserved d)))" by (rule mset_remove [OF cj(1)])
  have use: "inUse d = add_mset s (image_mset (\<lambda>cj. jb_seq (snd cj)) (mset (remove1 cj (dp_reserved d))) +
      image_mset (\<lambda>cj. jb_seq (snd cj)) (mset (dp_mapped d)) + recorded d)"
    unfolding inUse_def m by (simp add: cj(2))
  have "count (inUse d) s \<le> 1" using assms(1) by (simp add: dispInv_def)
  then have "s \<notin># image_mset (\<lambda>cj. jb_seq (snd cj)) (mset (remove1 cj (dp_reserved d))) +
      image_mset (\<lambda>cj. jb_seq (snd cj)) (mset (dp_mapped d)) + recorded d"
    unfolding use by (rule once)
  then have new: "s \<notin># recorded d" "\<And>c. c \<in> set (dp_mapped d) \<Longrightarrow> jb_seq (snd c) \<noteq> s" by auto
  have same: "inUse d' = inUse d" "recorded d' = recorded d"
    unfolding use by (simp_all add: cj(3) cj(2) inUse_def recorded_def)
  have "dispInv n d'"
    using assms(1) new unfolding dispInv_def same
    by (auto simp: cj(2,3) AList.update_conv')
  moreover have "held d' = held d"
  proof -
    have "mset (dp_reserved d') + mset (dp_mapped d') = mset (dp_reserved d) + mset (dp_mapped d)"
      using moved [OF cj(1)] by (simp add: cj(3))
    moreover have "image_mset (\<lambda>j. (chatOf d' (jb_seq j), jb_Run j)) (mset (qu_pq (dp_q d))) + inRun (chatOf d') (dp_run d) =
        image_mset (\<lambda>j. (chatOf d (jb_seq j), jb_Run j)) (mset (qu_pq (dp_q d))) + inRun (chatOf d) (dp_run d)"
      by (rule held_jobs) (use new(1) in \<open>auto simp: cj(3) AList.update_conv'\<close>)
    moreover have "dp_q d' = dp_q d" "dp_run d' = dp_run d" by (simp_all add: cj(3))
    ultimately show ?thesis by (simp only: held_def union_assoc)
  qed
  ultimately show ?thesis by (simp add: cj(3) finished_def)
qed

lemma submitPush_ok:
  assumes "dispInv n d" and "submitPush s d = Some d'"
  shows "dispInv n d' \<and> held d' = held d \<and> finished d' = finished d \<and> (dp_run d' = RunStopped \<longleftrightarrow> dp_run d = RunStopped)"
proof -
  obtain cj where cj: "cj \<in> set (dp_mapped d)" "jb_seq (snd cj) = s"
      "d' = d\<lparr>dp_q := pushSeq (snd cj) (dp_q d), dp_mapped := remove1 cj (dp_mapped d),
              dp_run := (if dp_run d = RunResubmitting s then RunIdle else dp_run d)\<rparr>"
    using assms(2) by (auto simp: submitPush_def split: option.splits dest: first_Some)
  have m: "mset (dp_mapped d) = add_mset cj (mset (remove1 cj (dp_mapped d)))" by (rule mset_remove [OF cj(1)])
  have chat: "map_of (dp_jobs d) s = Some (fst cj)" using assms(1) cj(1,2) by (auto simp: dispInv_def)
  have pq: "mset (qu_pq (dp_q d')) = add_mset (snd cj) (mset (qu_pq (dp_q d)))" by (simp add: cj(3) pushSeq_def)
  have run: "popped (dp_run d') = popped (dp_run d)" "inRun f (dp_run d') = inRun f (dp_run d)" for f
    by (simp_all add: cj(3))
  have rec: "recorded d' = add_mset s (recorded d)" by (simp add: recorded_def pq run cj(2))
  have m': "mset (dp_mapped d') = mset (remove1 cj (dp_mapped d))" by (simp add: cj(3))
  have "inUse d' = image_mset (\<lambda>cj. jb_seq (snd cj)) (mset (dp_reserved d)) +
      image_mset (\<lambda>cj. jb_seq (snd cj)) (mset (remove1 cj (dp_mapped d))) + add_mset s (recorded d)"
    unfolding inUse_def rec m' by (simp add: cj(3))
  also have "\<dots> = inUse d" unfolding inUse_def m by (simp add: cj(2))
  finally have use: "inUse d' = inUse d" .
  have "dispInv n d'"
    using assms(1) chat unfolding dispInv_def use rec
    by (auto simp: cj(3) pushSeq_def dest: notin_set_remove1)
  moreover have "held d' = held d"
  proof -
    have jobs: "dp_jobs d' = dp_jobs d" "dp_reserved d' = dp_reserved d" by (simp_all add: cj(3))
    show ?thesis unfolding held_def pq run jobs m' m by (simp add: chat cj(2))
  qed
  ultimately show ?thesis by (simp add: cj(3) finished_def)
qed

lemma runPop_ok:
  assumes "dispInv n d" and "runPop d = Some d'"
  shows "dispInv n d' \<and> held d' = held d \<and> finished d' = finished d \<and> dp_run d \<noteq> RunStopped"
proof -
  obtain q j where q: "dp_run d = RunIdle" "popJob (dp_q d) = Some (q, j)" "d' = d\<lparr>dp_q := q, dp_run := RunPopped j\<rparr>"
    using assms(2) by (auto simp: runPop_def split: if_splits option.splits)
  have m: "mset (qu_pq (dp_q d)) = add_mset j (mset (qu_pq q))" by (rule jobs.pop_Some [OF q(2)])
  have nxt: "qu_next q = qu_next (dp_q d)" using q(2) by (auto simp: popJob_def Let_def split: list.splits)
  have rec: "recorded d' = recorded d" by (simp add: recorded_def q(1,3) m)
  have "inUse d' = inUse d" unfolding inUse_def rec by (simp add: q(3))
  then have "dispInv n d'" using assms(1) unfolding dispInv_def rec by (simp add: q(3) nxt)
  then show ?thesis by (simp add: held_def finished_def q(1,3) m)
qed

lemma runLookup_ok:
  assumes "dispInv n d" and "runLookup d = Some d'"
  shows "dispInv n d' \<and> held d' = held d \<and> finished d' = finished d \<and> dp_run d \<noteq> RunStopped"
proof -
  obtain j where j: "dp_run d = RunPopped j" "d' = d\<lparr>dp_jobs := AList.delete (jb_seq j) (dp_jobs d),
      dp_run := RunReady (case map_of (dp_jobs d) (jb_seq j) of None \<Rightarrow> 0 | Some c \<Rightarrow> c) j\<rparr>"
    using assms(2) by (auto simp: runLookup_def split: run_state.splits)
  have rec: "recorded d = add_mset (jb_seq j) (recorded d')" by (simp add: recorded_def j)
  have use: "inUse d = add_mset (jb_seq j) (inUse d')" unfolding inUse_def rec by (simp add: j)
  obtain c where c: "map_of (dp_jobs d) (jb_seq j) = Some c" using assms(1) rec by (auto simp: dispInv_def)
  have once': "count (inUse d) (jb_seq j) \<le> 1" using assms(1) by (simp add: dispInv_def)
  then have new: "jb_seq j \<notin># inUse d'" unfolding use by (rule once)
  then have newrec: "jb_seq j \<notin># recorded d'" by (simp add: inUse_def)
  have newmap: "jb_seq (snd cj) \<noteq> jb_seq j" if "cj \<in> set (dp_mapped d)" for cj
  proof -
    have "jb_seq (snd cj) \<in># inUse d'" using that by (auto simp: inUse_def j(2))
    then show ?thesis using new by metis
  qed
  have cnt: "count (inUse d') s \<le> 1" for s
    using assms(1) unfolding dispInv_def use by (metis count_add_mset le_SucI le_antisym nat_le_linear not_less_eq_eq)
  have "dispInv n d'"
    using assms(1) cnt newrec newmap unfolding dispInv_def use rec
    by (auto simp: j(2) AList.delete_conv')
  moreover have "held d' = held d"
  proof -
    have "image_mset (\<lambda>k. (chatOf d' (jb_seq k), jb_Run k)) (mset (qu_pq (dp_q d))) =
        image_mset (\<lambda>k. (chatOf d (jb_seq k), jb_Run k)) (mset (qu_pq (dp_q d)))"
    proof (rule image_mset_chat)
      fix k assume "k \<in># mset (qu_pq (dp_q d))"
      then have "jb_seq k \<in># recorded d'" by (auto simp: recorded_def j(2))
      then have "jb_seq k \<noteq> jb_seq j" using newrec by metis
      then show "(chatOf d' (jb_seq k), jb_Run k) = (chatOf d (jb_seq k), jb_Run k)" by (simp add: j(2))
    qed
    then show ?thesis by (simp add: held_def j c)
  qed
  ultimately show ?thesis by (simp add: j finished_def)
qed

lemma dispInv_run:
  "dp_q d' = dp_q d \<Longrightarrow> dp_jobs d' = dp_jobs d \<Longrightarrow> dp_reserved d' = dp_reserved d \<Longrightarrow> dp_mapped d' = dp_mapped d \<Longrightarrow>
     popped (dp_run d') = popped (dp_run d) \<Longrightarrow> dispInv n d' = dispInv n d"
  by (simp add: dispInv_def inUse_def recorded_def)

lemma dispInv_mono: "dispInv n d \<Longrightarrow> n \<le> m \<Longrightarrow> dispInv m d"
  by (simp add: dispInv_def)

lemma submitted_Cons: "submitted (e # es) = submitted [e] + submitted es"
  by (cases e) simp_all

lemma dispStep_ok:
  assumes "dispInv n d" and "n < 2 ^ 64 - 1" and "dispStep e d = Some d'" and "dp_run d' \<noteq> RunStopped"
  shows "dispInv (Suc n) d' \<and> finished d' + held d' = submitted [e] + (finished d + held d) \<and> dp_run d \<noteq> RunStopped"
proof (cases e)
  case (SubmitReserve c p f)
  obtain d1 s where s: "submitReserve c p f d = (d1, s)" by (cases "submitReserve c p f d")
  show ?thesis using submitReserve_ok [OF assms(1,2) s] assms(3,4) s SubmitReserve by auto
next
  case (SubmitMap s)
  then show ?thesis using submitMap_ok [OF assms(1), of s d'] assms(3,4) dispInv_mono [of n d' "Suc n"] by simp
next
  case (SubmitPush s)
  then show ?thesis using submitPush_ok [OF assms(1), of s d'] assms(3,4) dispInv_mono [of n d' "Suc n"] by auto
next
  case RunPop
  then show ?thesis using runPop_ok [OF assms(1), of d'] assms(3) dispInv_mono [of n d' "Suc n"] by simp
next
  case RunLookup
  then show ?thesis using runLookup_ok [OF assms(1), of d'] assms(3) dispInv_mono [of n d' "Suc n"] by simp
next
  case (RunJobStep out)
  then obtain c j where r: "dp_run d = RunReady c j" "d' = (if out = RunRetryAfter then d\<lparr>dp_run := RunSleeping c j\<rparr>
      else d\<lparr>dp_run := RunIdle, dp_done := dp_done d @ [(c, jb_Run j, out)]\<rparr>)"
    using assms(3) by (auto simp: runJobStep_def split: run_state.splits)
  have "dispInv n d'" using assms(1) dispInv_run [of d' d n] by (simp add: r)
  then show ?thesis using RunJobStep dispInv_mono [of n d' "Suc n"] by (simp add: r held_def finished_def)
next
  case RunResubmit
  then obtain c j where r: "dp_run d = RunSleeping c j" using assms(3) by (auto simp: runResubmit_def split: run_state.splits)
  obtain d1 s where s: "submitReserve c (jb_Priority j) (jb_Run j) d = (d1, s)"
    by (cases "submitReserve c (jb_Priority j) (jb_Run j) d")
  have d': "d' = d1\<lparr>dp_run := RunResubmitting s\<rparr>" using assms(3) RunResubmit r s by (simp add: runResubmit_def)
  have ok: "dispInv (Suc n) d1" "held d1 = add_mset (c, jb_Run j) (held d)" "finished d1 = finished d" "dp_run d1 = dp_run d"
    using submitReserve_ok [OF assms(1,2) s] by simp_all
  have "dispInv (Suc n) d'" using ok(1) dispInv_run [of d' d1 "Suc n"] by (simp add: d' ok(4) r)
  moreover have "add_mset (c, jb_Run j) (held d') = held d1"
    using ok(4) r by (simp add: held_def d')
  ultimately show ?thesis using ok RunResubmit r by (simp add: d' finished_def)
next
  case RunStop
  then show ?thesis using assms(3,4) by (auto simp: runStop_def split: run_state.splits if_splits)
qed

lemma dispRun_stopped: "dispRun es d = Some d' \<Longrightarrow> dp_run d = RunStopped \<Longrightarrow> dp_run d' = RunStopped"
proof (induction es arbitrary: d)
  case (Cons e es)
  obtain d1 where d1: "dispStep e d = Some d1" "dispRun es d1 = Some d'" using Cons.prems(1) by (auto split: option.splits)
  have "dp_run d1 = RunStopped"
    using d1(1) Cons.prems(2)
    by (cases e) (auto simp: submitReserve_def reserveSeq_def submitMap_def submitPush_def runPop_def runLookup_def
        runJobStep_def runResubmit_def runStop_def split: option.splits)
  then show ?case using Cons.IH d1(2) by simp
qed simp

lemma dispRun_ok:
  assumes "dispInv n d" and "n + length es < 2 ^ 64" and "dispRun es d = Some d'" and "dp_run d' \<noteq> RunStopped"
  shows "finished d' + held d' = submitted es + (finished d + held d)"
  using assms
proof (induction es arbitrary: d n)
  case (Cons e es)
  obtain d1 where d1: "dispStep e d = Some d1" "dispRun es d1 = Some d'" using Cons.prems(3) by (auto split: option.splits)
  have run: "dp_run d1 \<noteq> RunStopped" using dispRun_stopped [OF d1(2)] Cons.prems(4) by blast
  have n: "n < 2 ^ 64 - 1" using Cons.prems(2) by simp
  have s: "dispInv (Suc n) d1" "finished d1 + held d1 = submitted [e] + (finished d + held d)"
    using dispStep_ok [OF Cons.prems(1) n d1(1) run] by simp_all
  have "finished d' + held d' = submitted es + (finished d1 + held d1)"
    by (rule Cons.IH [OF s(1) _ d1(2) Cons.prems(4)]) (use Cons.prems(2) in simp)
  then show ?case using s(2) by (simp add: submitted_Cons [of e es] union_ac)
qed simp

text \<open>C26. The dispatcher loses no job, duplicates none and never mistakes its
  chat: while it runs, what was submitted is, each with the chat it was
  submitted for, what came to an end (done, or failed and logged) together
  with what is being submitted, queued, in hand or sleeping before a retry;
  however submitters and dispatcher interleave, and however often Telegram
  asks to retry.\<close>

theorem dispatcher_keeps_jobs:
  assumes "dispRun es NewDispatcher = Some d" and "length es < 2 ^ 64" and "dp_run d \<noteq> RunStopped"
  shows "submitted es = finished d + held d"
proof -
  have "dispInv 0 NewDispatcher"
    by (simp add: dispInv_def inUse_def recorded_def NewDispatcher_def NewQueue_def)
  from dispRun_ok [OF this _ assms(1,3)] assms(2) show ?thesis
    by (simp add: finished_def held_def NewDispatcher_def NewQueue_def)
qed

theorem dispatcher_keeps_jobs_witness:
  "\<exists>d. dispRun [SubmitReserve 5 PrioLow ''a'', SubmitReserve 6 PrioHigh ''b'', SubmitMap 1, SubmitMap 0, SubmitPush 0,
        SubmitPush 1, RunPop, RunLookup, RunJobStep RunRetryAfter, RunResubmit, SubmitMap 2] NewDispatcher = Some d \<and>
     {#(5, ''a''), (6, ''b'')#} = finished d + held d"
proof -
  let ?es = "[SubmitReserve 5 PrioLow ''a'', SubmitReserve 6 PrioHigh ''b'', SubmitMap 1, SubmitMap 0, SubmitPush 0,
        SubmitPush 1, RunPop, RunLookup, RunJobStep RunRetryAfter, RunResubmit, SubmitMap 2]"
  have "\<exists>d. dispRun ?es NewDispatcher = Some d \<and> dp_run d \<noteq> RunStopped"
    by (simp add: NewDispatcher_def NewQueue_def submitReserve_def reserveSeq_def submitMap_def submitPush_def pushSeq_def
        runPop_def popJob_def Let_def Less_def PrioLow_def PrioHigh_def runLookup_def runJobStep_def runResubmit_def)
  then obtain d where d: "dispRun ?es NewDispatcher = Some d" "dp_run d \<noteq> RunStopped" by blast
  show ?thesis using dispatcher_keeps_jobs [OF d(1) _ d(2)] d(1) by auto
qed

end
