(* ===== verification/AdminCache.thy ===== *)
theory AdminCache
  imports FakeAdmin Effects
begin

text \<open>
  \<open>internal/telegram/admincache.go\<close>: the cached administrators of a chat.
  Lookups, the completion of a request and invalidations run under one mutex
  each and interleave in any order, since no lock is held during the request
  itself; so a history is a sequence of these steps, each with the clock it
  read. The log beside the state records what was asked, what Telegram
  replied and what callers were told. Times are nanoseconds; \<open>None\<close> is
  Go's zero time.
\<close>

definition errEmptyAdminList :: goerr where
  "errEmptyAdminList = newErr (lit ''telegram returned no identifiable chat administrators'')"

definition errAdminListInvalidated :: goerr where
  "errAdminListInvalidated = newErr (lit ''chat administrator list was invalidated while being fetched'')"

definition errAdminFetchAborted :: goerr where
  "errAdminFetchAborted = newErr (lit ''chat administrator fetch did not complete'')"

definition staleGraceFactor :: int where "staleGraceFactor = 2"

record admin_entry =
  ae_ids :: "admin_identity list"
  ae_fetchedAt :: "int option"
  ae_lastFailAt :: "int option"
  ae_lastErr :: "goerr option"

definition zeroEntry :: admin_entry where
  "zeroEntry = \<lparr>ae_ids = [], ae_fetchedAt = None, ae_lastFailAt = None, ae_lastErr = None\<rparr>"

text \<open>One request in flight: the generation and the entry captured when it began,
  and how many other lookups wait for it.\<close>

record fetch_call =
  fc_gen :: nat
  fc_prev :: "admin_entry option"
  fc_waiters :: nat

text \<open>What a history shows: a request sent, its reply, an invalidation, an answer
  to a caller.\<close>

datatype cache_event =
    CvLead int chat_id
  | CvDone int chat_id "member list" "goerr option"
  | CvInvalidate chat_id
  | CvAnswer int chat_id "admin_identity list" "goerr option"

record admin_cache =
  ac_ttl :: int
  ac_grace :: int
  ac_entries :: "(chat_id \<times> admin_entry) list"
  ac_gens :: "(chat_id \<times> nat) list"
  ac_inflight :: "(chat_id \<times> fetch_call) list"
  ac_log :: "cache_event list"

definition NewAdminCache :: "int \<Rightarrow> admin_cache" where
  "NewAdminCache ttl = \<lparr>ac_ttl = ttl, ac_grace = staleGraceFactor * ttl, ac_entries = [], ac_gens = [],
     ac_inflight = [], ac_log = []\<rparr>"

text \<open>\<open>now.Sub\<close>, which saturates.\<close>

definition maxDuration :: int where "maxDuration = 2 ^ 63 - 1"

definition sinceTime :: "int \<Rightarrow> int option \<Rightarrow> int" where
  "sinceTime now t = (case t of None \<Rightarrow> maxDuration | Some x \<Rightarrow> min maxDuration (now - x))"

definition staleEntry :: "admin_entry \<Rightarrow> int \<Rightarrow> int \<Rightarrow> admin_identity list \<times> goerr option" where
  "staleEntry e now grace =
     (if sinceTime now (ae_fetchedAt e) < grace then (ae_ids e, ae_lastErr e) else ([], ae_lastErr e))"

definition genOf :: "admin_cache \<Rightarrow> chat_id \<Rightarrow> nat" where
  "genOf a c = (case map_of (ac_gens a) c of None \<Rightarrow> 0 | Some g \<Rightarrow> g)"

definition Invalidate :: "chat_id \<Rightarrow> admin_cache \<Rightarrow> admin_cache" where
  "Invalidate c a = a\<lparr>ac_entries := AList.delete c (ac_entries a),
     ac_gens := AList.update c (genOf a c + 1) (ac_gens a), ac_log := ac_log a @ [CvInvalidate c]\<rparr>"

definition identityOf :: "member \<Rightarrow> admin_identity" where
  "identityOf m = \<lparr>ad_UserID = mb_UserID m, ad_Username = mb_Username m, ad_DisplayName = mb_DisplayName m,
     ad_CustomTitle = mb_CustomTitle m\<rparr>"

definition anyIdentifiable :: "member list \<Rightarrow> bool" where
  "anyIdentifiable ms \<longleftrightarrow> list_ex (\<lambda>m. mb_UserID m \<noteq> 0) ms"

definition answerWith :: "int \<Rightarrow> chat_id \<Rightarrow> nat \<Rightarrow> admin_identity list \<times> goerr option \<Rightarrow> admin_cache \<Rightarrow> admin_cache" where
  "answerWith now c n r a = a\<lparr>ac_log := ac_log a @ replicate n (CvAnswer now c (fst r) (snd r))\<rparr>"

text \<open>\<open>AdminIdentities\<close> up to the request: an answer from the cache, or
  waiting for a request in flight, or leading one.\<close>

definition lookupAdmins :: "int \<Rightarrow> chat_id \<Rightarrow> admin_cache \<Rightarrow> admin_cache" where
  "lookupAdmins now c a =
     (let entry = map_of (ac_entries a) c;
          fromCache = (case entry of
             None \<Rightarrow> None
           | Some e \<Rightarrow>
               if sinceTime now (ae_fetchedAt e) < ac_ttl a then Some (ae_ids e, None)
               else if ae_lastFailAt e \<noteq> None \<and> sinceTime now (ae_lastFailAt e) < ac_ttl a
                 then Some (staleEntry e now (ac_grace a))
               else None)
      in case fromCache of
           Some r \<Rightarrow> answerWith now c 1 r a
         | None \<Rightarrow>
             (case map_of (ac_inflight a) c of
                Some f \<Rightarrow> a\<lparr>ac_inflight := AList.update c (f\<lparr>fc_waiters := fc_waiters f + 1\<rparr>) (ac_inflight a)\<rparr>
              | None \<Rightarrow> a\<lparr>ac_inflight := AList.update c \<lparr>fc_gen = genOf a c, fc_prev = entry, fc_waiters = 0\<rparr> (ac_inflight a),
                          ac_log := ac_log a @ [CvLead now c]\<rparr>))"

text \<open>\<open>commitLocked\<close>, with the error after the check for an empty list.\<close>

definition commitLocked ::
  "int \<Rightarrow> chat_id \<Rightarrow> fetch_call \<Rightarrow> member list \<Rightarrow> goerr option \<Rightarrow> admin_cache \<Rightarrow> admin_cache \<times> (admin_identity list \<times> goerr option)" where
  "commitLocked now c f ms fetchErr a =
     (let invalidated = (genOf a c \<noteq> fc_gen f) in
      case fetchErr of
        Some e \<Rightarrow>
          if invalidated then (a, ([], Some e))
          else
            (let cur = (case map_of (ac_entries a) c of None \<Rightarrow> zeroEntry | Some x \<Rightarrow> x);
                 a' = a\<lparr>ac_entries := AList.update c (cur\<lparr>ae_lastFailAt := Some now, ae_lastErr := Some e\<rparr>) (ac_entries a)\<rparr>
             in case fc_prev f of
                  Some prev \<Rightarrow> (a', staleEntry (prev\<lparr>ae_lastErr := Some e\<rparr>) now (ac_grace a))
                | None \<Rightarrow> (a', ([], Some e)))
      | None \<Rightarrow>
          if invalidated then (a, ([], Some errAdminListInvalidated))
          else
            (let ids = map identityOf ms
             in (a\<lparr>ac_entries := AList.update c
                     \<lparr>ae_ids = ids, ae_fetchedAt = Some now, ae_lastFailAt = None, ae_lastErr = None\<rparr> (ac_entries a)\<rparr>,
                 (ids, None))))"

text \<open>The reply arrives: commit, publish to the leader and to every waiter.\<close>

definition fetchDone :: "int \<Rightarrow> chat_id \<Rightarrow> member list \<Rightarrow> goerr option \<Rightarrow> admin_cache \<Rightarrow> admin_cache option" where
  "fetchDone now c ms err a =
     (case map_of (ac_inflight a) c of
        None \<Rightarrow> None
      | Some f \<Rightarrow>
          (let fetchErr = (if err = None \<and> \<not> anyIdentifiable ms then Some errEmptyAdminList else err)
           in case commitLocked now c f ms fetchErr (a\<lparr>ac_log := ac_log a @ [CvDone now c ms err]\<rparr>) of
                (a', r) \<Rightarrow>
                  Some (answerWith now c (1 + fc_waiters f) r (a'\<lparr>ac_inflight := AList.delete c (ac_inflight a')\<rparr>))))"

text \<open>The request panicked: the waiters are released with an error.\<close>

definition fetchAborted :: "int \<Rightarrow> chat_id \<Rightarrow> admin_cache \<Rightarrow> admin_cache option" where
  "fetchAborted now c a =
     (case map_of (ac_inflight a) c of
        None \<Rightarrow> None
      | Some f \<Rightarrow>
          Some (answerWith now c (fc_waiters f) ([], Some errAdminFetchAborted)
            (a\<lparr>ac_inflight := AList.delete c (ac_inflight a)\<rparr>)))"

datatype cache_step =
    CacheLookup int chat_id
  | CacheDone int chat_id "member list" "goerr option"
  | CacheAborted int chat_id
  | CacheInvalidate chat_id

fun cacheStep :: "cache_step \<Rightarrow> admin_cache \<Rightarrow> admin_cache option" where
  "cacheStep (CacheLookup now c) a = Some (lookupAdmins now c a)"
| "cacheStep (CacheDone now c ms err) a = fetchDone now c ms err a"
| "cacheStep (CacheAborted now c) a = fetchAborted now c a"
| "cacheStep (CacheInvalidate c) a = Some (Invalidate c a)"

fun cacheRun :: "cache_step list \<Rightarrow> admin_cache \<Rightarrow> admin_cache option" where
  "cacheRun [] a = Some a"
| "cacheRun (e # es) a = (case cacheStep e a of None \<Rightarrow> None | Some a' \<Rightarrow> cacheRun es a')"

end
