(* ===== verification/AdminCacheProps.thy ===== *)
theory AdminCacheProps
  imports AdminCache
begin

text \<open>
  What a list of administrators without an error vouches for: Telegram
  replied it to a request sent after the last invalidation, recently enough;
  and how rarely Telegram is asked while it does not answer.
\<close>

section \<open>Vouched lists\<close>

text \<open>Nothing about the chat happens but answers.\<close>

definition calm :: "chat_id \<Rightarrow> cache_event list \<Rightarrow> bool" where
  "calm c evs \<longleftrightarrow> (\<forall>e \<in> set evs. case e of
      CvLead t c' \<Rightarrow> c' \<noteq> c | CvDone t c' ms err \<Rightarrow> c' \<noteq> c | CvInvalidate c' \<Rightarrow> c' \<noteq> c | CvAnswer t c' ids err \<Rightarrow> True)"

lemma calm_append [simp]: "calm c (xs @ ys) \<longleftrightarrow> calm c xs \<and> calm c ys"
  by (auto simp: calm_def)

lemma calm_simps [simp]:
  "calm c []" "calm c (CvLead t c' # evs) \<longleftrightarrow> c' \<noteq> c \<and> calm c evs"
  "calm c (CvDone t c' ms err # evs) \<longleftrightarrow> c' \<noteq> c \<and> calm c evs"
  "calm c (CvInvalidate c' # evs) \<longleftrightarrow> c' \<noteq> c \<and> calm c evs"
  "calm c (CvAnswer t c' ids err # evs) \<longleftrightarrow> calm c evs"
  by (simp_all add: calm_def)

lemma calm_answers [simp]: "calm c (replicate n (CvAnswer t c' ids err))"
  by (induction n) simp_all

definition leading :: "chat_id \<Rightarrow> cache_event list \<Rightarrow> bool" where
  "leading c evs \<longleftrightarrow> (\<exists>xs t ys. evs = xs @ CvLead t c # ys \<and> calm c ys)"

text \<open>The list was replied at \<open>t\<close>, to a request after which the chat was not
  invalidated.\<close>

definition vouched :: "cache_event list \<Rightarrow> chat_id \<Rightarrow> admin_identity list \<Rightarrow> int \<Rightarrow> bool" where
  "vouched evs c ids t \<longleftrightarrow>
     (\<exists>xs t0 ys ms zs. evs = xs @ CvLead t0 c # ys @ CvDone t c ms None # zs \<and> calm c ys \<and>
        CvInvalidate c \<notin> set zs \<and> ids = map identityOf ms \<and> anyIdentifiable ms)"

lemma leading_append: "leading c evs \<Longrightarrow> calm c es \<Longrightarrow> leading c (evs @ es)"
  unfolding leading_def by (metis append.assoc append_Cons calm_append)

lemma vouched_append: "vouched evs c ids t \<Longrightarrow> CvInvalidate c \<notin> set es \<Longrightarrow> vouched (evs @ es) c ids t"
  unfolding vouched_def by (elim exE conjE) (rule exI, rule exI, rule exI, rule exI, rule exI, auto)

lemma vouched_done:
  assumes "leading c evs" and "anyIdentifiable ms"
  shows "vouched (evs @ [CvDone t c ms None]) c (map identityOf ms) t"
  using assms unfolding leading_def vouched_def
  by (elim exE conjE) (rule exI, rule exI, rule exI, rule exI, rule exI [of _ "[]"], auto)

definition goodAnswer :: "int \<Rightarrow> cache_event list \<Rightarrow> cache_event \<Rightarrow> bool" where
  "goodAnswer ttl evs e \<longleftrightarrow> (\<forall>now c ids. e = CvAnswer now c ids None \<longrightarrow>
     (\<exists>t. vouched evs c ids t \<and> (now - t < ttl \<or> now = t)))"

definition goodAnswers :: "int \<Rightarrow> cache_event list \<Rightarrow> bool" where
  "goodAnswers ttl evs \<longleftrightarrow> (\<forall>xs e ys. evs = xs @ e # ys \<longrightarrow> goodAnswer ttl xs e)"

lemma goodAnswers_snoc: "goodAnswers ttl (evs @ [e]) \<longleftrightarrow> goodAnswers ttl evs \<and> goodAnswer ttl evs e"
proof
  assume all: "goodAnswers ttl (evs @ [e])"
  have "goodAnswer ttl xs x" if "evs = xs @ x # ys" for xs x ys
    using all that unfolding goodAnswers_def by (metis append.assoc append_Cons)
  then show "goodAnswers ttl evs \<and> goodAnswer ttl evs e" using all unfolding goodAnswers_def by blast
next
  assume good: "goodAnswers ttl evs \<and> goodAnswer ttl evs e"
  have "goodAnswer ttl xs x" if eq: "evs @ [e] = xs @ x # ys" for xs x ys
  proof (cases ys rule: rev_cases)
    case Nil
    then show ?thesis using eq good by simp
  next
    case (snoc zs z)
    then have "evs = xs @ x # zs" using eq by simp
    then show ?thesis using good unfolding goodAnswers_def by blast
  qed
  then show "goodAnswers ttl (evs @ [e])" unfolding goodAnswers_def by blast
qed

lemma goodAnswers_replicate:
  assumes "goodAnswers ttl evs" and "goodAnswer ttl evs (CvAnswer t c ids err)"
  shows "goodAnswers ttl (evs @ replicate n (CvAnswer t c ids err))"
proof (induction n)
  case 0
  then show ?case using assms(1) by simp
next
  case (Suc n)
  have "vouched (evs @ replicate n (CvAnswer t c ids err)) c ids x" if "vouched evs c ids x" for x
    by (rule vouched_append [OF that]) auto
  then have "goodAnswer ttl (evs @ replicate n (CvAnswer t c ids err)) (CvAnswer t c ids err)"
    using assms(2) unfolding goodAnswer_def by (metis cache_event.inject(4))
  then have "goodAnswers ttl ((evs @ replicate n (CvAnswer t c ids err)) @ [CvAnswer t c ids err])"
    using Suc by (simp only: goodAnswers_snoc)
  then show ?case by (simp add: replicate_append_same [symmetric])
qed

section \<open>The invariant\<close>

definition entryOK :: "cache_event list \<Rightarrow> chat_id \<Rightarrow> admin_entry \<Rightarrow> bool" where
  "entryOK evs c e \<longleftrightarrow> (ae_lastFailAt e \<noteq> None \<longrightarrow> ae_lastErr e \<noteq> None) \<and>
     (\<forall>t. ae_fetchedAt e = Some t \<longrightarrow> vouched evs c (ae_ids e) t)"

definition cacheInv :: "int \<Rightarrow> admin_cache \<Rightarrow> bool" where
  "cacheInv ttl a \<longleftrightarrow> ac_ttl a = ttl \<and> goodAnswers ttl (ac_log a) \<and>
     (\<forall>c e. map_of (ac_entries a) c = Some e \<longrightarrow> entryOK (ac_log a) c e) \<and>
     (\<forall>c f. map_of (ac_inflight a) c = Some f \<longrightarrow> fc_gen f \<le> genOf a c \<and> (fc_gen f = genOf a c \<longrightarrow> leading c (ac_log a)))"

lemma entryOK_append: "entryOK evs c e \<Longrightarrow> CvInvalidate c \<notin> set es \<Longrightarrow> entryOK (evs @ es) c e"
  by (auto simp: entryOK_def intro: vouched_append)

lemma cacheInv_answer:
  assumes "cacheInv ttl a" and "snd r = None \<Longrightarrow> \<exists>t. vouched (ac_log a) c (fst r) t \<and> (now - t < ttl \<or> now = t)"
  shows "cacheInv ttl (answerWith now c n r a)"
proof -
  have good: "goodAnswer ttl (ac_log a) (CvAnswer now c (fst r) (snd r))"
    using assms(2) by (auto simp: goodAnswer_def)
  show ?thesis
    using assms(1) goodAnswers_replicate [OF _ good, of n] unfolding cacheInv_def answerWith_def
    by (auto simp: genOf_def intro!: entryOK_append leading_append)
qed

lemma sinceTime_less: "ttl \<le> maxDuration \<Longrightarrow> sinceTime now t < ttl \<longleftrightarrow> (\<exists>x. t = Some x \<and> now - x < ttl)"
  by (auto simp: sinceTime_def split: option.splits)

lemma lookupAdmins_inv:
  assumes "cacheInv ttl a" and "ttl \<le> maxDuration"
  shows "cacheInv ttl (lookupAdmins now c a)"
proof -
  let ?cached = "case map_of (ac_entries a) c of
       None \<Rightarrow> None
     | Some e \<Rightarrow>
         if sinceTime now (ae_fetchedAt e) < ac_ttl a then Some (ae_ids e, None)
         else if ae_lastFailAt e \<noteq> None \<and> sinceTime now (ae_lastFailAt e) < ac_ttl a
           then Some (staleEntry e now (ac_grace a)) else None"
  show ?thesis
  proof (cases ?cached)
    case (Some r)
    then obtain e where e: "map_of (ac_entries a) c = Some e" by (auto split: option.splits)
    have ok: "entryOK (ac_log a) c e" and ttl: "ac_ttl a = ttl" using assms(1) e by (auto simp: cacheInv_def)
    have "\<exists>t. vouched (ac_log a) c (fst r) t \<and> (now - t < ttl \<or> now = t)" if "snd r = None"
    proof (cases "sinceTime now (ae_fetchedAt e) < ttl")
      case True
      then obtain t where "ae_fetchedAt e = Some t" "now - t < ttl" using sinceTime_less [OF assms(2)] by blast
      then show ?thesis using ok Some e True ttl by (auto simp: entryOK_def)
    next
      case False
      then have "r = staleEntry e now (ac_grace a)" "ae_lastFailAt e \<noteq> None"
        using Some e ttl by (auto split: if_splits)
      then show ?thesis using ok that by (auto simp: entryOK_def staleEntry_def split: if_splits)
    qed
    then show ?thesis using Some cacheInv_answer [OF assms(1), of r c now 1] by (simp add: lookupAdmins_def Let_def)
  next
    case None
    have good: "goodAnswers ttl (ac_log a @ [CvLead now c])"
      using assms(1) by (simp add: cacheInv_def goodAnswers_snoc goodAnswer_def)
    show ?thesis
    proof (cases "map_of (ac_inflight a) c")
      case (Some f)
      then show ?thesis using assms(1) None
        by (auto simp: lookupAdmins_def Let_def cacheInv_def genOf_def AList.update_conv' split: if_splits)
    next
      case no: None
      have lead: "leading c (ac_log a @ [CvLead now c])" unfolding leading_def
        by (rule exI, rule exI, rule exI [of _ "[]"]) simp
      have keep: "leading k (ac_log a) \<Longrightarrow> k \<noteq> c \<Longrightarrow> leading k (ac_log a @ [CvLead now c])" for k
        by (rule leading_append) simp_all
      show ?thesis using assms(1) None no good lead keep
        by (auto simp: lookupAdmins_def Let_def cacheInv_def genOf_def AList.update_conv' intro!: entryOK_append split: if_splits)
    qed
  qed
qed

lemma cacheInv_finish:
  assumes "cacheInv ttl a"
  shows "cacheInv ttl (a\<lparr>ac_inflight := AList.delete c (ac_inflight a)\<rparr>)"
  using assms by (auto simp: cacheInv_def genOf_def AList.delete_conv' split: if_splits)

text \<open>The reply to the request in flight, logged and committed.\<close>

lemma commit_ok:
  assumes "cacheInv ttl a" and "map_of (ac_inflight a) c = Some f"
    and "fetchErr = (if err = None \<and> \<not> anyIdentifiable ms then Some errEmptyAdminList else err)"
    and "commitLocked now c f ms fetchErr (a\<lparr>ac_log := ac_log a @ [CvDone now c ms err]\<rparr>) = (a', r)"
  shows "cacheInv ttl (a'\<lparr>ac_inflight := AList.delete c (ac_inflight a')\<rparr>) \<and>
     (snd r = None \<longrightarrow> vouched (ac_log a') c (fst r) now)"
proof -
  let ?log = "ac_log a @ [CvDone now c ms err]"
  let ?a = "a\<lparr>ac_log := ?log\<rparr>"
  have gen [simp]: "genOf ?a c = genOf a c" by (simp add: genOf_def)
  have good: "goodAnswers ttl ?log" using assms(1) by (simp add: cacheInv_def goodAnswers_snoc goodAnswer_def)
  have entries: "entryOK ?log k e" if "map_of (ac_entries a) k = Some e" for k e
    using assms(1) that by (auto simp: cacheInv_def intro!: entryOK_append)
  have others: "fc_gen g \<le> genOf a k \<and> (fc_gen g = genOf a k \<longrightarrow> leading k ?log)"
    if "map_of (ac_inflight a) k = Some g" and "k \<noteq> c" for k g
    using assms(1) that by (auto simp: cacheInv_def intro!: leading_append)
  have inv: "cacheInv ttl (a'\<lparr>ac_inflight := AList.delete c (ac_inflight a')\<rparr>)"
    if "ac_log a' = ?log" "ac_inflight a' = ac_inflight a" "ac_gens a' = ac_gens a" "ac_ttl a' = ac_ttl a"
      and "\<And>k e. map_of (ac_entries a') k = Some e \<Longrightarrow> entryOK ?log k e"
    using assms(1) good that others by (auto simp: cacheInv_def genOf_def AList.delete_conv' split: if_splits)
  have stale: "snd (staleEntry (e\<lparr>ae_lastErr := Some x\<rparr>) t g) \<noteq> None" for e x t g
    by (simp add: staleEntry_def)
  show ?thesis
  proof (cases fetchErr)
    case (Some e)
    have zero: "entryOK ?log k (zeroEntry\<lparr>ae_lastFailAt := Some now, ae_lastErr := Some e\<rparr>)" for k
      by (simp add: entryOK_def zeroEntry_def)
    have failed: "entryOK ?log k (x\<lparr>ae_lastFailAt := Some now, ae_lastErr := Some e\<rparr>)" if "entryOK ?log k x" for k x
      using that by (simp add: entryOK_def)
    have a': "ac_log a' = ?log" "ac_inflight a' = ac_inflight a" "ac_gens a' = ac_gens a" "ac_ttl a' = ac_ttl a"
        "snd r \<noteq> None" "\<And>k x. map_of (ac_entries a') k = Some x \<Longrightarrow> entryOK ?log k x"
      using assms(4) Some zero failed entries stale
      by (auto simp: commitLocked_def Let_def AList.update_conv' split: if_splits option.splits)
    show ?thesis using inv [OF a'(1-4,6)] a'(5) by blast
  next
    case None
    then have ms: "err = None" "anyIdentifiable ms" using assms(3) by (auto split: if_splits)
    show ?thesis
    proof (cases "genOf a c = fc_gen f")
      case True
      then have "leading c (ac_log a)" using assms(1,2) by (auto simp: cacheInv_def)
      then have v: "vouched ?log c (map identityOf ms) now" using vouched_done ms by simp
      have a': "ac_log a' = ?log" "ac_inflight a' = ac_inflight a" "ac_gens a' = ac_gens a" "ac_ttl a' = ac_ttl a"
          "r = (map identityOf ms, None)" "\<And>k x. map_of (ac_entries a') k = Some x \<Longrightarrow> entryOK ?log k x"
        using assms(4) None True v entries
        by (auto simp: commitLocked_def Let_def AList.update_conv' entryOK_def split: if_splits)
      then show ?thesis using inv v by simp
    next
      case False
      then have "a' = ?a" "snd r \<noteq> None" using assms(4) None by (auto simp: commitLocked_def Let_def)
      then show ?thesis using inv entries by auto
    qed
  qed
qed

lemma fetchDone_inv:
  assumes "cacheInv ttl a" and "fetchDone now c ms err a = Some a'"
  shows "cacheInv ttl a'"
proof -
  obtain f where f: "map_of (ac_inflight a) c = Some f" using assms(2) by (auto simp: fetchDone_def split: option.splits)
  let ?err = "if err = None \<and> \<not> anyIdentifiable ms then Some errEmptyAdminList else err"
  obtain a1 r where c: "commitLocked now c f ms ?err (a\<lparr>ac_log := ac_log a @ [CvDone now c ms err]\<rparr>) = (a1, r)"
    by (cases "commitLocked now c f ms ?err (a\<lparr>ac_log := ac_log a @ [CvDone now c ms err]\<rparr>)")
  have ok: "cacheInv ttl (a1\<lparr>ac_inflight := AList.delete c (ac_inflight a1)\<rparr>)" "snd r = None \<longrightarrow> vouched (ac_log a1) c (fst r) now"
    using commit_ok [OF assms(1) f refl c] by simp_all
  have "a' = answerWith now c (1 + fc_waiters f) r (a1\<lparr>ac_inflight := AList.delete c (ac_inflight a1)\<rparr>)"
    using assms(2) f c by (simp add: fetchDone_def Let_def)
  then show ?thesis using cacheInv_answer [OF ok(1), of r c now "1 + fc_waiters f"] ok(2) by auto
qed

lemma fetchAborted_inv:
  assumes "cacheInv ttl a" and "fetchAborted now c a = Some a'"
  shows "cacheInv ttl a'"
proof -
  obtain n where "a' = answerWith now c n ([], Some errAdminFetchAborted)
      (a\<lparr>ac_inflight := AList.delete c (ac_inflight a)\<rparr>)"
    using assms(2) by (auto simp: fetchAborted_def split: option.splits)
  then show ?thesis
    using cacheInv_answer [OF cacheInv_finish [OF assms(1)], of "([], Some errAdminFetchAborted)" c c now n] by simp
qed

lemma Invalidate_inv:
  assumes "cacheInv ttl a"
  shows "cacheInv ttl (Invalidate c a)"
proof -
  have good: "goodAnswers ttl (ac_log a @ [CvInvalidate c])"
    using assms by (simp add: cacheInv_def goodAnswers_snoc goodAnswer_def)
  have keep: "leading k (ac_log a @ [CvInvalidate c])" if "leading k (ac_log a)" and "k \<noteq> c" for k
    by (rule leading_append [OF that(1)]) (use that(2) in simp)
  have gens: "genOf (Invalidate c a) k = (if k = c then Suc (genOf a c) else genOf a k)" for k
    by (simp add: Invalidate_def genOf_def AList.update_conv')
  show ?thesis
    unfolding cacheInv_def gens
    using assms good keep
    by (auto simp: cacheInv_def Invalidate_def AList.delete_conv' intro!: entryOK_append split: if_splits dest: Suc_le_lessD)
      (metis le_SucI not_less_eq_eq)+
qed

lemma cacheStep_inv:
  assumes "cacheInv ttl a" and "ttl \<le> maxDuration" and "cacheStep e a = Some a'"
  shows "cacheInv ttl a'"
proof (cases e)
  case (CacheLookup now c)
  then show ?thesis using assms(3) lookupAdmins_inv [OF assms(1,2), of now c] by auto
next
  case (CacheDone now c ms err)
  then show ?thesis using assms(3) fetchDone_inv [OF assms(1)] by auto
next
  case (CacheAborted now c)
  then show ?thesis using assms(3) fetchAborted_inv [OF assms(1)] by auto
next
  case (CacheInvalidate c)
  then show ?thesis using assms(3) Invalidate_inv [OF assms(1), of c] by auto
qed

lemma cacheRun_inv: "cacheInv ttl a \<Longrightarrow> ttl \<le> maxDuration \<Longrightarrow> cacheRun es a = Some a' \<Longrightarrow> cacheInv ttl a'"
proof (induction es arbitrary: a)
  case (Cons e es)
  obtain a1 where a1: "cacheStep e a = Some a1" "cacheRun es a1 = Some a'" using Cons.prems(3) by (auto split: option.splits)
  have "cacheInv ttl a1" by (rule cacheStep_inv [OF Cons.prems(1,2) a1(1)])
  then show ?case by (rule Cons.IH [OF _ Cons.prems(2) a1(2)])
qed simp

text \<open>C27. A list of administrators handed out without an error can be relied on:
  for every history of lookups, replies, panics and invalidations, such a
  list was replied by Telegram, with an identifiable administrator in it, to
  a request sent after every earlier invalidation of the chat, and it was
  replied less than the time to live ago, or just now.\<close>

theorem vouched_admins_are_current:
  assumes "cacheRun es (NewAdminCache ttl) = Some a" and "ttl \<le> maxDuration"
    and "ac_log a = before @ CvAnswer now c ids None # later"
  shows "\<exists>t. vouched before c ids t \<and> (now - t < ttl \<or> now = t)"
proof -
  have "goodAnswers ttl []" unfolding goodAnswers_def by blast
  then have "cacheInv ttl (NewAdminCache ttl)" by (simp add: cacheInv_def NewAdminCache_def)
  then have "cacheInv ttl a" by (rule cacheRun_inv [OF _ assms(2,1)])
  then have "goodAnswers ttl (ac_log a)" by (simp add: cacheInv_def)
  then show ?thesis using assms(3) by (auto simp: goodAnswers_def goodAnswer_def)
qed


definition cacheAdmin :: member where
  "cacheAdmin = \<lparr>mb_UserID = 7, mb_Status = ''creator'', mb_Username = [], mb_DisplayName = [], mb_CustomTitle = []\<rparr>"

theorem vouched_admins_are_current_witness:
  "\<exists>t. vouched [CvInvalidate (-100), CvLead 5 (-100), CvDone 6 (-100) [cacheAdmin] None,
        CvAnswer 6 (-100) [identityOf cacheAdmin] None] (-100) [identityOf cacheAdmin] t \<and> (9 - t < 10 \<or> 9 = t)"
proof -
  let ?es = "[CacheInvalidate (-100), CacheLookup 5 (-100), CacheDone 6 (-100) [cacheAdmin] None, CacheLookup 9 (-100)]"
  have "\<exists>a. cacheRun ?es (NewAdminCache 10) = Some a \<and>
      ac_log a = [CvInvalidate (-100), CvLead 5 (-100), CvDone 6 (-100) [cacheAdmin] None,
        CvAnswer 6 (-100) [identityOf cacheAdmin] None] @ CvAnswer 9 (-100) [identityOf cacheAdmin] None # []"
    by (simp add: NewAdminCache_def Invalidate_def lookupAdmins_def fetchDone_def commitLocked_def answerWith_def Let_def
        genOf_def anyIdentifiable_def cacheAdmin_def sinceTime_def maxDuration_def)
  then obtain a where a: "cacheRun ?es (NewAdminCache 10) = Some a"
      "ac_log a = [CvInvalidate (-100), CvLead 5 (-100), CvDone 6 (-100) [cacheAdmin] None,
        CvAnswer 6 (-100) [identityOf cacheAdmin] None] @ CvAnswer 9 (-100) [identityOf cacheAdmin] None # []" by blast
  show ?thesis by (rule vouched_admins_are_current [OF a(1) _ a(2)]) (simp add: maxDuration_def)
qed


end
