(* ===== verification/LlmProps.thy ===== *)
theory LlmProps
  imports Llm
begin

text \<open>
  What the judge's verdict means, in every interleaving of its goroutines,
  its collecting loop and the deadline: an invariant of the loop's state,
  and from it that the returned votes are the providers' own and the verdict
  is the policy's; and that the loop always ends.
\<close>

section \<open>The invariant of the collecting loop\<close>

definition voteOf :: "provider \<Rightarrow> llm_answer \<Rightarrow> vote" where
  "voteOf p a = \<lparr>vt_Provider = pv_Name p, vt_Spam = an_Spam a, vt_OK = an_OK a, vt_Err = an_Err a, vt_Score = an_Score a\<rparr>"

definition received :: "judge_state \<Rightarrow> nat \<Rightarrow> bool" where
  "received s i \<longleftrightarrow> i < length (jg_Received s) \<and> jg_Received s ! i"

definition slotOK :: "judge \<Rightarrow> judge_state \<Rightarrow> nat \<Rightarrow> bool" where
  "slotOK j s i \<longleftrightarrow>
     (if received s i
      then \<exists>a \<in> set (jg_Sent s). an_I a = i \<and> jg_Votes s ! i = voteOf (ju_Providers j ! i) a \<and>
             jg_Results s ! i = (an_Spam a, an_OK a)
      else jg_Results s ! i = (False, False) \<and> \<not> vt_OK (jg_Votes s ! i) \<and>
           (jg_PC s \<noteq> JudgeReturned \<longrightarrow> jg_Votes s ! i = newVote (ju_Providers j ! i)))"

text \<open>The answers on their way are of providers not yet counted; every provider
  is out, on its way or counted.\<close>

definition judgeFlow :: "judge \<Rightarrow> judge_state \<Rightarrow> bool" where
  "judgeFlow j s \<longleftrightarrow>
     distinct (jg_Out s @ map an_I (jg_Chan s)) \<and>
     (\<forall>i \<in> set (jg_Out s @ map an_I (jg_Chan s)). i < length (ju_Providers j) \<and> \<not> received s i) \<and>
     (\<forall>i < length (ju_Providers j). i \<in> set (jg_Out s @ map an_I (jg_Chan s)) \<or> received s i) \<and>
     set (jg_Chan s) \<subseteq> set (jg_Sent s) \<and>
     (\<forall>a \<in> set (jg_Sent s). an_OK a = (an_Err a = None)) \<and>
     jg_Answered s = card {i. received s i}"

definition judgeInv :: "judge \<Rightarrow> judge_state \<Rightarrow> bool" where
  "judgeInv j s \<longleftrightarrow>
     (let n = length (ju_Providers j) in
      length (jg_Votes s) = n \<and> length (jg_Results s) = n \<and> length (jg_Received s) = n \<and>
      judgeFlow j s \<and> (\<forall>i < n. slotOK j s i) \<and>
      jg_Failed s = card {i. i < n \<and> (received s i \<or> jg_PC s = JudgeReturned) \<and> \<not> vt_OK (jg_Votes s ! i)} \<and>
      (jg_PC s = JudgeReturned \<and> 0 < n \<longrightarrow> jg_Spam s = decideVotes (ju_Policy j) (jg_Results s)) \<and>
      (n = 0 \<longrightarrow> jg_PC s = JudgeReturned \<and> \<not> jg_Spam s))"

lemma answerOf_simps [simp]: "an_I (answerOf p i r) = i" "an_OK (answerOf p i r) = (an_Err (answerOf p i r) = None)"
  by (auto simp: answerOf_def split: option.splits sum.splits prod.splits)

lemma received_finite [simp]: "finite {i. received s i}"
  by (rule finite_subset [of _ "{..<length (jg_Received s)}"]) (auto simp: received_def)

lemma judgeInv_start: "judgeInv j (judgeStart j)"
  by (auto simp: judgeInv_def judgeFlow_def judgeStart_def Let_def received_def slotOK_def newVote_def)

lemma judgeInv_send:
  assumes "judgeInv j s" and "judgeSend j i r s = Some s'"
  shows "judgeInv j s'"
proof -
  let ?a = "answerOf (ju_Providers j ! i) i r"
  have i: "i \<in> set (jg_Out s)" and s': "s' = s\<lparr>jg_Out := remove1 i (jg_Out s), jg_Chan := jg_Chan s @ [?a], jg_Sent := jg_Sent s @ [?a]\<rparr>"
    using assms(2) by (auto simp: judgeSend_def Let_def split: if_splits)
  have inv: "judgeFlow j s" using assms(1) by (simp add: judgeInv_def Let_def)
  have rec: "received s' = received s" by (simp add: received_def s' fun_eq_iff)
  have sel: "jg_Votes s' = jg_Votes s" "jg_Results s' = jg_Results s" "jg_PC s' = jg_PC s" "jg_Received s' = jg_Received s"
    "jg_Failed s' = jg_Failed s" "jg_Spam s' = jg_Spam s" "jg_Answered s' = jg_Answered s"
    "jg_Sent s' = jg_Sent s @ [?a]" "jg_Chan s' = jg_Chan s @ [?a]" "jg_Out s' = remove1 i (jg_Out s)"
    by (simp_all add: s')
  have "distinct (jg_Out s)" using inv by (simp add: judgeFlow_def)
  then have out: "set (remove1 i (jg_Out s)) = set (jg_Out s) - {i}" "distinct (remove1 i (jg_Out s))"
    by (simp_all add: distinct_remove1)
  have "judgeFlow j s'"
    using inv i out unfolding judgeFlow_def rec sel by auto
  moreover have "slotOK j s' k" if "slotOK j s k" for k
    using that by (auto simp: slotOK_def rec sel split: if_splits)
  ultimately show ?thesis using assms(1) by (simp add: judgeInv_def Let_def rec sel)
qed

lemma control_simps [simp]:
  "received (s\<lparr>jg_PC := pc\<rparr>) = received s" "received (s\<lparr>jg_Expired := x\<rparr>) = received s"
  "judgeFlow j (s\<lparr>jg_PC := pc\<rparr>) = judgeFlow j s" "judgeFlow j (s\<lparr>jg_Expired := x\<rparr>) = judgeFlow j s"
  "slotOK j (s\<lparr>jg_Expired := x\<rparr>) = slotOK j s"
  by (simp_all add: received_def judgeFlow_def slotOK_def fun_eq_iff)

lemma newVote_simps [simp]: "vt_OK (newVote p) = False" "vt_Provider (newVote p) = pv_Name p"
  by (simp_all add: newVote_def)

lemma slotOK_control: "jg_PC s \<noteq> JudgeReturned \<Longrightarrow> slotOK j s i \<Longrightarrow> slotOK j (s\<lparr>jg_PC := pc\<rparr>) i"
  by (auto simp: slotOK_def newVote_def)

lemma judgeInv_quiet:
  "judgeInv j s \<Longrightarrow> jg_PC s \<noteq> JudgeReturned \<Longrightarrow> pc \<noteq> JudgeReturned \<Longrightarrow> judgeInv j (s\<lparr>jg_PC := pc\<rparr>)"
  by (simp add: judgeInv_def Let_def slotOK_control)

lemma judgeInv_expire: "judgeInv j s \<Longrightarrow> judgeInv j (s\<lparr>jg_Expired := x\<rparr>)"
  by (simp add: judgeInv_def Let_def)

lemma judgeInv_receive:
  assumes "judgeInv j s" and "judgeReceive j s = Some s'"
  shows "judgeInv j s'"
proof -
  let ?n = "length (ju_Providers j)"
  obtain a as where pc: "jg_PC s \<noteq> JudgeReturned" and chan: "jg_Chan s = a # as"
    and s': "s' = (recordAnswer a s)\<lparr>jg_Chan := as, jg_PC := JudgePoll\<rparr>"
    using assms(2) by (auto simp: judgeReceive_def split: if_splits list.splits)
  have len: "length (jg_Votes s) = ?n" "length (jg_Results s) = ?n" "length (jg_Received s) = ?n"
    and flow: "judgeFlow j s" and slots: "\<forall>i < ?n. slotOK j s i"
    and failed: "jg_Failed s = card {i. i < ?n \<and> received s i \<and> \<not> vt_OK (jg_Votes s ! i)}"
    using assms(1) pc by (auto simp: judgeInv_def Let_def)
  let ?i = "an_I a"
  have i: "?i < ?n" "\<not> received s ?i" and a: "a \<in> set (jg_Sent s)" "an_OK a = (an_Err a = None)"
    using flow chan by (auto simp: judgeFlow_def)
  have name: "vt_Provider (jg_Votes s ! ?i) = pv_Name (ju_Providers j ! ?i)"
    using slots i pc by (auto simp: slotOK_def newVote_def)
  have rec: "received s' k \<longleftrightarrow> received s k \<or> k = ?i" for k
    using i(1) len by (auto simp: received_def s' recordAnswer_def Let_def nth_list_update)
  have sets: "{k. received s' k} = insert ?i {k. received s k}" using rec by auto
  have "judgeFlow j s'"
    using flow i(2) unfolding judgeFlow_def sets
    by (auto simp: rec) (auto simp: s' chan recordAnswer_def Let_def, metis image_eqI)
  moreover have "slotOK j s' k" if "k < ?n" for k
  proof (cases "k = ?i")
    case True
    have "jg_Votes s' ! ?i = voteOf (ju_Providers j ! ?i) a" "jg_Results s' ! ?i = (an_Spam a, an_OK a)" "jg_Sent s' = jg_Sent s"
      using i len name by (simp_all add: s' recordAnswer_def Let_def voteOf_def)
    moreover have "received s' ?i" by (simp add: rec)
    ultimately show ?thesis unfolding True slotOK_def using a(1) by auto
  next
    case False
    then have "jg_Votes s' ! k = jg_Votes s ! k" "jg_Results s' ! k = jg_Results s ! k" "jg_Sent s' = jg_Sent s"
      by (simp_all add: s' recordAnswer_def Let_def)
    then show ?thesis using slots that False pc by (auto simp: slotOK_def rec)
  qed
  moreover have "jg_Failed s' = card {k. k < ?n \<and> received s' k \<and> \<not> vt_OK (jg_Votes s' ! k)}"
  proof -
    let ?F = "{k. k < ?n \<and> received s k \<and> \<not> vt_OK (jg_Votes s ! k)}"
    have "vt_OK (jg_Votes s' ! k) = (if k = ?i then an_OK a else vt_OK (jg_Votes s ! k))" if "k < ?n" for k
      using that len by (simp add: s' recordAnswer_def Let_def nth_list_update)
    then have "{k. k < ?n \<and> received s' k \<and> \<not> vt_OK (jg_Votes s' ! k)} = (if an_OK a then ?F else insert ?i ?F)"
      using i by (auto simp: rec split: if_splits)
    moreover have "?i \<notin> ?F" using i by simp
    ultimately show ?thesis using failed a(2) by (auto simp: s' recordAnswer_def Let_def)
  qed
  moreover have "jg_PC s' = JudgePoll" and "?n \<noteq> 0" using i(1) by (auto simp: s')
  moreover have "length (jg_Votes s') = ?n" "length (jg_Results s') = ?n" "length (jg_Received s') = ?n"
    using len by (simp_all add: s' recordAnswer_def Let_def)
  ultimately show ?thesis by (auto simp: judgeInv_def Let_def)
qed

lemma judgeInv_deadline:
  assumes "judgeInv j s" and "judgeDeadline j s = Some s'"
  shows "judgeInv j s'"
proof -
  let ?n = "length (ju_Providers j)"
  obtain e where pc: "jg_PC s = JudgeWait"
    and s': "s' = s\<lparr>jg_PC := JudgeReturned,
                  jg_Votes := map (\<lambda>(v, got). if \<not> got then v\<lparr>vt_Err := Some e\<rparr> else v) (zip (jg_Votes s) (jg_Received s)),
                  jg_Failed := jg_Failed s + (length (ju_Providers j) - jg_Answered s),
                  jg_Err := (if jg_Err s = None then Some e else jg_Err s),
                  jg_Spam := decideVotes (ju_Policy j) (jg_Results s)\<rparr>"
    using assms(2) by (auto simp: judgeDeadline_def split: judge_pc.splits option.splits)
  have len: "length (jg_Votes s) = ?n" "length (jg_Results s) = ?n" "length (jg_Received s) = ?n" "?n \<noteq> 0"
    and flow: "judgeFlow j s" and slots: "\<forall>i < ?n. slotOK j s i"
    and failed: "jg_Failed s = card {i. i < ?n \<and> received s i \<and> \<not> vt_OK (jg_Votes s ! i)}"
    using assms(1) pc by (auto simp: judgeInv_def Let_def)
  have rec: "received s' = received s" by (simp add: s' received_def fun_eq_iff)
  have vote: "jg_Votes s' ! k = (if received s k then jg_Votes s ! k else (jg_Votes s ! k)\<lparr>vt_Err := Some e\<rparr>)" if "k < ?n" for k
    using that len by (simp add: s' received_def)
  have sel: "jg_PC s' = JudgeReturned" "jg_Results s' = jg_Results s" "jg_Sent s' = jg_Sent s"
      "jg_Failed s' = jg_Failed s + (?n - jg_Answered s)" "jg_Spam s' = decideVotes (ju_Policy j) (jg_Results s)"
      "length (jg_Votes s') = ?n" "length (jg_Received s') = ?n"
    using len by (simp_all add: s')
  have "slotOK j s' k" if "k < ?n" for k
    using slots that by (auto simp: slotOK_def rec sel vote)
  moreover have "judgeFlow j s'" using flow unfolding judgeFlow_def rec by (simp add: s')
  moreover have "jg_Failed s' = card {k. k < ?n \<and> \<not> vt_OK (jg_Votes s' ! k)}"
  proof -
    let ?F = "{i. i < ?n \<and> received s i \<and> \<not> vt_OK (jg_Votes s ! i)}" and ?M = "{i. i < ?n \<and> \<not> received s i}"
    have all: "{..<?n} = {i. received s i} \<union> ?M" using len by (auto simp: received_def)
    have "?n = card ({i. received s i} \<union> ?M)" unfolding all [symmetric] by simp
    also have "\<dots> = jg_Answered s + card ?M" using flow by (subst card_Un_disjoint) (auto simp: judgeFlow_def)
    finally have "card ?M = ?n - jg_Answered s" by simp
    moreover have "\<not> vt_OK (jg_Votes s ! i)" if "i < ?n" "\<not> received s i" for i
      using slots that by (auto simp: slotOK_def)
    then have "{k. k < ?n \<and> \<not> vt_OK (jg_Votes s' ! k)} = ?F \<union> ?M" by (auto simp: vote split: if_splits)
    moreover have "card (?F \<union> ?M) = card ?F + card ?M" by (rule card_Un_disjoint) auto
    ultimately show ?thesis using failed by (simp add: sel)
  qed
  ultimately show ?thesis using len by (auto simp: judgeInv_def Let_def sel)
qed

lemma judgeInv_all:
  assumes "judgeInv j s" and "judgeAll j s = Some s'"
  shows "judgeInv j s'"
proof -
  let ?n = "length (ju_Providers j)"
  have pc: "jg_PC s = JudgePoll" and full: "?n \<le> jg_Answered s"
    and s': "s' = s\<lparr>jg_PC := JudgeReturned, jg_Spam := decideVotes (ju_Policy j) (jg_Results s)\<rparr>"
    using assms(2) by (auto simp: judgeAll_def split: if_splits)
  have inv: "length (jg_Received s) = ?n" "judgeFlow j s" "\<forall>i < ?n. slotOK j s i" "?n \<noteq> 0"
    using assms(1) pc by (auto simp: judgeInv_def Let_def)
  have "{i. received s i} \<subseteq> {..<?n}" using inv(1) by (auto simp: received_def)
  moreover have "card {i. received s i} \<ge> card {..<?n}" using inv(2) full by (simp add: judgeFlow_def)
  ultimately have "{i. received s i} = {..<?n}" by (meson card_seteq finite_lessThan)
  then have got: "received s i" if "i < ?n" for i using that by blast
  have rec: "received s' = received s" by (simp add: s' received_def fun_eq_iff)
  have "judgeFlow j s'" using inv(2) unfolding judgeFlow_def rec by (simp add: s')
  moreover have "slotOK j s' k" if "k < ?n" for k
    using inv(3) that got [OF that] by (auto simp: slotOK_def rec) (auto simp: s')
  moreover have "{i. i < ?n \<and> (received s i \<or> False) \<and> \<not> vt_OK (jg_Votes s ! i)} = {i. i < ?n \<and> \<not> vt_OK (jg_Votes s ! i)}"
    using got by auto
  ultimately show ?thesis using assms(1) pc by (auto simp: judgeInv_def Let_def rec) (auto simp: s')
qed

lemma judgeInv_step: "judgeInv j s \<Longrightarrow> judgeStep j e s = Some s' \<Longrightarrow> judgeInv j s'"
  by (cases e)
     (auto simp: judgeExpire_def judgeEmpty_def judgeInv_expire judgeInv_quiet
        intro: judgeInv_send judgeInv_receive judgeInv_deadline judgeInv_all split: if_splits)

lemma judgeInv_run: "judgeInv j s \<Longrightarrow> judgeRun j es s = Some s' \<Longrightarrow> judgeInv j s'"
  by (induction es arbitrary: s) (auto split: option.splits dest: judgeInv_step)

section \<open>Votes and verdict\<close>

fun sentBy :: "judge \<Rightarrow> judge_step list \<Rightarrow> llm_answer list" where
  "sentBy j [] = []"
| "sentBy j (JudgeSend i r # es) = answerOf (ju_Providers j ! i) i r # sentBy j es"
| "sentBy j (_ # es) = sentBy j es"

lemma judgeStep_sent:
  "judgeStep j e s = Some s' \<Longrightarrow> jg_Sent s' = jg_Sent s @ sentBy j [e]"
  by (cases e)
     (auto simp: judgeSend_def judgeExpire_def judgeReceive_def judgeEmpty_def judgeDeadline_def judgeAll_def recordAnswer_def
        Let_def split: if_splits list.splits option.splits judge_pc.splits)

lemma sentBy_Cons: "sentBy j (e # es) = sentBy j [e] @ sentBy j es"
  by (cases e) simp_all

lemma judgeRun_sent: "judgeRun j es s = Some s' \<Longrightarrow> jg_Sent s' = jg_Sent s @ sentBy j es"
proof (induction es arbitrary: s)
  case Nil
  then show ?case by simp
next
  case (Cons e es)
  then obtain s1 where s1: "judgeStep j e s = Some s1" "judgeRun j es s1 = Some s'" by (auto split: option.splits)
  show ?case using Cons.IH [OF s1(2)] judgeStep_sent [OF s1(1)] by (simp add: sentBy_Cons [of j e es] del: sentBy.simps)
qed

lemma sentBy_iff: "a \<in> set (sentBy j es) \<longleftrightarrow> (\<exists>i r. JudgeSend i r \<in> set es \<and> a = answerOf (ju_Providers j ! i) i r)"
  by (induction j es rule: sentBy.induct) auto

lemma decideVotes_iff:
  assumes "length results = length votes"
    and "\<And>i. i < length votes \<Longrightarrow> snd (results ! i) = vt_OK (votes ! i) \<and> (vt_OK (votes ! i) \<longrightarrow> fst (results ! i) = vt_Spam (votes ! i))"
  shows "decideVotes policy results \<longleftrightarrow>
     (if policy = PolicyAny then \<exists>v \<in> set votes. vt_OK v \<and> vt_Spam v else \<forall>v \<in> set votes. vt_OK v \<and> vt_Spam v)"
proof -
  have one: "(\<exists>v \<in> set votes. vt_OK v \<and> vt_Spam v) \<longleftrightarrow> (\<exists>i < length votes. vt_OK (votes ! i) \<and> vt_Spam (votes ! i))"
    and all: "(\<forall>v \<in> set votes. vt_OK v \<and> vt_Spam v) \<longleftrightarrow> (\<forall>i < length votes. vt_OK (votes ! i) \<and> vt_Spam (votes ! i))"
    by (metis in_set_conv_nth)+
  show ?thesis unfolding one all decideVotes_def list_ex_length assms(1) case_prod_beta using assms(2) by simp metis
qed

text \<open>C33. The judge counts the providers' own answers and nothing else: when it
  returns, whatever order the answers and the deadline came in, each provider
  has one vote; a vote marked as given carries the verdict and score that
  provider sent, and the failures are exactly the votes that are not; and the
  verdict is spam only if, under \<open>any\<close>, some provider that answered said
  spam, and otherwise every provider answered and said spam. No error, late
  answer or missing provider can make it spam.\<close>

theorem the_judge_counts_answers:
  assumes "judgeRun j es (judgeStart j) = Some s" and "jg_PC s = JudgeReturned" and "out = judgeOutcome j s"
  shows "length (lo_Votes out) = length (ju_Providers j) \<and>
     (\<forall>i < length (ju_Providers j). vt_OK (lo_Votes out ! i) \<longrightarrow>
        (\<exists>r. JudgeSend i r \<in> set es \<and> lo_Votes out ! i = voteOf (ju_Providers j ! i) (answerOf (ju_Providers j ! i) i r))) \<and>
     lo_Failed out = card {i. i < length (ju_Providers j) \<and> \<not> vt_OK (lo_Votes out ! i)} \<and>
     (lo_Spam out \<longleftrightarrow> ju_Providers j \<noteq> [] \<and>
        (if ju_Policy j = PolicyAny then \<exists>v \<in> set (lo_Votes out). vt_OK v \<and> vt_Spam v
         else \<forall>v \<in> set (lo_Votes out). vt_OK v \<and> vt_Spam v))"
proof -
  let ?n = "length (ju_Providers j)"
  have inv: "judgeInv j s" by (rule judgeInv_run [OF judgeInv_start assms(1)])
  have sent: "jg_Sent s = sentBy j es" using judgeRun_sent [OF assms(1)] by (simp add: judgeStart_def Let_def)
  have len: "length (jg_Votes s) = ?n" "length (jg_Results s) = ?n" and slots: "\<And>i. i < ?n \<Longrightarrow> slotOK j s i"
    and failed: "jg_Failed s = card {i. i < ?n \<and> \<not> vt_OK (jg_Votes s ! i)}"
    and spam: "jg_Spam s \<longleftrightarrow> ?n \<noteq> 0 \<and> decideVotes (ju_Policy j) (jg_Results s)"
    using inv assms(2) by (auto simp: judgeInv_def Let_def)
  have own: "\<exists>r. JudgeSend i r \<in> set es \<and> jg_Votes s ! i = voteOf (ju_Providers j ! i) (answerOf (ju_Providers j ! i) i r)"
    if "i < ?n" "vt_OK (jg_Votes s ! i)" for i
    using slots [OF that(1)] that(2) by (auto simp: slotOK_def sent sentBy_iff split: if_splits) blast
  have "snd (jg_Results s ! i) = vt_OK (jg_Votes s ! i) \<and> (vt_OK (jg_Votes s ! i) \<longrightarrow> fst (jg_Results s ! i) = vt_Spam (jg_Votes s ! i))"
    if "i < length (jg_Votes s)" for i
    using slots [of i] that len by (auto simp: slotOK_def voteOf_def split: if_splits)
  from decideVotes_iff [OF _ this] len have "decideVotes (ju_Policy j) (jg_Results s) \<longleftrightarrow>
     (if ju_Policy j = PolicyAny then \<exists>v \<in> set (jg_Votes s). vt_OK v \<and> vt_Spam v else \<forall>v \<in> set (jg_Votes s). vt_OK v \<and> vt_Spam v)"
    by simp
  then show ?thesis using len own failed spam by (auto simp: assms(3) judgeOutcome_def)
qed

definition twoProviders :: judge where
  "twoProviders = \<lparr>ju_Providers = [\<lparr>pv_Name = ''jev'', pv_Cutoff = Some (1/2)\<rparr>, \<lparr>pv_Name = ''openai'', pv_Cutoff = None\<rparr>],
     ju_Policy = PolicyAny\<rparr>"

definition lateRun :: "judge_step list" where
  "lateRun = [JudgeEmpty, JudgeSend 0 \<lparr>py_Score = Inr (3/4), py_Class = (False, None)\<rparr>, JudgeReceive, JudgeEmpty,
     JudgeExpire (newErr []), JudgeDeadline]"

theorem the_judge_counts_answers_witness:
  "\<exists>s. judgeRun twoProviders lateRun (judgeStart twoProviders) = Some s \<and>
     lo_Failed (judgeOutcome twoProviders s) = card {i. i < 2 \<and> \<not> vt_OK (lo_Votes (judgeOutcome twoProviders s) ! i)} \<and>
     lo_Spam (judgeOutcome twoProviders s) \<and> \<not> vt_OK (lo_Votes (judgeOutcome twoProviders s) ! 1)"
proof -
  obtain s where s: "judgeRun twoProviders lateRun (judgeStart twoProviders) = Some s" "jg_PC s = JudgeReturned"
      "jg_Spam s" "\<not> vt_OK (jg_Votes s ! 1)"
    by (simp add: twoProviders_def lateRun_def judgeStart_def judgeEmpty_def judgeSend_def judgeReceive_def judgeExpire_def
        judgeDeadline_def recordAnswer_def answerOf_def newVote_def decideVotes_def PolicyAny_def upt_rec Let_def)
  have n: "length (ju_Providers twoProviders) = 2" by (simp add: twoProviders_def)
  from the_judge_counts_answers [OF s(1,2) refl] have "lo_Failed (judgeOutcome twoProviders s) =
      card {i. i < 2 \<and> \<not> vt_OK (lo_Votes (judgeOutcome twoProviders s) ! i)}"
    unfolding n by blast
  then show ?thesis using s by (auto simp: judgeOutcome_def)
qed

section \<open>The loop ends\<close>

text \<open>A step of the loop itself, as opposed to a provider's answer or the clock.\<close>

fun loopStep :: "judge_step \<Rightarrow> bool" where
  "loopStep (JudgeSend i r) = False"
| "loopStep (JudgeExpire e) = False"
| "loopStep _ = True"

definition loopLeft :: "judge \<Rightarrow> judge_state \<Rightarrow> nat" where
  "loopLeft j s = (case jg_PC s of JudgeReturned \<Rightarrow> 0
     | JudgePoll \<Rightarrow> 2 * (length (ju_Providers j) - jg_Answered s) + 2
     | JudgeWait \<Rightarrow> 2 * (length (ju_Providers j) - jg_Answered s) + 1)"

lemma loopLeft_step:
  "judgeStep j e s = Some s' \<Longrightarrow> loopLeft j s' + (if loopStep e then 1 else 0) \<le> loopLeft j s"
  by (cases e; cases "jg_PC s")
     (auto simp: loopLeft_def judgeSend_def judgeExpire_def judgeReceive_def judgeEmpty_def judgeDeadline_def judgeAll_def
        recordAnswer_def Let_def split: if_splits list.splits option.splits)

lemma loopLeft_run:
  "judgeRun j es s = Some s' \<Longrightarrow> loopLeft j s' + length (filter loopStep es) \<le> loopLeft j s"
proof (induction es arbitrary: s)
  case Nil
  then show ?case by simp
next
  case (Cons e es)
  then obtain s1 where s1: "judgeStep j e s = Some s1" "judgeRun j es s1 = Some s'" by (auto split: option.splits)
  show ?case using Cons.IH [OF s1(2)] loopLeft_step [OF s1(1)] by (auto split: if_splits)
qed

lemma waiting_step:
  "judgeStep j e s = Some s' \<Longrightarrow> (jg_PC s = JudgeWait \<longrightarrow> jg_Answered s < length (ju_Providers j)) \<Longrightarrow>
     jg_PC s' = JudgeWait \<longrightarrow> jg_Answered s' < length (ju_Providers j)"
  by (cases e)
     (auto simp: judgeSend_def judgeExpire_def judgeReceive_def judgeEmpty_def judgeDeadline_def judgeAll_def
        recordAnswer_def Let_def split: if_splits list.splits option.splits judge_pc.splits)

lemma waiting_run:
  "judgeRun j es s = Some s' \<Longrightarrow> (jg_PC s = JudgeWait \<longrightarrow> jg_Answered s < length (ju_Providers j)) \<Longrightarrow>
     jg_PC s' = JudgeWait \<longrightarrow> jg_Answered s' < length (ju_Providers j)"
proof (induction es arbitrary: s)
  case Nil
  then show ?case by simp
next
  case (Cons e es)
  then obtain s1 where s1: "judgeStep j e s = Some s1" "judgeRun j es s1 = Some s'" by (auto split: option.splits)
  show ?case by (rule Cons.IH [OF s1(2) waiting_step [OF s1(1) Cons.prems(2)]])
qed

lemma waiting_open:
  assumes "judgeRun j es (judgeStart j) = Some s" and "jg_PC s = JudgeWait"
  shows "jg_Answered s < length (ju_Providers j)"
  using waiting_run [OF assms(1)] assms(2) by (simp add: judgeStart_def Let_def split: if_splits)

text \<open>C34. An adjudication ends: whatever the providers do, the collecting loop
  takes at most two steps per provider and two more, and it is never stuck:
  until it has returned it can take a step, unless no answer is there, the
  deadline has not passed and some provider is still out.\<close>

theorem adjudication_ends:
  assumes "judgeRun j es (judgeStart j) = Some s"
  shows "length (filter loopStep es) \<le> 2 * length (ju_Providers j) + 2 \<and>
     (jg_PC s = JudgeReturned \<or> (\<exists>e s'. loopStep e \<and> judgeStep j e s = Some s') \<or>
      jg_Chan s = [] \<and> jg_Expired s = None \<and> jg_Out s \<noteq> [])"
proof (intro conjI)
  show "length (filter loopStep es) \<le> 2 * length (ju_Providers j) + 2"
    using loopLeft_run [OF assms] by (auto simp: loopLeft_def judgeStart_def Let_def split: if_splits)
  have inv: "judgeInv j s" by (rule judgeInv_run [OF judgeInv_start assms])
  let ?n = "length (ju_Providers j)"
  show "jg_PC s = JudgeReturned \<or> (\<exists>e s'. loopStep e \<and> judgeStep j e s = Some s') \<or>
      jg_Chan s = [] \<and> jg_Expired s = None \<and> jg_Out s \<noteq> []"
  proof (cases "jg_PC s")
    case JudgePoll
    have "\<exists>s'. judgeReceive j s = Some s' \<or> judgeEmpty j s = Some s' \<or> judgeAll j s = Some s'"
      using JudgePoll by (cases "jg_Chan s") (auto simp: judgeReceive_def judgeEmpty_def judgeAll_def)
    then show ?thesis by (metis judgeStep.simps(3,4,6) loopStep.simps(3,4,6))
  next
    case JudgeWait
    show ?thesis
    proof (cases "jg_Expired s")
      case (Some e)
      then have "\<exists>s'. judgeDeadline j s = Some s'" using JudgeWait by (simp add: judgeDeadline_def)
      then show ?thesis by (metis judgeStep.simps(5) loopStep.simps(5))
    next
      case None
      have rcv: "jg_Chan s \<noteq> [] \<Longrightarrow> \<exists>s'. judgeReceive j s = Some s'" if "jg_Answered s < ?n"
        using JudgeWait that by (cases "jg_Chan s") (auto simp: judgeReceive_def)
      have flow: "judgeFlow j s" "length (jg_Received s) = ?n" using inv JudgeWait by (simp_all add: judgeInv_def Let_def)
      have less: "jg_Answered s < ?n" using waiting_open [OF assms JudgeWait] .
      show ?thesis
      proof (cases "jg_Chan s")
        case (Cons a as)
        then show ?thesis using rcv [OF less] by (metis judgeStep.simps(3) loopStep.simps(3) list.distinct(1))
      next
        case Nil
        have "jg_Out s \<noteq> []"
        proof
          assume "jg_Out s = []"
          then have "{..<?n} \<subseteq> {i. received s i}" using flow Nil by (auto simp: judgeFlow_def)
          then have "?n \<le> card {i. received s i}" by (metis card_lessThan card_mono received_finite)
          then show False using less flow(1) by (simp add: judgeFlow_def)
        qed
        then show ?thesis using Nil None by simp
      qed
    qed
  qed simp
qed

theorem adjudication_ends_witness:
  "length (filter loopStep lateRun) \<le> 2 * length (ju_Providers twoProviders) + 2"
proof -
  have "\<exists>s. judgeRun twoProviders lateRun (judgeStart twoProviders) = Some s"
    by (simp add: twoProviders_def lateRun_def judgeStart_def judgeEmpty_def judgeSend_def judgeReceive_def judgeExpire_def
        judgeDeadline_def recordAnswer_def answerOf_def newVote_def decideVotes_def PolicyAny_def upt_rec Let_def)
  then show ?thesis using adjudication_ends by blast
qed

end
