(* ===== verification/Pipeline.thy ===== *)
theory Pipeline
  imports Machine Commands Config Sequencing Cascade
begin

text \<open>
  \<open>internal/telegram/bot.go\<close>: from an update to an incident. Receiving an
  update checks the deduplication table, the chat and the sender, and hands
  at most one job to the chat's sequencer; the job sweeps a service message,
  runs a moderator command, or judges the message or album and gives an
  actionable verdict to the incident machine. What the handler is given (the
  verdict source, the machine, the commands, the lookups) are its fields, as
  in the code. The configuration may be reloaded at any time, so it is a
  function of the tick.
\<close>

section \<open>The handler\<close>

record pipeline =
  pl_Config :: "nat \<Rightarrow> config"
  pl_Machine :: "incident \<Rightarrow> goerr option act"
  pl_Decide :: "message \<Rightarrow> (verdict \<times> bool) act"
  pl_EditedDecide :: "(message \<Rightarrow> (verdict \<times> bool) act) option"
  pl_Commands :: "((message \<Rightarrow> bool) \<times> (message \<Rightarrow> unit act)) option"
  pl_Sweeper :: "(chat_id \<Rightarrow> message_id list \<Rightarrow> goerr option act) option"
  pl_LinkedChat :: "(chat_id \<Rightarrow> (goerr + chat_id) act) option"

definition NewHandler :: "(nat \<Rightarrow> config) \<Rightarrow> (incident \<Rightarrow> goerr option act) \<Rightarrow> pipeline" where
  "NewHandler cfg machine =
     \<lparr>pl_Config = cfg, pl_Machine = machine, pl_Decide = (\<lambda>m. State_Monad.return (zeroVerdict, False)),
      pl_EditedDecide = None, pl_Commands = None, pl_Sweeper = None, pl_LinkedChat = None\<rparr>"

text \<open>A job submitted to the sequencer of a chat.\<close>

datatype chat_job = JobSweep message | JobCommand message | JobProcess "message list" bool

definition currentConfig :: "pipeline \<Rightarrow> config act" where
  "currentConfig P = State (\<lambda>w. (pl_Config P (w_ticks w), w))"

definition serviceSweepWanted :: "config \<Rightarrow> string \<Rightarrow> bool" where
  "serviceSweepWanted cfg kind =
     (if kind = ''join'' then dt_DeleteJoinMessages (cf_Detection cfg)
      else if kind = ''leave'' then dt_DeleteLeaveMessages (cf_Detection cfg)
      else False)"

definition trustThresholdOf :: "config \<Rightarrow> int" where
  "trustThresholdOf cfg = (case dt_TrustThreshold (cf_Detection cfg) of None \<Rightarrow> 0 | Some n \<Rightarrow> n)"

section \<open>Receiving an update\<close>

definition routeMessage :: "pipeline \<Rightarrow> message \<Rightarrow> bool \<Rightarrow> message album_buffer \<Rightarrow>
    message album_buffer \<times> (chat_id \<times> chat_job) option" where
  "routeMessage P m edited a =
     (if \<not> edited \<and> (case pl_Commands P of None \<Rightarrow> False | Some (matches, _) \<Rightarrow> matches m)
        then (a, Some (msg_ChatID m, JobCommand m))
      else if ImmuneSender (msg_Sender m) then (a, None)
      else if edited then (a, Some (msg_ChatID m, JobProcess [m] edited))
      else
        (case albumAdd m a of
           (a', alone) \<Rightarrow> (a', if alone then Some (msg_ChatID m, JobProcess [m] edited) else None)))"

definition onUpdate :: "env \<Rightarrow> pipeline \<Rightarrow> int \<Rightarrow> message \<Rightarrow> bool \<Rightarrow> message album_buffer \<Rightarrow>
    (message album_buffer \<times> (chat_id \<times> chat_job) option) act" where
  "onUpdate E P updateID m edited a = do {
     r \<leftarrow> store E ''MarkUpdateSeen'' updateID (\<lambda>now. MarkUpdateSeen updateID);
     case r of
       Inl e \<Rightarrow> do {
         _ \<leftarrow> logLine (lit ''dedup update '' @ showID updateID @ lit '': '' @ ge_text e);
         State_Monad.return (a, None)
       }
     | Inr fresh \<Rightarrow>
         if \<not> fresh then State_Monad.return (a, None)
         else do {
           cfg \<leftarrow> currentConfig P;
           if \<not> RegisteredChat cfg (msg_ChatID m) then State_Monad.return (a, None)
           else if msg_ServiceKind m \<noteq> [] then
             State_Monad.return
               (a, if \<not> edited \<and> pl_Sweeper P \<noteq> None \<and> serviceSweepWanted cfg (msg_ServiceKind m)
                   then Some (msg_ChatID m, JobSweep m) else None)
           else State_Monad.return (routeMessage P m edited a)
         }
   }"

definition OnMessage :: "env \<Rightarrow> pipeline \<Rightarrow> int \<Rightarrow> message \<Rightarrow> message album_buffer \<Rightarrow>
    (message album_buffer \<times> (chat_id \<times> chat_job) option) act" where
  "OnMessage E P updateID m a = onUpdate E P updateID m False a"

definition OnEditedMessage :: "env \<Rightarrow> pipeline \<Rightarrow> int \<Rightarrow> message \<Rightarrow> message album_buffer \<Rightarrow>
    (message album_buffer \<times> (chat_id \<times> chat_job) option) act" where
  "OnEditedMessage E P updateID m a = onUpdate E P updateID m True a"

definition flushAlbum :: "message list \<Rightarrow> (chat_id \<times> chat_job) option" where
  "flushAlbum parts = (case parts of [] \<Rightarrow> None | p # _ \<Rightarrow> Some (msg_ChatID p, JobProcess parts False))"

section \<open>The part that is judged\<close>

definition unionMessageMetadata :: "message list \<Rightarrow> (message \<Rightarrow> 'a list) \<Rightarrow> 'a list" where
  "unionMessageMetadata parts values = fold (\<lambda>m out. fold (\<lambda>x out. add_new out x) (values m) out) parts []"

definition unionMediaKinds :: "message list \<Rightarrow> string list" where
  "unionMediaKinds parts = unionMessageMetadata parts msg_MediaKinds"

definition captionedPart :: "message \<Rightarrow> message list \<Rightarrow> message" where
  "captionedPart p parts = (case first (\<lambda>m. TrimSpace (msg_Text m) \<noteq> []) parts of None \<Rightarrow> p | Some m \<Rightarrow> m)"

definition mergeFlags :: "message \<Rightarrow> message \<Rightarrow> message" where
  "mergeFlags m j = j\<lparr>msg_Forwarded := msg_Forwarded j \<or> msg_Forwarded m,
     msg_ForwardedFromChat := msg_ForwardedFromChat j \<or> msg_ForwardedFromChat m,
     msg_HasKeyboard := msg_HasKeyboard j \<or> msg_HasKeyboard m, msg_ViaBot := msg_ViaBot j \<or> msg_ViaBot m\<rparr>"

definition judgedMessage :: "message \<Rightarrow> message list \<Rightarrow> message" where
  "judgedMessage p parts =
     (let judged = captionedPart p parts in
      if length parts > 1 then
        fold mergeFlags parts
          (judged\<lparr>msg_MediaKinds := unionMediaKinds parts,
                  msg_DocumentExtensions := unionMessageMetadata parts msg_DocumentExtensions,
                  msg_DocumentMIMETypes := unionMessageMetadata parts msg_DocumentMIMETypes\<rparr>)
      else judged)"

section \<open>Judging\<close>

definition fromLinkedChannel :: "pipeline \<Rightarrow> message \<Rightarrow> bool act" where
  "fromLinkedChannel P m =
     (case pl_LinkedChat P of
        None \<Rightarrow> State_Monad.return False
      | Some look \<Rightarrow>
          if sn_Kind (msg_Sender m) \<noteq> SenderExternalChannel \<or> sn_SenderChatID (msg_Sender m) = 0
          then State_Monad.return False
          else do {
            r \<leftarrow> look (msg_ChatID m);
            case r of
              Inl e \<Rightarrow> do {
                _ \<leftarrow> logLine (lit ''chat='' @ showID (msg_ChatID m) @ lit '' msg='' @ showID (msg_MessageID m)
                       @ lit '': linked channel lookup: '' @ ge_text e);
                State_Monad.return False
              }
            | Inr linked \<Rightarrow> State_Monad.return (linked \<noteq> 0 \<and> linked = sn_SenderChatID (msg_Sender m))
          })"

definition formatSignals :: "signal list \<Rightarrow> str" where
  "formatSignals sigs =
     (if length sigs = 0 then lit ''no signals''
      else Join [32] (map (\<lambda>s. if sg_Detail s = [] then lit (sg_Name s) else lit (sg_Name s) @ 61 # sg_Detail s) sigs))"

fun logObserved :: "verdict \<Rightarrow> message list \<Rightarrow> unit act" where
  "logObserved v [] = State_Monad.return ()"
| "logObserved v (m # parts) = do {
     _ \<leftarrow> logLine (lit ''chat='' @ showID (msg_ChatID m) @ lit '' msg='' @ showID (msg_MessageID m)
            @ lit '' sender='' @ lit (kindText (sn_Kind (msg_Sender m))) @ lit '': observed ['' @ formatSignals (vd_Signals v) @ [93]);
     logObserved v parts
   }"

definition bumpTrust :: "golib \<Rightarrow> env \<Rightarrow> config \<Rightarrow> message \<Rightarrow> message \<Rightarrow> unit act" where
  "bumpTrust U E cfg p judged = do {
     r \<leftarrow> store E ''BumpTrustDistinct'' (msg_ChatID p)
       (\<lambda>now. BumpTrustDistinct (msg_ChatID p) (sn_UserID (msg_Sender p)) (TrustFingerprint U (msg_Text judged))
                (trustThresholdOf cfg));
     case r of
       Inl e \<Rightarrow> logLine (lit ''bump trust chat='' @ showID (msg_ChatID p) @ lit '' user=''
                  @ showID (sn_UserID (msg_Sender p)) @ lit '': '' @ ge_text e)
     | Inr _ \<Rightarrow> State_Monad.return ()
   }"

text \<open>The branch of a verdict that is not actionable.\<close>

definition observe :: "golib \<Rightarrow> env \<Rightarrow> config \<Rightarrow> message list \<Rightarrow> message \<Rightarrow> message \<Rightarrow> verdict \<Rightarrow> bool \<Rightarrow> unit act" where
  "observe U E cfg parts p judged v edited = do {
     _ \<leftarrow> (if \<not> edited \<and> vd_Reason v \<noteq> lit ReasonAdminLookupUnavailable \<and> sn_Kind (msg_Sender judged) = SenderUser
              \<and> IsMeaningful (NormalizeMessage U judged) (dt_MeaningfulMinLen (cf_Detection cfg))
            then bumpTrust U E cfg p judged else State_Monad.return ());
     if vd_Reason v = lit ReasonAdminLookupUnavailable
     then logLine (lit ''chat='' @ showID (msg_ChatID p) @ lit '' msg='' @ showID (msg_MessageID p)
            @ lit '': moderation deferred: admin lookup unavailable'')
     else logObserved v parts
   }"

definition newIncident :: "golib \<Rightarrow> message list \<Rightarrow> message \<Rightarrow> message \<Rightarrow> verdict \<Rightarrow> bool \<Rightarrow> incident" where
  "newIncident U parts p judged v dryRun =
     \<lparr>inc_ChatID = msg_ChatID p, inc_MessageIDs = sort (map msg_MessageID parts), inc_ThreadID = msg_ThreadID p,
      inc_Sender = msg_Sender p, inc_Verdict = v, inc_State = StatePending, inc_DryRun = dryRun,
      inc_AdminMessageIDs = [], inc_Tokens = Tokenize U (NormalizeMessage U judged)\<rparr>"

text \<open>The branch of an actionable verdict: the gates of the chat's row and of the
  configuration, then the machine.\<close>

definition moderate :: "golib \<Rightarrow> env \<Rightarrow> pipeline \<Rightarrow> config \<Rightarrow> message list \<Rightarrow> message \<Rightarrow> message \<Rightarrow> verdict \<Rightarrow> unit act" where
  "moderate U E P cfg parts p judged v = do {
     r \<leftarrow> query E (\<lambda>db. Some (GetChat (msg_ChatID p) db));
     let gate = (\<lambda>dryRun0. do {
       let dryRun = (vd_ReviewOnly v \<or> DryRunFor (cf_Chats cfg) (msg_ChatID p) dryRun0);
       err \<leftarrow> pl_Machine P (newIncident U parts p judged v dryRun);
       case err of
         None \<Rightarrow> State_Monad.return ()
       | Some e \<Rightarrow> logLine (lit ''chat='' @ showID (msg_ChatID p) @ lit '' incident: '' @ ge_text e)
     });
     case r of
       Inl e \<Rightarrow> logLine (lit ''lookup chat '' @ showID (msg_ChatID p) @ lit '' dry-run: '' @ ge_text e)
     | Inr None \<Rightarrow> gate (DryRunDefault (cf_Chats cfg))
     | Inr (Some row) \<Rightarrow> if \<not> ch_Enabled row then State_Monad.return () else gate (ch_DryRun row)
   }"

definition processParts :: "golib \<Rightarrow> env \<Rightarrow> pipeline \<Rightarrow> message list \<Rightarrow> bool \<Rightarrow> unit act" where
  "processParts U E P parts edited =
     (case parts of
        [] \<Rightarrow> State_Monad.return ()
      | p # _ \<Rightarrow>
          (let judged = judgedMessage p parts in do {
             cfg \<leftarrow> currentConfig P;
             reg \<leftarrow> store E ''RegisterChat'' (msg_ChatID p) (\<lambda>now. RegisterChat (msg_ChatID p) (DryRunDefault (cf_Chats cfg)));
             _ \<leftarrow> (case reg of
                    Inl e \<Rightarrow> logLine (lit ''register chat '' @ showID (msg_ChatID p) @ lit '': '' @ ge_text e)
                  | Inr _ \<Rightarrow> State_Monad.return ());
             vok \<leftarrow> (case pl_EditedDecide P of
                      Some decide \<Rightarrow> if edited then decide judged else pl_Decide P judged
                    | None \<Rightarrow> pl_Decide P judged);
             let v = fst vok;
             let acts = (snd vok \<and> IsActionable v);
             linked \<leftarrow> (if acts then fromLinkedChannel P judged else State_Monad.return False);
             if linked
             then logLine (lit ''chat='' @ showID (msg_ChatID p) @ lit '' msg='' @ showID (msg_MessageID p)
                    @ lit '': sender is the chat'' @ [39] @ lit ''s linked channel, not moderated'')
             else if \<not> acts then observe U E cfg parts p judged v edited
             else moderate U E P cfg parts p judged v
           }))"

definition sweepMessage :: "pipeline \<Rightarrow> message \<Rightarrow> unit act" where
  "sweepMessage P m =
     (case pl_Sweeper P of
        None \<Rightarrow> State_Monad.return ()
      | Some sweeper \<Rightarrow> do {
          err \<leftarrow> sweeper (msg_ChatID m) [msg_MessageID m];
          case err of
            None \<Rightarrow> State_Monad.return ()
          | Some e \<Rightarrow> logLine (lit ''delete '' @ lit (msg_ServiceKind m) @ lit '' message chat='' @ showID (msg_ChatID m)
              @ lit '' msg='' @ showID (msg_MessageID m) @ lit '': '' @ ge_text e)
        })"

text \<open>What the sequencer's worker runs.\<close>

definition runChatJob :: "golib \<Rightarrow> env \<Rightarrow> pipeline \<Rightarrow> chat_job \<Rightarrow> unit act" where
  "runChatJob U E P j =
     (case j of
        JobSweep m \<Rightarrow> sweepMessage P m
      | JobCommand m \<Rightarrow> (case pl_Commands P of None \<Rightarrow> State_Monad.return () | Some (_, exec) \<Rightarrow> exec m)
      | JobProcess parts edited \<Rightarrow> processParts U E P parts edited)"

end
