(* ===== verification/Adapter.thy ===== *)
theory Adapter
  imports Rules
begin

text \<open>
  \<open>internal/telegram/adapter.go\<close>: from a message of the bot library to the
  domain envelope, the boundary where library types stop. The records below
  hold the fields of the library's types that the adapter reads; a pointer
  is an option, and an attachment of which only the presence is read is a
  truth value. File names and MIME types are chosen by the sender: what is
  kept of them is validated here.
\<close>

section \<open>The library's message\<close>

record tg_user =
  tu_ID :: user_id
  tu_IsBot :: bool
  tu_Username :: str
  tu_FirstName :: str

record tg_chat =
  tc_ID :: chat_id
  tc_Type :: string

record tg_file =
  tf_FileName :: str
  tf_MimeType :: str

record tg_piece =
  tp_Piece :: str
  tp_PieceEntities :: "entity list"

record tg_poll =
  po_Question :: tg_piece
  po_Description :: tg_piece
  po_Options :: "tg_piece list"
  po_Explanation :: tg_piece

record tg_checklist =
  cl_Title :: tg_piece
  cl_Tasks :: "tg_piece list"

text \<open>The attachment fields a message and an \<open>external_reply\<close> share. An item of
  paid media is its video, when it is that variant; live photos and voices
  have a MIME type only.\<close>

record tg_attachments =
  at_Photo :: bool
  at_PaidMedia :: "tg_file option list option"
  at_LivePhoto :: "str option"
  at_Video :: "tg_file option"
  at_VideoNote :: bool
  at_Animation :: "tg_file option"
  at_Audio :: "tg_file option"
  at_Voice :: "str option"
  at_Document :: "tg_file option"
  at_Sticker :: bool
  at_Story :: bool
  at_Contact :: bool
  at_Poll :: "tg_poll option"
  at_Dice :: bool
  at_Game :: bool
  at_Venue :: bool
  at_Location :: bool
  at_Invoice :: bool
  at_Checklist :: "tg_checklist option"

record tg_origin =
  og_Channel :: bool
  og_Chat :: bool

record tg_body = tg_attachments +
  tm_ID :: message_id
  tm_MessageThreadID :: int
  tm_MediaGroupID :: str
  tm_Chat :: tg_chat
  tm_From :: "tg_user option"
  tm_SenderChat :: "tg_chat option"
  tm_Text :: str
  tm_Caption :: str
  tm_Date :: unix_time
  tm_EditDate :: unix_time
  tm_IsAutomaticForward :: bool
  tm_Entities :: "entity list"
  tm_CaptionEntities :: "entity list"
  tm_SenderTag :: str
  tm_ExternalReply :: "tg_attachments option"
  tm_Quote :: "str option"
  tm_ForwardOrigin :: "tg_origin option"
  tm_NewChatMembers :: "tg_user list"
  tm_LeftChatMember :: "tg_user option"
  tm_InlineKeyboard :: "str list list option"
  tm_ViaBot :: bool

datatype tg_message = TgMessage tg_body "tg_message option"

section \<open>What is kept of a file\<close>

text \<open>\<open>path.Ext\<close>: from the last dot of the last path element.\<close>

definition pathExt :: "str \<Rightarrow> str" where
  "pathExt s =
     (let t = takeWhile (\<lambda>r. r \<noteq> 47) (rev s) in
      if 46 \<in> set t then 46 # rev (takeWhile (\<lambda>r. r \<noteq> 46) t) else [])"

definition lowerLetter :: "rune \<Rightarrow> bool" where
  "lowerLetter r \<longleftrightarrow> 97 \<le> r \<and> r \<le> 122"

definition lowerAlnum :: "rune \<Rightarrow> bool" where
  "lowerAlnum r \<longleftrightarrow> lowerLetter r \<or> (48 \<le> r \<and> r \<le> 57)"

fun extensionPattern :: "str \<Rightarrow> bool" where
  "extensionPattern (d # r) \<longleftrightarrow> d = 46 \<and> 1 \<le> length r \<and> length r \<le> 12 \<and> list_all lowerAlnum r"
| "extensionPattern [] \<longleftrightarrow> False"

text \<open>One side of the slash: an alphanumeric and up to 63 of the token alphabet,
  which has no slash.\<close>

fun mimeToken :: "str \<Rightarrow> bool" where
  "mimeToken (c # r) \<longleftrightarrow> lowerAlnum c \<and> length r \<le> 63 \<and>
     list_all (\<lambda>x. lowerAlnum x \<or> x \<in> set (lit ''!#$&^_.+-'')) r"
| "mimeToken [] \<longleftrightarrow> False"

definition mimeTypePattern :: "str \<Rightarrow> bool" where
  "mimeTypePattern s \<longleftrightarrow>
     (case Cut 47 s of None \<Rightarrow> False | Some (topLevel, subtype) \<Rightarrow> mimeToken topLevel \<and> mimeToken subtype)"

definition mimeTopLevelTypes :: "str list" where
  "mimeTopLevelTypes = map lit [''application'', ''audio'', ''example'', ''font'', ''image'', ''message'',
     ''model'', ''multipart'', ''text'', ''video'']"

definition sanitizedExtension :: "golib \<Rightarrow> str \<Rightarrow> str" where
  "sanitizedExtension U fileName =
     (let extension = ToLower U (pathExt (TrimSpace fileName)) in
      if \<not> extensionPattern extension then []
      else if \<not> list_ex lowerLetter extension then []
      else extension)"

definition sanitizedMIMEType :: "golib \<Rightarrow> str \<Rightarrow> str" where
  "sanitizedMIMEType U mimeType0 =
     (let mimeType1 = ToLower U (TrimSpace mimeType0);
          mimeType = (case Cut 59 mimeType1 of Some (base, _) \<Rightarrow> TrimSpace base | None \<Rightarrow> mimeType1)
      in if \<not> mimeTypePattern mimeType then []
         else
           (let topLevel = (case Cut 47 mimeType of Some (t, _) \<Rightarrow> t | None \<Rightarrow> mimeType) in
            if topLevel \<notin> set mimeTopLevelTypes then [] else mimeType))"

section \<open>Collecting\<close>

type_synonym file_metadata = "str list \<times> str list"

definition addFile :: "golib \<Rightarrow> str \<Rightarrow> str \<Rightarrow> file_metadata \<Rightarrow> file_metadata" where
  "addFile U fileName mimeType f =
     (let extension = sanitizedExtension U fileName; mt = sanitizedMIMEType U mimeType in
      (if extension \<noteq> [] then fst f @ [extension] else fst f,
       if mt \<noteq> [] then snd f @ [mt] else snd f))"

definition addPaidMedia :: "golib \<Rightarrow> tg_file option list option \<Rightarrow> file_metadata \<Rightarrow> file_metadata" where
  "addPaidMedia U info f =
     (case info of
        None \<Rightarrow> f
      | Some items \<Rightarrow>
          fold (\<lambda>item f. case item of None \<Rightarrow> f | Some v \<Rightarrow> addFile U (tf_FileName v) (tf_MimeType v) f) items f)"

definition addNamed :: "golib \<Rightarrow> tg_file option \<Rightarrow> file_metadata \<Rightarrow> file_metadata" where
  "addNamed U x f = (case x of None \<Rightarrow> f | Some v \<Rightarrow> addFile U (tf_FileName v) (tf_MimeType v) f)"

definition addUnnamed :: "golib \<Rightarrow> str option \<Rightarrow> file_metadata \<Rightarrow> file_metadata" where
  "addUnnamed U x f = (case x of None \<Rightarrow> f | Some mt \<Rightarrow> addFile U [] mt f)"

definition collectFileMetadata :: "golib \<Rightarrow> 'a tg_attachments_scheme \<Rightarrow> file_metadata" where
  "collectFileMetadata U m =
     addNamed U (at_Document m) (addUnnamed U (at_Voice m) (addNamed U (at_Audio m)
       (addNamed U (at_Animation m) (addNamed U (at_Video m) (addUnnamed U (at_LivePhoto m)
         (addPaidMedia U (at_PaidMedia m) ([], [])))))))"

definition collectExternalReplyFileMetadata :: "golib \<Rightarrow> tg_attachments option \<Rightarrow> file_metadata" where
  "collectExternalReplyFileMetadata U r =
     (case r of
        None \<Rightarrow> ([], [])
      | Some r \<Rightarrow>
          addNamed U (at_Document r) (addUnnamed U (at_Voice r) (addNamed U (at_Audio r)
            (addNamed U (at_Animation r) (addNamed U (at_Video r) (addUnnamed U (at_LivePhoto r)
              (addPaidMedia U (at_PaidMedia r) ([], []))))))))"

definition mediaKinds :: "(bool \<times> string) list \<Rightarrow> string list" where
  "mediaKinds present = map snd (filter fst present)"

definition collectMediaKinds :: "'a tg_attachments_scheme \<Rightarrow> string list" where
  "collectMediaKinds m = mediaKinds
     [(at_Photo m, ''photo''), (at_PaidMedia m \<noteq> None, ''paid_media''), (at_LivePhoto m \<noteq> None, ''live_photo''),
      (at_Video m \<noteq> None, ''video''), (at_VideoNote m, ''video_note''), (at_Animation m \<noteq> None, ''animation''),
      (at_Audio m \<noteq> None, ''audio''), (at_Voice m \<noteq> None, ''voice''), (at_Document m \<noteq> None, ''document''),
      (at_Sticker m, ''sticker''), (at_Story m, ''story''), (at_Contact m, ''contact''), (at_Poll m \<noteq> None, ''poll''),
      (at_Dice m, ''dice''), (at_Game m, ''game''), (at_Venue m, ''venue''), (at_Location m, ''location''),
      (at_Invoice m, ''invoice''), (at_Checklist m \<noteq> None, ''checklist'')]"

definition collectExternalReplyMediaKinds :: "tg_attachments option \<Rightarrow> string list" where
  "collectExternalReplyMediaKinds x =
     (case x of
        None \<Rightarrow> []
      | Some r \<Rightarrow> mediaKinds
          [(at_Photo r, ''photo''), (at_PaidMedia r \<noteq> None, ''paid_media''), (at_LivePhoto r \<noteq> None, ''live_photo''),
           (at_Video r \<noteq> None, ''video''), (at_VideoNote r, ''video_note''), (at_Animation r \<noteq> None, ''animation''),
           (at_Audio r \<noteq> None, ''audio''), (at_Voice r \<noteq> None, ''voice''), (at_Document r \<noteq> None, ''document''),
           (at_Sticker r, ''sticker''), (at_Story r, ''story''), (at_Contact r, ''contact''), (at_Poll r \<noteq> None, ''poll''),
           (at_Dice r, ''dice''), (at_Game r, ''game''), (at_Venue r, ''venue''), (at_Location r, ''location''),
           (at_Invoice r, ''invoice''), (at_Checklist r \<noteq> None, ''checklist'')])"

definition toDomainEntities :: "entity list \<Rightarrow> entity list" where
  "toDomainEntities src =
     map (\<lambda>e. \<lparr>en_Type = en_Type e, en_URL = en_URL e, en_Offset = en_Offset e, en_Length = en_Length e\<rparr>) src"

definition addPiece :: "tg_piece \<Rightarrow> text_part list \<Rightarrow> text_part list" where
  "addPiece p out =
     (if TrimSpace (tp_Piece p) \<noteq> [] then out @ [\<lparr>tp_Text = tp_Piece p, tp_Entities = toDomainEntities (tp_PieceEntities p)\<rparr>]
      else out)"

definition collectStructuredTexts :: "'a tg_attachments_scheme \<Rightarrow> text_part list" where
  "collectStructuredTexts m =
     (let out = (case at_Poll m of
                   None \<Rightarrow> []
                 | Some p \<Rightarrow>
                     addPiece (po_Explanation p) (fold addPiece (po_Options p)
                       (addPiece (po_Description p) (addPiece (po_Question p) []))))
      in case at_Checklist m of
           None \<Rightarrow> out
         | Some c \<Rightarrow> fold addPiece (cl_Tasks c) (addPiece (cl_Title c) out))"

section \<open>The envelope\<close>

definition tgSender :: "tg_body \<Rightarrow> sender" where
  "tgSender b =
     (let cin = \<lparr>ci_FromID = (case tm_From b of None \<Rightarrow> 0 | Some u \<Rightarrow> tu_ID u),
                ci_IsBot = (case tm_From b of None \<Rightarrow> False | Some u \<Rightarrow> tu_IsBot u),
                ci_SenderChatID = (case tm_SenderChat b of None \<Rightarrow> 0 | Some c \<Rightarrow> tc_ID c),
                ci_SenderChatType = (case tm_SenderChat b of None \<Rightarrow> [] | Some c \<Rightarrow> tc_Type c),
                ci_ChatID = tc_ID (tm_Chat b), ci_LinkedChatID = 0,
                ci_IsAutomaticForward = tm_IsAutomaticForward b\<rparr>
      in \<lparr>sn_Kind = ClassifySender cin,
          sn_UserID = (case tm_From b of None \<Rightarrow> 0 | Some u \<Rightarrow> tu_ID u),
          sn_SenderChatID = (case tm_SenderChat b of None \<Rightarrow> 0 | Some c \<Rightarrow> tc_ID c),
          sn_Username = (case tm_From b of None \<Rightarrow> [] | Some u \<Rightarrow> tu_Username u),
          sn_DisplayName = (case tm_From b of None \<Rightarrow> [] | Some u \<Rightarrow> tu_FirstName u)\<rparr>)"

definition tgEnvelope :: "golib \<Rightarrow> tg_body \<Rightarrow> envelope" where
  "tgEnvelope U b =
     (let external = collectExternalReplyFileMetadata U (tm_ExternalReply b); files = collectFileMetadata U b in
      \<lparr>msg_ChatID = tc_ID (tm_Chat b), msg_MessageID = tm_ID b, msg_ThreadID = tm_MessageThreadID b,
       msg_MediaGroupID = tm_MediaGroupID b, msg_Sender = tgSender b,
       msg_Text = (if tm_Text b = [] then tm_Caption b else tm_Text b), msg_Date = tm_Date b,
       msg_IsAutomaticForward = tm_IsAutomaticForward b, msg_LinkedChatID = 0,
       msg_Entities = toDomainEntities (tm_Entities b) @ toDomainEntities (tm_CaptionEntities b),
       msg_SenderTag = tm_SenderTag b,
       msg_ExternalReplyText =
         (case (tm_ExternalReply b, tm_Quote b) of (Some _, Some q) \<Rightarrow> q | _ \<Rightarrow> []),
       msg_ExternalReplyMediaKinds = collectExternalReplyMediaKinds (tm_ExternalReply b),
       msg_ExternalReplyDocumentExtensions = fst external, msg_ExternalReplyDocumentMIMETypes = snd external,
       msg_StructuredTexts = collectStructuredTexts b, msg_EditDate = tm_EditDate b,
       msg_MediaKinds = collectMediaKinds b, msg_DocumentExtensions = fst files, msg_DocumentMIMETypes = snd files,
       msg_Forwarded = (tm_ForwardOrigin b \<noteq> None),
       msg_ForwardedFromChat = (case tm_ForwardOrigin b of None \<Rightarrow> False | Some f \<Rightarrow> og_Channel f \<or> og_Chat f),
       msg_HasKeyboard = (case tm_InlineKeyboard b of None \<Rightarrow> False | Some rows \<Rightarrow> length rows > 0),
       msg_ViaBot = tm_ViaBot b,
       msg_ServiceKind =
         (if length (tm_NewChatMembers b) > 0 then ''join'' else if tm_LeftChatMember b \<noteq> None then ''leave'' else [])\<rparr>)"

text \<open>The parent is translated whole, as the code does, and loses its own parent.\<close>

fun ToDomainMessage :: "golib \<Rightarrow> tg_message \<Rightarrow> message" where
  "ToDomainMessage U (TgMessage b parent) =
     envelope.extend (tgEnvelope U b)
       (message.fields (case parent of None \<Rightarrow> None | Some r \<Rightarrow> Some (envelope.truncate (ToDomainMessage U r))))"

end
