(* ===== verification/AdapterProps.thy ===== *)
theory AdapterProps
  imports Adapter DetectProps
begin

text \<open>
  What the adapter keeps of a file, and what that is good for: nothing the
  sender wrote beyond a type name goes on to the audit rows and the model
  providers, and a banned type is recognised in whichever field of the
  message the file was uploaded.
\<close>

section \<open>What sanitizing keeps\<close>

definition typeName :: "str \<Rightarrow> bool" where
  "typeName e \<longleftrightarrow> (\<exists>r. e = 46 # r \<and> 1 \<le> length r \<and> length r \<le> 12 \<and> (\<forall>x \<in> set r. lowerAlnum x) \<and> (\<exists>x \<in> set r. lowerLetter x))"

definition mediaType :: "str \<Rightarrow> bool" where
  "mediaType t \<longleftrightarrow> (\<exists>top sub. t = top @ 47 # sub \<and> top \<in> set mimeTopLevelTypes \<and>
     1 \<le> length sub \<and> length sub \<le> 64 \<and> (\<forall>x \<in> set sub. 33 \<le> x \<and> x \<le> 122 \<and> x \<noteq> 47 \<and> x \<noteq> 59))"

lemma lowerAlnum_range: "lowerAlnum x \<Longrightarrow> 48 \<le> x \<and> x \<le> 122 \<and> x \<noteq> 59 \<and> x \<noteq> 46 \<and> x \<noteq> 47"
  by (auto simp: lowerAlnum_def lowerLetter_def)

lemma extensionPattern_iff:
  "extensionPattern e \<longleftrightarrow> (\<exists>r. e = 46 # r \<and> 1 \<le> length r \<and> length r \<le> 12 \<and> (\<forall>x \<in> set r. lowerAlnum x))"
  by (cases e) (auto simp: list_all_iff)

lemma sanitizedExtension_typeName: "sanitizedExtension U s \<noteq> [] \<Longrightarrow> typeName (sanitizedExtension U s)"
  by (auto simp: sanitizedExtension_def Let_def extensionPattern_iff typeName_def list_ex_iff lowerLetter_def
      split: if_splits)

lemma mimeToken_sound:
  assumes "mimeToken s"
  shows "1 \<le> length s \<and> length s \<le> 64 \<and> (\<forall>x \<in> set s. 33 \<le> x \<and> x \<le> 122 \<and> x \<noteq> 47 \<and> x \<noteq> 59)"
  using assms lowerAlnum_range by (cases s) (auto simp: list_all_iff dest!: lowerAlnum_range)

lemma sanitizedMIMEType_mediaType:
  assumes "sanitizedMIMEType U s \<noteq> []"
  shows "mediaType (sanitizedMIMEType U s)"
proof -
  define t where "t = (case Cut 59 (ToLower U (TrimSpace s)) of Some (base, _) \<Rightarrow> TrimSpace base | None \<Rightarrow> ToLower U (TrimSpace s))"
  have san: "sanitizedMIMEType U s = (if \<not> mimeTypePattern t then []
      else if (case Cut 47 t of Some (a, _) \<Rightarrow> a | None \<Rightarrow> t) \<notin> set mimeTopLevelTypes then [] else t)"
    unfolding sanitizedMIMEType_def Let_def t_def by (rule refl)
  have pat: "mimeTypePattern t" and top: "(case Cut 47 t of Some (a, _) \<Rightarrow> a | None \<Rightarrow> t) \<in> set mimeTopLevelTypes"
    using assms unfolding san by (metis (no_types, lifting))+
  have t: "sanitizedMIMEType U s = t" using pat top by (simp add: san)
  obtain a b where cut: "Cut 47 t = Some (a, b)" and tok: "mimeToken b"
    using pat by (auto simp: mimeTypePattern_def split: option.splits)
  have split: "t = a @ 47 # b" using Cut_parts [OF cut] by simp
  have a: "a \<in> set mimeTopLevelTypes" using top by (simp add: cut)
  show ?thesis unfolding t mediaType_def using split a mimeToken_sound [OF tok] by blast
qed

section \<open>The collector\<close>

definition kept :: "file_metadata \<Rightarrow> bool" where
  "kept f \<longleftrightarrow> (\<forall>e \<in> set (fst f). typeName e) \<and> (\<forall>t \<in> set (snd f). mediaType t)"

lemma kept_addFile [simp]: "kept f \<Longrightarrow> kept (addFile U n t f)"
  by (auto simp: kept_def addFile_def Let_def sanitizedExtension_typeName sanitizedMIMEType_mediaType)

lemma kept_addNamed [simp]: "kept f \<Longrightarrow> kept (addNamed U x f)"
  by (simp add: addNamed_def split: option.split)

lemma kept_addUnnamed [simp]: "kept f \<Longrightarrow> kept (addUnnamed U x f)"
  by (simp add: addUnnamed_def split: option.split)

lemma kept_paid:
  "kept f \<Longrightarrow> kept (fold (\<lambda>item f. case item of None \<Rightarrow> f | Some v \<Rightarrow> addFile U (tf_FileName v) (tf_MimeType v) f) items f)"
  by (induction items arbitrary: f) (simp_all split: option.split)

lemma kept_addPaidMedia [simp]: "kept f \<Longrightarrow> kept (addPaidMedia U x f)"
  by (simp add: addPaidMedia_def kept_paid split: option.split)

lemma kept_Nil [simp]: "kept ([], [])"
  by (simp add: kept_def)

lemma kept_collect [simp]: "kept (collectFileMetadata U m)" "kept (collectExternalReplyFileMetadata U r)"
  by (simp_all add: collectFileMetadata_def collectExternalReplyFileMetadata_def split: option.split)

text \<open>What was collected stays, and every named file is collected.\<close>

definition holds :: "str \<Rightarrow> file_metadata \<Rightarrow> bool" where
  "holds e f \<longleftrightarrow> e \<in> set (fst f)"

lemma holds_add [simp]:
  "holds e f \<Longrightarrow> holds e (addFile U n t f)"
  "holds e f \<Longrightarrow> holds e (addNamed U x f)"
  "holds e f \<Longrightarrow> holds e (addUnnamed U y f)"
  by (auto simp: holds_def addFile_def addNamed_def addUnnamed_def Let_def split: option.split)

lemma holds_own: "sanitizedExtension U n = e \<Longrightarrow> e \<noteq> [] \<Longrightarrow> holds e (addFile U n t f)"
  by (simp add: holds_def addFile_def Let_def)

definition filesOf :: "'a tg_attachments_scheme \<Rightarrow> tg_file set" where
  "filesOf m = set_option (at_Document m) \<union> set_option (at_Video m) \<union> set_option (at_Animation m)
     \<union> set_option (at_Audio m) \<union> {v. \<exists>items. at_PaidMedia m = Some items \<and> Some v \<in> set items}"

lemma holds_fold:
  "holds e f \<Longrightarrow>
     holds e (fold (\<lambda>item f. case item of None \<Rightarrow> f | Some v \<Rightarrow> addFile U (tf_FileName v) (tf_MimeType v) f) items f)"
  by (induction items arbitrary: f) (simp_all split: option.split)

lemma holds_paid:
  assumes "sanitizedExtension U (tf_FileName v) = e" and "e \<noteq> []"
  shows "Some v \<in> set items \<Longrightarrow>
     holds e (fold (\<lambda>item f. case item of None \<Rightarrow> f | Some v \<Rightarrow> addFile U (tf_FileName v) (tf_MimeType v) f) items f)"
proof (induction items arbitrary: f)
  case Nil
  then show ?case by simp
next
  case (Cons x items)
  then show ?case by (cases "x = Some v") (simp_all add: holds_fold holds_own assms)
qed

lemma file_is_collected:
  assumes "v \<in> filesOf m" and "sanitizedExtension U (tf_FileName v) = e" and "e \<noteq> []"
  shows "e \<in> set (fst (collectFileMetadata U m))"
proof -
  have named: "holds e (addNamed U (Some v) f)" for f
    using assms(2,3) by (simp add: addNamed_def holds_own)
  have paid: "Some v \<in> set items \<Longrightarrow> holds e (addPaidMedia U (Some items) f)" for items f
    using holds_paid [OF assms(2,3)] by (simp add: addPaidMedia_def)
  have "holds e (collectFileMetadata U m)"
    using assms(1) unfolding filesOf_def
    by (elim UnE CollectE exE conjE) (simp_all add: collectFileMetadata_def named paid)
  then show ?thesis by (simp add: holds_def)
qed

section \<open>The properties\<close>

text \<open>C32. Nothing the sender wrote hides in the type information of a message:
  every kept extension is a dot and at most twelve lower-case letters and
  digits, with a letter among them, and every kept MIME type is a registered
  top-level type and a subtype of at most 64 printable ASCII characters; for
  the message, for a parent in another chat and for the message replied to,
  whatever file names and types they were uploaded with.\<close>

theorem file_metadata_is_only_types:
  assumes "e = ToDomainMessage U m \<or> msg_ReplyTo (ToDomainMessage U m) = Some p \<and> envelope.truncate e = p"
  shows "(\<forall>x \<in> set (msg_DocumentExtensions e) \<union> set (msg_ExternalReplyDocumentExtensions e). typeName x) \<and>
         (\<forall>t \<in> set (msg_DocumentMIMETypes e) \<union> set (msg_ExternalReplyDocumentMIMETypes e). mediaType t)"
proof -
  have body: "kept (fst (collectFileMetadata U b), snd (collectFileMetadata U b))"
    "kept (fst (collectExternalReplyFileMetadata U r), snd (collectExternalReplyFileMetadata U r))" for b r
    by simp_all
  obtain b where "envelope.truncate e = tgEnvelope U b"
  proof -
    obtain b0 r0 where m: "m = TgMessage b0 r0" by (cases m)
    show thesis
    proof (cases "e = ToDomainMessage U m")
      case True
      then show thesis using that [of b0] by (simp add: m envelope.defs message.defs)
    next
      case False
      then obtain b1 r1 where "r0 = Some (TgMessage b1 r1)" "envelope.truncate e = p"
          "p = envelope.truncate (ToDomainMessage U (TgMessage b1 r1))"
        using assms by (cases r0; cases "the r0") (auto simp: m envelope.defs message.defs)
      then show thesis using that [of b1] by (simp add: envelope.defs message.defs)
    qed
  qed
  then have "msg_DocumentExtensions e = msg_DocumentExtensions (tgEnvelope U b)"
    "msg_DocumentMIMETypes e = msg_DocumentMIMETypes (tgEnvelope U b)"
    "msg_ExternalReplyDocumentExtensions e = msg_ExternalReplyDocumentExtensions (tgEnvelope U b)"
    "msg_ExternalReplyDocumentMIMETypes e = msg_ExternalReplyDocumentMIMETypes (tgEnvelope U b)"
    by (metis envelope.defs(4) envelope.select_convs)+
  then show ?thesis using body by (auto simp: tgEnvelope_def Let_def kept_def)
qed


text \<open>An extension as a file system writes it: up to twelve ASCII letters and
  digits, with a letter among them, in any case.\<close>

definition fileExtension :: "str \<Rightarrow> bool" where
  "fileExtension x \<longleftrightarrow> 1 \<le> length x \<and> length x \<le> 12 \<and>
     (\<forall>r \<in> set x. (48 \<le> r \<and> r \<le> 57) \<or> (65 \<le> r \<and> r \<le> 90) \<or> (97 \<le> r \<and> r \<le> 122)) \<and> (\<exists>r \<in> set x. \<not> r \<le> 57)"

text \<open>\<open>unicode.ToLower\<close> on ASCII.\<close>

definition asciiLower :: "golib \<Rightarrow> bool" where
  "asciiLower U \<longleftrightarrow> (\<forall>r. 0 \<le> r \<and> r < 128 \<longrightarrow> u_lower U r = (if 65 \<le> r \<and> r \<le> 90 then r + 32 else r))"

lemma asciiLower_rune: "asciiLower U \<Longrightarrow> 0 \<le> r \<Longrightarrow> r < 128 \<Longrightarrow> u_lower U r = (if 65 \<le> r \<and> r \<le> 90 then r + 32 else r)"
  by (simp add: asciiLower_def)

lemma pathExt_append: "46 \<notin> set x \<Longrightarrow> 47 \<notin> set x \<Longrightarrow> pathExt (p @ 46 # x) = 46 # x"
proof -
  assume x: "46 \<notin> set x" "47 \<notin> set x"
  have "takeWhile (\<lambda>r. r \<noteq> 47) (rev x @ 46 # rev p) = rev x @ 46 # takeWhile (\<lambda>r. r \<noteq> 47) (rev p)"
    using x by (subst takeWhile_append2) auto
  moreover have "takeWhile (\<lambda>r. r \<noteq> 46) (rev x @ 46 # q) = rev x" for q :: str
    using x by (subst takeWhile_append2) auto
  ultimately show ?thesis by (simp add: pathExt_def Let_def)
qed

lemma fileExtension_range: "fileExtension x \<Longrightarrow> r \<in> set x \<Longrightarrow> 48 \<le> r \<and> r \<le> 122 \<and> r \<noteq> 46 \<and> r \<noteq> 47 \<and> \<not> isSpace r"
  by (fastforce simp: fileExtension_def isSpace_def)

lemma TrimSpace_extension:
  assumes "fileExtension x"
  shows "\<exists>q. TrimSpace (p @ 46 # x) = q @ 46 # x"
proof -
  have dot: "\<not> isSpace 46" by (simp add: isSpace_def)
  have left: "\<exists>q. TrimLeft isSpace (p @ 46 # x) = q @ 46 # x" for p
    by (cases "\<forall>r \<in> set p. isSpace r") (auto simp: TrimLeft_def dropWhile_append1 dropWhile_append2 dot)
  obtain q where q: "TrimLeft isSpace (p @ 46 # x) = q @ 46 # x" using left by blast
  have "\<forall>r \<in> set (46 # x). \<not> isSpace r" using dot fileExtension_range [OF assms] by simp
  then have "\<not> isSpace (last (46 # x))" by (metis last_in_set list.distinct(1))
  then have "dropWhile isSpace (rev (q @ 46 # x)) = rev (q @ 46 # x)"
    by (intro dropWhile_id_if) (auto simp: hd_append hd_rev last_ConsR split: if_splits)
  then show ?thesis by (simp add: TrimSpace_def TrimRight_def q)
qed

lemma sanitizedExtension_named:
  assumes "asciiLower U" and "fileExtension x"
  shows "sanitizedExtension U (p @ 46 # x) = 46 # ToLower U x"
proof -
  obtain q where q: "TrimSpace (p @ 46 # x) = q @ 46 # x" using TrimSpace_extension [OF assms(2)] by blast
  have ext: "pathExt (q @ 46 # x) = 46 # x"
    using fileExtension_range [OF assms(2)] by (intro pathExt_append) auto
  have low: "lowerAlnum (u_lower U r) \<and> (\<not> r \<le> 57 \<longrightarrow> lowerLetter (u_lower U r))" if "r \<in> set x" for r
    using assms that by (auto simp: fileExtension_def asciiLower_rune lowerAlnum_def lowerLetter_def)
  have dot: "u_lower U 46 = 46" using assms(1) by (simp add: asciiLower_rune)
  have "extensionPattern (46 # ToLower U x)"
    using assms(2) low by (auto simp: extensionPattern_iff ToLower_def fileExtension_def)
  moreover have "list_ex lowerLetter (46 # ToLower U x)"
    using assms(2) low by (auto simp: fileExtension_def ToLower_def list_ex_iff)
  ultimately show ?thesis by (simp add: sanitizedExtension_def Let_def q ext ToLower_def dot)
qed

text \<open>A clean extension goes through normalization and comparison as it is.\<close>

lemma typeName_fixed:
  assumes "asciiLower U" and "typeName e"
  shows "ToLower U (TrimSpace e) = e"
proof -
  obtain r where e: "e = 46 # r" and r: "\<forall>x \<in> set r. lowerAlnum x" using assms(2) by (auto simp: typeName_def)
  have "\<not> isSpace y \<and> u_lower U y = y" if "y \<in> set e" for y
    using that r assms(1) by (auto simp: e isSpace_def asciiLower_rune lowerAlnum_def lowerLetter_def)
  then show ?thesis by (simp add: TrimSpace_no_space ToLower_def map_idI)
qed

lemma normalizedMetadata_typeName:
  "asciiLower U \<Longrightarrow> typeName e \<Longrightarrow> e \<in> set es \<Longrightarrow> e \<in> set (normalizedMetadata U es)"
proof (induction es)
  case Nil
  then show ?case by simp
next
  case (Cons v vs)
  have "ToLower U (TrimSpace e) = e" "e \<noteq> []" using Cons.prems typeName_fixed by (auto simp: typeName_def)
  then show ?case using Cons by (cases "v = e") (auto simp: Let_def)
qed

lemma RulesCheck_banned:
  assumes "e \<in> set (nm_DocumentExtensions n)" and "ban \<in> set (ru_BannedDocumentExtensions R)"
    and "canonicalDocumentExtension U e = canonicalDocumentExtension U ban"
  shows "\<exists>sig. RulesCheck U R n trusted = Some sig"
proof -
  have "checkBannedDocument U R n \<noteq> None"
    using assms by (auto simp: checkBannedDocument_def first_None_iff list_ex_iff split: option.split)
  then have "RulesCheck U R n trusted \<noteq> None" by (auto simp: RulesCheck_def firstHit_None_iff)
  then show ?thesis by simp
qed

lemma Decide_rule_hit:
  assumes "adminsFor c (msg_ChatID m) = (admins, None)" and "\<not> isCurrentAdmin admins (sn_UserID (msg_Sender m))"
    and "RulesCheck U (cs_Rules c) (NormalizeMessage U m)
      (IsTrusted (cs_Trust c) (msg_ChatID m) (sn_UserID (msg_Sender m)) (cs_TrustThreshold c)) \<noteq> None"
  shows "\<exists>sig h'. Decide U t1 t2 c m edited h = (actionable c sig, True, h')"
  using assms(3) by (auto simp: Decide_detectors [OF assms(1,2)] detectors_def Let_def)

text \<open>A banned file type is caught however it is uploaded: when a message
  carries a file whose name ends in a banned extension, in any case, after
  whatever name, as a document, a video, an animation, an audio or inside
  paid media, then the cascade acts on it, unless the sender is an
  administrator or the administrators are unknown; new members and trusted
  ones alike, edits included.\<close>

theorem banned_files_are_caught:
  assumes "asciiLower U" and "f \<in> filesOf b" and "tf_FileName f = name @ 46 # x" and "fileExtension x"
    and "ban \<in> set (ru_BannedDocumentExtensions (cs_Rules c))" and "ToLower U (TrimSpace ban) = 46 # ToLower U x"
    and "adminsFor c (tc_ID (tm_Chat b)) = (admins, None)" and "\<not> isCurrentAdmin admins (sn_UserID (tgSender b))"
  shows "\<exists>sig h'. Decide U t1 t2 c (ToDomainMessage U (TgMessage b parent)) edited h = (actionable c sig, True, h')"
proof -
  let ?m = "ToDomainMessage U (TgMessage b parent)" and ?e = "46 # ToLower U x"
  have chat: "msg_ChatID ?m = tc_ID (tm_Chat b)" and sender: "msg_Sender ?m = tgSender b"
    and exts: "msg_DocumentExtensions ?m = fst (collectFileMetadata U b)"
    by (simp_all add: tgEnvelope_def Let_def envelope.defs message.defs)
  have san: "sanitizedExtension U (tf_FileName f) = ?e"
    by (simp add: assms(3) sanitizedExtension_named [OF assms(1,4)])
  have ty: "typeName ?e" using sanitizedExtension_typeName [of U "tf_FileName f"] by (simp add: san)
  have "?e \<in> set (msg_DocumentExtensions ?m)"
    unfolding exts by (rule file_is_collected [OF assms(2) san]) simp
  then have n: "?e \<in> set (nm_DocumentExtensions (NormalizeMessage U ?m))"
    using normalizedMetadata_typeName [OF assms(1) ty] by (simp add: NormalizeMessage_def Let_def)
  have "canonicalDocumentExtension U ?e = canonicalDocumentExtension U ban"
    by (simp only: canonicalDocumentExtension_def typeName_fixed [OF assms(1) ty] assms(6))
  then have "RulesCheck U (cs_Rules c) (NormalizeMessage U ?m)
      (IsTrusted (cs_Trust c) (msg_ChatID ?m) (sn_UserID (msg_Sender ?m)) (cs_TrustThreshold c)) \<noteq> None"
    using RulesCheck_banned [OF n assms(5)] by blast
  from Decide_rule_hit [OF _ _ this, where admins = admins] show ?thesis using assms(7,8) unfolding chat sender by blast
qed


section \<open>A message with a file\<close>

definition noAttachments :: tg_attachments where
  "noAttachments = \<lparr>at_Photo = False, at_PaidMedia = None, at_LivePhoto = None, at_Video = None, at_VideoNote = False,
     at_Animation = None, at_Audio = None, at_Voice = None, at_Document = None, at_Sticker = False, at_Story = False,
     at_Contact = False, at_Poll = None, at_Dice = False, at_Game = False, at_Venue = False, at_Location = False,
     at_Invoice = False, at_Checklist = None\<rparr>"

definition apkVideo :: tg_file where
  "apkVideo = \<lparr>tf_FileName = lit ''call 555/me.2 now.ApK'', tf_MimeType = lit ''t.me/joinchat''\<rparr>"

definition apkBody :: tg_body where
  "apkBody = tg_attachments.extend (noAttachments\<lparr>at_Video := Some apkVideo\<rparr>)
     (tg_body.fields 1 0 [] \<lparr>tc_ID = -100, tc_Type = ''supergroup''\<rparr>
        (Some \<lparr>tu_ID = 9, tu_IsBot = False, tu_Username = [], tu_FirstName = lit ''someone''\<rparr>) None
        [] [] 0 0 False [] [] [] None None None [] None None False)"

definition apkCascade :: cascade where
  "apkCascade = (demoCascade (\<lambda>c. ([demoAdmin], None)) 100)
     \<lparr>cs_Rules := demoRules\<lparr>ru_BannedDocumentExtensions := [lit '' .APK'']\<rparr>\<rparr>"

lemma asciiLower_demoLib: "asciiLower demoLib"
  by (simp add: asciiLower_def demoLib_def)

lemmas apk_defs = apkBody_def noAttachments_def apkVideo_def tg_attachments.defs tg_body.defs envelope.defs message.defs

lemma apkExtension: "sanitizedExtension demoLib (lit ''call 555/me.2 now.ApK'') = lit ''.apk''"
  using sanitizedExtension_named [OF asciiLower_demoLib, of "lit ''ApK''" "lit ''call 555/me.2 now''"]
  by (simp add: fileExtension_def ToLower_def demoLib_def)

lemma apkMIME: "sanitizedMIMEType demoLib (lit ''t.me/joinchat'') = []"
  by code_simp

theorem file_metadata_is_only_types_witness:
  "msg_DocumentExtensions (ToDomainMessage demoLib (TgMessage apkBody None)) = [lit ''.apk''] \<and>
   msg_DocumentMIMETypes (ToDomainMessage demoLib (TgMessage apkBody None)) = [] \<and> typeName (lit ''.apk'')"
proof -
  have files: "collectFileMetadata demoLib apkBody = ([lit ''.apk''], [])"
    by (simp add: collectFileMetadata_def apk_defs addNamed_def addUnnamed_def addPaidMedia_def addFile_def
        apkExtension apkMIME del: list.map)
  then have "msg_DocumentExtensions (ToDomainMessage demoLib (TgMessage apkBody None)) = [lit ''.apk''] \<and>
      msg_DocumentMIMETypes (ToDomainMessage demoLib (TgMessage apkBody None)) = []"
    by (simp add: tgEnvelope_def Let_def envelope.defs message.defs)
  then show ?thesis
    using file_metadata_is_only_types [of "ToDomainMessage demoLib (TgMessage apkBody None)" demoLib "TgMessage apkBody None"]
    by (simp del: ToDomainMessage.simps)
qed

theorem banned_files_are_caught_witness:
  "\<exists>sig h'. Decide demoLib 0 0 apkCascade (ToDomainMessage demoLib (TgMessage apkBody None)) True NewMemHistory
     = (actionable apkCascade sig, True, h')"
  by (rule banned_files_are_caught [OF asciiLower_demoLib, where f = apkVideo and name = "lit ''call 555/me.2 now''"
        and x = "lit ''ApK''" and ban = "lit '' .APK''" and admins = "[demoAdmin]"])
     (simp_all add: filesOf_def apk_defs fileExtension_def apkCascade_def demo_defs adminsFor_def isCurrentAdmin_def
        tgSender_def Let_def ToLower_def TrimSpace_def TrimLeft_def TrimRight_def isSpace_def)

end
