(* ===== verification/PipelineProps.thy ===== *)
theory PipelineProps
  imports Pipeline Llm AdapterProps MachineProps ConfigProps
begin

text \<open>
  From an update to the incident machine: what is judged of an album, who and
  which chats never get as far as the machine, what the machine is given,
  and, composed with the cascade, the model stage and the machine itself,
  what reaches Telegram.
\<close>

section \<open>The judged message\<close>

lemma captionedPart_in: "parts \<noteq> [] \<Longrightarrow> captionedPart (hd parts) parts \<in> set parts"
  by (auto simp: captionedPart_def split: option.split dest: first_Some)

lemma mergeFlags_simps [simp]:
  "msg_ChatID (mergeFlags m j) = msg_ChatID j" "msg_Sender (mergeFlags m j) = msg_Sender j"
  "msg_Text (mergeFlags m j) = msg_Text j" "msg_MediaKinds (mergeFlags m j) = msg_MediaKinds j"
  "msg_DocumentExtensions (mergeFlags m j) = msg_DocumentExtensions j"
  "msg_DocumentMIMETypes (mergeFlags m j) = msg_DocumentMIMETypes j"
  by (simp_all add: mergeFlags_def)

lemma fold_mergeFlags_simps [simp]:
  "msg_ChatID (fold mergeFlags parts j) = msg_ChatID j" "msg_Sender (fold mergeFlags parts j) = msg_Sender j"
  "msg_Text (fold mergeFlags parts j) = msg_Text j" "msg_MediaKinds (fold mergeFlags parts j) = msg_MediaKinds j"
  "msg_DocumentExtensions (fold mergeFlags parts j) = msg_DocumentExtensions j"
  "msg_DocumentMIMETypes (fold mergeFlags parts j) = msg_DocumentMIMETypes j"
  by (induction parts arbitrary: j) simp_all

lemma judgedMessage_simps [simp]:
  "msg_ChatID (judgedMessage p parts) = msg_ChatID (captionedPart p parts)"
  "msg_Sender (judgedMessage p parts) = msg_Sender (captionedPart p parts)"
  "msg_Text (judgedMessage p parts) = msg_Text (captionedPart p parts)"
  by (simp_all add: judgedMessage_def Let_def)

lemma set_unionMessageMetadata: "set (unionMessageMetadata parts values) = (\<Union>m \<in> set parts. set (values m))"
proof -
  have "set (fold (\<lambda>m out. fold (\<lambda>x out. add_new out x) (values m) out) parts out) =
      set out \<union> (\<Union>m \<in> set parts. set (values m))" for out
    by (induction parts arbitrary: out) auto
  then show ?thesis by (simp add: unionMessageMetadata_def)
qed

lemma judged_extensions:
  assumes "parts \<noteq> []"
  shows "set (msg_DocumentExtensions (judgedMessage (hd parts) parts)) = (\<Union>m \<in> set parts. set (msg_DocumentExtensions m))"
proof (cases "length parts > 1")
  case True
  then show ?thesis by (simp add: judgedMessage_def Let_def set_unionMessageMetadata)
next
  case False
  then obtain m where "parts = [m]" using assms by (cases parts) auto
  then show ?thesis by (simp add: judgedMessage_def Let_def captionedPart_def)
qed

text \<open>C31. A banned file is caught wherever it hides: in whichever field of
  whichever part of an album it was uploaded, whatever its name is before the
  banned extension, the judged message of the album is acted on by the
  cascade, unless the chat's administrators are unknown or the sender is one
  of them; members of any trust, edits included.\<close>

theorem banned_files_are_caught_in_albums:
  assumes "asciiLower U" and "TgMessage b parent \<in> set ms" and "f \<in> filesOf b"
    and "tf_FileName f = name @ 46 # x" and "fileExtension x"
    and "ban \<in> set (ru_BannedDocumentExtensions (cs_Rules c))" and "ToLower U (TrimSpace ban) = 46 # ToLower U x"
    and "\<forall>m \<in> set (map (ToDomainMessage U) ms). adminsFor c (msg_ChatID m) = (admins, None) \<and>
           \<not> isCurrentAdmin admins (sn_UserID (msg_Sender m))"
    and "parts = map (ToDomainMessage U) ms"
  shows "\<exists>sig h'. Decide U t1 t2 c (judgedMessage (hd parts) parts) edited h = (actionable c sig, True, h')"
proof -
  let ?m = "judgedMessage (hd parts) parts" and ?e = "46 # ToLower U x"
  have ne: "parts \<noteq> []" using assms(2,9) by auto
  have san: "sanitizedExtension U (tf_FileName f) = ?e"
    by (simp add: assms(4) sanitizedExtension_named [OF assms(1,5)])
  have ty: "typeName ?e" using sanitizedExtension_typeName [of U "tf_FileName f"] by (simp add: san)
  have "?e \<in> set (fst (collectFileMetadata U b))" by (rule file_is_collected [OF assms(3) san]) simp
  then have "?e \<in> set (msg_DocumentExtensions (ToDomainMessage U (TgMessage b parent)))"
    by (simp add: tgEnvelope_def Let_def envelope.defs message.defs)
  then have "?e \<in> set (msg_DocumentExtensions ?m)"
    unfolding judged_extensions [OF ne] using assms(2,9) by force
  then have n: "?e \<in> set (nm_DocumentExtensions (NormalizeMessage U ?m))"
    using normalizedMetadata_typeName [OF assms(1) ty] by (simp add: NormalizeMessage_def Let_def)
  have "canonicalDocumentExtension U ?e = canonicalDocumentExtension U ban"
    by (simp only: canonicalDocumentExtension_def typeName_fixed [OF assms(1) ty] assms(7))
  then have rule: "RulesCheck U (cs_Rules c) (NormalizeMessage U ?m) trusted \<noteq> None" for trusted
    using RulesCheck_banned [OF n assms(6)] by blast
  have adm: "adminsFor c (msg_ChatID ?m) = (admins, None) \<and> \<not> isCurrentAdmin admins (sn_UserID (msg_Sender ?m))"
    using assms(8) captionedPart_in [OF ne] unfolding assms(9) judgedMessage_simps by blast
  show ?thesis by (rule Decide_rule_hit [OF conjunct1 [OF adm] conjunct2 [OF adm] rule])
qed

theorem banned_files_are_caught_in_albums_witness:
  "\<exists>sig h'. Decide demoLib 0 0 apkCascade
      (judgedMessage (ToDomainMessage demoLib (TgMessage (apkBody\<lparr>at_Video := None\<rparr>) None))
         [ToDomainMessage demoLib (TgMessage (apkBody\<lparr>at_Video := None\<rparr>) None),
          ToDomainMessage demoLib (TgMessage apkBody None)]) False NewMemHistory
     = (actionable apkCascade sig, True, h')"
proof -
  let ?ms = "[TgMessage (apkBody\<lparr>at_Video := None\<rparr>) None, TgMessage apkBody None]"
  have "tgSender (apkBody\<lparr>at_Video := None\<rparr>) = tgSender apkBody" "sn_UserID (tgSender apkBody) = 9"
    by (simp_all add: tgSender_def apk_defs)
  then have "\<forall>m \<in> set (map (ToDomainMessage demoLib) ?ms). adminsFor apkCascade (msg_ChatID m) = ([demoAdmin], None) \<and>
       \<not> isCurrentAdmin [demoAdmin] (sn_UserID (msg_Sender m))"
    by (simp add: tgEnvelope_def Let_def envelope.defs message.defs apkCascade_def demo_defs adminsFor_def isCurrentAdmin_def)
  from banned_files_are_caught_in_albums [OF asciiLower_demoLib _ _ _ _ _ _ this refl,
      where b = apkBody and parent = None and f = apkVideo and name = "lit ''call 555/me.2 now''" and x = "lit ''ApK''"
        and ban = "lit '' .APK''" and edited = False and h = NewMemHistory and ?t1.0 = 0 and ?t2.0 = 0]
  show ?thesis
    by (simp add: filesOf_def apkVideo_def fileExtension_def apkCascade_def demo_defs ToLower_def TrimSpace_def TrimLeft_def
        TrimRight_def isSpace_def apkBody_def noAttachments_def tg_attachments.defs tg_body.defs
        del: ToDomainMessage.simps)
qed


section \<open>What a processing job does\<close>

lemma safe_emits: "emits Q m \<Longrightarrow> safe (\<lambda>_. True) Q m"
  by (simp add: guarded_def hoare_def emits_def)

lemma safe_currentConfig [guard_intros]: "safe I Q (currentConfig P)"
  by (simp add: guarded_def hoare_def currentConfig_def)

lemma guarded_currentConfig: "guarded I Q (\<lambda>cfg. \<exists>n. cfg = pl_Config P n) (currentConfig P)"
  by (auto simp: guarded_def hoare_def currentConfig_def)

text \<open>What a processing job itself needs of an invariant and of a predicate on
  events: registering the chat and counting trust keep the one, its writes and
  its log lines satisfy the other.\<close>

locale job_invariant =
  fixes I :: "db \<Rightarrow> bool" and Q :: "event \<Rightarrow> bool"
  assumes registering: "keepsTx I (RegisterChat c d)"
    and trusting: "keepsTx I (BumpTrustDistinct c u fp l)"
    and writing: "Q (EvStore n i b)"
    and logging: "Q (EvLog s)"
begin

lemma saves: "stable E I \<Longrightarrow> (\<And>now. keepsTx I (t now)) \<Longrightarrow> safe I Q (store E name i t)"
  by (rule safe_store) (use writing in \<open>auto simp: keepsTx_def\<close>)

lemma logs: "safe I Q (logLine s)"
  by (rule safe_log) (rule logging)

lemma observed: "safe I Q (logObserved v parts)"
  by (induction parts) (simp_all add: safe_return safe_bind logs)

lemma observes: "stable E I \<Longrightarrow> safe I Q (observe U E cfg parts p judged v edited)"
  unfolding observe_def bumpTrust_def
  by (intro guard_intros saves logs observed trusting)

lemma links: "(\<And>look. pl_LinkedChat P = Some look \<Longrightarrow> safe I Q (look (msg_ChatID m))) \<Longrightarrow> safe I Q (fromLinkedChannel P m)"
  unfolding fromLinkedChannel_def by (intro guard_intros logs)

lemma processes:
  assumes E: "stable E I" and parts: "parts \<noteq> []"
    and dec: "guarded I Q S (pl_Decide P (judgedMessage (hd parts) parts))"
      "\<And>d. pl_EditedDecide P = Some d \<Longrightarrow> guarded I Q S (d (judgedMessage (hd parts) parts))"
    and link: "\<And>v look. S (v, True) \<Longrightarrow> IsActionable v \<Longrightarrow> pl_LinkedChat P = Some look \<Longrightarrow>
        safe I Q (look (msg_ChatID (judgedMessage (hd parts) parts)))"
    and modr: "\<And>n v. S (v, True) \<Longrightarrow> IsActionable v \<Longrightarrow>
        safe I Q (moderate U E P (pl_Config P n) parts (hd parts) (judgedMessage (hd parts) parts) v)"
  shows "safe I Q (processParts U E P parts edited)"
proof -
  let ?p = "hd parts" and ?j = "judgedMessage (hd parts) parts"
  obtain ps where Cons: "parts = ?p # ps" using parts by (cases parts) auto
  have decide: "guarded I Q S (case pl_EditedDecide P of Some d \<Rightarrow> if edited then d ?j else pl_Decide P ?j | None \<Rightarrow> pl_Decide P ?j)"
    using dec by (cases "pl_EditedDecide P") simp_all
  have linked: "safe I Q (if snd vok \<and> IsActionable (fst vok) then fromLinkedChannel P ?j else State_Monad.return False)"
    if "S vok" for vok
    by (rule guarded_if, rule links, rule link [of "fst vok"]) (use that in \<open>cases vok, auto intro: safe_return\<close>)+
  have modd: "safe I Q (moderate U E P cfg parts ?p ?j (fst vok))"
    if "S vok" "snd vok \<and> IsActionable (fst vok)" "\<exists>n. cfg = pl_Config P n" for vok cfg
    using that modr [of "fst vok"] by (cases vok) auto
  have job: "processParts U E P parts edited = processParts U E P (?p # ps) edited" using Cons by simp
  show ?thesis
    unfolding job unfolding processParts_def list.case Let_def
    unfolding Cons [symmetric]
    apply (rule guarded_bind [OF guarded_currentConfig])
    apply (rule safe_bind, rule saves [OF E registering])
    apply (rule safe_bind, intro guard_intros logs)
    apply (rule guarded_bind [OF decide])
    apply (rule safe_bind, erule linked)
    apply (rule guarded_if, rule logs)
    apply (rule guarded_if, rule observes [OF E])
    apply (rule modd, assumption, simp, assumption)
    done
qed

end

text \<open>A job that calls nothing.\<close>

interpretation silent: job_invariant "\<lambda>_. True" "\<lambda>e. \<not> isPort e"
  by unfold_locales (simp_all add: keepsTx_def)

text \<open>\<open>telegram.Port\<close>'s lookup of the linked channel, as \<open>main\<close> installs it.\<close>

definition liveLinkedChat :: "env \<Rightarrow> chat_id \<Rightarrow> (goerr + chat_id) act" where
  "liveLinkedChat E chat = do {
     r \<leftarrow> call E (LinkedChatID chat);
     State_Monad.return (case pr_err r of Some e \<Rightarrow> Inl e | None \<Rightarrow> Inr (pr_id r))
   }"

lemma safe_liveLinkedChat: "(\<And>r. Q (EvPort (LinkedChatID c) r)) \<Longrightarrow> safe I Q (liveLinkedChat E c)"
  unfolding liveLinkedChat_def by (intro guard_intros safe_call)

section \<open>Administrators\<close>

lemma decideWith_admin:
  assumes "\<And>n. isCurrentAdmin (fst (adminsFor (fst (src n)) (msg_ChatID m))) (sn_UserID (msg_Sender m))"
  shows "run_state (decideWith U act src stage edited m) w = ((passVerdict [] [], False), w)"
proof -
  obtain c h t1 t2 where s: "src (w_ticks w) = (c, h, t1, t2)" by (cases "src (w_ticks w)") blast
  have adm: "isCurrentAdmin (fst (adminsFor c (msg_ChatID m))) (sn_UserID (msg_Sender m))"
    using assms [of "w_ticks w"] by (simp add: s)
  obtain rv hit where r: "ReviewCandidate U c m = (rv, hit)" by (cases "ReviewCandidate U c m") blast
  have "\<not> hit" using ReviewCandidate_verdict [of U c m rv] adm r by (cases hit) auto
  then show ?thesis
    by (cases stage)
       (simp_all add: decideWith_def run_bind run_return s r Decide_admin_immune [OF adm] hasBorderline_def passVerdict_def
        zeroVerdict_def)
qed

text \<open>A handler as \<open>main\<close> wires it: the real machine, the cascade with one
  administrator, user 7, a blocklist that lists user 9, and a configuration that forces
  chat -100 into dry run.\<close>

definition demoSources :: "nat \<Rightarrow> cascade \<times> mem_history \<times> int \<times> int" where
  "demoSources n = (demoCascade (\<lambda>c. ([demoAdmin], None)) 0, NewMemHistory, 0, 0)"

definition demoHandler :: "env \<Rightarrow> pipeline" where
  "demoHandler E =
     (NewHandler (\<lambda>n. demoParsed\<lparr>cf_Chats := demoChats\<lparr>cp_ForceDryRun := [-100]\<rparr>\<rparr>) (Handle E demoMachine))
     \<lparr>pl_Decide := decideWith demoLib ActionMute demoSources None False,
      pl_EditedDecide := Some (decideWith demoLib ActionMute demoSources None True),
      pl_LinkedChat := Some (liveLinkedChat E)\<rparr>"




section \<open>No detector speaks for a moderator\<close>

definition detected :: "signal \<Rightarrow> bool" where
  "detected s \<longleftrightarrow> sg_Name s \<notin> {''manual_spam'', ''manual_ban''}"

lemma isManual_detected: "\<not> isManual v \<longleftrightarrow> (\<forall>s \<in> set (vd_Signals v). detected s)"
  by (auto simp: isManual_def detected_def list_ex_iff)

lemma detected_mkSignal [simp]: "detected (mkSignal name d) \<longleftrightarrow> name \<notin> {''manual_spam'', ''manual_ban''}"
  by (simp add: detected_def mkSignal_def)

lemma detected_checks:
  "checkDenyStopword U r n = Some s \<Longrightarrow> detected s"
  "checkDenyExact U r n = Some s \<Longrightarrow> detected s"
  "checkLinkPolicy U r n trusted = Some s \<Longrightarrow> detected s"
  "checkBannedDomain U r n = Some s \<Longrightarrow> detected s"
  "checkLimits r n trusted = Some s \<Longrightarrow> detected s"
  subgoal by (auto simp: checkDenyStopword_def Let_def)
  subgoal by (auto simp: checkDenyExact_def Let_def split: if_splits)
  subgoal by (auto simp only: checkLinkPolicy_def Let_def detected_mkSignal option.inject option.distinct split: if_splits)
  subgoal by (auto simp: checkBannedDomain_def Let_def)
  subgoal by (auto simp: checkLimits_def split: if_splits)
  done

lemma detected_checkBannedDocument: "checkBannedDocument U r n = Some s \<Longrightarrow> detected s"
  by (auto simp: checkBannedDocument_def split: option.splits)

lemma detected_rules:
  assumes "RulesCheck U r n trusted = Some s"
  shows "detected s"
proof -
  from firstHit_Some [OF assms [unfolded RulesCheck_def]]
  consider "checkDenyStopword U r n = Some s" | "checkDenyExact U r n = Some s" | "checkLinkPolicy U r n trusted = Some s"
    | "checkBannedDomain U r n = Some s" | "checkBannedDocument U r n = Some s" | "checkLimits r n trusted = Some s"
    by (simp only: list.set insert_iff empty_iff) metis
  then show ?thesis by cases (erule detected_checks detected_checkBannedDocument)+
qed

lemma detected_fakeAdminSig [simp]: "detected (fakeAdminSig d)"
  by (simp add: detected_def fakeAdminSig_def)

lemma detected_fakeAdmin: "ClassifyFakeAdmin U m admins cfg = (Some s, strength) \<Longrightarrow> detected s"
proof -
  let ?I = "\<lambda>x. \<forall>s. x = Some s \<longrightarrow> detected s"
  have field: "case fakeAdminField cfg admin sf af x of Inl r \<Rightarrow> detected r | Inr s' \<Rightarrow> ?I s'" if "?I x" for admin sf af x
    using that by (simp add: fakeAdminField_def Let_def)
  have sender: "case fakeAdminSender U cfg admin sf x of Inl r \<Rightarrow> detected r | Inr s' \<Rightarrow> ?I s'" if "?I x" for admin sf x
  proof (cases "snd sf = []")
    case True
    then show ?thesis using that by (simp add: fakeAdminSender_def)
  next
    case False
    have "case for_each (fakeAdminField cfg admin sf) (adminFields U admin) x of Inl r \<Rightarrow> detected r | Inr s' \<Rightarrow> ?I s'"
      by (rule for_each_invariant) (use that field in auto)
    then show ?thesis using False by (simp add: fakeAdminSender_def)
  qed
  have one: "case for_each (fakeAdminSender U cfg admin) (senderFields U m) x of Inl r \<Rightarrow> detected r | Inr s' \<Rightarrow> ?I s'"
    if "?I x" for admin x
    by (rule for_each_invariant) (use that sender in auto)
  have loop: "case for_each (\<lambda>admin. for_each (fakeAdminSender U cfg admin) (senderFields U m)) admins None of
      Inl r \<Rightarrow> detected r | Inr s' \<Rightarrow> ?I s'"
    by (rule for_each_invariant) (use one in auto)
  then show "ClassifyFakeAdmin U m admins cfg = (Some s, strength) \<Longrightarrow> detected s"
    by (auto simp: ClassifyFakeAdmin_def Let_def split: if_splits sum.splits option.splits)
qed

lemma detected_behavior: "CheckBehavior U t1 t2 h c u n edited trusted cfg = (Some s, h') \<Longrightarrow> detected s"
  by (auto simp: CheckBehavior_def Let_def split: if_splits prod.splits)

lemma detected_stages:
  "detectors U t1 t2 c m edited n admins h = (v, True, h') \<Longrightarrow> \<not> isManual v"
  unfolding isManual_detected
  by (auto simp: detectors_def bayesStage_def Let_def dest: detected_rules detected_behavior detected_fakeAdmin
      split: option.splits prod.splits if_splits)

lemma detected_Decide: "Decide U t1 t2 c m edited h = (v, True, h') \<Longrightarrow> \<not> isManual v"
  by (auto simp: Decide_def Let_def dest: detected_stages split: option.splits prod.splits if_splits)

lemma detected_ReviewCandidate: "ReviewCandidate U c m = (v, True) \<Longrightarrow> \<not> isManual v"
  unfolding isManual_detected
  by (auto simp: ReviewCandidate_def reviewSignal_def Let_def
      dest: detected_fakeAdmin split: option.splits prod.splits if_splits)


text \<open>\<open>decideWith\<close>: it keeps whatever the model stage keeps, and an actionable
  answer is never a moderator's.\<close>

lemma guarded_decideWith:
  assumes "\<And>adj. stage = Some adj \<Longrightarrow> safe I Q (adj m)" and "\<And>s. Q (EvCount s)"
  shows "guarded I Q (\<lambda>vok. snd vok \<longrightarrow> \<not> isManual (fst vok)) (decideWith U act src stage edited m)"
proof -
  let ?S = "\<lambda>vok. snd vok \<longrightarrow> \<not> isManual (fst vok)"
  have cascade: "guarded I Q ?S (State (\<lambda>w. case src (w_ticks w) of
      (c, h, t1, t2) \<Rightarrow> (case Decide U t1 t2 c m edited h of (v, ok, _) \<Rightarrow> ((v, ok), w))))"
    by (auto simp: guarded_def hoare_def dest: detected_Decide split: prod.split)
  have review: "guarded I Q ?S (State (\<lambda>w. case src (w_ticks w) of
      (c, _) \<Rightarrow> (case ReviewCandidate U c m of (rv, hit) \<Rightarrow> (if hit then (rv, True) else vok, w))))" if "?S vok" for vok
    using that by (auto simp: guarded_def hoare_def dest: detected_ReviewCandidate split: prod.split)
  have llm: "\<not> isManual (llmVerdict act)" by (simp add: isManual_def llmVerdict_def mkSignal_def)
  show ?thesis
    unfolding decideWith_def
    apply (rule guarded_bind [OF cascade])
    apply (rule guarded_bind [where S = ?S])
     apply (intro guarded_option guarded_if safe_bind assms(1) guarded_return; simp add: llm)
    apply (rule guarded_bind [where S = ?S])
     apply (intro guarded_if review guarded_return; assumption)
    apply (rule safe_bind, intro guard_intros safe_count assms(2))
    apply (erule guarded_return)
    done
qed

section \<open>A chat an operator switched off\<close>

definition switchedOff :: "chat_id \<Rightarrow> db \<Rightarrow> bool" where
  "switchedOff c db \<longleftrightarrow> (\<exists>row. GetChat c db = Some row \<and> \<not> ch_Enabled row)"

fun onlyLooks :: "event \<Rightarrow> bool" where
  "onlyLooks (EvPort (LinkedChatID c) r) = True"
| "onlyLooks (EvPort _ r) = False"
| "onlyLooks _ = True"

lemma switchedOff_chats: "db_chats db' = db_chats db \<Longrightarrow> switchedOff c db' = switchedOff c db"
  by (simp add: switchedOff_def GetChat_def)

lemma db_chats_BumpTrustDistinct: "BumpTrustDistinct c u f l db = Some (db', r) \<Longrightarrow> db_chats db' = db_chats db"
  by (auto simp: BumpTrustDistinct_def BumpTrust_def Let_def split: if_splits)

interpretation off: job_invariant "switchedOff c" onlyLooks for c
proof unfold_locales
  show "keepsTx (switchedOff c) (RegisterChat c' d)" for c' d
    by (auto simp: keepsTx_def RegisterChat_def switchedOff_def GetChat_def update_conv split: if_splits)
  show "keepsTx (switchedOff c) (BumpTrustDistinct c' u f l)" for c' u f l
    unfolding keepsTx_def by (metis switchedOff_chats db_chats_BumpTrustDistinct)
qed simp_all

lemma off_moderate:
  assumes "stable E (switchedOff (msg_ChatID p))"
  shows "safe (switchedOff (msg_ChatID p)) onlyLooks (moderate U E P cfg parts p judged v)"
  unfolding moderate_def
  apply (rule guarded_bind [OF guarded_query [OF assms, where S = "\<lambda>x. \<exists>row. x = Some row \<and> \<not> ch_Enabled row"]])
   apply (force simp: switchedOff_def)
  apply (auto intro!: guard_intros off.logs split: sum.split option.split)
  done


definition demoOffDB :: db where
  "demoOffDB = emptyDB\<lparr>db_chats := [(-100, \<lparr>ch_ChatID = -100, ch_Enabled = False, ch_DryRun = False, ch_LinkedChatID = 0\<rparr>)]\<rparr>"


section \<open>A chat in dry run\<close>

fun observes :: "machine \<Rightarrow> event \<Rightarrow> bool" where
  "observes mc (EvPort (LinkedChatID c) r) = True"
| "observes mc e = (reports mc e \<and> \<not> destructive (mc_AdminChatID mc) e)"

interpretation dry: job_invariant "\<lambda>_. True" "observes mc" for mc
  by unfold_locales (simp_all add: keepsTx_def)

lemma observes_reports: "reports mc e \<Longrightarrow> \<not> destructive (mc_AdminChatID mc) e \<Longrightarrow> observes mc e"
  by (cases "(mc, e)" rule: observes.cases) auto

lemma dry_moderate:
  assumes "containsChat (cp_ForceDryRun (cf_Chats cfg)) (msg_ChatID p)" and "\<not> isManual v"
    and "pl_Machine P = Handle E mc"
  shows "safe (\<lambda>_. True) (observes mc) (moderate U E P cfg parts p judged v)"
proof -
  have handled: "safe (\<lambda>_. True) (observes mc) (Handle E mc (newIncident U parts p judged v True))"
    unfolding Handle_def HandleReport_def
    by (intro safe_bind safe_return safe_emits emits_mono [OF emits_handle_dry] observes_reports)
       (use assms(2) reportOnly_not_destructive in \<open>auto simp: newIncident_def\<close>)
  have E: "stable E (\<lambda>_. True)" by (simp add: stable_def)
  have forced: "DryRunFor (cf_Chats cfg) (msg_ChatID p) d" for d using assms(1) by (simp add: DryRunFor_def)
  show ?thesis
    unfolding moderate_def assms(3) Let_def
    by (intro guard_intros safe_query [OF E] dry.logs) (simp_all add: forced handled)
qed


text \<open>C30. A chat the configuration forces into dry run is only watched, from the
  message to the machine: whatever the row of the chat says, whatever is
  posted or edited there and whatever the detectors and the model stage make
  of it, the real machine behind the handler copies, writes a card and cleans
  up in the admin chat, and nothing else; the moderated chat is not
  touched.\<close>

theorem observed_chats_only_report:
  assumes "pl_Decide P = decideWith U act src stage False" and "pl_EditedDecide P = Some (decideWith U act src stage True)"
    and "pl_LinkedChat P = Some (liveLinkedChat E)" and "pl_Machine P = Handle E mc"
    and "\<forall>adj m. stage = Some adj \<longrightarrow> emits (observes mc) (adj m)"
    and "\<forall>n. containsChat (cp_ForceDryRun (cf_Chats (pl_Config P n))) c" and "\<forall>m \<in> set parts. msg_ChatID m = c"
  shows "list_all (observes mc) (events (runChatJob U E P (JobProcess parts edited)) w)"
proof (cases "parts = []")
  case True
  then show ?thesis by (simp add: runChatJob_def processParts_def events_def run_return)
next
  case False
  then have c: "msg_ChatID (hd parts) = c" using assms(7) by simp
  have "guarded (\<lambda>_. True) (observes mc) (\<lambda>vok. snd vok \<longrightarrow> \<not> isManual (fst vok)) (decideWith U act src stage b m)" for b m
    by (rule guarded_decideWith) (use assms(5) in \<open>auto intro: safe_emits\<close>)
  then have "safe (\<lambda>_. True) (observes mc) (processParts U E P parts edited)"
    using dry_moderate [of _ "hd parts", OF _ _ assms(4)] assms(1-3,6) unfolding c
    by (intro dry.processes [where S = "\<lambda>vok. snd vok \<longrightarrow> \<not> isManual (fst vok)"] False)
       (auto intro: safe_liveLinkedChat simp: stable_def)
  from guardedD(1) [OF this] show ?thesis by (simp add: runChatJob_def)
qed


theorem observed_chats_only_report_witness:
  "list_all (observes demoMachine) (events (runChatJob demoLib demoEnv (demoHandler demoEnv)
     (JobProcess [demoMessage 9 ''casino'' [], demoMessage 9 ''x'' [''photo'']] False)) (startWorld emptyDB))"
  by (rule observed_chats_only_report [where U = demoLib and act = ActionMute and src = demoSources and stage = None and c = "-100"])
     (simp_all add: demoHandler_def NewHandler_def demoMessage_def containsChat_def)

end
