(* ===== verification/Blocklists.thy ===== *)
theory Blocklists
  imports Effects
begin

text \<open>
  \<open>internal/blocklist\<close>: the sorted set and its binary search, the list
  kept by downloads of a full list and of deltas, the parsing of a downloaded
  list, the sources asked in order, and the per-user check against CAS with
  its cache, breaker and limiter. What comes back over HTTP is an argument.
\<close>

section \<open>The set\<close>

text \<open>\<open>None\<close> is a nil receiver.\<close>

type_synonym id_set = "int list option"

text \<open>\<open>slices.Compact\<close>.\<close>

fun Compact :: "'a list \<Rightarrow> 'a list" where
  "Compact [] = []"
| "Compact [x] = [x]"
| "Compact (x # y # zs) = (if x = y then Compact (y # zs) else x # Compact (y # zs))"

definition BuildSet :: "int list list \<Rightarrow> id_set" where
  "BuildSet sources = Some (Compact (sort (concat sources)))"

text \<open>\<open>slices.BinarySearch\<close>: the loop between \<open>i\<close> and \<open>j\<close>.\<close>

function searchFrom :: "int list \<Rightarrow> int \<Rightarrow> nat \<Rightarrow> nat \<Rightarrow> nat" where
  "searchFrom xs target i j =
     (if i < j then
        (let h = (i + j) div 2 in
         if xs ! h < target then searchFrom xs target (h + 1) j else searchFrom xs target i h)
      else i)"
  by auto

termination
  by (relation "measure (\<lambda>(xs, target, i, j). j - i)") auto

definition BinarySearch :: "int list \<Rightarrow> int \<Rightarrow> nat \<times> bool" where
  "BinarySearch xs target =
     (let i = searchFrom xs target 0 (length xs) in (i, i < length xs \<and> xs ! i = target))"

definition setContains :: "id_set \<Rightarrow> int \<Rightarrow> bool" where
  "setContains s x = (case s of None \<Rightarrow> False | Some ids \<Rightarrow> snd (BinarySearch ids x))"

definition setLen :: "id_set \<Rightarrow> nat" where
  "setLen s = (case s of None \<Rightarrow> 0 | Some ids \<Rightarrow> length ids)"

definition setIDs :: "id_set \<Rightarrow> int list" where
  "setIDs s = (case s of None \<Rightarrow> [] | Some ids \<Rightarrow> ids)"

section \<open>The downloaded list\<close>

text \<open>\<open>bufio.ScanLines\<close>: the last line needs no newline, and a trailing
  carriage return is dropped.\<close>

function scanLines :: "str \<Rightarrow> str list" where
  "scanLines t =
     (if t = [] then []
      else takeWhile (\<lambda>r. r \<noteq> 10) t # scanLines (drop 1 (dropWhile (\<lambda>r. r \<noteq> 10) t)))"
  by auto

termination
proof (relation "measure length", goal_cases)
  case (2 t)
  have "length (dropWhile (\<lambda>r. r \<noteq> 10) t) \<le> length t" by (rule length_dropWhile_le)
  moreover have "0 < length t" using 2 by simp
  ultimately have "length (drop 1 (dropWhile (\<lambda>r. r \<noteq> 10) t)) < length t" unfolding length_drop by linarith
  then show ?case by simp
qed simp

declare scanLines.simps [simp del]
declare searchFrom.simps [simp del]

definition dropCR :: "str \<Rightarrow> str" where
  "dropCR l = (if l \<noteq> [] \<and> last l = 13 then butlast l else l)"

text \<open>\<open>strconv.ParseInt\<close> on runes: only ASCII can be a number.\<close>

definition parseID :: "str \<Rightarrow> int option" where
  "parseID l = (if list_all (\<lambda>r. 0 \<le> r \<and> r < 128) l then ParseInt (map (\<lambda>r. char_of (nat r)) l) else None)"

text \<open>\<open>err\<close> is the scanner's: a failed read, or a line longer than its
  buffer.\<close>

definition ParseIDs :: "str \<Rightarrow> goerr option \<Rightarrow> goerr + int list" where
  "ParseIDs t err =
     (case err of
        Some e \<Rightarrow> Inl e
      | None \<Rightarrow>
          Inr (List.map_filter
            (\<lambda>raw. let line = TrimSpace (dropCR raw) in if line = [] then None else parseID line) (scanLines t)))"

datatype fetch_reply = FetchFailed goerr | FetchStatus int | FetchBody str "goerr option"

definition FetchIDs :: "str \<Rightarrow> fetch_reply \<Rightarrow> goerr + int list" where
  "FetchIDs url r =
     (case r of
        FetchFailed e \<Rightarrow> Inl (wrapErr (lit ''blocklist fetch '' @ url @ lit '': '') e [])
      | FetchStatus code \<Rightarrow> Inl (newErr (lit ''blocklist fetch '' @ url @ lit '': status '' @ lit (FormatInt code)))
      | FetchBody t err \<Rightarrow> ParseIDs t err)"

section \<open>The snapshot and its refreshes\<close>

record blocklist =
  bk_snap :: id_set
  bk_lolsFull :: "int list"
  bk_lolsDelta :: "int list"

definition NewBlocklist :: blocklist where
  "NewBlocklist = \<lparr>bk_snap = BuildSet [], bk_lolsFull = [], bk_lolsDelta = []\<rparr>"

definition Swap :: "id_set \<Rightarrow> blocklist \<Rightarrow> blocklist" where
  "Swap s b = b\<lparr>bk_snap := (if s = None then BuildSet [] else s)\<rparr>"

definition Listed :: "blocklist \<Rightarrow> user_id \<Rightarrow> bool" where
  "Listed b userID = (if userID = 0 then False else setContains (bk_snap b) userID)"

definition LenBlocklist :: "blocklist \<Rightarrow> nat" where
  "LenBlocklist b = setLen (bk_snap b)"

definition RefreshFull :: "str \<Rightarrow> goerr + int list \<Rightarrow> blocklist \<Rightarrow> blocklist \<times> goerr option" where
  "RefreshFull url fetched b =
     (case fetched of
        Inl e \<Rightarrow> (b, Some (wrapErr (lit ''lols: '') e []))
      | Inr ids \<Rightarrow>
          if length ids = 0
          then (b, Some (newErr (lit ''lols: empty list from '' @ url @ lit '' (treated as failure)'')))
          else
            (let b1 = b\<lparr>bk_lolsFull := setIDs (BuildSet [ids]), bk_lolsDelta := []\<rparr> in
             (Swap (BuildSet [bk_lolsFull b1]) b1, None)))"

definition RefreshDelta :: "goerr + int list \<Rightarrow> blocklist \<Rightarrow> blocklist \<times> goerr option" where
  "RefreshDelta fetched b =
     (case fetched of
        Inl e \<Rightarrow> (b, Some e)
      | Inr delta \<Rightarrow>
          (let b1 = b\<lparr>bk_lolsDelta := setIDs (BuildSet [bk_lolsDelta b, delta])\<rparr> in
           if length (bk_lolsFull b1) = 0
           then (Swap (BuildSet [setIDs (bk_snap b1), delta]) b1, None)
           else (Swap (BuildSet [bk_lolsFull b1, bk_lolsDelta b1]) b1, None)))"

text \<open>\<open>Run\<close>: the downloads its loop makes, in the order its tickers fire.\<close>

datatype refresh = FullRefresh "goerr + int list" | DeltaRefresh "goerr + int list"

fun refreshWith :: "str \<Rightarrow> refresh \<Rightarrow> blocklist \<Rightarrow> blocklist" where
  "refreshWith url (FullRefresh fetched) b = fst (RefreshFull url fetched b)"
| "refreshWith url (DeltaRefresh fetched) b = fst (RefreshDelta fetched b)"

definition syncRun :: "str \<Rightarrow> goerr + int list \<Rightarrow> refresh list \<Rightarrow> blocklist \<Rightarrow> blocklist" where
  "syncRun url bootstrap rs b = fold (refreshWith url) rs (fst (RefreshFull url bootstrap b))"

section \<open>Sources in order\<close>

text \<open>\<open>None\<close> is a nil source.\<close>

fun anyListed :: "(user_id \<Rightarrow> bool) option list \<Rightarrow> user_id \<Rightarrow> bool" where
  "anyListed [] userID = False"
| "anyListed (src # srcs) userID =
     (case src of
        Some listed \<Rightarrow> if listed userID then True else anyListed srcs userID
      | None \<Rightarrow> anyListed srcs userID)"

section \<open>The CAS check\<close>

text \<open>Times are nanoseconds; the zero time is \<open>None\<close>.\<close>

record cas_config =
  cas_PositiveTTL :: int
  cas_NegativeTTL :: int
  cas_Timeout :: int
  cas_Burst :: int
  cas_MaxEntries :: int

definition casBreakerErrors :: nat where "casBreakerErrors = 3"
definition casBreakerPause :: int where "casBreakerPause = 60 * 1000000000"

record cas_checker =
  ck_cfg :: cas_config
  ck_cache :: "(user_id \<times> (bool \<times> int)) list"
  ck_errors :: nat
  ck_openUntil :: "int option"

definition casHour :: int where "casHour = 3600 * 1000000000"

definition NewCASChecker :: "cas_config \<Rightarrow> cas_checker" where
  "NewCASChecker cfg =
     (let pos = (\<lambda>x d. if x \<le> 0 then d else x) in
      \<lparr>ck_cfg = \<lparr>cas_PositiveTTL = pos (cas_PositiveTTL cfg) (24 * casHour),
                 cas_NegativeTTL = pos (cas_NegativeTTL cfg) (6 * casHour),
                 cas_Timeout = pos (cas_Timeout cfg) (2 * 1000000000),
                 cas_Burst = pos (cas_Burst cfg) 20, cas_MaxEntries = pos (cas_MaxEntries cfg) 100000\<rparr>,
       ck_cache = [], ck_errors = 0, ck_openUntil = None\<rparr>)"

definition beforeOpen :: "int \<Rightarrow> cas_checker \<Rightarrow> bool" where
  "beforeOpen now c = (case ck_openUntil c of None \<Rightarrow> False | Some t \<Rightarrow> now < t)"

text \<open>The first critical section of \<open>Listed\<close>: an answer, or a request to make.
  \<open>done\<close> is whether the context ended, \<open>allowed\<close> the limiter's answer.\<close>

datatype cas_decision = CasAnswer bool "string option" | CasAsk

definition casEnter :: "cas_checker \<Rightarrow> int \<Rightarrow> bool \<Rightarrow> bool \<Rightarrow> user_id \<Rightarrow> cas_decision" where
  "casEnter c now ended allowed userID =
     (if userID \<le> 0 then CasAnswer False None
      else
        (case map_of (ck_cache c) userID of
           Some (listed, expires) \<Rightarrow>
             if now < expires then CasAnswer listed None
             else if ended then CasAnswer False None
             else if beforeOpen now c then CasAnswer False (Some ''breaker_open'')
             else if \<not> allowed then CasAnswer False (Some ''rate_limited'')
             else CasAsk
         | None \<Rightarrow>
             if ended then CasAnswer False None
             else if beforeOpen now c then CasAnswer False (Some ''breaker_open'')
             else if \<not> allowed then CasAnswer False (Some ''rate_limited'')
             else CasAsk))"

text \<open>\<open>check\<close>: what came back. A body is the answer's \<open>ok\<close> field.\<close>

datatype cas_reply = CasFailed goerr | CasStatus int | CasUnreadable goerr | CasTooLong | CasInvalid goerr | CasBody "bool option"

definition casCheck :: "cas_reply \<Rightarrow> goerr + bool" where
  "casCheck r =
     (case r of
        CasFailed e \<Rightarrow> Inl e
      | CasStatus code \<Rightarrow>
          if code = 401 then Inl (newErr (lit ''CAS check: status 401 (API key missing or rejected)''))
          else Inl (newErr (lit ''CAS check: status '' @ lit (FormatInt code)))
      | CasUnreadable e \<Rightarrow> Inl e
      | CasTooLong \<Rightarrow> Inl (newErr (lit ''CAS check: response reached 1048576-byte limit''))
      | CasInvalid e \<Rightarrow> Inl (wrapErr (lit ''CAS check: invalid JSON: '') e [])
      | CasBody None \<Rightarrow> Inl (newErr (lit ''CAS check: missing boolean ok''))
      | CasBody (Some b) \<Rightarrow> Inr b)"

text \<open>The second critical section.\<close>

definition casFailed :: "int \<Rightarrow> cas_checker \<Rightarrow> cas_checker" where
  "casFailed now c =
     (let n = Suc (ck_errors c) in
      c\<lparr>ck_errors := n,
        ck_openUntil := (if n \<ge> casBreakerErrors \<and> \<not> beforeOpen now c then Some (now + casBreakerPause) else ck_openUntil c)\<rparr>)"

definition casPrune :: "int \<Rightarrow> cas_checker \<Rightarrow> (user_id \<times> (bool \<times> int)) list" where
  "casPrune now c =
     (if int (length (ck_cache c)) \<ge> cas_MaxEntries (ck_cfg c)
      then filter (\<lambda>(i, listed, expires). now < expires) (ck_cache c) else ck_cache c)"

definition casStore :: "int \<Rightarrow> user_id \<Rightarrow> bool \<Rightarrow> cas_checker \<Rightarrow> cas_checker" where
  "casStore now userID listed c =
     (let ttl = (if listed then cas_PositiveTTL (ck_cfg c) else cas_NegativeTTL (ck_cfg c));
          kept = casPrune now c in
      c\<lparr>ck_errors := 0, ck_openUntil := None,
        ck_cache := (if map_of kept userID \<noteq> None \<or> int (length kept) < cas_MaxEntries (ck_cfg c)
                     then AList.update userID (listed, now + ttl) kept else kept)\<rparr>)"

definition casFinish :: "int \<Rightarrow> user_id \<Rightarrow> goerr + bool \<Rightarrow> cas_checker \<Rightarrow> cas_checker \<times> bool \<times> string" where
  "casFinish now userID r c =
     (case r of
        Inl e \<Rightarrow> (casFailed now c, False, ''error'')
      | Inr listed \<Rightarrow> (casStore now userID listed c, listed, if listed then ''listed'' else ''clean''))"

text \<open>Callers run at once; a request is out between the two sections.\<close>

datatype cas_step =
    CasEnters int bool bool user_id
  | CasReturns int user_id cas_reply

record cas_world =
  cw_checker :: cas_checker
  cw_asked :: "user_id list"
  cw_replies :: "(user_id \<times> bool \<times> int) list"

fun casStep :: "cas_step \<Rightarrow> cas_world \<Rightarrow> cas_world option" where
  "casStep (CasEnters now ended allowed userID) w =
     (case casEnter (cw_checker w) now ended allowed userID of
        CasAnswer b count \<Rightarrow> Some w
      | CasAsk \<Rightarrow> Some (w\<lparr>cw_asked := cw_asked w @ [userID]\<rparr>))"
| "casStep (CasReturns now userID reply) w =
     (if userID \<in> set (cw_asked w)
      then (case casFinish now userID (casCheck reply) (cw_checker w) of
              (c, b, count) \<Rightarrow>
                Some (w\<lparr>cw_checker := c, cw_asked := remove1 userID (cw_asked w),
                        cw_replies := (case casCheck reply of
                                         Inl e \<Rightarrow> cw_replies w
                                       | Inr listed \<Rightarrow> cw_replies w @ [(userID, listed, now)])\<rparr>))
      else None)"

fun casRun :: "cas_step list \<Rightarrow> cas_world \<Rightarrow> cas_world option" where
  "casRun [] w = Some w"
| "casRun (s # ss) w = (case casStep s w of None \<Rightarrow> None | Some w' \<Rightarrow> casRun ss w')"

end
