(* ===== verification/BlocklistProps.thy ===== *)
theory BlocklistProps
  imports Blocklists "HOL-Library.Multiset"
begin

text \<open>
  The blocklist answers as the union it stands for: the binary search decides
  membership, failed downloads lose nobody, and CAS is quoted only for what it
  said, not for longer than it may be, and with a cache of bounded size.
\<close>

section \<open>The set\<close>

lemma Compact_remdups_adj: "Compact xs = remdups_adj xs"
  by (induction xs rule: Compact.induct) auto

lemma set_Compact [simp]: "set (Compact xs) = set xs"
  by (simp add: Compact_remdups_adj)

lemma sorted_Compact: "sorted xs \<Longrightarrow> sorted_wrt (<) (Compact xs :: int list)"
proof (induction xs rule: Compact.induct)
  case (3 x y zs)
  show ?case
  proof (cases "x = y")
    case False
    then have "\<forall>z \<in> set (y # zs). x < z" using 3(3) by force
    moreover have "sorted_wrt (<) (Compact (y # zs))" using 3(2) [OF False] 3(3) by simp
    ultimately show ?thesis using False by (simp del: set_simps)
  qed (use 3 in auto)
qed auto

lemma searchFrom_least:
  assumes "sorted xs" and "i \<le> j" and "j \<le> length xs"
    and "\<forall>k < i. xs ! k < x" and "\<forall>k. j \<le> k \<and> k < length xs \<longrightarrow> x \<le> xs ! k"
  shows "searchFrom xs x i j \<le> length xs \<and> (\<forall>k < searchFrom xs x i j. xs ! k < x) \<and>
    (\<forall>k. searchFrom xs x i j \<le> k \<and> k < length xs \<longrightarrow> x \<le> xs ! k)"
  using assms
proof (induction xs x i j rule: searchFrom.induct)
  case (1 xs x i j)
  show ?case
  proof (cases "i < j")
    case False
    then have "searchFrom xs x i j = i" by (subst searchFrom.simps) simp
    then show ?thesis using False 1(4-7) by auto
  next
    case True
    let ?h = "(i + j) div 2"
    have h: "i \<le> ?h" "?h < j" using True by auto
    show ?thesis
    proof (cases "xs ! ?h < x")
      case below: True
      have step: "searchFrom xs x i j = searchFrom xs x (?h + 1) j"
        using True below by (subst searchFrom.simps) (simp add: Let_def)
      have "xs ! k < x" if "k < ?h + 1" for k
      proof -
        have "xs ! k \<le> xs ! ?h" using that h 1(5) by (intro sorted_nth_mono [OF 1(3)]) auto
        then show ?thesis using below by linarith
      qed
      then show ?thesis unfolding step using 1(7) h 1(5) by (intro 1(1) [OF True refl below] 1(3)) auto
    next
      case False
      have step: "searchFrom xs x i j = searchFrom xs x i ?h"
        using True False by (subst searchFrom.simps) (simp add: Let_def)
      have "x \<le> xs ! k" if "?h \<le> k" "k < length xs" for k
      proof -
        have "xs ! ?h \<le> xs ! k" using that by (intro sorted_nth_mono [OF 1(3)]) auto
        then show ?thesis using False by linarith
      qed
      then show ?thesis unfolding step using 1(6) h 1(5) by (intro 1(2) [OF True refl False] 1(3)) auto
    qed
  qed
qed

lemma BinarySearch_member:
  assumes "sorted xs"
  shows "snd (BinarySearch xs x) \<longleftrightarrow> x \<in> set xs"
proof -
  let ?i = "searchFrom xs x 0 (length xs)"
  have i: "\<forall>k < ?i. xs ! k < x" "\<forall>k. ?i \<le> k \<and> k < length xs \<longrightarrow> x \<le> xs ! k"
    using searchFrom_least [OF assms, of 0 "length xs" x] by auto
  show ?thesis
  proof
    assume "snd (BinarySearch xs x)"
    then have "?i < length xs" "xs ! ?i = x" by (simp_all add: BinarySearch_def Let_def)
    then show "x \<in> set xs" using nth_mem by metis
  next
    assume "x \<in> set xs"
    then obtain k where k: "k < length xs" "xs ! k = x" by (auto simp: in_set_conv_nth)
    then have le: "?i \<le> k" using i(1) by (metis less_irrefl not_le)
    then have "xs ! ?i \<le> x" using k sorted_nth_mono [OF assms, of ?i k] by simp
    moreover have "x \<le> xs ! ?i" using i(2) le k(1) by auto
    ultimately show "snd (BinarySearch xs x)" using le k(1) by (simp add: BinarySearch_def Let_def)
  qed
qed

lemma setIDs_BuildSet [simp]: "set (setIDs (BuildSet srcs)) = (\<Union>s \<in> set srcs. set s)"
  by (simp add: BuildSet_def setIDs_def)

lemma setContains_BuildSet [simp]: "setContains (BuildSet srcs) x \<longleftrightarrow> (\<exists>s \<in> set srcs. x \<in> set s)"
  using BinarySearch_member [OF strict_sorted_imp_sorted [OF sorted_Compact [OF sorted_sort]]]
  by (simp add: BuildSet_def setContains_def)

text \<open>C36. Looking up an id decides membership: the binary search over the sorted,
  deduplicated concatenation of any lists finds exactly the ids in one of them,
  and the set keeps each of them once, in increasing order.\<close>

theorem lookup_is_membership:
  "(setContains (BuildSet srcs) x \<longleftrightarrow> (\<exists>s \<in> set srcs. x \<in> set s))
     \<and> sorted_wrt (<) (setIDs (BuildSet srcs)) \<and> setLen (BuildSet srcs) = card (\<Union>s \<in> set srcs. set s)"
proof -
  have sorted: "sorted_wrt (<) (setIDs (BuildSet srcs))"
    unfolding BuildSet_def setIDs_def by (simp add: sorted_Compact)
  then have "length (setIDs (BuildSet srcs)) = card (set (setIDs (BuildSet srcs)))"
    by (metis distinct_card strict_sorted_iff)
  moreover have "setLen (BuildSet srcs) = length (setIDs (BuildSet srcs))"
    by (simp add: setLen_def setIDs_def BuildSet_def)
  ultimately show ?thesis using sorted by (simp only: setContains_BuildSet setIDs_BuildSet simp_thms)
qed

section \<open>Refreshing\<close>

text \<open>What the list stands for: the last good full list and the deltas since, the
  deltas alone before the first.\<close>

fun standsFor :: "refresh \<Rightarrow> user_id set \<times> user_id set \<Rightarrow> user_id set \<times> user_id set" where
  "standsFor (FullRefresh (Inl e)) (full, delta) = (full, delta)"
| "standsFor (FullRefresh (Inr ids)) (full, delta) = (if ids = [] then (full, delta) else (set ids, {}))"
| "standsFor (DeltaRefresh (Inl e)) (full, delta) = (full, delta)"
| "standsFor (DeltaRefresh (Inr ids)) (full, delta) = (full, delta \<union> set ids)"

definition represents :: "blocklist \<Rightarrow> user_id set \<times> user_id set \<Rightarrow> bool" where
  "represents b fd \<longleftrightarrow> set (bk_lolsFull b) = fst fd \<and> set (bk_lolsDelta b) = snd fd \<and>
     (\<exists>srcs. bk_snap b = BuildSet srcs \<and> (\<Union>s \<in> set srcs. set s) = fst fd \<union> snd fd)"

lemma represents_New: "represents NewBlocklist ({}, {})"
  by (auto simp: represents_def NewBlocklist_def intro: exI [of _ "[]"])

lemma BuildSet_not_None [simp]: "BuildSet srcs \<noteq> None"
  by (simp add: BuildSet_def)

lemma represents_Swap:
  "set (bk_lolsFull b) = F \<Longrightarrow> set (bk_lolsDelta b) = D \<Longrightarrow> (\<Union>s \<in> set srcs. set s) = F \<union> D \<Longrightarrow>
     represents (Swap (BuildSet srcs) b) (F, D)"
  by (auto simp: represents_def Swap_def)

lemma represents_step: "represents b fd \<Longrightarrow> represents (refreshWith url r b) (standsFor r fd)"
proof (cases "(r, fd)" rule: standsFor.cases)
  case (2 ids full delta)
  then show "represents b fd \<Longrightarrow> ?thesis"
    by (cases "ids = []") (auto simp: RefreshFull_def Let_def intro!: represents_Swap)
next
  case (4 ids full delta)
  assume r: "represents b fd"
  then obtain srcs where s: "bk_snap b = BuildSet srcs" "(\<Union>s \<in> set srcs. set s) = full \<union> delta"
    "set (bk_lolsFull b) = full" "set (bk_lolsDelta b) = delta"
    using 4 by (auto simp: represents_def)
  then have snap: "set (setIDs (bk_snap b)) = full \<union> delta" by simp
  show ?thesis
    using 4 s snap by (cases "bk_lolsFull b = []") (auto simp: RefreshDelta_def Let_def intro!: represents_Swap)
qed (auto simp: RefreshFull_def RefreshDelta_def)

text \<open>C35. The background refresh implements a set: after the bootstrap and any
  sequence of downloads, a user is listed exactly if the last good full list
  or a delta downloaded since names it. A failed download, or a full list that
  came back empty, forgets nobody.\<close>

theorem refreshes_keep_the_union:
  "Listed (syncRun url bootstrap rs NewBlocklist) userID \<longleftrightarrow>
     userID \<noteq> 0 \<and> (case fold standsFor (FullRefresh bootstrap # rs) ({}, {}) of (full, delta) \<Rightarrow> userID \<in> full \<union> delta)"
proof -
  have "represents b fd \<Longrightarrow> represents (fold (refreshWith url) rs b) (fold standsFor rs fd)" for b fd
    by (induction rs arbitrary: b fd) (simp_all add: represents_step)
  then have "represents (syncRun url bootstrap rs NewBlocklist) (fold standsFor (FullRefresh bootstrap # rs) ({}, {}))"
    using represents_step [OF represents_New, of url "FullRefresh bootstrap"] by (simp add: syncRun_def)
  then obtain srcs where srcs: "bk_snap (syncRun url bootstrap rs NewBlocklist) = BuildSet srcs"
    "(\<Union>s \<in> set srcs. set s) = (case fold standsFor (FullRefresh bootstrap # rs) ({}, {}) of (full, delta) \<Rightarrow> full \<union> delta)"
    by (auto simp: represents_def split: prod.split)
  have "(\<exists>s \<in> set srcs. userID \<in> set s) = (userID \<in> (\<Union>s \<in> set srcs. set s))" by simp
  then show ?thesis unfolding srcs(2) by (simp add: Listed_def srcs(1) split: prod.split)
qed


section \<open>Reading a downloaded list\<close>

lemma scanLines_lines: "\<forall>l \<in> set ls. 10 \<notin> set l \<Longrightarrow> scanLines (concat (map (\<lambda>l. l @ [10]) ls)) = ls"
proof (induction ls)
  case Nil
  then show ?case by (simp add: scanLines.simps)
next
  case (Cons l ls)
  let ?rest = "concat (map (\<lambda>l. l @ [10]) ls)"
  have "10 \<notin> set l" using Cons.prems by simp
  then have "takeWhile (\<lambda>r. r \<noteq> 10) (l @ 10 # ?rest) = l" "dropWhile (\<lambda>r. r \<noteq> 10) (l @ 10 # ?rest) = 10 # ?rest"
    by (subst takeWhile_append2 dropWhile_append2; auto)+
  then show ?case using Cons by (simp add: scanLines.simps [of "l @ 10 # ?rest"])
qed

text \<open>A line of a download: an id between blanks, or a comment.\<close>

definition lineOf :: "str \<times> int option \<times> str \<Rightarrow> str" where
  "lineOf l = (case l of (pre, v, post) \<Rightarrow> (case v of Some i \<Rightarrow> pre @ lit (FormatInt i) @ post | None \<Rightarrow> pre @ 35 # post))"

definition lineOK :: "str \<times> int option \<times> str \<Rightarrow> bool" where
  "lineOK l \<longleftrightarrow> (case l of (pre, v, post) \<Rightarrow>
     (\<forall>r \<in> set pre. isSpace r \<and> r \<noteq> 10) \<and> 10 \<notin> set post \<and>
     (case v of Some i \<Rightarrow> inInt64 i \<and> (\<forall>r \<in> set post. isSpace r) | None \<Rightarrow> True))"

lemma FormatInt_runes:
  assumes "r \<in> set (lit (FormatInt i) :: str)"
  shows "\<not> isSpace r" "0 \<le> r \<and> r < 128" "r \<noteq> 10"
proof -
  obtain c where c: "r = of_char c" "c = CHR ''-'' \<or> isDigitChar c" using assms FormatInt_chars by auto
  have "r = int (of_char c :: nat)" by (simp add: c(1) of_nat_of_char)
  then have "r = 45 \<or> (48 \<le> r \<and> r \<le> 57)" using c by (auto simp: isDigitChar_def)
  then show "\<not> isSpace r" "0 \<le> r \<and> r < 128" "r \<noteq> 10" by (auto simp: isSpace_def)
qed

lemma parseID_FormatInt: "inInt64 i \<Longrightarrow> parseID (lit (FormatInt i)) = Some i"
proof -
  assume i: "inInt64 i"
  have "list_all (\<lambda>r. 0 \<le> r \<and> r < 128) (lit (FormatInt i) :: str)" using FormatInt_runes(2) by (simp only: list_all_iff) blast
  moreover have "(\<lambda>c. char_of (nat (of_char c :: int))) = (\<lambda>c :: char. c)"
    by (rule ext) (metis of_nat_of_char nat_int char_of_char)
  ultimately show ?thesis using ParseInt_FormatInt [OF i] by (simp add: parseID_def comp_def)
qed

lemma TrimSpace_pad:
  assumes "\<forall>r \<in> set pre. isSpace r" and "core \<noteq> []" and "\<not> isSpace (hd core)" and "\<not> isSpace (last core)"
    and "\<forall>r \<in> set post. isSpace r"
  shows "TrimSpace (pre @ core @ post) = core"
proof -
  have "dropWhile isSpace (pre @ core @ post) = core @ post"
    using assms(1-3) dropWhile_id_if [of "core @ post" isSpace] by (simp add: dropWhile_append2)
  moreover have "dropWhile isSpace (rev (core @ post)) = rev core"
  proof -
    have "dropWhile isSpace (rev post @ rev core) = dropWhile isSpace (rev core)"
      by (rule dropWhile_append2) (use assms(5) in simp)
    then show ?thesis using assms(2,4) dropWhile_id_if [of "rev core" isSpace] by (simp add: hd_rev)
  qed
  ultimately show ?thesis by (simp add: TrimSpace_def TrimLeft_def TrimRight_def)
qed


lemma dropWhile_append_if: "dropWhile p (xs @ ys) = (if \<forall>x \<in> set xs. p x then dropWhile p ys else dropWhile p xs @ ys)"
  by (auto simp: dropWhile_append1 dropWhile_append2)

lemma TrimSpace_dropCR: "TrimSpace (dropCR l) = TrimSpace l"
proof (cases "l \<noteq> [] \<and> last l = 13")
  case True
  then obtain xs where l: "l = xs @ [13]" by (metis append_butlast_last_id)
  have "isSpace 13" by (simp add: isSpace_def)
  then show ?thesis
    by (auto simp: l dropCR_def TrimSpace_def TrimLeft_def TrimRight_def dropWhile_append_if dropWhile_eq_Nil_conv
        dest: set_dropWhileD)
qed (auto simp: dropCR_def)

lemma parse_comment:
  assumes "\<forall>r \<in> set pre. isSpace r"
  shows "\<exists>t. TrimSpace (pre @ 35 # post) = 35 # t"
proof -
  have "\<not> isSpace 35" by (simp add: isSpace_def)
  then have "dropWhile isSpace (pre @ 35 # post) = 35 # post" "\<exists>t. dropWhile isSpace (rev (35 # post)) = t @ [35]"
    using assms by (auto simp: dropWhile_append_if)
  then obtain t where "dropWhile isSpace (pre @ 35 # post) = 35 # post" "dropWhile isSpace (rev (35 # post)) = t @ [35]" by blast
  then show ?thesis by (intro exI [of _ "rev t"]) (simp add: TrimSpace_def TrimLeft_def TrimRight_def)
qed

lemma char_of_hash: "char_of (35 :: nat) = CHR ''#''"
  by code_simp

lemma parseID_comment: "parseID (35 # t) = None"
  by (simp add: char_of_hash parseID_def ParseInt_def ParseNat_def isDigitChar_def)

lemma lineOf_value:
  assumes "lineOK l"
  shows "(let line = TrimSpace (dropCR (lineOf l)) in if line = [] then None else parseID line) = fst (snd l)"
proof -
  obtain pre v post where l: "l = (pre, v, post)" by (cases l)
  show ?thesis
  proof (cases v)
    case None
    then obtain t where "TrimSpace (pre @ 35 # post) = 35 # t" using parse_comment [of pre post] assms by (auto simp: l lineOK_def)
    then show ?thesis by (simp add: l None lineOf_def TrimSpace_dropCR parseID_comment)
  next
    case (Some i)
    have ends: "\<not> isSpace (hd (lit (FormatInt i)))" "\<not> isSpace (last (lit (FormatInt i)))"
      by (rule FormatInt_runes, rule hd_in_set, simp) (rule FormatInt_runes, rule last_in_set, simp)
    have "TrimSpace (pre @ lit (FormatInt i) @ post) = lit (FormatInt i)"
      by (rule TrimSpace_pad) (use assms ends in \<open>auto simp: l Some lineOK_def\<close>)
    then show ?thesis using assms by (simp add: l Some lineOf_def TrimSpace_dropCR parseID_FormatInt lineOK_def)
  qed
qed

lemma lineOf_one_line: "lineOK l \<Longrightarrow> 10 \<notin> set (lineOf l)"
  using FormatInt_runes(3) by (auto simp: lineOf_def lineOK_def split: prod.splits option.splits)

lemma map_filter_map_eq: "(\<And>x. x \<in> set ls \<Longrightarrow> f (g x) = h x) \<Longrightarrow> List.map_filter f (map g ls) = List.map_filter h ls"
  by (induction ls) (auto simp: List.map_filter_simps split: option.split)

text \<open>C37. A published list is read back: whatever ids are written one per line, in
  decimal, with blanks or carriage returns around them and comments between
  them, exactly these ids come out, in order.\<close>

theorem published_lists_are_read_back:
  assumes "\<forall>l \<in> set ls. lineOK l"
  shows "FetchIDs url (FetchBody (concat (map (\<lambda>l. lineOf l @ [10]) ls)) None) = Inr (List.map_filter (fst \<circ> snd) ls)"
proof -
  have "scanLines (concat (map (\<lambda>l. l @ [10]) (map lineOf ls))) = map lineOf ls"
    by (rule scanLines_lines) (use assms lineOf_one_line in auto)
  moreover have "List.map_filter (\<lambda>raw. let line = TrimSpace (dropCR raw) in if line = [] then None else parseID line) (map lineOf ls)
      = List.map_filter (fst \<circ> snd) ls"
    by (rule map_filter_map_eq) (use assms lineOf_value in \<open>simp del: Let_def\<close>)
  ultimately show ?thesis by (simp add: FetchIDs_def ParseIDs_def comp_def del: Let_def)
qed

theorem published_lists_are_read_back_witness:
  "FetchIDs [] (FetchBody (lit ''# spammers'' @ [10] @ lit '' -42 '' @ [13, 10] @ lit ''7'' @ [10]) None) = Inr [-42, 7]"
proof -
  have "FormatInt (-42) = ''-42''" "FormatInt 7 = ''7''" by code_simp+
  then show ?thesis
    using published_lists_are_read_back [of "[([], None, lit '' spammers''), (lit '' '', Some (-42), lit '' '' @ [13]), ([], Some 7, [])]" "[]"]
    by (simp add: lineOK_def lineOf_def isSpace_def inInt64_def List.map_filter_simps)
qed


section \<open>CAS\<close>

definition startCAS :: "cas_config \<Rightarrow> cas_world" where
  "startCAS cfg = \<lparr>cw_checker = NewCASChecker cfg, cw_asked = [], cw_replies = []\<rparr>"

definition ttlOf :: "cas_config \<Rightarrow> bool \<Rightarrow> int" where
  "ttlOf cfg listed = (if listed then cas_PositiveTTL cfg else cas_NegativeTTL cfg)"

definition casInv :: "cas_config \<Rightarrow> cas_world \<Rightarrow> bool" where
  "casInv cfg w \<longleftrightarrow>
     (let c = cw_checker w in
      ck_cfg c = cfg \<and> int (length (ck_cache c)) \<le> cas_MaxEntries cfg \<and> distinct (map fst (ck_cache c)) \<and>
      (\<forall>(u, b, ex) \<in> set (ck_cache c). \<exists>t. (u, b, t) \<in> set (cw_replies w) \<and> ex = t + ttlOf cfg b))"

lemma casInv_start: "casInv (ck_cfg (NewCASChecker cfg)) (startCAS cfg)"
  by (simp add: casInv_def startCAS_def NewCASChecker_def Let_def)

lemma set_casPrune: "set (casPrune now c) \<subseteq> set (ck_cache c)"
  by (auto simp: casPrune_def)

lemma casPrune_sub: "distinct (map fst (ck_cache c)) \<Longrightarrow> distinct (map fst (casPrune now c))"
  "length (casPrune now c) \<le> length (ck_cache c)"
  by (auto simp: casPrune_def distinct_map_filter)

lemma casStore_facts:
  assumes "int (length (ck_cache c)) \<le> cas_MaxEntries (ck_cfg c)" and "distinct (map fst (ck_cache c))"
  shows "ck_cfg (casStore now u b c) = ck_cfg c"
    and "int (length (ck_cache (casStore now u b c))) \<le> cas_MaxEntries (ck_cfg c)"
    and "distinct (map fst (ck_cache (casStore now u b c)))"
    and "e \<in> set (ck_cache (casStore now u b c)) \<Longrightarrow> e \<in> set (ck_cache c) \<or> e = (u, b, now + ttlOf (ck_cfg c) b)"
proof -
  let ?kept = "casPrune now c"
  have kept: "distinct (map fst ?kept)" "length ?kept \<le> length (ck_cache c)" using casPrune_sub assms(2) by auto
  show "ck_cfg (casStore now u b c) = ck_cfg c" by (simp add: casStore_def Let_def)
  show "int (length (ck_cache (casStore now u b c))) \<le> cas_MaxEntries (ck_cfg c)"
    using assms(1) kept(2) by (auto simp: casStore_def Let_def length_update)
  show "distinct (map fst (ck_cache (casStore now u b c)))"
    using kept(1) by (simp add: casStore_def Let_def distinct_update)
  show "e \<in> set (ck_cache (casStore now u b c)) \<Longrightarrow> e \<in> set (ck_cache c) \<or> e = (u, b, now + ttlOf (ck_cfg c) b)"
    using set_casPrune [of now c] set_update_subset [of u "(b, now + ttlOf (ck_cfg c) b)" ?kept]
    by (auto simp: casStore_def Let_def ttlOf_def split: if_splits)
qed


lemma casInv_step:
  assumes inv: "casInv cfg w" and step: "casStep s w = Some w'"
  shows "casInv cfg w'"
proof (cases s)
  case (CasEnters now ended allowed u)
  then show ?thesis using inv step by (auto simp: casInv_def Let_def split: cas_decision.splits)
next
  case (CasReturns now u reply)
  let ?c = "cw_checker w"
  have c: "ck_cfg ?c = cfg" "int (length (ck_cache ?c)) \<le> cas_MaxEntries cfg" "distinct (map fst (ck_cache ?c))"
    "\<And>u b ex. (u, b, ex) \<in> set (ck_cache ?c) \<Longrightarrow> \<exists>t. (u, b, t) \<in> set (cw_replies w) \<and> ex = t + ttlOf cfg b"
    using inv by (auto simp: casInv_def Let_def)
  show ?thesis
  proof (cases "casCheck reply")
    case (Inl e)
    then have w': "cw_checker w' = casFailed now ?c" "cw_replies w' = cw_replies w"
      using step by (auto simp: CasReturns casFinish_def split: if_splits)
    have "ck_cfg (casFailed now ?c) = ck_cfg ?c" "ck_cache (casFailed now ?c) = ck_cache ?c"
      by (simp_all add: casFailed_def Let_def)
    then show ?thesis using inv by (simp add: casInv_def Let_def w')
  next
    case (Inr b)
    then have w': "cw_checker w' = casStore now u b ?c" "cw_replies w' = cw_replies w @ [(u, b, now)]"
      using step by (auto simp: CasReturns casFinish_def split: if_splits)
    note facts = casStore_facts [of ?c, unfolded c(1), OF c(2,3), where now = now and u = u and b = b]
    have "\<exists>t. (u', b', t) \<in> set (cw_replies w') \<and> ex = t + ttlOf cfg b'" if "(u', b', ex) \<in> set (ck_cache (casStore now u b ?c))" for u' b' ex
      using facts(4) [OF that] c(4) [of u' b' ex] by (auto simp: w')
    then show ?thesis using facts(1-3) by (auto simp: casInv_def Let_def w'(1))
  qed
qed

lemma casInv_run: "casInv cfg w \<Longrightarrow> casRun ss w = Some w' \<Longrightarrow> casInv cfg w'"
  by (induction ss arbitrary: w) (auto split: option.splits dest: casInv_step)

lemma casEnter_listed:
  assumes "casEnter c now ended allowed u = CasAnswer True metric"
  shows "\<exists>ex. (u, True, ex) \<in> set (ck_cache c) \<and> now < ex"
  using assms by (auto simp: casEnter_def dest: map_of_SomeD split: if_splits option.splits prod.splits)

text \<open>C38. CAS is quoted only for what it said: whatever requests run at once,
  fail or time out, a user is reported listed without asking only if CAS
  answered so for that user less than the time to live ago; and the cache
  never holds more users than configured.\<close>

theorem cas_answers_are_quoted:
  assumes "casRun ss (startCAS cfg) = Some w" and "cfg' = ck_cfg (NewCASChecker cfg)"
  shows "int (length (ck_cache (cw_checker w))) \<le> cas_MaxEntries cfg' \<and>
    (casEnter (cw_checker w) now ended allowed u = CasAnswer True metric \<longrightarrow>
      (\<exists>t. (u, True, t) \<in> set (cw_replies w) \<and> now < t + cas_PositiveTTL cfg'))"
proof -
  have inv: "casInv cfg' w" using casInv_run [OF casInv_start assms(1)] assms(2) by simp
  have "\<exists>t. (u, True, t) \<in> set (cw_replies w) \<and> now < t + cas_PositiveTTL cfg'"
    if "casEnter (cw_checker w) now ended allowed u = CasAnswer True metric"
    using casEnter_listed [OF that] inv by (force simp: casInv_def Let_def ttlOf_def)
  then show ?thesis using inv by (simp add: casInv_def Let_def)
qed

definition demoCAS :: cas_config where
  "demoCAS = \<lparr>cas_PositiveTTL = 0, cas_NegativeTTL = 0, cas_Timeout = 0, cas_Burst = 0, cas_MaxEntries = 1\<rparr>"

definition demoCASRun :: "cas_step list" where
  "demoCASRun = [CasEnters 10 False True 42, CasEnters 11 False True 43, CasReturns 12 42 (CasBody (Some True)),
     CasReturns 13 43 (CasBody (Some False))]"

theorem cas_answers_are_quoted_witness:
  "\<exists>w. casRun demoCASRun (startCAS demoCAS) = Some w \<and> casEnter (cw_checker w) 20 True False 42 = CasAnswer True None \<and>
     (\<exists>t. (42, True, t) \<in> set (cw_replies w) \<and> 20 < t + 24 * casHour)"
proof -
  let ?w = "the (casRun demoCASRun (startCAS demoCAS))"
  have run: "casRun demoCASRun (startCAS demoCAS) = Some ?w"
    by (simp add: demoCASRun_def startCAS_def NewCASChecker_def demoCAS_def casEnter_def casFinish_def casCheck_def
        casStore_def casPrune_def casHour_def beforeOpen_def)
  have hit: "casEnter (cw_checker ?w) 20 True False 42 = CasAnswer True None"
    by (simp add: demoCASRun_def startCAS_def NewCASChecker_def demoCAS_def casEnter_def casFinish_def casCheck_def
        casStore_def casPrune_def casHour_def beforeOpen_def)
  have ttl: "cas_PositiveTTL (ck_cfg (NewCASChecker demoCAS)) = 24 * casHour"
    by (simp add: NewCASChecker_def demoCAS_def)
  show ?thesis
    using cas_answers_are_quoted [OF run refl, of 20 True False 42 None] run hit ttl by auto
qed

text \<open>A broken CAS is left alone: the failure that completes a streak opens the
  breaker, and until the pause is over no request is sent by whatever callers,
  as long as no request still out succeeds.\<close>

theorem a_broken_cas_is_left_alone:
  assumes "Suc (ck_errors (cw_checker w)) \<ge> casBreakerErrors" and "\<not> beforeOpen t (cw_checker w)"
    and "casCheck r = Inl e" and "casStep (CasReturns t u r) w = Some w1" and "casRun steps w1 = Some w2"
    and "\<forall>s \<in> set steps. case s of CasEnters now _ _ _ \<Rightarrow> now < t + casBreakerPause
           | CasReturns now _ reply \<Rightarrow> (\<exists>e. casCheck reply = Inl e)"
  shows "mset (cw_asked w2) \<subseteq># mset (cw_asked w1)"
proof -
  define opened :: "cas_world \<Rightarrow> bool"
    where "opened w \<longleftrightarrow> (\<exists>T. ck_openUntil (cw_checker w) = Some T \<and> t + casBreakerPause \<le> T)" for w
  have "opened w1" using assms(1-4) by (auto simp: opened_def casFinish_def casFailed_def split: if_splits)
  moreover have "opened w \<Longrightarrow> casRun steps w = Some w' \<Longrightarrow> mset (cw_asked w') \<subseteq># mset (cw_asked w)" for w w'
    using assms(6)
  proof (induction steps arbitrary: w)
    case (Cons s ss)
    then obtain w1 where w1: "casStep s w = Some w1" "casRun ss w1 = Some w'" by (auto split: option.splits)
    obtain T where T: "ck_openUntil (cw_checker w) = Some T" "t + casBreakerPause \<le> T" using Cons.prems(1) by (auto simp: opened_def)
    have "opened w1 \<and> mset (cw_asked w1) \<subseteq># mset (cw_asked w)"
    proof (cases s)
      case (CasEnters now ended allowed v)
      then have "now < T" using Cons.prems(3) T(2) by simp
      then have "casEnter (cw_checker w) now ended allowed v \<noteq> CasAsk"
        by (auto simp: casEnter_def beforeOpen_def T(1) split: option.split)
      then show ?thesis using w1(1) Cons.prems(1) CasEnters by (auto split: cas_decision.splits)
    next
      case (CasReturns now v reply)
      then obtain e where e: "casCheck reply = Inl e" using Cons.prems(3) by auto
      have "casFailed now (cw_checker w) = (cw_checker w)\<lparr>ck_errors := Suc (ck_errors (cw_checker w)),
          ck_openUntil := Some (if Suc (ck_errors (cw_checker w)) \<ge> casBreakerErrors \<and> \<not> now < T then now + casBreakerPause else T)\<rparr>"
        by (simp add: casFailed_def Let_def beforeOpen_def T(1))
      then have "opened w1" using w1(1) T(2) by (auto simp: CasReturns casFinish_def e opened_def casBreakerPause_def split: if_splits)
      then show ?thesis using w1(1) by (auto simp: CasReturns split: if_splits prod.splits)
    qed
    then show ?case using Cons.IH [OF _ w1(2)] Cons.prems(3) by (meson list.set_intros(2) subset_mset.order_trans)
  qed simp
  ultimately show ?thesis using assms(5) by blast
qed


definition failingCAS :: cas_world where
  "failingCAS = \<lparr>cw_checker = (NewCASChecker demoCAS)\<lparr>ck_errors := 2\<rparr>, cw_asked = [1, 2], cw_replies = []\<rparr>"

theorem a_broken_cas_is_left_alone_witness:
  "\<exists>w1 w2. casStep (CasReturns 50 1 (CasStatus 401)) failingCAS = Some w1 \<and>
     casRun [CasEnters 100 False True 5, CasReturns 101 2 (CasStatus 500)] w1 = Some w2 \<and> mset (cw_asked w2) \<subseteq># mset (cw_asked w1)"
proof -
  let ?w1 = "the (casStep (CasReturns 50 1 (CasStatus 401)) failingCAS)"
  let ?w2 = "the (casRun [CasEnters 100 False True 5, CasReturns 101 2 (CasStatus 500)] ?w1)"
  note eval = failingCAS_def NewCASChecker_def demoCAS_def casEnter_def casFinish_def casCheck_def casFailed_def
    casHour_def beforeOpen_def casBreakerErrors_def casBreakerPause_def
  have 1: "casStep (CasReturns 50 1 (CasStatus 401)) failingCAS = Some ?w1" by (simp add: eval)
  have 2: "casRun [CasEnters 100 False True 5, CasReturns 101 2 (CasStatus 500)] ?w1 = Some ?w2" by (simp add: eval)
  have "mset (cw_asked ?w2) \<subseteq># mset (cw_asked ?w1)"
    by (rule a_broken_cas_is_left_alone [OF _ _ _ 1 2, where e = "newErr (lit ''CAS check: status 401 (API key missing or rejected)'')"])
       (simp_all add: eval)
  then show ?thesis using 1 2 by blast
qed

end
