(* ===== verification/Watchers.thy ===== *)
theory Watchers
  imports Adapter Captcha FakeAdmin
begin

text \<open>
  The watchers of updates that are not messages: \<open>internal/watch/member.go\<close>,
  \<open>reaction.go\<close>, \<open>welcome.go\<close>, the events of \<open>internal/telegram/join.go\<close>
  and the jobs of \<open>cmd/tg-antispam/chatmember.go\<close> that feed them. A greeting is
  decided in the chat's job and sent by a goroutine of its own, so its
  critical sections are also given as labelled steps.
\<close>

section \<open>Chat members\<close>

text \<open>The library's tagged union: the type, and the variant it selects when that is
  present; \<open>mv_User\<close> is \<open>None\<close> for a nil user.\<close>

record member_variant =
  mv_User :: "tg_user option"
  mv_Status :: string
  mv_CustomTitle :: str
  mv_IsMember :: bool

record chat_member =
  cm_Type :: string
  cm_Variant :: "member_variant option"

record member_updated =
  mu_ChatID :: chat_id
  mu_FromID :: user_id
  mu_Old :: chat_member
  mu_New :: chat_member
  mu_ViaJoinRequest :: bool

definition memberFromUser :: "tg_user \<Rightarrow> string \<Rightarrow> member" where
  "memberFromUser u status = \<lparr>mb_UserID = tu_ID u, mb_Status = status, mb_Username = tu_Username u,
     mb_DisplayName = tu_FirstName u, mb_CustomTitle = []\<rparr>"

definition zeroUser :: tg_user where
  "zeroUser = \<lparr>tu_ID = 0, tu_IsBot = False, tu_Username = [], tu_FirstName = []\<rparr>"

definition memberFromChatMember :: "chat_member \<Rightarrow> member" where
  "memberFromChatMember cm =
     (let zero = \<lparr>mb_UserID = 0, mb_Status = cm_Type cm, mb_Username = [], mb_DisplayName = [], mb_CustomTitle = []\<rparr> in
      case cm_Variant cm of
        None \<Rightarrow> zero
      | Some v \<Rightarrow>
          if cm_Type cm = ''creator'' then
            (case mv_User v of
               None \<Rightarrow> zero
             | Some u \<Rightarrow> (memberFromUser u (mv_Status v))\<lparr>mb_CustomTitle := mv_CustomTitle v\<rparr>)
          else if cm_Type cm = ''administrator'' then
            (memberFromUser (case mv_User v of None \<Rightarrow> zeroUser | Some u \<Rightarrow> u) (mv_Status v))\<lparr>mb_CustomTitle := mv_CustomTitle v\<rparr>
          else if cm_Type cm \<in> {''member'', ''restricted'', ''left'', ''kicked''} then
            (case mv_User v of None \<Rightarrow> zero | Some u \<Rightarrow> memberFromUser u (mv_Status v))
          else zero)"

definition memberWasOut :: "chat_member \<Rightarrow> bool" where
  "memberWasOut cm =
     (if cm_Type cm = ''left'' \<or> cm_Type cm = ''kicked'' then True
      else if cm_Type cm = ''restricted'' then (case cm_Variant cm of None \<Rightarrow> False | Some v \<Rightarrow> \<not> mv_IsMember v)
      else False)"

definition memberIsIn :: "chat_member \<Rightarrow> bool" where
  "memberIsIn cm =
     (if cm_Type cm = ''member'' then (case cm_Variant cm of None \<Rightarrow> False | Some v \<Rightarrow> mv_User v \<noteq> None)
      else if cm_Type cm = ''restricted'' then
        (case cm_Variant cm of None \<Rightarrow> False | Some v \<Rightarrow> mv_User v \<noteq> None \<and> mv_IsMember v)
      else False)"

definition incomingUser :: "chat_member \<Rightarrow> tg_user option" where
  "incomingUser cm =
     (if cm_Type cm = ''member'' \<or> cm_Type cm = ''restricted'' then
        (case cm_Variant cm of None \<Rightarrow> None | Some v \<Rightarrow> mv_User v)
      else None)"

definition JoinFromChatMemberUpdated :: "member_updated \<Rightarrow> join_event option" where
  "JoinFromChatMemberUpdated u =
     (if \<not> memberWasOut (mu_Old u) \<or> \<not> memberIsIn (mu_New u) then None
      else (case incomingUser (mu_New u) of
              None \<Rightarrow> None
            | Some user \<Rightarrow>
                if tu_IsBot user \<or> tu_ID user = 0 then None
                else Some \<lparr>je_ChatID = mu_ChatID u, je_UserID = tu_ID user, je_ViaJoinRequest = mu_ViaJoinRequest u,
                           je_Restricted = (cm_Type (mu_New u) = ''restricted'')\<rparr>))"

definition MemberChangeFromUpdate :: "member_updated \<Rightarrow> member_change option" where
  "MemberChangeFromUpdate u =
     (let mem = memberFromChatMember (mu_New u) in
      if mb_UserID mem = 0 then None
      else Some \<lparr>mg_ChatID = mu_ChatID u, mg_UserID = mb_UserID mem, mg_ActorID = mu_FromID u\<rparr>)"

record tg_join_request =
  rq_ChatID :: chat_id
  rq_From :: tg_user
  rq_UserChatID :: chat_id

definition JoinRequestFromUpdate :: "tg_join_request \<Rightarrow> join_request option" where
  "JoinRequestFromUpdate r =
     (if tu_IsBot (rq_From r) \<or> tu_ID (rq_From r) = 0 \<or> rq_UserChatID r = 0 then None
      else Some \<lparr>jr_ChatID = rq_ChatID r, jr_UserID = tu_ID (rq_From r), jr_UserChatID = rq_UserChatID r,
                 jr_DisplayName = tu_FirstName (rq_From r)\<rparr>)"

section \<open>Renames\<close>

record member_event =
  me_ChatID :: chat_id
  me_UserID :: user_id
  me_Username :: str
  me_DisplayName :: str

text \<open>\<open>mw_Admins\<close> is the administrators' source, when there is one; \<open>quote\<close> below
  is Go's \<open>%q\<close>.\<close>

record member_watcher =
  mw_Admins :: "(chat_id \<Rightarrow> (admin_identity list \<times> goerr option) act) option"
  mw_AdminChatID :: chat_id
  mw_MaxDistance :: int
  mw_Enabled :: bool

definition matchAdmin :: "golib \<Rightarrow> str \<Rightarrow> str \<Rightarrow> admin_identity \<Rightarrow> int \<Rightarrow> str option" where
  "matchAdmin U newUsername newDisplay a maxDistance =
     first (\<lambda>f. f \<noteq> [] \<and> (newUsername \<noteq> [] \<and> LevenshteinWithin newUsername (ToLower U f) maxDistance
                        \<or> newDisplay \<noteq> [] \<and> LevenshteinWithin newDisplay (ToLower U f) maxDistance))
       [ad_Username a, ad_DisplayName a, ad_CustomTitle a]"

fun renameMatch :: "golib \<Rightarrow> member_event \<Rightarrow> int \<Rightarrow> admin_identity list \<Rightarrow> str option" where
  "renameMatch U e maxDistance [] = None"
| "renameMatch U e maxDistance (a # admins) =
     (if ad_UserID a \<noteq> 0 \<and> ad_UserID a = me_UserID e then renameMatch U e maxDistance admins
      else (case matchAdmin U (ToLower U (me_Username e)) (ToLower U (me_DisplayName e)) a maxDistance of
              None \<Rightarrow> renameMatch U e maxDistance admins
            | Some label \<Rightarrow> Some label))"

definition renameNotice :: "(str \<Rightarrow> str) \<Rightarrow> member_event \<Rightarrow> str \<Rightarrow> str \<Rightarrow> str \<Rightarrow> admin_message" where
  "renameNotice quote e prevU prevD label =
     \<lparr>am_Text = lit ''possible admin impersonation in chat '' @ lit (FormatInt (me_ChatID e)) @ lit '': user ''
        @ lit (FormatInt (me_UserID e)) @ lit '' renamed to '' @ quote (me_Username e) @ lit ''/'' @ quote (me_DisplayName e)
        @ lit '' (was '' @ quote prevU @ lit ''/'' @ quote prevD @ lit ''), matches admin '' @ quote label,
      am_IncidentKey = [], am_SourceChatID = me_ChatID e, am_CopiedFromChatID = 0, am_CopyMessageIDs = [], am_Buttons = []\<rparr>"

definition ObserveMember :: "golib \<Rightarrow> (str \<Rightarrow> str) \<Rightarrow> env \<Rightarrow> member_watcher \<Rightarrow> member_event \<Rightarrow> goerr option act" where
  "ObserveMember U quote E w e = do {
     r \<leftarrow> store E ''UpsertIdentity'' (me_UserID e)
       (\<lambda>now. UpsertIdentity (me_ChatID e) (me_UserID e) (me_Username e) (me_DisplayName e));
     case r of
       Inl err \<Rightarrow> State_Monad.return (Some err)
     | Inr (prevU, prevD, changed) \<Rightarrow>
         if \<not> mw_Enabled w \<or> \<not> changed then State_Monad.return None
         else (case mw_Admins w of
                 None \<Rightarrow> State_Monad.return None
               | Some src \<Rightarrow> do {
                   al \<leftarrow> src (me_ChatID e);
                   case al of
                     (admins, err) \<Rightarrow>
                       (case err of
                          Some er \<Rightarrow>
                            if length admins = 0
                            then State_Monad.return (Some (wrapErr (lit ''get chat administrators: '') er []))
                            else (case renameMatch U e (mw_MaxDistance w) admins of
                                    None \<Rightarrow> State_Monad.return None
                                  | Some label \<Rightarrow> do {
                                      _ \<leftarrow> call E (SendAdmin (mw_AdminChatID w) (renameNotice quote e prevU prevD label));
                                      State_Monad.return None })
                        | None \<Rightarrow>
                            (case renameMatch U e (mw_MaxDistance w) admins of
                               None \<Rightarrow> State_Monad.return None
                             | Some label \<Rightarrow> do {
                                 _ \<leftarrow> call E (SendAdmin (mw_AdminChatID w) (renameNotice quote e prevU prevD label));
                                 State_Monad.return None }))
                 })
   }"

section \<open>Reactions\<close>

record reaction_event =
  rc_ChatID :: chat_id
  rc_MessageID :: message_id
  rc_UserID :: user_id
  rc_Added :: bool

definition ObserveReaction :: "env \<Rightarrow> bool \<Rightarrow> reaction_event \<Rightarrow> goerr option act" where
  "ObserveReaction E enabled e =
     (if \<not> enabled \<or> \<not> rc_Added e \<or> rc_UserID e = 0 then State_Monad.return None
      else do {
        known \<leftarrow> query E (\<lambda>db. Some (HasSpamIncident (rc_ChatID e) (rc_UserID e) db));
        case known of
          Inl err \<Rightarrow> State_Monad.return (Some err)
        | Inr b \<Rightarrow>
            if \<not> b then State_Monad.return None
            else do {
              r \<leftarrow> call E (DeleteMessageReaction (rc_ChatID e) (rc_MessageID e) (rc_UserID e));
              State_Monad.return (pr_err r)
            }
      })"

section \<open>The greeting's window\<close>

datatype welcome_outcome = SkipNotAdmitted | SkipDisabled | SkipChatDisabled | SkipBlocklisted | SkipKnown | SkipRateCapped
  | OutcomeSent | OutcomeError | OutcomeQueued

definition outcomeText :: "welcome_outcome \<Rightarrow> string" where
  "outcomeText out = (case out of
       SkipNotAdmitted \<Rightarrow> ''skip_not_admitted'' | SkipDisabled \<Rightarrow> ''skip_disabled'' | SkipChatDisabled \<Rightarrow> ''skip_chat_disabled''
     | SkipBlocklisted \<Rightarrow> ''skip_blocklisted'' | SkipKnown \<Rightarrow> ''skip_known'' | SkipRateCapped \<Rightarrow> ''skip_rate_capped''
     | OutcomeSent \<Rightarrow> ''sent'' | OutcomeError \<Rightarrow> ''error'' | OutcomeQueued \<Rightarrow> ''queued'')"

text \<open>What the mutex protects; times are nanoseconds.\<close>

record welcomer =
  wl_sent :: "chat_id \<Rightarrow> int list"
  wl_inflight :: "chat_id \<Rightarrow> user_id list"

definition newWelcomer :: welcomer where
  "newWelcomer = \<lparr>wl_sent = (\<lambda>_. []), wl_inflight = (\<lambda>_. [])\<rparr>"

definition welcomeWindow :: duration where "welcomeWindow = 60 * second"

definition pruneSent :: "chat_id \<Rightarrow> int \<Rightarrow> welcomer \<Rightarrow> int list" where
  "pruneSent chatID now w = filter (\<lambda>ts. now - welcomeWindow < ts) (wl_sent w chatID)"

definition reserveWelcome :: "chat_id \<Rightarrow> user_id \<Rightarrow> int \<Rightarrow> int \<Rightarrow> welcomer \<Rightarrow> welcomer \<times> welcome_outcome" where
  "reserveWelcome chatID userID now mx w =
     (if userID \<in> set (wl_inflight w chatID) then (w, SkipKnown)
      else if int (length (pruneSent chatID now w)) + int (length (wl_inflight w chatID)) \<ge> mx then (w, SkipRateCapped)
      else (w\<lparr>wl_inflight := (wl_inflight w)(chatID := userID # wl_inflight w chatID)\<rparr>, OutcomeQueued))"

definition finishWelcome :: "chat_id \<Rightarrow> user_id \<Rightarrow> int \<Rightarrow> welcomer \<Rightarrow> welcomer" where
  "finishWelcome chatID userID now w =
     w\<lparr>wl_inflight := (wl_inflight w)(chatID := removeAll userID (wl_inflight w chatID)),
       wl_sent := (wl_sent w)(chatID := pruneSent chatID now w @ [now])\<rparr>"

section \<open>Greeting\<close>

type_synonym ticket = "chat_id \<times> user_id \<times> str"

text \<open>What a welcomer is given: the current configuration, the blocklist and the
  clock, each at the tick.\<close>

record welcome_deps =
  wd_Config :: "nat \<Rightarrow> config option"
  wd_Blocklist :: "(user_id \<Rightarrow> bool) option"
  wd_Now :: "nat \<Rightarrow> int"

definition welcomeNow :: "welcome_deps \<Rightarrow> int act" where
  "welcomeNow D = State (\<lambda>w. (wd_Now D (w_ticks w), w))"

definition maxPerMinute :: "config \<Rightarrow> int" where
  "maxPerMinute cfg = (case we_MaxPerMinute (cf_Welcome cfg) of None \<Rightarrow> 20 | Some n \<Rightarrow> n)"

definition Admit :: "env \<Rightarrow> welcome_deps \<Rightarrow> join_event \<Rightarrow> welcomer \<Rightarrow>
    ((welcome_outcome \<times> ticket option \<times> goerr option) \<times> welcomer) act" where
  "Admit E D ev w =
     (let chat = je_ChatID ev; user = je_UserID ev;
          skip = (\<lambda>out. State_Monad.return ((out, None, None), w));
          fail = (\<lambda>e. State_Monad.return ((OutcomeError, None, Some e), w)) in do {
        cfg' \<leftarrow> State (\<lambda>s. (wd_Config D (w_ticks s), s));
        case cfg' of
          None \<Rightarrow> fail (newErr (lit ''welcome: no config''))
        | Some cfg \<Rightarrow>
            if \<not> RegisteredChat cfg chat then skip SkipNotAdmitted
            else if \<not> snd (WelcomeFor (cf_Welcome cfg) chat) then skip SkipDisabled
            else do {
              row \<leftarrow> query E (\<lambda>db. Some (GetChat chat db));
              case row of
                Inl e \<Rightarrow> fail e
              | Inr r \<Rightarrow>
                  if (case r of None \<Rightarrow> False | Some row \<Rightarrow> \<not> ch_Enabled row) then skip SkipChatDisabled
                  else if (case wd_Blocklist D of None \<Rightarrow> False | Some bl \<Rightarrow> bl user) then skip SkipBlocklisted
                  else do {
                    known \<leftarrow> query E (\<lambda>db. Some (WasWelcomed chat user db));
                    case known of
                      Inl e \<Rightarrow> fail e
                    | Inr b \<Rightarrow>
                        if b then skip SkipKnown
                        else do {
                          trust \<leftarrow> query E (\<lambda>db. Some (TrustCount chat user db));
                          case trust of
                            Inl e \<Rightarrow> fail e
                          | Inr n \<Rightarrow>
                              if n > 0 then skip SkipKnown
                              else do {
                                now \<leftarrow> welcomeNow D;
                                case reserveWelcome chat user now (maxPerMinute cfg) w of
                                  (w', out) \<Rightarrow>
                                    if out \<noteq> OutcomeQueued then State_Monad.return ((out, None, None), w')
                                    else State_Monad.return
                                      ((OutcomeQueued, Some (chat, user, fst (WelcomeFor (cf_Welcome cfg) chat)), None), w')
                              }
                        }
                  }
            }
      })"

definition Deliver :: "env \<Rightarrow> welcome_deps \<Rightarrow> ticket option \<Rightarrow> welcomer \<Rightarrow> ((welcome_outcome \<times> goerr option) \<times> welcomer) act" where
  "Deliver E D t w =
     (case t of
        None \<Rightarrow> State_Monad.return ((OutcomeError, Some (newErr (lit ''welcome: nil ticket''))), w)
      | Some (chat, user, message) \<Rightarrow> do {
          sent \<leftarrow> call E (SendWelcome chat user message);
          sentAt \<leftarrow> welcomeNow D;
          case pr_err sent of
            Some e \<Rightarrow> State_Monad.return ((OutcomeError, Some e), finishWelcome chat user sentAt w)
          | None \<Rightarrow> do {
              r \<leftarrow> store E ''MarkWelcomed'' user (\<lambda>now. MarkWelcomed chat user);
              State_Monad.return
                ((case r of Inl e \<Rightarrow> (OutcomeError, Some e) | Inr _ \<Rightarrow> (OutcomeSent, None)), finishWelcome chat user sentAt w)
            }
        })"

definition ObserveJoin :: "env \<Rightarrow> welcome_deps \<Rightarrow> join_event \<Rightarrow> welcomer \<Rightarrow> ((welcome_outcome \<times> goerr option) \<times> welcomer) act" where
  "ObserveJoin E D ev w = do {
     r \<leftarrow> Admit E D ev w;
     case r of
       ((out, t, err), w') \<Rightarrow>
         if out \<noteq> OutcomeQueued then State_Monad.return ((out, err), w') else Deliver E D t w'
   }"

section \<open>Greetings at once\<close>

text \<open>Admissions and deliveries of many members interleave: an admission reads the
  table, then reserves; a delivery sends, records the pair, then gives the
  reservation back with the time its send completed.\<close>

record welcome_world =
  ww_state :: welcomer
  ww_marked :: "(chat_id \<times> user_id) list"
  ww_checked :: "(chat_id \<times> user_id) list"
  ww_queued :: "(chat_id \<times> user_id) list"
  ww_sent :: "(chat_id \<times> user_id \<times> int) list"
  ww_ending :: "(chat_id \<times> user_id \<times> int) list"
  ww_greeted :: "(chat_id \<times> user_id) list"
  ww_sends :: "(chat_id \<times> int) list"

datatype welcome_step =
    WelcomeCheck chat_id user_id
  | WelcomeReserve chat_id user_id int int
  | WelcomeSend chat_id user_id int bool
  | WelcomeMark chat_id user_id int bool
  | WelcomeFinish chat_id user_id int

fun welcomeStep :: "welcome_step \<Rightarrow> welcome_world \<Rightarrow> welcome_world option" where
  "welcomeStep (WelcomeCheck c u) w =
     (if (c, u) \<in> set (ww_marked w) then Some w else Some (w\<lparr>ww_checked := (c, u) # ww_checked w\<rparr>))"
| "welcomeStep (WelcomeReserve c u now mx) w =
     (if (c, u) \<notin> set (ww_checked w) then None
      else (case reserveWelcome c u now mx (ww_state w) of
              (s, out) \<Rightarrow> Some (w\<lparr>ww_state := s, ww_checked := remove1 (c, u) (ww_checked w),
                                 ww_queued := (if out = OutcomeQueued then (c, u) # ww_queued w else ww_queued w)\<rparr>)))"
| "welcomeStep (WelcomeSend c u now ok) w =
     (if (c, u) \<notin> set (ww_queued w) then None
      else Some (w\<lparr>ww_queued := remove1 (c, u) (ww_queued w),
                   ww_sent := (if ok then (c, u, now) # ww_sent w else ww_sent w),
                   ww_ending := (if ok then ww_ending w else (c, u, now) # ww_ending w),
                   ww_greeted := (if ok then ww_greeted w @ [(c, u)] else ww_greeted w),
                   ww_sends := ww_sends w @ [(c, now)]\<rparr>))"
| "welcomeStep (WelcomeMark c u t ok) w =
     (if (c, u, t) \<notin> set (ww_sent w) then None
      else Some (w\<lparr>ww_sent := remove1 (c, u, t) (ww_sent w), ww_ending := (c, u, t) # ww_ending w,
                   ww_marked := (if ok then List.insert (c, u) (ww_marked w) else ww_marked w)\<rparr>))"
| "welcomeStep (WelcomeFinish c u t) w =
     (if (c, u, t) \<notin> set (ww_ending w) then None
      else Some (w\<lparr>ww_ending := remove1 (c, u, t) (ww_ending w), ww_state := finishWelcome c u t (ww_state w)\<rparr>))"

fun welcomeRun :: "welcome_step list \<Rightarrow> welcome_world \<Rightarrow> welcome_world option" where
  "welcomeRun [] w = Some w"
| "welcomeRun (s # ss) w = (case welcomeStep s w of None \<Rightarrow> None | Some w' \<Rightarrow> welcomeRun ss w')"

section \<open>The jobs of a membership update\<close>

definition isAdminStatus :: "string \<Rightarrow> bool" where
  "isAdminStatus status \<longleftrightarrow> status = ''administrator'' \<or> status = ''creator''"

definition invalidatesAdmins :: "member_updated \<Rightarrow> bool" where
  "invalidatesAdmins u \<longleftrightarrow>
     isAdminStatus (mb_Status (memberFromChatMember (mu_Old u))) \<or> isAdminStatus (mb_Status (memberFromChatMember (mu_New u)))"

definition noteCaptcha :: "captcha \<Rightarrow> string \<Rightarrow> goerr option \<Rightarrow> unit act" where
  "noteCaptcha c out err = do {
     _ \<leftarrow> captchaCount c out;
     case err of None \<Rightarrow> State_Monad.return () | Some e \<Rightarrow> logErr e
   }"

text \<open>What the job is wired to; a nil watcher is \<open>None\<close>. A captcha job and a greeting
  that were queued run on their own goroutines.\<close>

record member_wiring =
  hw_members :: "(member_event \<Rightarrow> goerr option act) option"
  hw_captcha :: "captcha option"
  hw_welcomer :: "(join_event \<Rightarrow> (welcome_outcome \<times> ticket option \<times> goerr option) act) option"
  hw_count :: "string \<Rightarrow> unit act"

definition handleChatMember :: "env \<Rightarrow> member_wiring \<Rightarrow> member_updated \<Rightarrow> (captcha_job option \<times> ticket option) act" where
  "handleChatMember E H u =
     (let mem = memberFromChatMember (mu_New u); join = JoinFromChatMemberUpdated u in do {
        _ \<leftarrow> (case hw_members H of
                None \<Rightarrow> State_Monad.return ()
              | Some observe \<Rightarrow> do {
                  err \<leftarrow> observe \<lparr>me_ChatID = mu_ChatID u, me_UserID = mb_UserID mem, me_Username = mb_Username mem,
                                  me_DisplayName = mb_DisplayName mem\<rparr>;
                  case err of None \<Rightarrow> State_Monad.return () | Some e \<Rightarrow> logLine (lit ''member watch: '' @ ge_text e)
                });
        job \<leftarrow> (case hw_captcha H of
                None \<Rightarrow> State_Monad.return None
              | Some c \<Rightarrow> do {
                  _ \<leftarrow> (case MemberChangeFromUpdate u of
                          None \<Rightarrow> State_Monad.return ()
                        | Some ch \<Rightarrow> do { r \<leftarrow> OnMemberChange E c ch; noteCaptcha c (fst r) (snd r) });
                  (case join of
                     None \<Rightarrow> State_Monad.return None
                   | Some ev \<Rightarrow> do {
                       r \<leftarrow> OnJoin E c ev (mb_DisplayName mem);
                       (case r of (out, err, job) \<Rightarrow> do { _ \<leftarrow> noteCaptcha c out err; State_Monad.return job })
                     })
                });
        t \<leftarrow> (case (join, hw_welcomer H) of
                (Some ev, Some admit) \<Rightarrow> do {
                  r \<leftarrow> admit ev;
                  (case r of
                     (out, t, err) \<Rightarrow>
                       if out \<noteq> OutcomeQueued then do {
                         _ \<leftarrow> hw_count H (outcomeText out);
                         _ \<leftarrow> (case err of
                                 None \<Rightarrow> State_Monad.return ()
                               | Some e \<Rightarrow> logLine (lit ''welcome chat='' @ lit (FormatInt (je_ChatID ev)) @ lit '' user=''
                                   @ lit (FormatInt (je_UserID ev)) @ lit '': '' @ ge_text e));
                         State_Monad.return None
                       } else State_Monad.return t)
                }
              | _ \<Rightarrow> State_Monad.return None);
        State_Monad.return (job, t)
      })"

definition handleChatJoinRequest :: "env \<Rightarrow> captcha option \<Rightarrow> (string \<Rightarrow> unit act) \<Rightarrow> tg_join_request \<Rightarrow> captcha_job option act" where
  "handleChatJoinRequest E captcha counter req = do {
     _ \<leftarrow> counter ''chat_join_request'';
     (case (JoinRequestFromUpdate req, captcha) of
        (Some jr, Some c) \<Rightarrow> do {
          r \<leftarrow> OnJoinRequest E c jr;
          (case r of (out, err, job) \<Rightarrow> do { _ \<leftarrow> noteCaptcha c out err; State_Monad.return job })
        }
      | _ \<Rightarrow> State_Monad.return None)
   }"

definition dispatchCallback :: "string \<Rightarrow> unit act option \<Rightarrow> unit act option \<Rightarrow> unit act" where
  "dispatchCallback data onCaptcha onAdmin =
     (if IsCaptchaCallback data then (case onCaptcha of None \<Rightarrow> State_Monad.return () | Some f \<Rightarrow> f)
      else (case onAdmin of None \<Rightarrow> State_Monad.return () | Some f \<Rightarrow> f))"

end
