(* ===== verification/WatcherProps.thy ===== *)
theory WatcherProps
  imports Watchers "HOL-Library.Multiset"
begin

text \<open>
  What the watchers keep to: how many greetings a chat gets in a minute, that
  a recorded greeting is the last one and how an unrecorded one can come
  twice, and that renames and reactions of members lead to a notice and to
  the removal of a spammer's reaction only.
\<close>

section \<open>Counting\<close>

definition countIn :: "('a \<Rightarrow> bool) \<Rightarrow> 'a list \<Rightarrow> nat" where
  "countIn P xs = length (filter P xs)"

lemma countIn_simps [simp]:
  "countIn P [] = 0" "countIn P (x # xs) = (if P x then Suc (countIn P xs) else countIn P xs)"
  "countIn P (xs @ ys) = countIn P xs + countIn P ys"
  by (simp_all add: countIn_def)

lemma countIn_remove1: "x \<in> set xs \<Longrightarrow> countIn P xs = countIn P (remove1 x xs) + (if P x then 1 else 0)"
  by (induction xs) auto

lemma countIn_mono: "(\<And>x. P x \<Longrightarrow> Q x) \<Longrightarrow> countIn P xs \<le> countIn Q xs"
  by (induction xs) (auto simp: le_SucI)

section \<open>Greetings at once\<close>

definition startWelcomes :: welcome_world where
  "startWelcomes = \<lparr>ww_state = newWelcomer, ww_marked = [], ww_checked = [], ww_queued = [], ww_sent = [], ww_ending = [],
     ww_greeted = [], ww_sends = []\<rparr>"

text \<open>The clock of a run does not go back, and every reservation uses the same cap.\<close>

fun timeOf :: "welcome_step \<Rightarrow> int option" where
  "timeOf (WelcomeReserve c u now mx) = Some now"
| "timeOf (WelcomeSend c u now ok) = Some now"
| "timeOf _ = None"

fun clocked :: "int \<Rightarrow> welcome_step list \<Rightarrow> bool" where
  "clocked t [] = True"
| "clocked t (s # ss) = (case timeOf s of None \<Rightarrow> clocked t ss | Some t' \<Rightarrow> t \<le> t' \<and> clocked t' ss)"

fun cappedBy :: "int \<Rightarrow> welcome_step \<Rightarrow> bool" where
  "cappedBy mx (WelcomeReserve c u now m) = (m = mx)"
| "cappedBy mx _ = True"

abbreviation ofChat :: "chat_id \<Rightarrow> chat_id \<times> 'a \<Rightarrow> bool" where
  "ofChat c p \<equiv> fst p = c"

definition outWith :: "welcome_world \<Rightarrow> (chat_id \<times> user_id \<times> int) list" where
  "outWith w = ww_sent w @ ww_ending w"

definition pendingUsers :: "chat_id \<Rightarrow> welcome_world \<Rightarrow> user_id list" where
  "pendingUsers c w = map snd (filter (ofChat c) (ww_queued w)) @ map (\<lambda>p. fst (snd p)) (filter (ofChat c) (outWith w))"

definition sendsAfter :: "chat_id \<Rightarrow> int \<Rightarrow> welcome_world \<Rightarrow> nat" where
  "sendsAfter c x w = countIn (\<lambda>p. fst p = c \<and> x < snd p) (ww_sends w)"

definition sendsIn :: "chat_id \<Rightarrow> int \<Rightarrow> welcome_world \<Rightarrow> nat" where
  "sendsIn c T w = countIn (\<lambda>p. fst p = c \<and> T - welcomeWindow < snd p \<and> snd p \<le> T) (ww_sends w)"

definition reserved :: "welcome_world \<Rightarrow> bool" where
  "reserved w \<longleftrightarrow> (\<forall>c. mset (wl_inflight (ww_state w) c) = mset (pendingUsers c w) \<and> distinct (wl_inflight (ww_state w) c))"

definition recorded :: "int \<Rightarrow> welcome_world \<Rightarrow> bool" where
  "recorded t w \<longleftrightarrow> (\<forall>p \<in> set (outWith w). snd (snd p) \<le> t) \<and>
     (\<forall>c x. t - welcomeWindow \<le> x \<longrightarrow>
        sendsAfter c x w = countIn (\<lambda>s. x < s) (wl_sent (ww_state w) c) + countIn (\<lambda>p. fst p = c \<and> x < snd (snd p)) (outWith w))"

definition welcomeInv :: "int \<Rightarrow> int \<Rightarrow> welcome_world \<Rightarrow> bool" where
  "welcomeInv mx t w \<longleftrightarrow> reserved w \<and> recorded t w \<and>
     (\<forall>c. int (sendsAfter c (t - welcomeWindow) w + countIn (ofChat c) (ww_queued w)) \<le> mx) \<and> (\<forall>c T. int (sendsIn c T w) \<le> mx)"

lemma welcomeInv_start: "0 \<le> mx \<Longrightarrow> welcomeInv mx t startWelcomes"
  by (simp add: welcomeInv_def reserved_def recorded_def startWelcomes_def newWelcomer_def pendingUsers_def outWith_def
      sendsAfter_def sendsIn_def)

lemma sendsAfter_antimono: "x \<le> y \<Longrightarrow> sendsAfter c y w \<le> sendsAfter c x w"
  unfolding sendsAfter_def by (rule countIn_mono) auto

lemma welcomeInv_later:
  assumes "welcomeInv mx t w" and "t \<le> t'"
  shows "welcomeInv mx t' w"
proof -
  have later: "int (sendsAfter c (t' - welcomeWindow) w + countIn (ofChat c) (ww_queued w)) \<le> mx" for c
  proof -
    have "sendsAfter c (t' - welcomeWindow) w \<le> sendsAfter c (t - welcomeWindow) w"
      by (rule sendsAfter_antimono) (use assms(2) in simp)
    moreover have "int (sendsAfter c (t - welcomeWindow) w + countIn (ofChat c) (ww_queued w)) \<le> mx"
      using assms(1) by (simp add: welcomeInv_def)
    ultimately show ?thesis by linarith
  qed
  have "recorded t w" using assms(1) by (simp add: welcomeInv_def)
  then have "recorded t' w" using assms(2) unfolding recorded_def by (meson diff_right_mono order_trans)
  then show ?thesis using assms(1) later by (simp add: welcomeInv_def)
qed

lemma length_pendingUsers: "length (pendingUsers c w) = countIn (ofChat c) (ww_queued w) + countIn (ofChat c) (outWith w)"
  by (simp add: pendingUsers_def countIn_def)


lemma welcomeInv_cong:
  "ww_state w' = ww_state w \<Longrightarrow> ww_queued w' = ww_queued w \<Longrightarrow> ww_sent w' = ww_sent w \<Longrightarrow> ww_ending w' = ww_ending w \<Longrightarrow>
     ww_sends w' = ww_sends w \<Longrightarrow> welcomeInv mx t w' = welcomeInv mx t w"
  by (simp only: welcomeInv_def reserved_def recorded_def pendingUsers_def outWith_def sendsAfter_def sendsIn_def)

lemma inv_reserve:
  assumes inv: "welcomeInv mx t w" and step: "welcomeStep (WelcomeReserve c u t mx) w = Some w'"
  shows "welcomeInv mx t w'"
proof -
  let ?s = "ww_state w"
  obtain s out where r: "reserveWelcome c u t mx ?s = (s, out)" by (cases "reserveWelcome c u t mx ?s")
  have w': "w' = w\<lparr>ww_state := s, ww_checked := remove1 (c, u) (ww_checked w),
      ww_queued := (if out = OutcomeQueued then (c, u) # ww_queued w else ww_queued w)\<rparr>"
    using step r by (simp split: if_splits)
  show ?thesis
  proof (cases "out = OutcomeQueued")
    case False
    then have "s = ?s" using r by (auto simp: reserveWelcome_def split: if_splits)
    then show ?thesis using inv False by (subst welcomeInv_cong [of w' w]) (simp_all add: w')
  next
    case True
    then have q: "u \<notin> set (wl_inflight ?s c)" "int (length (pruneSent c t ?s)) + int (length (wl_inflight ?s c)) < mx"
      "s = ?s\<lparr>wl_inflight := (wl_inflight ?s)(c := u # wl_inflight ?s c)\<rparr>"
      using r by (auto simp: reserveWelcome_def split: if_splits)
    have out: "outWith w' = outWith w" "ww_sends w' = ww_sends w" by (simp_all add: w' outWith_def)
    have res: "reserved w" and rec: "recorded t w" and cap: "\<And>c. int (sendsAfter c (t - welcomeWindow) w + countIn (ofChat c) (ww_queued w)) \<le> mx"
      using inv by (auto simp: welcomeInv_def)
    have "reserved w'" using res q(1) True
      by (auto simp: reserved_def w' q(3) pendingUsers_def outWith_def)
    moreover have "recorded t w'" using rec unfolding recorded_def out sendsAfter_def by (simp add: w' q(3))
    moreover have "int (sendsAfter c' (t - welcomeWindow) w' + countIn (ofChat c') (ww_queued w')) \<le> mx" for c'
    proof (cases "c' = c")
      case False
      then show ?thesis using cap [of c'] True by (simp add: w' sendsAfter_def)
    next
      case c: True
      have "sendsAfter c (t - welcomeWindow) w = length (pruneSent c t ?s) + countIn (\<lambda>p. fst p = c \<and> t - welcomeWindow < snd (snd p)) (outWith w)"
        using rec by (simp add: recorded_def pruneSent_def countIn_def)
      moreover have "countIn (\<lambda>p. fst p = c \<and> t - welcomeWindow < snd (snd p)) (outWith w) \<le> countIn (ofChat c) (outWith w)"
        by (rule countIn_mono) simp
      moreover have "length (wl_inflight ?s c) = countIn (ofChat c) (ww_queued w) + countIn (ofChat c) (outWith w)"
        using res length_pendingUsers [of c w] by (metis reserved_def size_mset)
      ultimately show ?thesis using q(2) True by (simp add: w' c sendsAfter_def)
    qed
    moreover have "int (sendsIn c' T w') \<le> mx" for c' T using inv by (simp add: welcomeInv_def sendsIn_def out(2))
    ultimately show ?thesis by (simp add: welcomeInv_def)
  qed
qed

lemma inv_send:
  assumes inv: "welcomeInv mx t w" and step: "welcomeStep (WelcomeSend c u t ok) w = Some w'"
  shows "welcomeInv mx t w'"
proof -
  define rest where "rest = remove1 (c, u) (ww_queued w)"
  have q: "(c, u) \<in> set (ww_queued w)" and w': "w' = w\<lparr>ww_queued := rest,
      ww_sent := (if ok then (c, u, t) # ww_sent w else ww_sent w),
      ww_ending := (if ok then ww_ending w else (c, u, t) # ww_ending w),
      ww_greeted := (if ok then ww_greeted w @ [(c, u)] else ww_greeted w), ww_sends := ww_sends w @ [(c, t)]\<rparr>"
    using step by (auto simp: rest_def split: if_splits)
  have out: "mset (outWith w') = add_mset (c, u, t) (mset (outWith w))" by (simp add: outWith_def w')
  have cnt: "countIn P (outWith w') = countIn P (outWith w) + (if P (c, u, t) then 1 else 0)" for P
    by (simp add: outWith_def w')
  have res: "reserved w" and rec: "recorded t w" and cap: "\<And>c. int (sendsAfter c (t - welcomeWindow) w + countIn (ofChat c) (ww_queued w)) \<le> mx"
    and past: "\<And>c T. int (sendsIn c T w) \<le> mx"
    using inv by (auto simp: welcomeInv_def)
  have window: "0 < welcomeWindow" by (simp add: welcomeWindow_def second_def)
  have take: "mset (ww_queued w) = add_mset (c, u) (mset rest)" using q by (simp add: rest_def)
  have "mset (pendingUsers c' w') = mset (pendingUsers c' w)" for c'
    unfolding pendingUsers_def mset_append mset_map mset_filter take out by (cases "c' = c") (simp_all add: w')
  then have "reserved w'" using res by (simp add: reserved_def w')
  moreover have "recorded t w'"
  proof -
    have "set (outWith w') = insert (c, u, t) (set (outWith w))" using out by (metis set_mset_add_mset_insert set_mset_mset)
    moreover have "ww_state w' = ww_state w" "ww_sends w' = ww_sends w @ [(c, t)]" by (simp_all add: w')
    ultimately show ?thesis using rec by (auto simp: recorded_def cnt sendsAfter_def)
  qed
  moreover have after: "int (sendsAfter c' (t - welcomeWindow) w' + countIn (ofChat c') (ww_queued w')) \<le> mx" for c'
    using cap [of c'] countIn_remove1 [OF q, of "ofChat c'"] window
    by (simp add: sendsAfter_def w' rest_def split: if_splits)
  moreover have "int (sendsIn c' T w') \<le> mx" for c' T
  proof (cases "t \<le> T")
    case False
    then show ?thesis using past [of c' T] by (simp add: sendsIn_def w')
  next
    case True
    then have "sendsIn c' T w' \<le> sendsAfter c' (t - welcomeWindow) w'"
      unfolding sendsIn_def sendsAfter_def by (intro countIn_mono) auto
    then show ?thesis using after [of c'] by linarith
  qed
  ultimately show ?thesis by (simp add: welcomeInv_def)
qed


lemma inv_mark:
  assumes inv: "welcomeInv mx t w" and step: "welcomeStep (WelcomeMark c u t' ok) w = Some w'"
  shows "welcomeInv mx t w'"
proof -
  define rest where "rest = remove1 (c, u, t') (ww_sent w)"
  have q: "(c, u, t') \<in> set (ww_sent w)"
    and w': "ww_sent w' = rest" "ww_ending w' = (c, u, t') # ww_ending w" "ww_state w' = ww_state w" "ww_queued w' = ww_queued w"
      "ww_sends w' = ww_sends w"
    using step by (auto simp: rest_def split: if_splits)
  have out: "mset (outWith w') = mset (outWith w)" using q by (simp add: outWith_def w' rest_def)
  have cnt: "countIn P (outWith w') = countIn P (outWith w)" for P
    using out by (metis countIn_def mset_filter size_mset)
  have "mset (pendingUsers c' w') = mset (pendingUsers c' w)" for c'
    unfolding pendingUsers_def mset_append mset_map mset_filter out w' by (rule refl)
  moreover have "set (outWith w') = set (outWith w)" using out by (metis set_mset_mset)
  moreover have sends: "sendsAfter c' x w' = sendsAfter c' x w" "sendsIn c' x w' = sendsIn c' x w" for c' x
    by (simp_all add: sendsAfter_def sendsIn_def w')
  ultimately have "reserved w' = reserved w" "recorded t w' = recorded t w"
    by (simp_all only: reserved_def recorded_def cnt w')
  then show ?thesis using inv sends by (simp only: welcomeInv_def w' simp_thms)
qed

lemma inv_finish:
  assumes inv: "welcomeInv mx t w" and step: "welcomeStep (WelcomeFinish c u t') w = Some w'"
  shows "welcomeInv mx t w'"
proof -
  define rest where "rest = remove1 (c, u, t') (ww_ending w)"
  have q: "(c, u, t') \<in> set (ww_ending w)"
    and w': "ww_sent w' = ww_sent w" "ww_ending w' = rest" "ww_queued w' = ww_queued w" "ww_sends w' = ww_sends w"
      "ww_state w' = finishWelcome c u t' (ww_state w)"
    using step by (auto simp: rest_def split: if_splits)
  have res: "reserved w" and rec: "recorded t w" using inv by (auto simp: welcomeInv_def)
  have out: "mset (outWith w) = add_mset (c, u, t') (mset (outWith w'))" using q by (simp add: outWith_def w' rest_def)
  have cnt: "countIn P (outWith w) = countIn P (outWith w') + (if P (c, u, t') then 1 else 0)" for P
    using countIn_remove1 [OF q, of P] by (simp add: outWith_def w' rest_def)
  have sub: "set (outWith w') \<subseteq> set (outWith w)" using out by (metis set_mset_mset set_mset_add_mset_insert subset_insertI)
  have "(c, u, t') \<in> set (outWith w)" using q by (simp add: outWith_def)
  then have t': "t' \<le> t" using rec unfolding recorded_def by fastforce
  have fly: "wl_inflight (finishWelcome c u t' (ww_state w)) c' =
      (if c' = c then removeAll u (wl_inflight (ww_state w) c) else wl_inflight (ww_state w) c')" for c'
    by (simp add: finishWelcome_def)
  have sent: "countIn (\<lambda>s. x < s) (wl_sent (finishWelcome c u t' (ww_state w)) c') =
      countIn (\<lambda>s. x < s) (wl_sent (ww_state w) c') + (if c' = c \<and> x < t' then 1 else 0)" if "t - welcomeWindow \<le> x" for x c'
  proof -
    have "filter (\<lambda>s. x < s) (filter (\<lambda>ts. t' - welcomeWindow < ts) xs) = filter (\<lambda>s. x < s) xs" for xs :: "int list"
      using that t' by (simp add: filter_filter cong: filter_cong) (rule filter_cong, auto)
    then show ?thesis by (simp add: finishWelcome_def pruneSent_def countIn_def)
  qed
  have "mset (wl_inflight (ww_state w') c') = mset (pendingUsers c' w')" for c'
  proof -
    have old: "mset (wl_inflight (ww_state w) c') = mset (pendingUsers c' w)" "distinct (wl_inflight (ww_state w) c')"
      using res by (auto simp: reserved_def)
    have "mset (pendingUsers c' w) = (if c' = c then add_mset u (mset (pendingUsers c w')) else mset (pendingUsers c' w'))"
      unfolding pendingUsers_def mset_append mset_map mset_filter out by (simp add: w')
    then show ?thesis using old
      by (auto simp: w'(5) fly distinct_remove1_removeAll [symmetric] split: if_splits)
  qed
  then have "reserved w'" using res by (auto simp: reserved_def w'(5) fly distinct_removeAll)
  moreover have "recorded t w'"
    using rec sub unfolding recorded_def sendsAfter_def w'(4,5)
    by (auto simp: sent cnt)
  ultimately show ?thesis using inv by (simp add: welcomeInv_def sendsAfter_def sendsIn_def w'(3,4))
qed

lemma inv_check: "welcomeInv mx t w \<Longrightarrow> welcomeStep (WelcomeCheck c u) w = Some w' \<Longrightarrow> welcomeInv mx t w'"
  using welcomeInv_cong [of w' w mx t] by (auto split: if_splits)

lemma inv_run:
  "welcomeInv mx t w \<Longrightarrow> clocked t ss \<Longrightarrow> list_all (cappedBy mx) ss \<Longrightarrow> welcomeRun ss w = Some w' \<Longrightarrow> \<exists>t'. welcomeInv mx t' w'"
proof (induction ss arbitrary: t w)
  case (Cons s ss)
  then obtain w1 where w1: "welcomeStep s w = Some w1" "welcomeRun ss w1 = Some w'" by (auto split: option.splits)
  have "\<exists>t1. welcomeInv mx t1 w1 \<and> clocked t1 ss"
  proof (cases s)
    case (WelcomeReserve c u now m)
    then have "welcomeInv mx now w" "m = mx" "clocked now ss" using Cons.prems welcomeInv_later by auto
    then show ?thesis using inv_reserve [of mx now w c u w1] w1(1) unfolding WelcomeReserve by blast
  next
    case (WelcomeSend c u now ok)
    then have "welcomeInv mx now w" "clocked now ss" using Cons.prems welcomeInv_later by auto
    then show ?thesis using inv_send [of mx now w c u ok w1] w1(1) unfolding WelcomeSend by blast
  next
    case (WelcomeCheck c u)
    then have "clocked t ss" using Cons.prems(2) by simp
    then show ?thesis using inv_check [OF Cons.prems(1) w1(1) [unfolded WelcomeCheck]] by blast
  next
    case (WelcomeMark c u t' ok)
    then have "clocked t ss" using Cons.prems(2) by simp
    then show ?thesis using inv_mark [OF Cons.prems(1) w1(1) [unfolded WelcomeMark]] by blast
  next
    case (WelcomeFinish c u t')
    then have "clocked t ss" using Cons.prems(2) by simp
    then show ?thesis using inv_finish [OF Cons.prems(1) w1(1) [unfolded WelcomeFinish]] by blast
  qed
  then show ?case using Cons.IH w1(2) Cons.prems(3) by auto
qed auto

text \<open>C39. A chat is not flooded with greetings: whatever joins, slow sends and failed
  sends interleave, no rolling minute sees more greetings sent to a chat than
  the cap, and no member has two greetings under way at once.\<close>

theorem greetings_respect_the_cap:
  assumes "welcomeRun ss startWelcomes = Some w" and "clocked t0 ss" and "list_all (cappedBy mx) ss" and "0 \<le> mx"
  shows "int (sendsIn c T w) \<le> mx \<and> distinct (pendingUsers c w)"
proof -
  obtain t where "welcomeInv mx t w" using inv_run [OF welcomeInv_start [OF assms(4)] assms(2,3,1)] by blast
  then show ?thesis unfolding welcomeInv_def reserved_def using mset_eq_imp_distinct_iff by blast
qed


text \<open>Two members of one chat under a cap of one greeting a minute.\<close>

definition demoWelcomes :: "welcome_step list" where
  "demoWelcomes = [WelcomeCheck (-100) 1, WelcomeCheck (-100) 2, WelcomeReserve (-100) 1 5 1, WelcomeReserve (-100) 2 6 1,
     WelcomeSend (-100) 1 7 True, WelcomeMark (-100) 1 7 True, WelcomeFinish (-100) 1 7]"

theorem greetings_respect_the_cap_witness:
  "\<exists>w. welcomeRun demoWelcomes startWelcomes = Some w \<and> ww_greeted w = [(-100, 1)] \<and>
     int (sendsIn (-100) 10 w) \<le> 1 \<and> distinct (pendingUsers (-100) w)"
proof -
  let ?w = "the (welcomeRun demoWelcomes startWelcomes)"
  note eval = demoWelcomes_def startWelcomes_def newWelcomer_def reserveWelcome_def finishWelcome_def pruneSent_def
    welcomeWindow_def second_def
  have run: "welcomeRun demoWelcomes startWelcomes = Some ?w" by (simp add: eval)
  have "ww_greeted ?w = [(-100, 1)]" by (simp add: eval)
  then show ?thesis using greetings_respect_the_cap [OF run, of 0 1 "-100" 10] run by (auto simp: demoWelcomes_def)
qed

section \<open>Once, and twice\<close>

lemma greeting_step:
  assumes "(c, u) \<in> set (ww_marked w)" and "(c, u) \<notin> set (ww_checked w)" and "(c, u) \<notin> set (ww_queued w)"
    and "welcomeStep s w = Some w'"
  shows "(c, u) \<in> set (ww_marked w') \<and> (c, u) \<notin> set (ww_checked w') \<and> (c, u) \<notin> set (ww_queued w') \<and>
    countIn ((=) (c, u)) (ww_greeted w') = countIn ((=) (c, u)) (ww_greeted w)"
  using assms by (cases s) (auto simp: notin_set_remove1 split: if_splits prod.splits)


definition greetedWorld :: welcome_world where
  "greetedWorld = startWelcomes\<lparr>ww_marked := [(-100, 1)], ww_greeted := [(-100, 1)]\<rparr>"


text \<open>Without that premise a member who joins twice is greeted twice, although
  every send and every write succeeds: the second admission reads the table
  before the first greeting is recorded and reserves after its reservation
  was given back.\<close>

theorem a_greeting_can_come_twice:
  "\<exists>ss w. welcomeRun ss startWelcomes = Some w \<and> clocked 0 ss \<and> list_all (cappedBy 20) ss \<and>
     ww_greeted w = [(-100, 1), (-100, 1)]"
proof -
  let ?ss = "[WelcomeCheck (-100) 1, WelcomeReserve (-100) 1 1 20, WelcomeCheck (-100) 1, WelcomeSend (-100) 1 2 True,
     WelcomeMark (-100) 1 2 True, WelcomeFinish (-100) 1 2, WelcomeReserve (-100) 1 3 20, WelcomeSend (-100) 1 4 True]"
  show ?thesis
    by (rule exI [of _ ?ss])
       (simp add: startWelcomes_def newWelcomer_def reserveWelcome_def finishWelcome_def pruneSent_def welcomeWindow_def second_def)
qed

section \<open>Renames and reactions\<close>

fun lookupOrNotice :: "chat_id \<Rightarrow> event \<Rightarrow> bool" where
  "lookupOrNotice admin (EvPort (SendAdmin a m) r) = (a = admin)"
| "lookupOrNotice admin (EvPort (GetChatAdministrators c) r) = True"
| "lookupOrNotice admin (EvPort _ r) = False"
| "lookupOrNotice admin _ = True"

lemma renameMatch_self:
  "me_UserID e \<noteq> 0 \<Longrightarrow> (\<And>a. a \<in> set admins \<Longrightarrow> ad_UserID a = me_UserID e) \<Longrightarrow> renameMatch U e d admins = None"
  by (induction admins) auto

text \<open>A rename is answered by a notice in the admin chat at most.\<close>

theorem renames_only_notify:
  assumes "\<And>src c. mw_Admins w = Some src \<Longrightarrow> emits (lookupOrNotice (mw_AdminChatID w)) (src c)"
  shows "list_all (lookupOrNotice (mw_AdminChatID w)) (events (ObserveMember U quote E w e) s)"
  by (rule emits_events, unfold ObserveMember_def) (intro emit_intros assms; simp)

text \<open>A reaction is removed exactly if cleaning is enabled, it was added, and its
  author has a standing spam incident in the chat.\<close>

theorem only_spammers_lose_reactions:
  assumes "quiet E"
  shows "filter isPort (events (ObserveReaction E enabled e) w) =
    (if enabled \<and> rc_Added e \<and> rc_UserID e \<noteq> 0 \<and> HasSpamIncident (rc_ChatID e) (rc_UserID e) (w_db w)
     then [EvPort (DeleteMessageReaction (rc_ChatID e) (rc_MessageID e) (rc_UserID e))
             (en_port E (Suc (w_ticks w)) (DeleteMessageReaction (rc_ChatID e) (rc_MessageID e) (rc_UserID e)))]
     else [])"
  by (simp add: ObserveReaction_def events_def run_bind run_return run_query_quiet [OF assms] run_call)

end
